(* ===== verification/Prelude.thy ===== *)
theory Prelude
  imports Complex_Main "HOL-Library.AList" "HOL-Library.Monad_Syntax" "HOL-Library.State_Monad"
    "HOL-Library.Sublist" "HOL-Library.Word" "HOL-Library.Signed_Division"
begin

text \<open>
  Shared foundations of the development: Go's fixed-width integers, Go errors as values, Go maps
  as association lists in iteration order, and the state monad in which the handlers that call
  Azure or Kubernetes are written.

  \<^item> A Go \<open>int32\<close>/\<open>int64\<close>/\<open>int\<close> is an \<^typ>\<open>int\<close>; every conversion or operation that can leave
    the range goes through \<open>int32\<close> or \<open>int64\<close>, the two's complement wrap-around.
  \<^item> A Go \<open>error\<close> is a \<open>goerror\<close>: its own kind, its message, and the kinds it wraps with
    \<open>%w\<close>, so that \<open>errors.Is\<close>, \<open>errors.As\<close>, \<open>err == ...\<close> and \<open>strings.Contains(err.Error(), ...)\<close>
    each have their own meaning. A run-time panic is the kind \<open>Panicked\<close>.
  \<^item> A Go map is an association list with distinct keys, in the order in which one \<open>range\<close> visits it.
    The order is arbitrary, so a theorem about an arbitrary list covers every iteration order.
\<close>

named_theorems wrap_simps "conversions between the fixed-width integers and int"
named_theorems gomap_simps "Go maps as association lists"

subsection \<open>Fixed-width integers\<close>

definition int64 :: "int \<Rightarrow> int" where
  "int64 x = signed_take_bit 63 x"

definition int32 :: "int \<Rightarrow> int" where
  "int32 x = signed_take_bit 31 x"

definition in_int64 :: "int \<Rightarrow> bool" where
  "in_int64 x \<longleftrightarrow> - (2 ^ 63) \<le> x \<and> x < 2 ^ 63"

definition in_int32 :: "int \<Rightarrow> bool" where
  "in_int32 x \<longleftrightarrow> - (2 ^ 31) \<le> x \<and> x < 2 ^ 31"

lemma int64_id [wrap_simps]: "in_int64 x \<Longrightarrow> int64 x = x"
  by (simp add: in_int64_def int64_def signed_take_bit_int_eq_self)

lemma int32_id [wrap_simps]: "in_int32 x \<Longrightarrow> int32 x = x"
  by (simp add: in_int32_def int32_def signed_take_bit_int_eq_self)

lemma in_int64_int64 [simp]: "in_int64 (int64 x)"
  using signed_take_bit_int_less_exp [of 63 x] signed_take_bit_int_greater_eq_minus_exp [of 63 x]
  by (simp add: in_int64_def int64_def)

lemma in_int32_int32 [simp]: "in_int32 (int32 x)"
  using signed_take_bit_int_less_exp [of 31 x] signed_take_bit_int_greater_eq_minus_exp [of 31 x]
  by (simp add: in_int32_def int32_def)

lemma in_int64I: "- (2 ^ 63) \<le> x \<Longrightarrow> x < 2 ^ 63 \<Longrightarrow> in_int64 x"
  by (simp add: in_int64_def)

lemma in_int32I: "- (2 ^ 31) \<le> x \<Longrightarrow> x < 2 ^ 31 \<Longrightarrow> in_int32 x"
  by (simp add: in_int32_def)

text \<open>Go's \<open>/\<close> and \<open>%\<close> truncate towards zero; on a non-negative dividend they are the usual ones.\<close>

lemma sdiv_nonneg [wrap_simps]: "0 \<le> (a::int) \<Longrightarrow> 0 < b \<Longrightarrow> a sdiv b = a div b"
  by (cases "a = 0") (simp_all add: signed_divide_int_def)

lemma smod_nonneg [wrap_simps]: "0 \<le> (a::int) \<Longrightarrow> 0 < b \<Longrightarrow> a smod b = a mod b"
  by (cases "a = 0") (simp_all add: signed_modulo_int_def)

subsection \<open>Errors\<close>

datatype code =
    OK | InvalidArgument | NotFoundCode | AlreadyExists | FailedPrecondition | Aborted
  | Unimplemented | Internal | Unavailable | Unknown | Unauthenticated | ResourceExhausted | DeadlineExceededCode

datatype err_kind =
    Plain
  | Panicked
  | InstanceNotFound
  | DeadlineExceeded
  | WaitTimeout
  | ResponseError int
  | DanglingAttach string
  | DiskManaged string
  | PVNotFound
  | PVMetadataUnavailable
  | APINotFound
  | APIConflict
  | FileNotExist
  | Status code

datatype goerror = GoErr (ekind: err_kind) (emsg: string) (ewraps: "err_kind list")

type_synonym 'a result = "goerror + 'a"

definition errorf :: "string \<Rightarrow> goerror" where
  "errorf m = GoErr Plain m []"

definition wrapf :: "string \<Rightarrow> goerror \<Rightarrow> goerror" where
  "wrapf m e = GoErr Plain m (ekind e # ewraps e)"

definition panicf :: "string \<Rightarrow> goerror" where
  "panicf m = GoErr Panicked m []"

definition statusf :: "code \<Rightarrow> string \<Rightarrow> goerror" where
  "statusf c m = GoErr (Status c) m []"

definition errorsIs :: "goerror \<Rightarrow> err_kind \<Rightarrow> bool" where
  "errorsIs e k \<longleftrightarrow> k \<in> set (ekind e # ewraps e)"

lemma errorf_sel [simp]:
  "ekind (errorf m) = Plain" "emsg (errorf m) = m" "ewraps (errorf m) = []"
  by (simp_all add: errorf_def)

lemma wrapf_sel [simp]:
  "ekind (wrapf m e) = Plain" "emsg (wrapf m e) = m" "ewraps (wrapf m e) = ekind e # ewraps e"
  by (simp_all add: wrapf_def)

lemma statusf_sel [simp]:
  "ekind (statusf c m) = Status c" "emsg (statusf c m) = m" "ewraps (statusf c m) = []"
  by (simp_all add: statusf_def)

lemma panicf_sel [simp]:
  "ekind (panicf m) = Panicked" "emsg (panicf m) = m" "ewraps (panicf m) = []"
  by (simp_all add: panicf_def)

lemma statusf_eq_iff [simp]: "statusf c m = statusf c' m' \<longleftrightarrow> c = c' \<and> m = m'"
  by (auto simp: statusf_def)

lemma errorsIs_wrapf [simp]: "k \<noteq> Plain \<Longrightarrow> errorsIs (wrapf m e) k = errorsIs e k"
  by (auto simp: errorsIs_def)

text \<open>\<open>bindR\<close> is \<open>if err != nil { return err }\<close> in pure code.\<close>

definition bindR :: "'a result \<Rightarrow> ('a \<Rightarrow> 'b result) \<Rightarrow> 'b result" where
  "bindR r f = (case r of Inl e \<Rightarrow> Inl e | Inr x \<Rightarrow> f x)"

lemma bindR_simps [simp]: "bindR (Inl e) f = Inl e" "bindR (Inr x) f = f x"
  by (simp_all add: bindR_def)

lemma bindR_Inr_iff: "bindR r f = Inr y \<longleftrightarrow> (\<exists>x. r = Inr x \<and> f x = Inr y)"
  by (cases r) simp_all

subsection \<open>Go maps\<close>

type_synonym ('k, 'v) gomap = "('k \<times> 'v) list"
type_synonym smap = "(string, string) gomap"

definition gget :: "('k, 'v) gomap \<Rightarrow> 'k \<Rightarrow> 'v option" where
  "gget m k = map_of m k"

definition gset :: "'k \<Rightarrow> 'v \<Rightarrow> ('k, 'v) gomap \<Rightarrow> ('k, 'v) gomap" where
  "gset k v m = AList.update k v m"

definition gdel :: "'k \<Rightarrow> ('k, 'v) gomap \<Rightarrow> ('k, 'v) gomap" where
  "gdel k m = AList.delete k m"

definition wf_map :: "('k, 'v) gomap \<Rightarrow> bool" where
  "wf_map m \<longleftrightarrow> distinct (map fst m)"

text \<open>\<open>m[k]\<close> of an absent key is the zero value, the empty string.\<close>

definition gstr :: "smap \<Rightarrow> string \<Rightarrow> string" where
  "gstr m k = (case gget m k of None \<Rightarrow> [] | Some v \<Rightarrow> v)"

lemma gget_Nil [gomap_simps, simp]: "gget [] k = None"
  by (simp add: gget_def)

lemma gget_gset [gomap_simps, simp]: "gget (gset k v m) k' = (if k' = k then Some v else gget m k')"
  by (simp add: gget_def gset_def update_conv)

lemma gget_gdel [gomap_simps, simp]: "gget (gdel k m) k' = (if k' = k then None else gget m k')"
  by (simp add: gget_def gdel_def delete_conv)

lemma wf_map_Nil [simp]: "wf_map []"
  by (simp add: wf_map_def)

lemma wf_map_gset [simp]: "wf_map m \<Longrightarrow> wf_map (gset k v m)"
  by (simp add: wf_map_def gset_def distinct_update)

lemma wf_map_gdel [simp]: "wf_map m \<Longrightarrow> wf_map (gdel k m)"
  by (simp add: wf_map_def gdel_def distinct_delete)

lemma keys_gset [gomap_simps, simp]: "fst ` set (gset k v m) = insert k (fst ` set m)"
  by (simp add: gset_def dom_update)

lemma keys_gdel [gomap_simps, simp]: "fst ` set (gdel k m) = fst ` set m - {k}"
  by (simp add: gdel_def delete_keys image_set [symmetric] AList.delete_eq) auto

lemma gset_fresh: "k \<notin> fst ` set m \<Longrightarrow> gset k v m = m @ [(k, v)]"
  unfolding gset_def by (induction m) auto

lemma gget_eq_Some_iff: "wf_map m \<Longrightarrow> gget m k = Some v \<longleftrightarrow> (k, v) \<in> set m"
  by (auto simp: wf_map_def gget_def dest: map_of_SomeD)

lemma gget_eq_None_iff: "gget m k = None \<longleftrightarrow> k \<notin> fst ` set m"
  by (simp add: gget_def map_of_eq_None_iff)

lemma gget_perm: "wf_map m \<Longrightarrow> wf_map m' \<Longrightarrow> set m = set m' \<Longrightarrow> gget m = gget m'"
  unfolding gget_def wf_map_def by (rule ext) (metis map_of_inject_set)

subsection \<open>Running the state monad\<close>

lemma run_bind [simp]:
  "run_state (State_Monad.bind f g) s = (case run_state f s of (a, s') \<Rightarrow> run_state (g a) s')"
  by (simp add: State_Monad.bind_def)

lemma run_update [simp]: "run_state (State_Monad.update f) s = ((), f s)"
  by (simp add: State_Monad.update_def)

subsection \<open>Fallible stateful calls\<close>

text \<open>
  A Go function that calls other code and may fail is an \<open>('s, 'a) io\<close>: a state transformer whose
  value is a result. \<open>bindE\<close> is \<open>if err != nil { return err }\<close>; \<open>tryE\<close> hands an error to the code
  that inspects it, while a panic keeps unwinding; \<open>deferE\<close> runs a deferred call on every exit, the
  unwinding of a panic included.
\<close>

type_synonym ('s, 'a) io = "('s, 'a result) state"

definition okE :: "'a \<Rightarrow> ('s, 'a) io" where
  "okE x = State_Monad.return (Inr x)"

definition failE :: "goerror \<Rightarrow> ('s, 'a) io" where
  "failE e = State_Monad.return (Inl e)"

definition liftE :: "'a result \<Rightarrow> ('s, 'a) io" where
  "liftE r = State_Monad.return r"

definition bindE :: "('s, 'a) io \<Rightarrow> ('a \<Rightarrow> ('s, 'b) io) \<Rightarrow> ('s, 'b) io" where
  "bindE m f = State_Monad.bind m (\<lambda>r. case r of Inl e \<Rightarrow> failE e | Inr x \<Rightarrow> f x)"

definition tryE :: "('s, 'a) io \<Rightarrow> ('s, 'a result) io" where
  "tryE m = State_Monad.bind m (\<lambda>r. case r of
     Inl e \<Rightarrow> if ekind e = Panicked then failE e else okE (Inl e) | Inr x \<Rightarrow> okE (Inr x))"

definition deferE :: "('s, 'a) io \<Rightarrow> ('s, unit) state \<Rightarrow> ('s, 'a) io" where
  "deferE m d = State_Monad.bind m (\<lambda>r. State_Monad.bind d (\<lambda>_. State_Monad.return r))"

definition doE :: "('s, 'b) state \<Rightarrow> ('b \<Rightarrow> ('s, 'a) io) \<Rightarrow> ('s, 'a) io" where
  "doE m f = State_Monad.bind m f"

definition getE :: "('s \<Rightarrow> ('s, 'a) io) \<Rightarrow> ('s, 'a) io" where
  "getE f = State_Monad.bind State_Monad.get f"

definition modifyE :: "('s \<Rightarrow> 's) \<Rightarrow> ('s, 'a) io \<Rightarrow> ('s, 'a) io" where
  "modifyE u m = State_Monad.bind (State_Monad.update u) (\<lambda>_. m)"

lemma run_okE [simp]: "run_state (okE x) s = (Inr x, s)"
  and run_failE [simp]: "run_state (failE e) s = (Inl e, s)"
  and run_liftE [simp]: "run_state (liftE r) s = (r, s)"
  by (simp_all add: okE_def failE_def liftE_def)

lemma run_bindE [simp]:
  "run_state (bindE m f) s = (case run_state m s of (Inl e, s') \<Rightarrow> (Inl e, s') | (Inr x, s') \<Rightarrow> run_state (f x) s')"
  by (simp add: bindE_def split: prod.split sum.split)

lemma run_tryE [simp]:
  "run_state (tryE m) s = (case run_state m s of
     (Inl e, s') \<Rightarrow> (if ekind e = Panicked then Inl e else Inr (Inl e), s') | (Inr x, s') \<Rightarrow> (Inr (Inr x), s'))"
  by (simp add: tryE_def split: prod.split sum.split)

lemma run_deferE [simp]:
  "run_state (deferE m d) s = (case run_state m s of (r, s') \<Rightarrow> (r, snd (run_state d s')))"
  by (simp add: deferE_def split: prod.split)

lemma run_doE [simp]: "run_state (doE m f) s = (case run_state m s of (x, s') \<Rightarrow> run_state (f x) s')"
  by (simp add: doE_def)

lemma run_getE [simp]: "run_state (getE f) s = run_state (f s) s"
  by (simp add: getE_def State_Monad.get_def)

lemma run_modifyE [simp]: "run_state (modifyE u m) s = run_state m (u s)"
  by (simp add: modifyE_def)

text \<open>
  \<open>stays R m\<close>: whatever \<open>m\<close> does, the state before and after are related by \<open>R\<close>. For a reflexive and
  transitive \<open>R\<close> it follows from the calls \<open>m\<close> is made of. \<open>valid P m Q\<close> is the Hoare triple.
\<close>

named_theorems stays_intros "rules that reduce a stays goal to the calls of the program"

definition stays :: "('s \<Rightarrow> 's \<Rightarrow> bool) \<Rightarrow> ('s, 'a) state \<Rightarrow> bool" where
  "stays R m \<longleftrightarrow> (\<forall>s. R s (snd (run_state m s)))"

definition valid :: "('s \<Rightarrow> bool) \<Rightarrow> ('s, 'a) state \<Rightarrow> ('a \<Rightarrow> 's \<Rightarrow> bool) \<Rightarrow> bool" where
  "valid P m Q \<longleftrightarrow> (\<forall>s. P s \<longrightarrow> (case run_state m s of (r, s') \<Rightarrow> Q r s'))"

locale preorder_on_states =
  fixes R :: "'s \<Rightarrow> 's \<Rightarrow> bool"
  assumes R_refl: "R s s"
    and R_trans: "R s t \<Longrightarrow> R t u \<Longrightarrow> R s u"
begin

lemma stays_return [stays_intros]:
  "stays R (okE x)" "stays R (failE e)" "stays R (liftE r)" "stays R (State_Monad.return y)"
  by (simp_all add: stays_def R_refl)

lemma stays_bind [stays_intros]:
  assumes "stays R m" "\<And>x. stays R (f x)"
  shows "stays R (State_Monad.bind m f)"
  unfolding stays_def
proof
  fix s
  obtain x t where "run_state m s = (x, t)" by (cases "run_state m s")
  with assms show "R s (snd (run_state (State_Monad.bind m f) s))"
    unfolding stays_def by (metis R_trans case_prod_conv run_bind snd_conv)
qed

lemma stays_doE [stays_intros]: "stays R m \<Longrightarrow> (\<And>x. stays R (f x)) \<Longrightarrow> stays R (doE m f)"
  by (simp add: doE_def stays_bind)

lemma stays_bindE [stays_intros]: "stays R m \<Longrightarrow> (\<And>x. stays R (f x)) \<Longrightarrow> stays R (bindE m f)"
  unfolding bindE_def by (rule stays_bind) (auto simp: stays_return split: sum.split)

lemma stays_tryE [stays_intros]: "stays R m \<Longrightarrow> stays R (tryE m)"
  unfolding tryE_def by (rule stays_bind) (auto simp: stays_return split: sum.split)

lemma stays_deferE [stays_intros]: "stays R m \<Longrightarrow> stays R d \<Longrightarrow> stays R (deferE m d)"
  unfolding deferE_def by (intro stays_bind stays_return)

lemma stays_getE [stays_intros]: "(\<And>s. stays R (f s)) \<Longrightarrow> stays R (getE f)"
  by (simp add: stays_def)

lemma stays_modifyE [stays_intros]: "(\<And>s. R s (u s)) \<Longrightarrow> stays R m \<Longrightarrow> stays R (modifyE u m)"
  unfolding stays_def by (metis R_trans run_modifyE)

lemma stays_if [stays_intros]: "(b \<Longrightarrow> stays R m) \<Longrightarrow> (\<not> b \<Longrightarrow> stays R n) \<Longrightarrow> stays R (if b then m else n)"
  by simp

end

lemma valid_bindE:
  assumes "valid P m (\<lambda>r s. case r of Inl e \<Rightarrow> Q (Inl e) s | Inr x \<Rightarrow> M x s)" "\<And>x. valid (M x) (f x) Q"
  shows "valid P (bindE m f) Q"
  using assms unfolding valid_def by (fastforce split: prod.splits sum.splits)

lemma valid_doE:
  assumes "valid P m M" "\<And>x. valid (M x) (f x) Q"
  shows "valid P (doE m f) Q"
  using assms unfolding valid_def by (fastforce split: prod.splits)

lemma valid_getE: "(\<And>s. valid (\<lambda>t. t = s \<and> P t) (f s) Q) \<Longrightarrow> valid P (getE f) Q"
  unfolding valid_def by simp

lemma valid_weaken: "valid P m Q \<Longrightarrow> (\<And>s. P' s \<Longrightarrow> P s) \<Longrightarrow> (\<And>r s. Q r s \<Longrightarrow> Q' r s) \<Longrightarrow> valid P' m Q'"
  unfolding valid_def by (fastforce split: prod.splits)

end
