(* ===== verification/GoStrings.thy ===== *)
theory GoStrings
  imports Prelude
begin

text \<open>
  The parts of Go's \<open>strings\<close>, \<open>strconv\<close>, \<open>unicode\<close>, \<open>path/filepath\<close> and \<open>regexp\<close> that the driver
  uses, as executable functions on byte strings (\<^typ>\<open>string\<close>).

  Letter case, digits and white space are those of ASCII: every string the driver compares without
  regard to case (parameter keys, resource identifiers, node names, SKU names) is ASCII. The
  patterns of the driver's regular expressions are sequences of literals, \<open>.\<close>, greedy \<open>.*\<close> and one
  final capturing \<open>(.+)\<close>; \<open>rxMatch\<close> is the leftmost-first matcher for that shape.
\<close>

subsection \<open>Letter case\<close>

definition toLowerC :: "char \<Rightarrow> char" where
  "toLowerC c = (if 65 \<le> (of_char c :: nat) \<and> (of_char c :: nat) \<le> 90
                 then char_of ((of_char c :: nat) + 32) else c)"

definition ToLower :: "string \<Rightarrow> string" where
  "ToLower s = map toLowerC s"

definition toUpperC :: "char \<Rightarrow> char" where
  "toUpperC c = (if 97 \<le> (of_char c :: nat) \<and> (of_char c :: nat) \<le> 122
     then char_of ((of_char c :: nat) - 32) else c)"

definition ToUpper :: "string \<Rightarrow> string" where
  "ToUpper s = map toUpperC s"

definition EqualFold :: "string \<Rightarrow> string \<Rightarrow> bool" where
  "EqualFold a b \<longleftrightarrow> ToLower a = ToLower b"

definition isLetter :: "char \<Rightarrow> bool" where
  "isLetter c \<longleftrightarrow> (65 \<le> (of_char c :: nat) \<and> (of_char c :: nat) \<le> 90)
                \<or> (97 \<le> (of_char c :: nat) \<and> (of_char c :: nat) \<le> 122)"

definition isDigit :: "char \<Rightarrow> bool" where
  "isDigit c \<longleftrightarrow> 48 \<le> (of_char c :: nat) \<and> (of_char c :: nat) \<le> 57"

definition isSpace :: "char \<Rightarrow> bool" where
  "isSpace c \<longleftrightarrow> (of_char c :: nat) = 32 \<or> (9 \<le> (of_char c :: nat) \<and> (of_char c :: nat) \<le> 13)"

lemma toLowerC_idem [simp]: "toLowerC (toLowerC c) = toLowerC c"
  by (auto simp: toLowerC_def)

lemma ToLower_idem [simp]: "ToLower (ToLower s) = ToLower s"
  by (simp add: ToLower_def)

lemma ToLower_Nil [simp]: "ToLower [] = []" and ToLower_eq_Nil [simp]: "ToLower s = [] \<longleftrightarrow> s = []"
  by (simp_all add: ToLower_def)

lemma ToLower_append [simp]: "ToLower (a @ b) = ToLower a @ ToLower b"
  by (simp add: ToLower_def)

lemma length_ToLower [simp]: "length (ToLower s) = length s"
  by (simp add: ToLower_def)

lemma EqualFold_refl [simp, intro]: "EqualFold a a"
  and EqualFold_sym: "EqualFold a b \<Longrightarrow> EqualFold b a"
  and EqualFold_trans [trans]: "EqualFold a b \<Longrightarrow> EqualFold b c \<Longrightarrow> EqualFold a c"
  by (simp_all add: EqualFold_def)

lemma EqualFold_ToLower [simp]: "EqualFold (ToLower a) b = EqualFold a b"
  "EqualFold a (ToLower b) = EqualFold a b"
  by (simp_all add: EqualFold_def)

subsection \<open>Substrings\<close>

definition HasPrefix :: "string \<Rightarrow> string \<Rightarrow> bool" where
  "HasPrefix s p \<longleftrightarrow> prefix p s"

definition HasSuffix :: "string \<Rightarrow> string \<Rightarrow> bool" where
  "HasSuffix s p \<longleftrightarrow> suffix p s"

definition Contains :: "string \<Rightarrow> string \<Rightarrow> bool" where
  "Contains s t \<longleftrightarrow> sublist t s"

definition ContainsAny :: "string \<Rightarrow> string \<Rightarrow> bool" where
  "ContainsAny s cs \<longleftrightarrow> list_ex (\<lambda>c. c \<in> set cs) s"

definition TrimPrefix :: "string \<Rightarrow> string \<Rightarrow> string" where
  "TrimPrefix s p = (if prefix p s then drop (length p) s else s)"

definition TrimSuffix :: "string \<Rightarrow> string \<Rightarrow> string" where
  "TrimSuffix s p = (if suffix p s then take (length s - length p) s else s)"

definition TrimSpace :: "string \<Rightarrow> string" where
  "TrimSpace s = rev (dropWhile isSpace (rev (dropWhile isSpace s)))"

text \<open>\<open>cutAt sep s\<close> is what precedes and what follows the first \<open>sep\<close> in \<open>s\<close>.\<close>

fun cutAt :: "string \<Rightarrow> string \<Rightarrow> (string \<times> string) option" where
  "cutAt sep [] = (if sep = [] then Some ([], []) else None)"
| "cutAt sep (c # cs) =
     (if prefix sep (c # cs) then Some ([], drop (length sep) (c # cs))
      else map_option (\<lambda>(a, b). (c # a, b)) (cutAt sep cs))"

text \<open>\<open>strings.Index\<close>: the position of the first occurrence, or \<open>-1\<close>.\<close>

definition Index :: "string \<Rightarrow> string \<Rightarrow> int" where
  "Index s sub = (case cutAt sub s of None \<Rightarrow> -1 | Some (a, _) \<Rightarrow> int (length a))"

lemma cutAt_Some: "cutAt sep s = Some (a, b) \<Longrightarrow> s = a @ sep @ b"
  by (induction s arbitrary: a) (auto split: if_splits elim!: prefixE)

lemma cutAt_None: "cutAt sep s = None \<Longrightarrow> \<not> sublist sep s"
  by (induction s) (auto split: if_splits simp: sublist_Cons_right)

lemma cutAt_iff_Contains: "(\<exists>r. cutAt sep s = Some r) \<longleftrightarrow> Contains s sep"
proof
  assume "\<exists>r. cutAt sep s = Some r"
  then obtain a b where "cutAt sep s = Some (a, b)" by (metis surj_pair)
  then have "s = a @ sep @ b" by (rule cutAt_Some)
  then show "Contains s sep" by (auto simp: Contains_def sublist_appendI)
next
  assume "Contains s sep"
  then show "\<exists>r. cutAt sep s = Some r"
    by (cases "cutAt sep s") (auto simp: Contains_def dest: cutAt_None)
qed

lemma cutAt_shorter: "cutAt sep s = Some (a, b) \<Longrightarrow> sep \<noteq> [] \<Longrightarrow> length b < length s"
  by (drule cutAt_Some) simp

lemma cutAt_char: "c \<notin> set a \<Longrightarrow> cutAt [c] (a @ c # b) = Some (a, b)"
  by (induction a) auto

lemma cutAt_char_None: "c \<notin> set a \<Longrightarrow> cutAt [c] a = None"
  by (induction a) auto

subsection \<open>Splitting, joining and replacing\<close>

function SplitNE :: "string \<Rightarrow> string \<Rightarrow> string list" where
  "SplitNE sep s =
     (if sep = [] then map (\<lambda>c. [c]) s
      else case cutAt sep s of None \<Rightarrow> [s] | Some (a, b) \<Rightarrow> a # SplitNE sep b)"
  by pat_completeness auto
termination
  by (relation "measure (\<lambda>(sep, s). length s)") (auto dest: cutAt_shorter)

declare SplitNE.simps [simp del]

definition Split :: "string \<Rightarrow> string \<Rightarrow> string list" where
  "Split s sep = SplitNE sep s"

text \<open>\<open>strings.SplitN(s, sep, 2)\<close> for a non-empty separator.\<close>

definition SplitN2 :: "string \<Rightarrow> string \<Rightarrow> string list" where
  "SplitN2 s sep = (case cutAt sep s of None \<Rightarrow> [s] | Some (a, b) \<Rightarrow> [a, b])"

fun Join :: "string list \<Rightarrow> string \<Rightarrow> string" where
  "Join [] sep = []"
| "Join [x] sep = x"
| "Join (x # y # ys) sep = x @ sep @ Join (y # ys) sep"

text \<open>\<open>strings.ReplaceAll\<close> for a non-empty \<open>old\<close>.\<close>

definition ReplaceAll :: "string \<Rightarrow> string \<Rightarrow> string \<Rightarrow> string" where
  "ReplaceAll s old new = Join (Split s old) new"

lemma SplitNE_nonempty: "sep \<noteq> [] \<Longrightarrow> SplitNE sep s \<noteq> []"
  by (subst SplitNE.simps) (auto split: option.splits)

lemma Join_Cons: "xs \<noteq> [] \<Longrightarrow> Join (x # xs) sep = x @ sep @ Join xs sep"
  by (cases xs) auto

lemma Join_Split: "sep \<noteq> [] \<Longrightarrow> Join (Split s sep) sep = s"
  unfolding Split_def
proof (induction sep s rule: SplitNE.induct)
  case (1 sep s)
  show ?case
  proof (cases "cutAt sep s")
    case None
    with "1.prems" show ?thesis by (subst SplitNE.simps) simp
  next
    case (Some p)
    obtain a b where p: "p = (a, b)" by (cases p)
    have "Join (SplitNE sep b) sep = b" using "1.IH" "1.prems" Some p by simp
    with Some p "1.prems" show ?thesis
      by (subst SplitNE.simps) (simp add: Join_Cons SplitNE_nonempty cutAt_Some [symmetric])
  qed
qed

lemma Split_char_append: "c \<notin> set a \<Longrightarrow> Split (a @ c # b) [c] = a # Split b [c]"
  unfolding Split_def by (subst SplitNE.simps) (simp add: cutAt_char)

lemma Split_char_single: "c \<notin> set a \<Longrightarrow> Split a [c] = [a]"
  unfolding Split_def by (subst SplitNE.simps) (simp add: cutAt_char_None)

lemma cutAt_char_free: "cutAt [c] s = Some (a, b) \<Longrightarrow> c \<notin> set a"
  by (induction s arbitrary: a) (auto split: if_splits)

lemma Split_char_free: "x \<in> set (SplitNE sep s) \<Longrightarrow> sep = [c] \<Longrightarrow> c \<notin> set x"
proof (induction sep s rule: SplitNE.induct)
  case (1 sep s)
  show ?case
  proof (cases "cutAt sep s")
    case None
    then have "\<not> sublist [c] s" using "1.prems" by (simp add: cutAt_None)
    then have "c \<notin> set s" by (metis split_list append_Cons append_Nil sublist_appendI)
    moreover have "SplitNE sep s = [s]" using None "1.prems" by (subst SplitNE.simps) simp
    ultimately show ?thesis using "1.prems" by simp
  next
    case (Some p)
    obtain a b where p: "p = (a, b)" by (cases p)
    have "SplitNE sep s = a # SplitNE sep b" using Some p "1.prems" by (subst SplitNE.simps) simp
    then consider "x = a" | "x \<in> set (SplitNE sep b)" using "1.prems" by auto
    then show ?thesis
    proof cases
      case 1
      with Some p "1.prems" show ?thesis by (simp add: cutAt_char_free)
    next
      case 2
      from "1.prems" have "sep \<noteq> []" by simp
      from "1.IH" [OF this Some p [symmetric] 2 "1.prems"(2)] show ?thesis .
    qed
  qed
qed

lemma Join_Split_inverse:
  "xs \<noteq> [] \<Longrightarrow> \<forall>x \<in> set xs. c \<notin> set x \<Longrightarrow> Split (Join xs [c]) [c] = xs"
proof (induction xs rule: induct_list012)
  case (3 x y zs)
  then show ?case by (simp add: Split_char_append)
qed (simp_all add: Split_char_single)

subsection \<open>Numbers: strconv\<close>

definition digitC :: "nat \<Rightarrow> char" where
  "digitC d = char_of (48 + d)"

definition digitV :: "char \<Rightarrow> nat" where
  "digitV c = of_char c - 48"

fun natDigits :: "nat \<Rightarrow> string" where
  "natDigits n = (if n < 10 then [digitC n] else natDigits (n div 10) @ [digitC (n mod 10)])"

declare natDigits.simps [simp del]

definition Itoa :: "int \<Rightarrow> string" where
  "Itoa i = (if i < 0 then CHR ''-'' # natDigits (nat (- i)) else natDigits (nat i))"

definition digitsVal :: "string \<Rightarrow> nat" where
  "digitsVal ds = foldl (\<lambda>acc c. 10 * acc + digitV c) 0 ds"

definition numError :: "string \<Rightarrow> string \<Rightarrow> string \<Rightarrow> goerror" where
  "numError fn s what = errorf (''strconv.'' @ fn @ '': parsing '' @ [CHR 0x22] @ s @ [CHR 0x22] @ '': '' @ what)"

text \<open>Decimal parsing at a given width, as \<open>strconv.ParseInt(s, 10, bits)\<close> and \<open>strconv.Atoi\<close> (64 bits) do it.\<close>

definition parseDec :: "string \<Rightarrow> nat \<Rightarrow> string \<Rightarrow> int result" where
  "parseDec fn bits s =
     (let neg = (case s of c # _ \<Rightarrow> c = CHR ''-'' | [] \<Rightarrow> False);
          ds = (case s of c # cs \<Rightarrow> (if c = CHR ''-'' \<or> c = CHR ''+'' then cs else s) | [] \<Rightarrow> s);
          v = int (digitsVal ds);
          v' = (if neg then - v else v)
      in if ds = [] \<or> \<not> list_all isDigit ds then Inl (numError fn s ''invalid syntax'')
         else if - (2 ^ (bits - 1)) \<le> v' \<and> v' < 2 ^ (bits - 1) then Inr v'
         else Inl (numError fn s ''value out of range''))"

definition Atoi :: "string \<Rightarrow> int result" where
  "Atoi s = parseDec ''Atoi'' 64 s"

definition ParseInt :: "nat \<Rightarrow> string \<Rightarrow> int result" where
  "ParseInt bits s = parseDec ''ParseInt'' bits s"

definition ParseBool :: "string \<Rightarrow> bool result" where
  "ParseBool s =
     (if s \<in> set [''1'', ''t'', ''T'', ''true'', ''TRUE'', ''True''] then Inr True
      else if s \<in> set [''0'', ''f'', ''F'', ''false'', ''FALSE'', ''False''] then Inr False
      else Inl (numError ''ParseBool'' s ''invalid syntax''))"

definition FormatBool :: "bool \<Rightarrow> string" where
  "FormatBool b = (if b then ''true'' else ''false'')"

lemma digit_simps [simp]:
  assumes "d < 10"
  shows "of_char (digitC d) = (48 + d :: nat)" "digitV (digitC d) = d" "isDigit (digitC d)"
    "digitC d \<noteq> CHR ''-''" "digitC d \<noteq> CHR ''+''"
proof -
  show oc: "of_char (digitC d) = (48 + d :: nat)"
    using assms by (simp add: digitC_def take_bit_nat_eq_self)
  show "digitV (digitC d) = d" "isDigit (digitC d)" using assms by (simp_all add: digitV_def isDigit_def oc)
  show "digitC d \<noteq> CHR ''-''" "digitC d \<noteq> CHR ''+''" using oc assms by auto
qed

lemma natDigits_props:
  "natDigits n \<noteq> [] \<and> list_all isDigit (natDigits n) \<and> digitsVal (natDigits n) = n"
proof (induction n rule: natDigits.induct)
  case (1 n)
  show ?case
  proof (cases "n < 10")
    case True
    then show ?thesis by (subst (1 2 3) natDigits.simps) (simp add: digitsVal_def)
  next
    case False
    with 1 show ?thesis by (subst (1 2 3) natDigits.simps) (simp add: digitsVal_def)
  qed
qed

lemma hd_natDigits_digit: "natDigits n = c # cs \<Longrightarrow> isDigit c"
  using natDigits_props [of n] by simp

lemma isDigit_not_sign [simp]: "isDigit c \<Longrightarrow> c \<noteq> CHR ''-''" "isDigit c \<Longrightarrow> c \<noteq> CHR ''+''"
  by (auto simp: isDigit_def)

lemma parseDec_Itoa:
  assumes "- (2 ^ (bits - 1)) \<le> i" "i < 2 ^ (bits - 1)"
  shows "parseDec fn bits (Itoa i) = Inr i"
proof -
  obtain c cs where d: "natDigits (nat \<bar>i\<bar>) = c # cs"
    using natDigits_props [of "nat \<bar>i\<bar>"] by (cases "natDigits (nat \<bar>i\<bar>)") auto
  have all: "isDigit c" "list_all isDigit cs" "digitsVal (c # cs) = nat \<bar>i\<bar>"
    using natDigits_props [of "nat \<bar>i\<bar>"] d by simp_all
  show ?thesis
  proof (cases "i < 0")
    case True
    then have "Itoa i = CHR ''-'' # c # cs" using d by (simp add: Itoa_def)
    with True all assms show ?thesis by (simp add: parseDec_def)
  next
    case False
    then have "Itoa i = c # cs" using d by (simp add: Itoa_def)
    with False all assms show ?thesis by (simp add: parseDec_def)
  qed
qed

lemma Atoi_Itoa: "in_int64 i \<Longrightarrow> Atoi (Itoa i) = Inr i"
  by (simp add: Atoi_def parseDec_Itoa in_int64_def)

lemma ParseInt32_Itoa: "in_int32 i \<Longrightarrow> ParseInt 32 (Itoa i) = Inr i"
  by (simp add: ParseInt_def parseDec_Itoa in_int32_def)

lemma Atoi_range: "Atoi s = Inr i \<Longrightarrow> in_int64 i"
  by (auto simp: Atoi_def parseDec_def Let_def in_int64_def split: if_splits)

lemma Itoa_nonempty [simp]: "Itoa i \<noteq> []"
  using natDigits_props [of "nat i"] by (auto simp: Itoa_def)

subsection \<open>Regular expressions of the shapes the driver uses\<close>

datatype rxitem = RLit string | RAny | RStar | RCapture

fun rxMatch :: "(char \<Rightarrow> char) \<Rightarrow> rxitem list \<Rightarrow> string \<Rightarrow> string option" where
  "rxMatch f [] s = Some []"
| "rxMatch f (RLit l # r) s =
     (if map f (take (length l) s) = map f l then rxMatch f r (drop (length l) s) else None)"
| "rxMatch f (RAny # r) [] = None"
| "rxMatch f (RAny # r) (c # cs) = (if c = CHR 0x0A then None else rxMatch f r cs)"
| "rxMatch f (RStar # r) [] = rxMatch f r []"
| "rxMatch f (RStar # r) (c # cs) =
     (if c = CHR 0x0A then rxMatch f r (c # cs)
      else case rxMatch f (RStar # r) cs of Some m \<Rightarrow> Some m | None \<Rightarrow> rxMatch f r (c # cs))"
| "rxMatch f (RCapture # r) s =
     (let m = takeWhile (\<lambda>c. c \<noteq> CHR 0x0A) s in if m = [] then None else Some m)"

fun rxFind :: "(char \<Rightarrow> char) \<Rightarrow> rxitem list \<Rightarrow> string \<Rightarrow> string option" where
  "rxFind f r [] = rxMatch f r []"
| "rxFind f r (c # cs) =
     (case rxMatch f r (c # cs) of Some m \<Rightarrow> Some m | None \<Rightarrow> rxFind f r cs)"

lemma rxMatch_suffix: "rxMatch f r s = Some m \<Longrightarrow> sublist m s"
proof (induction f r s arbitrary: m rule: rxMatch.induct)
  case (2 f l r s)
  then have "sublist m (drop (length l) s)" by (auto split: if_splits)
  then show ?case by (rule sublist_order.order.trans) (simp add: suffix_drop suffix_imp_sublist)
next
  case (6 f r c cs)
  then show ?case by (auto split: if_splits option.splits simp: sublist_Cons_right)
next
  case (7 f r s)
  then show ?case
    by (auto simp: Let_def takeWhile_is_prefix split: if_splits)
qed (auto split: if_splits simp: sublist_Cons_right)

lemma rxFind_sublist: "rxFind f r s = Some m \<Longrightarrow> sublist m s"
  by (induction s) (auto split: option.splits dest: rxMatch_suffix simp: sublist_Cons_right)

subsection \<open>Paths: filepath on Unix\<close>

definition pathComps :: "string \<Rightarrow> string list" where
  "pathComps s = filter (\<lambda>c. c \<noteq> [] \<and> c \<noteq> ''.'') (Split s ''/'')"

fun cleanComps :: "bool \<Rightarrow> string list \<Rightarrow> string list \<Rightarrow> string list" where
  "cleanComps rooted acc [] = rev acc"
| "cleanComps rooted acc (c # cs) =
     (if c = ''..'' then
        (case acc of
           [] \<Rightarrow> cleanComps rooted (if rooted then [] else [c]) cs
         | a # as \<Rightarrow> if a = ''..'' then cleanComps rooted (c # acc) cs else cleanComps rooted as cs)
      else cleanComps rooted (c # acc) cs)"

definition pathClean :: "string \<Rightarrow> string" where
  "pathClean s =
     (let rooted = HasPrefix s ''/''; cs = cleanComps rooted [] (pathComps s)
      in if rooted then CHR ''/'' # Join cs ''/''
         else if cs = [] then ''.'' else Join cs ''/'')"

definition pathJoin2 :: "string \<Rightarrow> string \<Rightarrow> string" where
  "pathJoin2 a b =
     (if a = [] \<and> b = [] then []
      else if a = [] then pathClean b else if b = [] then pathClean a
      else pathClean (a @ ''/'' @ b))"

lemma cleanComps_no_dotdot:
  "''..'' \<notin> set acc \<Longrightarrow> ''..'' \<notin> set (cleanComps True acc cs)"
proof (induction cs arbitrary: acc)
  case (Cons c cs)
  then show ?case by (cases acc) auto
qed simp

lemma cleanComps_subset: "set (cleanComps r acc cs) \<subseteq> set acc \<union> set cs"
proof (induction r acc cs rule: cleanComps.induct)
  case (2 rooted acc c cs)
  then show ?case by (cases acc) (auto split: if_splits)
qed simp

lemma pathComps_ok: "c \<in> set (pathComps s) \<Longrightarrow> c \<noteq> [] \<and> c \<noteq> ''.'' \<and> CHR ''/'' \<notin> set c"
  using Split_char_free [of c "''/''" s "CHR ''/''"] by (auto simp: pathComps_def Split_def)

lemma Split_slash: "Split (CHR ''/'' # s) ''/'' = [] # Split s ''/''"
  using Split_char_append [of "CHR ''/''" "[]" s] by simp

lemma pathComps_Join:
  assumes "\<forall>c \<in> set cs. c \<noteq> [] \<and> c \<noteq> ''.'' \<and> CHR ''/'' \<notin> set c"
  shows "pathComps (CHR ''/'' # Join cs ''/'') = cs"
proof (cases "cs = []")
  case True
  then show ?thesis by (simp add: pathComps_def Split_slash Split_char_single)
next
  case False
  then have "Split (Join cs ''/'') ''/'' = cs" using assms by (intro Join_Split_inverse) auto
  moreover have "filter (\<lambda>c. c \<noteq> [] \<and> c \<noteq> ''.'') cs = cs" using assms by (simp add: filter_id_conv)
  ultimately show ?thesis by (simp add: pathComps_def Split_slash)
qed

lemma pathComps_pathClean:
  assumes "HasPrefix s ''/''"
  shows "pathComps (pathClean s) = cleanComps True [] (pathComps s)"
    and "''..'' \<notin> set (pathComps (pathClean s))"
proof -
  have "\<forall>c \<in> set (cleanComps True [] (pathComps s)). c \<noteq> [] \<and> c \<noteq> ''.'' \<and> CHR ''/'' \<notin> set c"
    using cleanComps_subset [of True "[]" "pathComps s"] pathComps_ok [of _ s] by auto
  from pathComps_Join [OF this] show eq: "pathComps (pathClean s) = cleanComps True [] (pathComps s)"
    using assms by (simp add: pathClean_def Let_def)
  show "''..'' \<notin> set (pathComps (pathClean s))" by (simp add: eq cleanComps_no_dotdot)
qed

lemma cleanComps_clean: "''..'' \<notin> set cs \<Longrightarrow> cleanComps r acc cs = rev acc @ cs"
  by (induction cs arbitrary: acc) auto

lemma pathClean_rooted: "HasPrefix s ''/'' \<Longrightarrow> HasPrefix (pathClean s) ''/''"
  by (simp add: pathClean_def Let_def HasPrefix_def)

lemma pathClean_idem: "HasPrefix s ''/'' \<Longrightarrow> pathClean (pathClean s) = pathClean s"
  using pathComps_pathClean [of s] pathClean_rooted [of s] cleanComps_clean [of "pathComps (pathClean s)" True "[]"]
  by (simp add: pathClean_def Let_def)

lemma pathJoin2_rooted: "HasPrefix a ''/'' \<Longrightarrow> \<exists>s. HasPrefix s ''/'' \<and> pathJoin2 a b = pathClean s"
proof -
  assume a: "HasPrefix a ''/''"
  then have ne: "a \<noteq> []" by (auto simp: HasPrefix_def)
  have "HasPrefix (a @ ''/'' @ b) ''/''" using a by (auto simp: HasPrefix_def)
  with a ne show ?thesis by (cases "b = []") (auto simp: pathJoin2_def)
qed

end
