(* ===== verification/Consts.thy ===== *)
theory Consts
  imports GoStrings
begin

text \<open>
  The constants of \<^verbatim>\<open>pkg/azureconstants\<close>, with the names and the values of the source, and the
  enumerations of the Azure SDK (SKUs, network policies, encryption types) that the driver validates
  parameters against, from the vendored \<^verbatim>\<open>armcompute\<close> constants. \<open>NotFoundMsg\<close> is the source's
  \<open>NotFound\<close>.
\<close>

named_theorems const_defs "definitions of the driver's constants"

definition AzureDiskCSIDriverName :: string where
  [const_defs]: "AzureDiskCSIDriverName = ''azuredisk_csi_driver''"

definition CachingModeField :: string where
  [const_defs]: "CachingModeField = ''cachingmode''"

definition DefaultAzureCredentialFileEnv :: string where
  [const_defs]: "DefaultAzureCredentialFileEnv = ''AZURE_CREDENTIAL_FILE''"

definition DefaultCredFilePathLinux :: string where
  [const_defs]: "DefaultCredFilePathLinux = ''/etc/kubernetes/azure.json''"

definition DefaultDriverName :: string where
  [const_defs]: "DefaultDriverName = ''disk.csi.azure.com''"

definition DesIDField :: string where
  [const_defs]: "DesIDField = ''diskencryptionsetid''"

definition DiskEncryptionTypeField :: string where
  [const_defs]: "DiskEncryptionTypeField = ''diskencryptiontype''"

definition DiskAccessIDField :: string where
  [const_defs]: "DiskAccessIDField = ''diskaccessid''"

definition DiskIOPSReadWriteField :: string where
  [const_defs]: "DiskIOPSReadWriteField = ''diskiopsreadwrite''"

definition DiskMBPSReadWriteField :: string where
  [const_defs]: "DiskMBPSReadWriteField = ''diskmbpsreadwrite''"

definition DiskNameField :: string where
  [const_defs]: "DiskNameField = ''diskname''"

definition EnableBurstingField :: string where
  [const_defs]: "EnableBurstingField = ''enablebursting''"

definition ErrDiskNotFound :: string where
  [const_defs]: "ErrDiskNotFound = ''not found''"

definition FsTypeField :: string where
  [const_defs]: "FsTypeField = ''fstype''"

definition IncrementalField :: string where
  [const_defs]: "IncrementalField = ''incremental''"

definition KindField :: string where
  [const_defs]: "KindField = ''kind''"

definition LocationField :: string where
  [const_defs]: "LocationField = ''location''"

definition LogicalSectorSizeField :: string where
  [const_defs]: "LogicalSectorSizeField = ''logicalsectorsize''"

definition LUN :: string where
  [const_defs]: "LUN = ''LUN''"

definition MaxSharesField :: string where
  [const_defs]: "MaxSharesField = ''maxshares''"

definition MinimumDiskSizeGiB :: int where
  [const_defs]: "MinimumDiskSizeGiB = 1"

definition NetworkAccessPolicyField :: string where
  [const_defs]: "NetworkAccessPolicyField = ''networkaccesspolicy''"

definition PublicNetworkAccessField :: string where
  [const_defs]: "PublicNetworkAccessField = ''publicnetworkaccess''"

definition NotFoundMsg :: string where
  [const_defs]: "NotFoundMsg = ''NotFound''"

definition PerfProfileBasic :: string where
  [const_defs]: "PerfProfileBasic = ''basic''"

definition PerfProfileAdvanced :: string where
  [const_defs]: "PerfProfileAdvanced = ''advanced''"

definition PerfProfileField :: string where
  [const_defs]: "PerfProfileField = ''perfprofile''"

definition PerfProfileNone :: string where
  [const_defs]: "PerfProfileNone = ''none''"

definition PremiumAccountPrefix :: string where
  [const_defs]: "PremiumAccountPrefix = ''premium''"

definition PvcNameKey :: string where
  [const_defs]: "PvcNameKey = ''csi.storage.k8s.io/pvc/name''"

definition PvcNamespaceKey :: string where
  [const_defs]: "PvcNamespaceKey = ''csi.storage.k8s.io/pvc/namespace''"

definition PvcNamespaceTag :: string where
  [const_defs]: "PvcNamespaceTag = ''kubernetes.io-created-for-pvc-namespace''"

definition PvcNameTag :: string where
  [const_defs]: "PvcNameTag = ''kubernetes.io-created-for-pvc-name''"

definition PvNameTag :: string where
  [const_defs]: "PvNameTag = ''kubernetes.io-created-for-pv-name''"

definition PvcMetaDataName :: string where
  [const_defs]: "PvcMetaDataName = ''${pvc.metadata.name}''"

definition PvcMetaDataNamespace :: string where
  [const_defs]: "PvcMetaDataNamespace = ''${pvc.metadata.namespace}''"

definition PvMetaDataName :: string where
  [const_defs]: "PvMetaDataName = ''${pv.metadata.name}''"

definition SnapshotNamespaceTag :: string where
  [const_defs]: "SnapshotNamespaceTag = ''kubernetes.io-created-for-snapshot-namespace''"

definition SnapshotNameTag :: string where
  [const_defs]: "SnapshotNameTag = ''kubernetes.io-created-for-snapshot-name''"

definition PvNameKey :: string where
  [const_defs]: "PvNameKey = ''csi.storage.k8s.io/pv/name''"

definition VolumeSnapshotNameKey :: string where
  [const_defs]: "VolumeSnapshotNameKey = ''csi.storage.k8s.io/volumesnapshot/name''"

definition VolumeSnapshotNamespaceKey :: string where
  [const_defs]: "VolumeSnapshotNamespaceKey = ''csi.storage.k8s.io/volumesnapshot/namespace''"

definition VolumeSnapshotContentNameKey :: string where
  [const_defs]: "VolumeSnapshotContentNameKey = ''csi.storage.k8s.io/volumesnapshotcontent/name''"

definition RateLimited :: string where
  [const_defs]: "RateLimited = ''rate limited''"

definition RequestedSizeGib :: string where
  [const_defs]: "RequestedSizeGib = ''requestedsizegib''"

definition ResizeRequired :: string where
  [const_defs]: "ResizeRequired = ''resizeRequired''"

definition SubscriptionIDField :: string where
  [const_defs]: "SubscriptionIDField = ''subscriptionid''"

definition ResourceGroupField :: string where
  [const_defs]: "ResourceGroupField = ''resourcegroup''"

definition DataAccessAuthModeField :: string where
  [const_defs]: "DataAccessAuthModeField = ''dataaccessauthmode''"

definition AttachModeField :: string where
  [const_defs]: "AttachModeField = ''attachmode''"

definition ResourceNotFound :: string where
  [const_defs]: "ResourceNotFound = ''ResourceNotFound''"

definition SkuNameField :: string where
  [const_defs]: "SkuNameField = ''skuname''"

definition SourceDiskSearchMaxDepth :: int where
  [const_defs]: "SourceDiskSearchMaxDepth = 10"

definition SourceSnapshot :: string where
  [const_defs]: "SourceSnapshot = ''snapshot''"

definition SourceVolume :: string where
  [const_defs]: "SourceVolume = ''volume''"

definition StandardSsdAccountPrefix :: string where
  [const_defs]: "StandardSsdAccountPrefix = ''standardssd''"

definition StorageAccountTypeField :: string where
  [const_defs]: "StorageAccountTypeField = ''storageaccounttype''"

definition TagsField :: string where
  [const_defs]: "TagsField = ''tags''"

definition GetDiskThrottlingKey :: string where
  [const_defs]: "GetDiskThrottlingKey = ''getdiskthrottlingKey''"

definition CheckDiskLunThrottlingKey :: string where
  [const_defs]: "CheckDiskLunThrottlingKey = ''checkdisklunthrottlingKey''"

definition TrueValue :: string where
  [const_defs]: "TrueValue = ''true''"

definition FalseValue :: string where
  [const_defs]: "FalseValue = ''false''"

definition UserAgentField :: string where
  [const_defs]: "UserAgentField = ''useragent''"

definition VolumeAttributePartition :: string where
  [const_defs]: "VolumeAttributePartition = ''partition''"

definition WellKnownTopologyKey :: string where
  [const_defs]: "WellKnownTopologyKey = ''topology.kubernetes.io/zone''"

definition InstanceTypeKey :: string where
  [const_defs]: "InstanceTypeKey = ''node.kubernetes.io/instance-type''"

definition WriteAcceleratorEnabled :: string where
  [const_defs]: "WriteAcceleratorEnabled = ''writeacceleratorenabled''"

definition ZonedField :: string where
  [const_defs]: "ZonedField = ''zoned''"

definition EnableAsyncAttachField :: string where
  [const_defs]: "EnableAsyncAttachField = ''enableasyncattach''"

definition PerformancePlusField :: string where
  [const_defs]: "PerformancePlusField = ''enableperformanceplus''"

definition PerformancePlusMinimumDiskSizeGiB :: int where
  [const_defs]: "PerformancePlusMinimumDiskSizeGiB = 513"

definition AttachDiskInitialDelayField :: string where
  [const_defs]: "AttachDiskInitialDelayField = ''attachdiskinitialdelay''"

definition TooManyRequests :: string where
  [const_defs]: "TooManyRequests = ''TooManyRequests''"

definition ClientThrottled :: string where
  [const_defs]: "ClientThrottled = ''client throttled''"

definition VolumeID :: string where
  [const_defs]: "VolumeID = ''volumeid''"

definition Node :: string where
  [const_defs]: "Node = ''node''"

definition SourceResourceID :: string where
  [const_defs]: "SourceResourceID = ''source_resource_id''"

definition SnapshotName :: string where
  [const_defs]: "SnapshotName = ''snapshot_name''"

definition SnapshotID :: string where
  [const_defs]: "SnapshotID = ''snapshot_id''"

definition DeviceSettingsKeyPrefix :: string where
  [const_defs]: "DeviceSettingsKeyPrefix = ''device-setting/''"

definition BlockDeviceRootPathLinux :: string where
  [const_defs]: "BlockDeviceRootPathLinux = ''/sys/block''"

definition DummyBlockDevicePathLinux :: string where
  [const_defs]: "DummyBlockDevicePathLinux = ''/sys/block/sda''"

definition SnapshotOpThrottlingSleepSec :: int where
  [const_defs]: "SnapshotOpThrottlingSleepSec = 50"

definition MaxThrottlingSleepSec :: int where
  [const_defs]: "MaxThrottlingSleepSec = 1200"

definition AgentNotReadyNodeTaintKeySuffix :: string where
  [const_defs]: "AgentNotReadyNodeTaintKeySuffix = ''/agent-not-ready''"

definition TagValueDelimiterField :: string where
  [const_defs]: "TagValueDelimiterField = ''tagvaluedelimiter''"

definition AzureDiskDriverTag :: string where
  [const_defs]: "AzureDiskDriverTag = ''kubernetes-azure-dd''"

definition InstantAccessDurationMinutes :: string where
  [const_defs]: "InstantAccessDurationMinutes = ''instantaccessdurationminutes''"

definition QADWireserverEndpoint :: string where
  [const_defs]: "QADWireserverEndpoint = ''http://168.63.129.16/vmservice/diskstate''"

definition AttachSequenceAnnotation :: string where
  [const_defs]: "AttachSequenceAnnotation = ''azuredisk.csi.azure.com/attach-sequence''"

definition BlobURLAnnotation :: string where
  [const_defs]: "BlobURLAnnotation = ''azuredisk.csi.azure.com/blob-url''"

definition ClaimIdentifierAnnotation :: string where
  [const_defs]: "ClaimIdentifierAnnotation = ''azuredisk.csi.azure.com/claim-identifier''"

definition QADCachePolicyAnnotation :: string where
  [const_defs]: "QADCachePolicyAnnotation = ''azuredisk.csi.azure.com/cache-policy''"

definition AttachModeControllerDriven :: string where
  [const_defs]: "AttachModeControllerDriven = ''ControllerDriven''"

definition AttachModeNodeDriven :: string where
  [const_defs]: "AttachModeNodeDriven = ''NodeDriven''"

subsection \<open>Enumerations of the Azure SDK\<close>

definition PossibleDiskStorageAccountTypesValues :: "string list" where
  "PossibleDiskStorageAccountTypesValues =
     [''Premium_LRS'', ''PremiumV2_LRS'', ''Premium_ZRS'', ''Standard_LRS'', ''StandardSSD_LRS'',
      ''StandardSSD_ZRS'', ''UltraSSD_LRS'']"

definition PossibleNetworkAccessPolicyValues :: "string list" where
  "PossibleNetworkAccessPolicyValues = [''AllowAll'', ''AllowPrivate'', ''DenyAll'']"

definition PossiblePublicNetworkAccessValues :: "string list" where
  "PossiblePublicNetworkAccessValues = [''Disabled'', ''Enabled'']"

definition PossibleEncryptionTypeValues :: "string list" where
  "PossibleEncryptionTypeValues =
     [''EncryptionAtRestWithCustomerKey'', ''EncryptionAtRestWithPlatformAndCustomerKeys'',
      ''EncryptionAtRestWithPlatformKey'']"

definition PossibleDataAccessAuthModeValues :: "string list" where
  "PossibleDataAccessAuthModeValues = [''AzureActiveDirectory'', ''None'']"

definition CannotFindDiskLUN :: string where
  "CannotFindDiskLUN = ''cannot find Lun''"

definition CreatedByTag :: string where
  "CreatedByTag = ''k8s-azure-created-by''"

definition VmssVMNotActiveErrorMessage :: string where
  "VmssVMNotActiveErrorMessage = ''not an active Virtual Machine Scale Set VM instanceId''"

definition ErrTooManyRequestMsg :: string where
  "ErrTooManyRequestMsg = ''throttled due to too many requests''"

subsection \<open>Resource paths\<close>

definition ManagedDiskPath :: "string \<Rightarrow> string \<Rightarrow> string \<Rightarrow> string" where
  "ManagedDiskPath sub rg name =
     ''/subscriptions/'' @ sub @ ''/resourceGroups/'' @ rg @ ''/providers/Microsoft.Compute/disks/'' @ name"

definition diskSnapshotPath :: "string \<Rightarrow> string \<Rightarrow> string \<Rightarrow> string" where
  "diskSnapshotPath sub rg name =
     ''/subscriptions/'' @ sub @ ''/resourceGroups/'' @ rg @ ''/providers/Microsoft.Compute/snapshots/'' @ name"

definition ManagedDiskPathRE :: "rxitem list" where
  "ManagedDiskPathRE =
     [RStar, RLit ''/subscriptions/'', RStar, RLit ''/resourceGroups/'', RStar, RLit ''/providers/Microsoft'',
      RAny, RLit ''Compute/disks/'', RCapture]"

definition DiskSnapshotPathRE :: "rxitem list" where
  "DiskSnapshotPathRE =
     [RStar, RLit ''/subscriptions/'', RStar, RLit ''/resourceGroups/'', RStar, RLit ''/providers/Microsoft'',
      RAny, RLit ''Compute/snapshots/'', RCapture]"

end
