(* ===== verification/Util.thy ===== *)
theory Util
  imports Consts "HOL-Library.Multiset"
begin

text \<open>
  \<^verbatim>\<open>pkg/util/util.go\<close>: sizes in bytes and GiB, the parser of the \<open>tags\<close> parameter, the merge-style
  difference of two integer slices, and the table of volume operations in flight (\<open>VolumeLocks\<close>).

  The locale \<open>try_lock\<close> is the contract the CSI handlers rely on when they call \<open>TryAcquire\<close> and
  defer \<open>Release\<close>; it is interpreted on \<open>VolumeLocks\<close> here and on the per-key mutexes of
  \<^verbatim>\<open>pkg/azuredisk/azure_common.go\<close> in the theory of the disk controller.
\<close>

subsection \<open>Sizes\<close>

definition GiB :: int where
  "GiB = 1024 * 1024 * 1024"

definition MaximumDataDiskExceededMsg :: string where
  "MaximumDataDiskExceededMsg = ''attached to a VM of this size is''"

definition RoundUpSize :: "int \<Rightarrow> int \<Rightarrow> int" where
  "RoundUpSize volumeSizeBytes allocationUnitBytes =
     (let roundedUp = volumeSizeBytes sdiv allocationUnitBytes
      in if volumeSizeBytes smod allocationUnitBytes > 0 then int64 (roundedUp + 1) else roundedUp)"

definition RoundUpBytes :: "int \<Rightarrow> int" where
  "RoundUpBytes volumeSizeBytes = int64 (RoundUpSize volumeSizeBytes GiB * GiB)"

definition RoundUpGiB :: "int \<Rightarrow> int" where
  "RoundUpGiB volumeSizeBytes = RoundUpSize volumeSizeBytes GiB"

definition BytesToGiB :: "int \<Rightarrow> int" where
  "BytesToGiB volumeSizeBytes = volumeSizeBytes sdiv GiB"

definition GiBToBytes :: "int \<Rightarrow> int" where
  "GiBToBytes volumeSizeGiB = int64 (volumeSizeGiB * GiB)"

lemma GiB_pos [simp]: "0 < GiB" and GiB_val: "GiB = 2 ^ 30"
  by (simp_all add: GiB_def)

lemma RoundUpGiB_eq:
  assumes "0 \<le> b" "b < 2 ^ 63"
  shows "RoundUpGiB b = (b + GiB - 1) div GiB"
proof -
  have "b div GiB + 1 < 2 ^ 63" using assms by (simp add: GiB_def)
  moreover have "0 \<le> b div GiB" using assms by (simp add: pos_imp_zdiv_nonneg_iff)
  ultimately have "in_int64 (b div GiB + 1)" by (simp add: in_int64_def)
  then have "RoundUpGiB b = (if b mod GiB > 0 then b div GiB + 1 else b div GiB)"
    using assms by (simp add: RoundUpGiB_def RoundUpSize_def wrap_simps Let_def)
  also have "\<dots> = (b + GiB - 1) div GiB"
  proof (cases "b mod GiB > 0")
    case True
    then have "(b + GiB - 1) div GiB = b div GiB + 1"
      by (intro int_div_pos_eq [where r = "b mod GiB - 1"])
        (auto simp: algebra_simps intro: order.strict_trans [OF pos_mod_bound])
    with True show ?thesis by simp
  next
    case False
    then have "b mod GiB = 0" using pos_mod_sign [OF GiB_pos, of b] by linarith
    then have "(b + GiB - 1) div GiB = b div GiB"
      by (intro int_div_pos_eq [where r = "GiB - 1"]) (auto simp: GiB_def)
    with False show ?thesis by simp
  qed
  finally show ?thesis .
qed

text \<open>The smallest number of whole GiB that holds \<open>b\<close> bytes.\<close>

lemma RoundUpGiB_bounds:
  assumes "0 \<le> b" "b < 2 ^ 63"
  shows "b \<le> RoundUpGiB b * GiB" "RoundUpGiB b * GiB < b + GiB" "0 \<le> RoundUpGiB b"
    "RoundUpGiB b \<le> 2 ^ 33"
  using assms by (auto simp: RoundUpGiB_eq GiB_def)

lemma RoundUpBytes_eq:
  assumes "0 \<le> b" "b \<le> 2 ^ 63 - GiB"
  shows "RoundUpBytes b = RoundUpGiB b * GiB"
proof -
  have b63: "b < 2 ^ 63" using assms by (simp add: GiB_def)
  have "in_int64 (RoundUpGiB b * GiB)"
    using assms RoundUpGiB_bounds [OF assms(1) b63] by (intro in_int64I) (auto simp: GiB_def)
  then show ?thesis by (simp add: RoundUpBytes_def RoundUpGiB_def wrap_simps)
qed

lemma GiBToBytes_int32: "in_int32 g \<Longrightarrow> GiBToBytes g = g * GiB"
  by (simp add: GiBToBytes_def in_int32_def GiB_def int64_id in_int64_def)

lemma BytesToGiB_GiBToBytes: "0 \<le> g \<Longrightarrow> in_int32 g \<Longrightarrow> BytesToGiB (GiBToBytes g) = g"
  by (simp add: GiBToBytes_int32 BytesToGiB_def wrap_simps GiB_def)

subsection \<open>The tags parameter\<close>

definition TagKeyValueDelimiter :: string where
  "TagKeyValueDelimiter = ''=''"

definition invalidTagChars :: string where
  "invalidTagChars = ''<>%&?'' @ [CHR 0x5C] @ ''/''"

definition tagsInvalid :: "string \<Rightarrow> string \<Rightarrow> goerror" where
  "tagsInvalid tags d = errorf (''tags '' @ [CHR 0x27] @ tags @ [CHR 0x27]
     @ '' are invalid, the format should like: '' @ [CHR 0x27] @ ''key1=value1'' @ d @ ''key2=value2'' @ [CHR 0x27])"

fun convertTagsLoop :: "string \<Rightarrow> string \<Rightarrow> string list \<Rightarrow> smap \<Rightarrow> smap result" where
  "convertTagsLoop tags d [] m = Inr m"
| "convertTagsLoop tags d (tag # rest) m =
     (case SplitN2 tag TagKeyValueDelimiter of
        [k, v] \<Rightarrow>
          (let key = TrimSpace k in
           if key = [] then Inl (tagsInvalid tags d)
           else if ContainsAny key invalidTagChars
             then Inl (errorf (''tag key '' @ [CHR 0x27] @ key @ [CHR 0x27] @ '' contains invalid characters''))
           else convertTagsLoop tags d rest (gset key (TrimSpace v) m))
      | _ \<Rightarrow> Inl (tagsInvalid tags d))"

definition ConvertTagsToMap :: "string \<Rightarrow> string \<Rightarrow> smap result" where
  "ConvertTagsToMap tags tagsDelimiter =
     (if tags = [] then Inr []
      else let d = (if tagsDelimiter = [] then '','' else tagsDelimiter)
           in convertTagsLoop tags d (Split tags d) [])"

definition valid_tag_key :: "string \<Rightarrow> bool" where
  "valid_tag_key k \<longleftrightarrow> k \<noteq> [] \<and> TrimSpace k = k \<and> (\<forall>c \<in> set k. c \<notin> set invalidTagChars)"

lemma TrimSpace_idem [simp]: "TrimSpace (TrimSpace s) = TrimSpace s"
proof -
  let ?u = "dropWhile isSpace s"
  let ?r = "rev (dropWhile isSpace (rev ?u))"
  have pre: "prefix ?r ?u"
    by (metis suffix_dropWhile suffix_to_prefix rev_rev_ident)
  have "dropWhile isSpace ?r = ?r"
  proof (cases ?r)
    case (Cons c cs)
    then obtain us where "?u = c # us" using pre by (cases ?u) (auto simp: prefix_def)
    then have "\<not> isSpace c" by (metis hd_dropWhile list.discI list.sel(1))
    with Cons show ?thesis by simp
  next
    case Nil
    then show ?thesis by (metis dropWhile.simps(1))
  qed
  then show ?thesis by (simp add: TrimSpace_def)
qed

lemma convertTagsLoop_ok:
  "convertTagsLoop tags d ts m = Inr m' \<Longrightarrow> wf_map m \<Longrightarrow> \<forall>k \<in> fst ` set m. valid_tag_key k
   \<Longrightarrow> wf_map m' \<and> (\<forall>k \<in> fst ` set m'. valid_tag_key k)"
proof (induction ts arbitrary: m)
  case (Cons t ts)
  from Cons.prems(1) obtain k v where kv: "SplitN2 t TagKeyValueDelimiter = [k, v]"
    and k: "TrimSpace k \<noteq> []" "\<not> ContainsAny (TrimSpace k) invalidTagChars"
    and rest: "convertTagsLoop tags d ts (gset (TrimSpace k) (TrimSpace v) m) = Inr m'"
    by (auto simp: Let_def split: list.splits if_splits)
  have "valid_tag_key (TrimSpace k)"
    using k by (auto simp: valid_tag_key_def ContainsAny_def list_ex_iff)
  with Cons.prems(2,3) show ?case
    by (intro Cons.IH [OF rest]) auto
qed auto

text \<open>Printing a tag list, the inverse of the parser on well-formed tags.\<close>

definition formatTag :: "string \<times> string \<Rightarrow> string" where
  "formatTag kv = fst kv @ ''='' @ snd kv"

lemma SplitN2_formatTag: "CHR ''='' \<notin> set k \<Longrightarrow> SplitN2 (formatTag (k, v)) TagKeyValueDelimiter = [k, v]"
  by (simp add: SplitN2_def TagKeyValueDelimiter_def cutAt_char formatTag_def)

lemma valid_tag_key_simps:
  "valid_tag_key k \<Longrightarrow> k \<noteq> [] \<and> TrimSpace k = k \<and> \<not> ContainsAny k invalidTagChars"
  by (auto simp: valid_tag_key_def ContainsAny_def list_ex_iff)

lemma convertTagsLoop_format:
  assumes "\<forall>(k, v) \<in> set kvs. valid_tag_key k \<and> CHR ''='' \<notin> set k \<and> TrimSpace v = v"
    and "distinct (map fst (m @ kvs))"
  shows "convertTagsLoop tags d (map formatTag kvs) m = Inr (m @ kvs)"
  using assms
proof (induction kvs arbitrary: m)
  case (Cons kv kvs)
  obtain k v where kv: "kv = (k, v)" by (cases kv)
  have ok: "valid_tag_key k" "CHR ''='' \<notin> set k" "TrimSpace v = v" using Cons.prems(1) kv by auto
  have fresh: "gset k v m = m @ [(k, v)]" using Cons.prems(2) kv by (intro gset_fresh) auto
  have "convertTagsLoop tags d (map formatTag kvs) (m @ [(k, v)]) = Inr ((m @ [(k, v)]) @ kvs)"
    using Cons.prems kv by (intro Cons.IH) auto
  then show ?case
    using ok valid_tag_key_simps [OF ok(1)] fresh kv by (simp add: SplitN2_formatTag)
qed simp

lemma ConvertTagsToMap_format:
  assumes "kvs \<noteq> []" "distinct (map fst kvs)"
    and "\<forall>(k, v) \<in> set kvs. valid_tag_key k \<and> CHR ''='' \<notin> set k \<and> TrimSpace v = v \<and> c \<notin> set k \<and> c \<notin> set v \<and> c \<noteq> CHR ''=''"
  shows "ConvertTagsToMap (Join (map formatTag kvs) [c]) [c] = Inr kvs"
proof -
  have split: "Split (Join (map formatTag kvs) [c]) [c] = map formatTag kvs"
    using assms(1,3) by (intro Join_Split_inverse) (auto simp: formatTag_def)
  have "map formatTag kvs \<noteq> [[]]" using assms by (cases kvs) (auto simp: formatTag_def)
  with split have ne: "Join (map formatTag kvs) [c] \<noteq> []"
    by (metis Split_char_single empty_iff empty_set)
  have "convertTagsLoop t d (map formatTag kvs) [] = Inr ([] @ kvs)" for t d
    using assms by (intro convertTagsLoop_format) auto
  with split ne show ?thesis by (simp add: ConvertTagsToMap_def)
qed

subsection \<open>The difference of two slices\<close>

fun diffLoop :: "int list \<Rightarrow> int list \<Rightarrow> int list" where
  "diffLoop (x # xs) (y # ys) =
     (if x < y then x # diffLoop xs (y # ys)
      else if x > y then diffLoop (x # xs) ys
      else diffLoop xs ys)"
| "diffLoop xs ys = xs"

definition GetElementsInArray1NotInArray2 :: "int list \<Rightarrow> int list \<Rightarrow> int list" where
  "GetElementsInArray1NotInArray2 arr1 arr2 = diffLoop (sort arr1) (sort arr2)"

lemma diffLoop_mset: "sorted xs \<Longrightarrow> sorted ys \<Longrightarrow> mset (diffLoop xs ys) = mset xs - mset ys"
proof (induction xs ys rule: diffLoop.induct)
  case (1 x xs y ys)
  have "x < y \<Longrightarrow> count (mset ys) x = 0" "y < x \<Longrightarrow> count (mset xs) y = 0"
    using "1.prems" by (auto simp: count_eq_zero_iff)
  with 1 show ?case by (auto simp: multiset_eq_iff simp del: count_mset_0_iff)
qed auto

lemma diffLoop_set: "set (diffLoop xs ys) \<subseteq> set xs"
  by (induction xs ys rule: diffLoop.induct) auto

lemma diffLoop_sorted: "sorted xs \<Longrightarrow> sorted (diffLoop xs ys)"
proof (induction xs ys rule: diffLoop.induct)
  case (1 x xs y ys)
  then show ?case using diffLoop_set [of xs "y # ys"] by auto
qed auto

subsection \<open>Operations in flight: VolumeLocks\<close>

record VolumeLocks =
  locks :: "string set"

definition NewVolumeLocks :: VolumeLocks where
  "NewVolumeLocks = \<lparr>locks = {}\<rparr>"

definition TryAcquire :: "string \<Rightarrow> VolumeLocks \<Rightarrow> bool \<times> VolumeLocks" where
  "TryAcquire volumeID vl =
     (if volumeID \<in> locks vl then (False, vl)
      else (True, vl\<lparr>locks := insert volumeID (locks vl)\<rparr>))"

definition Release :: "string \<Rightarrow> VolumeLocks \<Rightarrow> VolumeLocks" where
  "Release volumeID vl = vl\<lparr>locks := locks vl - {volumeID}\<rparr>"

text \<open>
  The contract of a table of exclusive entries, as its clients use it: an attempt either finds the
  entry held and changes nothing, or takes exactly that entry; a release frees exactly that entry.
  \<open>agrees l cs\<close> says that the table \<open>l\<close> records exactly what the clients \<open>cs\<close> hold, one client per
  entry; a client that enters on success and leaves with a release keeps it.
\<close>

locale try_lock =
  fixes tryk :: "'k \<Rightarrow> 'l \<Rightarrow> bool \<times> 'l"
    and rel :: "'k \<Rightarrow> 'l \<Rightarrow> 'l"
    and held :: "'l \<Rightarrow> 'k \<Rightarrow> bool"
  assumes try_true: "tryk k l = (True, l') \<Longrightarrow> \<not> held l k \<and> (\<forall>j. held l' j \<longleftrightarrow> j = k \<or> held l j)"
    and try_false: "tryk k l = (False, l') \<Longrightarrow> held l k \<and> l' = l"
    and rel_held: "held l k \<Longrightarrow> held (rel k l) j \<longleftrightarrow> j \<noteq> k \<and> held l j"
begin

definition agrees :: "'l \<Rightarrow> ('t \<rightharpoonup> 'k) \<Rightarrow> bool" where
  "agrees l cs \<longleftrightarrow> (\<forall>k. held l k \<longleftrightarrow> k \<in> ran cs) \<and> inj_on cs (dom cs)"

lemma agrees_enter:
  assumes a: "agrees l cs" and t: "cs t = None" and ok: "tryk k l = (True, l')"
  shows "agrees l' (cs(t \<mapsto> k))"
proof -
  have free: "k \<notin> ran cs" and h: "\<And>j. held l' j \<longleftrightarrow> j = k \<or> held l j"
    using try_true [OF ok] a by (auto simp: agrees_def)
  have "inj_on (cs(t \<mapsto> k)) (dom (cs(t \<mapsto> k)))"
    using a free by (auto simp: agrees_def inj_on_def ran_def)
  then show ?thesis using a t h by (auto simp: agrees_def)
qed

lemma agrees_leave:
  assumes a: "agrees l cs" and t: "cs t = Some k"
  shows "agrees (rel k l) (cs(t := None))"
proof -
  have uniq: "\<And>t'. cs t' = Some k \<Longrightarrow> t' = t"
    using a t by (auto simp: agrees_def inj_on_def dom_def)
  have "x \<in> ran (cs(t := None)) \<longleftrightarrow> x \<in> ran cs - {k}" for x
  proof
    assume "x \<in> ran (cs(t := None))"
    then obtain a where "a \<noteq> t" "cs a = Some x" by (auto simp: ran_def split: if_splits)
    with uniq show "x \<in> ran cs - {k}" by (auto simp: ran_def)
  next
    assume "x \<in> ran cs - {k}"
    then obtain a where "cs a = Some x" "x \<noteq> k" by (auto simp: ran_def)
    with t have "(cs(t := None)) a = Some x" by auto
    then show "x \<in> ran (cs(t := None))" by (rule ranI)
  qed
  moreover have "held l k" using a t by (auto simp: agrees_def ran_def)
  moreover have "inj_on (cs(t := None)) (dom (cs(t := None)))"
    using a by (auto simp: agrees_def inj_on_def)
  ultimately show ?thesis using a by (auto simp: agrees_def rel_held)
qed

lemma agrees_exclusive: "agrees l cs \<Longrightarrow> cs t = Some k \<Longrightarrow> cs t' = Some k \<Longrightarrow> t = t'"
  by (auto simp: agrees_def inj_on_def dom_def)

lemma agrees_reject: "agrees l cs \<Longrightarrow> tryk k l = (False, l') \<Longrightarrow> \<exists>t. cs t = Some k"
  using try_false by (fastforce simp: agrees_def ran_def)

lemma agrees_retry:
  assumes a: "agrees l cs" and t: "cs t = Some k"
  shows "fst (tryk k (rel k l))"
proof -
  have "held l k" using a t by (auto simp: agrees_def ran_def)
  then have "\<not> held (rel k l) k" by (simp add: rel_held)
  then show ?thesis using try_false [of k "rel k l"] by (cases "tryk k (rel k l)") auto
qed

end

interpretation vl: try_lock TryAcquire Release "\<lambda>l k. k \<in> locks l"
  by unfold_locales (auto simp: TryAcquire_def Release_def split: if_splits)

text \<open>
  The handlers as a system: any number of requests \<open>t\<close>, each either outside (\<open>None\<close>) or between its
  successful \<open>TryAcquire\<close> and its deferred \<open>Release\<close> for a volume. A rejected request returns
  \<open>codes.Aborted\<close> and stays outside.
\<close>

inductive vl_step :: "VolumeLocks \<times> (nat \<rightharpoonup> string) \<Rightarrow> VolumeLocks \<times> (nat \<rightharpoonup> string) \<Rightarrow> bool" where
  enter: "cs t = None \<Longrightarrow> TryAcquire v vl = (True, vl') \<Longrightarrow> vl_step (vl, cs) (vl', cs(t \<mapsto> v))"
| reject: "cs t = None \<Longrightarrow> TryAcquire v vl = (False, vl') \<Longrightarrow> vl_step (vl, cs) (vl', cs)"
| leave: "cs t = Some v \<Longrightarrow> vl_step (vl, cs) (Release v vl, cs(t := None))"

inductive vl_reachable :: "VolumeLocks \<times> (nat \<rightharpoonup> string) \<Rightarrow> bool" where
  init: "vl_reachable (NewVolumeLocks, Map.empty)"
| step: "vl_reachable s \<Longrightarrow> vl_step s s' \<Longrightarrow> vl_reachable s'"

inductive_cases vl_stepE: "vl_step s s'"

lemma vl_step_agrees: "vl_step s s' \<Longrightarrow> vl.agrees (fst s) (snd s) \<Longrightarrow> vl.agrees (fst s') (snd s')"
  by (induction rule: vl_step.induct)
    (auto intro: vl.agrees_enter vl.agrees_leave dest: vl.try_false)

lemma vl_reachable_agrees: "vl_reachable s \<Longrightarrow> vl.agrees (fst s) (snd s)"
proof (induction rule: vl_reachable.induct)
  case init
  show ?case by (simp add: vl.agrees_def NewVolumeLocks_def)
qed (blast intro: vl_step_agrees)

subsection \<open>Properties\<close>

text \<open>\<open>RoundUpGiB\<close> is the smallest number of whole GiB that holds the requested bytes, for every
  non-negative \<open>int64\<close> size; no step of it wraps around.\<close>

theorem RoundUpGiB_least:
  assumes "0 \<le> b" "b < 2 ^ 63"
  shows "b \<le> RoundUpGiB b * GiB \<and> (\<forall>g. b \<le> g * GiB \<longrightarrow> RoundUpGiB b \<le> g)"
proof -
  have "RoundUpGiB b \<le> g" if "b \<le> g * GiB" for g
  proof (rule ccontr)
    assume "\<not> RoundUpGiB b \<le> g"
    then have "(g + 1) * GiB \<le> RoundUpGiB b * GiB" by (intro mult_right_mono) (simp_all add: GiB_def)
    with RoundUpGiB_bounds(2) [OF assms] that show False by (simp add: algebra_simps)
  qed
  with RoundUpGiB_bounds(1) [OF assms] show ?thesis by blast
qed

theorem RoundUpGiB_least_witness:
  "1500 * 1024 * 1024 \<le> RoundUpGiB (1500 * 1024 * 1024) * GiB \<and> RoundUpGiB (1500 * 1024 * 1024) \<le> 2"
  using RoundUpGiB_least [of "1500 * 1024 * 1024"] by (simp add: GiB_def)

text \<open>(C37) \<open>GetElementsInArray1NotInArray2\<close> computes the multiset difference of the two slices, in
  increasing order: an element that occurs \<open>m\<close> times in the first and \<open>n\<close> times in the second is
  returned \<open>m - n\<close> times.\<close>

theorem GetElementsInArray1NotInArray2_difference:
  "mset (GetElementsInArray1NotInArray2 arr1 arr2) = mset arr1 - mset arr2
   \<and> sorted (GetElementsInArray1NotInArray2 arr1 arr2)"
  by (simp add: GetElementsInArray1NotInArray2_def diffLoop_mset diffLoop_sorted)

text \<open>(C26) In every reachable state of the handlers, a volume is operated on by at most one request; \<open>TryAcquire\<close> fails for exactly the
  volumes on which a request is working, so that a rejected request has found another one and a free volume is never refused; and
  after the holder's \<open>Release\<close> the next one succeeds.\<close>

theorem volume_operation_exclusive:
  assumes "vl_reachable (vl, cs)"
  shows "(\<forall>t t' v. cs t = Some v \<and> cs t' = Some v \<longrightarrow> t' = t)
    \<and> (\<forall>v. fst (TryAcquire v vl) \<longleftrightarrow> (\<forall>t. cs t \<noteq> Some v))
    \<and> (\<forall>t v. cs t = Some v \<longrightarrow> fst (TryAcquire v (Release v vl)))"
proof -
  from vl_reachable_agrees [OF assms] have a: "vl.agrees vl cs" by simp
  then have "v \<in> locks vl \<longleftrightarrow> (\<exists>t. cs t = Some v)" for v by (auto simp: vl.agrees_def ran_def)
  then have acquired: "fst (TryAcquire v vl) \<longleftrightarrow> (\<forall>t. cs t \<noteq> Some v)" for v by (simp add: TryAcquire_def)
  show ?thesis
  proof (intro conjI allI impI)
    fix t t' v assume "cs t = Some v \<and> cs t' = Some v"
    then show "t' = t" by (simp add: vl.agrees_exclusive [OF a])
  next
    fix t v assume "cs t = Some v"
    then show "fst (TryAcquire v (Release v vl))" by (rule vl.agrees_retry [OF a])
  qed (fact acquired)
qed

theorem volume_operation_exclusive_witness:
  "\<not> fst (TryAcquire ''vol'' (snd (TryAcquire ''vol'' NewVolumeLocks))) \<and> fst (TryAcquire ''other'' (snd (TryAcquire ''vol'' NewVolumeLocks)))"
proof -
  let ?l = "\<lparr>locks = {''vol''}\<rparr>"
  have l: "TryAcquire ''vol'' NewVolumeLocks = (True, ?l)" by (simp add: TryAcquire_def NewVolumeLocks_def)
  have "vl_step (NewVolumeLocks, Map.empty) (?l, Map.empty(0 \<mapsto> ''vol''))"
    using l by (intro vl_step.enter) simp_all
  then have "vl_reachable (?l, Map.empty(0 \<mapsto> ''vol''))" by (rule vl_reachable.step [OF vl_reachable.init])
  from conjunct1 [OF conjunct2 [OF volume_operation_exclusive [OF this]]] l show ?thesis by simp
qed

text \<open>(C38) Round trip of the \<open>tags\<close> parameter: printing well-formed tags with a one-character delimiter and
  parsing the result gives the same tags back, in order.\<close>

theorem ConvertTagsToMap_roundtrip:
  assumes "kvs \<noteq> []" "wf_map kvs" "c \<noteq> CHR ''=''"
    and "\<forall>(k, v) \<in> set kvs. valid_tag_key k \<and> CHR ''='' \<notin> set k \<and> TrimSpace v = v \<and> c \<notin> set k \<and> c \<notin> set v"
  shows "ConvertTagsToMap (Join (map formatTag kvs) [c]) [c] = Inr kvs"
  using assms by (intro ConvertTagsToMap_format) (auto simp: wf_map_def)

theorem ConvertTagsToMap_roundtrip_witness:
  "ConvertTagsToMap ''env=prod,owner=a=b'' '','' = Inr [(''env'', ''prod''), (''owner'', ''a=b'')]"
proof -
  let ?kvs = "[(''env'', ''prod''), (''owner'', ''a=b'')]"
  have "\<forall>(k, v) \<in> set ?kvs. valid_tag_key k \<and> CHR ''='' \<notin> set k \<and> TrimSpace v = v \<and> CHR '','' \<notin> set k \<and> CHR '','' \<notin> set v"
    by (simp add: valid_tag_key_def TrimSpace_def isSpace_def invalidTagChars_def)
  moreover have "Join (map formatTag ?kvs) '','' = ''env=prod,owner=a=b''" by (simp add: formatTag_def)
  ultimately show ?thesis using ConvertTagsToMap_roundtrip [of ?kvs "CHR '',''"] by (simp add: wf_map_def)
qed

text \<open>Whatever the \<open>tags\<close> string and the delimiter, a successful parse only has keys that Azure accepts:
  non-empty, without surrounding white space and without the characters \<open><>%&?\/\<close>.\<close>

theorem ConvertTagsToMap_valid_keys:
  assumes "ConvertTagsToMap tags d = Inr m"
  shows "wf_map m \<and> (\<forall>k \<in> fst ` set m. valid_tag_key k)"
  using assms convertTagsLoop_ok [of tags _ _ "[]" m]
  by (auto simp: ConvertTagsToMap_def Let_def split: if_splits)

theorem ConvertTagsToMap_valid_keys_witness:
  "ConvertTagsToMap '' a = 1 ;b=2'' '';'' = Inr [(''a'', ''1''), (''b'', ''2'')] \<and> valid_tag_key ''a''"
proof -
  have e: "ConvertTagsToMap '' a = 1 ;b=2'' '';'' = Inr [(''a'', ''1''), (''b'', ''2'')]" by code_simp
  show ?thesis using ConvertTagsToMap_valid_keys [OF e] e by simp
qed

end
