(* ===== verification/ArmCompute.thy ===== *)
theory ArmCompute
  imports Util
begin

text \<open>
  The Azure resource types the driver reads and writes (the fields it uses of the vendored
  \<^verbatim>\<open>armcompute\<close> structs; a Go pointer field is an option), the CSI access modes and capabilities,
  and the resource identifiers of disks and snapshots.
\<close>

record CreationData =
  cd_CreateOption :: "string option"
  cd_SourceResourceID :: "string option"
  cd_PerformancePlus :: "bool option"
  cd_LogicalSectorSize :: "int option"
  cd_InstantAccessDurationMinutes :: "int option"

record Encryption =
  enc_DiskEncryptionSetID :: "string option"
  enc_Type :: "string option"

record DiskProperties =
  p_CreationData :: "CreationData option"
  p_BurstingEnabled :: "bool option"
  p_DiskSizeGB :: "int option"
  p_DiskState :: "string option"
  p_MaxShares :: "int option"
  p_PublicNetworkAccess :: "string option"
  p_NetworkAccessPolicy :: "string option"
  p_DiskAccessID :: "string option"
  p_DiskIOPSReadWrite :: "int option"
  p_DiskMBpsReadWrite :: "int option"
  p_Encryption :: "Encryption option"
  p_ProvisioningState :: "string option"
  p_HyperVGeneration :: "string option"
  p_CompletionPercent :: "rat option"

record Disk =
  d_ID :: "string option"
  d_Location :: "string option"
  d_Tags :: "(string, string option) gomap"
  d_SKU :: "string option option"
  d_Properties :: "DiskProperties option"
  d_ManagedBy :: "string option"
  d_Zones :: "string option list"
  d_ExtendedLocation :: "(string \<times> string) option"

record SnapshotProperties =
  sp_CreationData :: "CreationData option"
  sp_Incremental :: "bool option"
  sp_TimeCreated :: "int option"
  sp_DiskSizeGB :: "int option"
  sp_DiskSizeBytes :: "int option"
  sp_ProvisioningState :: "string option"
  sp_CompletionPercent :: "rat option"
  sp_DataAccessAuthMode :: "string option"
  sp_NetworkAccessPolicy :: "string option"
  sp_PublicNetworkAccess :: "string option"

record Snapshot =
  s_ID :: "string option"
  s_Name :: "string option"
  s_Location :: "string option"
  s_Tags :: "(string, string option) gomap"
  s_SKU :: "string option option"
  s_Properties :: "SnapshotProperties option"
  s_ExtendedLocation :: "(string \<times> string) option"

record DataDisk =
  dd_Lun :: "int option"
  dd_Name :: "string option"
  dd_VhdURI :: "string option option"
  dd_ManagedDiskID :: "string option option"
  dd_ToBeDetached :: "bool option"

definition emptyCreationData :: CreationData where
  "emptyCreationData = \<lparr>cd_CreateOption = None, cd_SourceResourceID = None, cd_PerformancePlus = None,
     cd_LogicalSectorSize = None, cd_InstantAccessDurationMinutes = None\<rparr>"

definition emptyDiskProperties :: DiskProperties where
  "emptyDiskProperties = \<lparr>p_CreationData = None, p_BurstingEnabled = None, p_DiskSizeGB = None,
     p_DiskState = None, p_MaxShares = None, p_PublicNetworkAccess = None, p_NetworkAccessPolicy = None,
     p_DiskAccessID = None, p_DiskIOPSReadWrite = None, p_DiskMBpsReadWrite = None, p_Encryption = None,
     p_ProvisioningState = None, p_HyperVGeneration = None, p_CompletionPercent = None\<rparr>"

definition emptyDisk :: Disk where
  "emptyDisk = \<lparr>d_ID = None, d_Location = None, d_Tags = [], d_SKU = None, d_Properties = None,
     d_ManagedBy = None, d_Zones = [], d_ExtendedLocation = None\<rparr>"

text \<open>\<open>ptr.Deref(p, "")\<close>.\<close>

definition derefStr :: "string option \<Rightarrow> string" where
  "derefStr p = (case p of None \<Rightarrow> [] | Some s \<Rightarrow> s)"

subsection \<open>CSI capabilities\<close>

datatype AccessMode =
    UNKNOWN | SINGLE_NODE_WRITER | SINGLE_NODE_READER_ONLY | MULTI_NODE_READER_ONLY
  | MULTI_NODE_SINGLE_WRITER | MULTI_NODE_MULTI_WRITER | SINGLE_NODE_SINGLE_WRITER
  | SINGLE_NODE_MULTI_WRITER

fun accessModeString :: "AccessMode \<Rightarrow> string" where
  "accessModeString UNKNOWN = ''UNKNOWN''"
| "accessModeString SINGLE_NODE_WRITER = ''SINGLE_NODE_WRITER''"
| "accessModeString SINGLE_NODE_READER_ONLY = ''SINGLE_NODE_READER_ONLY''"
| "accessModeString MULTI_NODE_READER_ONLY = ''MULTI_NODE_READER_ONLY''"
| "accessModeString MULTI_NODE_SINGLE_WRITER = ''MULTI_NODE_SINGLE_WRITER''"
| "accessModeString MULTI_NODE_MULTI_WRITER = ''MULTI_NODE_MULTI_WRITER''"
| "accessModeString SINGLE_NODE_SINGLE_WRITER = ''SINGLE_NODE_SINGLE_WRITER''"
| "accessModeString SINGLE_NODE_MULTI_WRITER = ''SINGLE_NODE_MULTI_WRITER''"

record VolumeCapability =
  vc_Block :: bool
  vc_Mount :: bool
  vc_AccessMode :: "AccessMode option"

text \<open>\<open>c.GetAccessMode().GetMode()\<close> is nil-safe: an absent access mode reads as \<open>UNKNOWN\<close>.\<close>

definition getMode :: "VolumeCapability \<Rightarrow> AccessMode" where
  "getMode c = (case vc_AccessMode c of None \<Rightarrow> UNKNOWN | Some m \<Rightarrow> m)"

subsection \<open>Resource identifiers\<close>

definition GetInfoFromURI :: "string \<Rightarrow> (string \<times> string \<times> string) result" where
  "GetInfoFromURI diskURI =
     (let parts = Split diskURI ''/''
      in if length parts \<noteq> 9 then Inl (errorf (''invalid URI: '' @ diskURI))
         else Inr (parts ! 2, parts ! 4, parts ! 8))"

definition IsARMResourceID :: "string \<Rightarrow> bool" where
  "IsARMResourceID resourceID = Contains (ToLower resourceID) ''/subscriptions/''"

lemma Split_path9:
  assumes "CHR ''/'' \<notin> set a" "CHR ''/'' \<notin> set b" "CHR ''/'' \<notin> set c"
    "CHR ''/'' \<notin> set x1" "CHR ''/'' \<notin> set x3" "CHR ''/'' \<notin> set x5" "CHR ''/'' \<notin> set x6" "CHR ''/'' \<notin> set x7"
  shows "Split (CHR ''/'' # x1 @ ''/'' @ a @ ''/'' @ x3 @ ''/'' @ b @ ''/'' @ x5 @ ''/'' @ x6 @ ''/'' @ x7 @ ''/'' @ c) ''/''
     = [[], x1, a, x3, b, x5, x6, x7, c]"
  using assms Split_char_append [of "CHR ''/''" "[]"]
  by (simp add: Split_char_append Split_char_single)

lemma GetInfoFromURI_ManagedDiskPath:
  assumes "CHR ''/'' \<notin> set sub" "CHR ''/'' \<notin> set rg" "CHR ''/'' \<notin> set name"
  shows "GetInfoFromURI (ManagedDiskPath sub rg name) = Inr (sub, rg, name)"
  using Split_path9 [OF assms, of "''subscriptions''" "''resourceGroups''" "''providers''" "''Microsoft.Compute''" "''disks''"]
  by (simp add: GetInfoFromURI_def ManagedDiskPath_def)

lemma GetInfoFromURI_diskSnapshotPath:
  assumes "CHR ''/'' \<notin> set sub" "CHR ''/'' \<notin> set rg" "CHR ''/'' \<notin> set name"
  shows "GetInfoFromURI (diskSnapshotPath sub rg name) = Inr (sub, rg, name)"
  using Split_path9 [OF assms, of "''subscriptions''" "''resourceGroups''" "''providers''" "''Microsoft.Compute''" "''snapshots''"]
  by (simp add: GetInfoFromURI_def diskSnapshotPath_def)

text \<open>A component of a parsed identifier has no slash in it.\<close>

lemma GetInfoFromURI_no_slash:
  assumes "GetInfoFromURI u = Inr (sub, rg, name)"
  shows "CHR ''/'' \<notin> set sub \<and> CHR ''/'' \<notin> set rg \<and> CHR ''/'' \<notin> set name"
proof -
  let ?p = "Split u ''/''"
  from assms have len: "length ?p = 9" and eq: "sub = ?p ! 2" "rg = ?p ! 4" "name = ?p ! 8"
    by (auto simp: GetInfoFromURI_def Let_def split: if_splits)
  have "\<forall>i < 9. CHR ''/'' \<notin> set (?p ! i)"
    using len Split_char_free [of _ "''/''" u "CHR ''/''"] nth_mem [of _ ?p] by (auto simp: Split_def)
  then show ?thesis by (simp add: eq)
qed

lemma ManagedDiskPath_IsARM: "IsARMResourceID (ManagedDiskPath sub rg name)"
proof -
  have "ToLower (ManagedDiskPath sub rg name) = [] @ ''/subscriptions/''
      @ ToLower (sub @ ''/resourceGroups/'' @ rg @ ''/providers/Microsoft.Compute/disks/'' @ name)"
    by (simp add: ManagedDiskPath_def ToLower_def toLowerC_def)
  then show ?thesis by (metis IsARMResourceID_def Contains_def sublist_appendI)
qed

subsection \<open>Properties\<close>

text \<open>Round trip of disk identifiers: the components \<open>GetInfoFromURI\<close> extracts from a disk URI that the
  driver builds are the ones it was built from, the URI is recognised as an ARM resource, and any
  identifier that parses has components without slashes.\<close>

theorem GetInfoFromURI_roundtrip:
  assumes "GetInfoFromURI u = Inr (sub, rg, name)"
  shows "GetInfoFromURI (ManagedDiskPath sub rg name) = Inr (sub, rg, name)
    \<and> GetInfoFromURI (diskSnapshotPath sub rg name) = Inr (sub, rg, name)
    \<and> IsARMResourceID (ManagedDiskPath sub rg name)"
  using GetInfoFromURI_no_slash [OF assms]
  by (simp add: GetInfoFromURI_ManagedDiskPath GetInfoFromURI_diskSnapshotPath ManagedDiskPath_IsARM)

theorem GetInfoFromURI_roundtrip_witness:
  "GetInfoFromURI (ManagedDiskPath ''s'' ''g'' ''d'') = Inr (''s'', ''g'', ''d'')"
proof -
  have "GetInfoFromURI ''/x/s/x/g/x/x/x/d'' = Inr (''s'', ''g'', ''d'')" by code_simp
  from GetInfoFromURI_roundtrip [OF this] show ?thesis by simp
qed

end
