(* ===== verification/DiskUtils.thy ===== *)
theory DiskUtils
  imports ArmCompute
begin

text \<open>
  \<^verbatim>\<open>pkg/azureutils/azure_disk_utils.go\<close>: names of disks and snapshots, caching modes, file systems,
  access modes and capabilities, availability zones, SKUs and network policies, creation data,
  throttling, and small helpers on maps and option lists. The storage-class parameter parser of the
  same file is in the theory \<open>DiskParams\<close>.

  Parameters that stand for the environment: the operating system (\<open>goos\<close>, Go's
  \<open>runtime.GOOS\<close>), the fresh identifier of \<open>uuid.NewUUID\<close>, and the driver's topology key.
\<close>

subsection \<open>Lookups that ignore the case of the key\<close>

fun ParseDiskParametersForKey :: "smap \<Rightarrow> string \<Rightarrow> string option" where
  "ParseDiskParametersForKey [] key = None"
| "ParseDiskParametersForKey ((k, v) # m) key =
     (if EqualFold k key then Some v else ParseDiskParametersForKey m key)"

definition supportedCachingModes :: "string list" where
  "supportedCachingModes = [''None'', ''ReadOnly'', ''ReadWrite'']"

definition NormalizeCachingMode :: "string \<Rightarrow> string result" where
  "NormalizeCachingMode cachingMode =
     (if cachingMode = [] then Inr ''ReadOnly''
      else if cachingMode \<notin> set supportedCachingModes
        then Inl (errorf (''azureDisk - '' @ cachingMode
               @ '' is not supported cachingmode. Supported values are [None ReadOnly ReadWrite]''))
      else Inr cachingMode)"

definition GetCachingMode :: "smap \<Rightarrow> string result" where
  "GetCachingMode attributes =
     NormalizeCachingMode (case ParseDiskParametersForKey attributes CachingModeField of
                             None \<Rightarrow> [] | Some v \<Rightarrow> v)"

fun GetAttachDiskInitialDelay :: "smap \<Rightarrow> int" where
  "GetAttachDiskInitialDelay [] = -1"
| "GetAttachDiskInitialDelay ((k, v) # m) =
     (if ToLower k = AttachDiskInitialDelayField
      then (case Atoi v of Inr n \<Rightarrow> n | Inl _ \<Rightarrow> GetAttachDiskInitialDelay m)
      else GetAttachDiskInitialDelay m)"

fun GetFStype :: "smap \<Rightarrow> string" where
  "GetFStype [] = []"
| "GetFStype ((k, v) # m) = (if ToLower k = FsTypeField then ToLower v else GetFStype m)"

fun GetMaxShares :: "smap \<Rightarrow> int result" where
  "GetMaxShares [] = Inr 1"
| "GetMaxShares ((k, v) # m) =
     (if ToLower k = MaxSharesField
      then (case Atoi v of
              Inl e \<Rightarrow> Inl (errorf (''parse '' @ v @ '' failed with error: '' @ emsg e))
            | Inr n \<Rightarrow> if n < 1 then Inl (errorf (''parse '' @ v @ '' returned with invalid value: '' @ Itoa n))
                      else Inr n)
      else GetMaxShares m)"

fun setFold :: "smap \<Rightarrow> string \<Rightarrow> string \<Rightarrow> smap option" where
  "setFold [] key value = None"
| "setFold ((k, v) # m) key value =
     (if EqualFold k key then Some ((k, value) # m)
      else map_option (\<lambda>m'. (k, v) # m') (setFold m key value))"

definition setKeyValue :: "smap \<Rightarrow> string \<Rightarrow> string \<Rightarrow> smap" where
  "setKeyValue m key value = (case setFold m key value of Some m' \<Rightarrow> m' | None \<Rightarrow> gset key value m)"

text \<open>A nil map is \<open>None\<close>.\<close>

definition SetKeyValueInMap :: "smap option \<Rightarrow> string \<Rightarrow> string \<Rightarrow> smap option" where
  "SetKeyValueInMap m key value = map_option (\<lambda>mm. setKeyValue mm key value) m"

lemma GetMaxShares_pos: "GetMaxShares m = Inr n \<Longrightarrow> 1 \<le> n"
  by (induction m rule: GetMaxShares.induct) (auto split: if_splits sum.splits)

lemma NormalizeCachingMode_ok: "NormalizeCachingMode c = Inr c' \<Longrightarrow> c' \<in> set supportedCachingModes"
  by (auto simp: NormalizeCachingMode_def supportedCachingModes_def split: if_splits)

lemma setFold_None: "setFold m key value = None \<longleftrightarrow> (\<forall>k \<in> fst ` set m. \<not> EqualFold k key)"
  by (induction m) (auto split: if_splits)

lemma setFold_keys: "setFold m key value = Some m' \<Longrightarrow> map fst m' = map fst m"
  by (induction m arbitrary: m') (auto split: if_splits)

lemma setFold_lookup: "setFold m key value = Some m' \<Longrightarrow> ParseDiskParametersForKey m' key = Some value"
  by (induction m arbitrary: m') (auto split: if_splits)

lemma ParseDiskParametersForKey_append:
  "ParseDiskParametersForKey (m @ m') key = (case ParseDiskParametersForKey m key of
     Some v \<Rightarrow> Some v | None \<Rightarrow> ParseDiskParametersForKey m' key)"
  by (induction m) auto

lemma ParseDiskParametersForKey_None:
  "ParseDiskParametersForKey m key = None \<longleftrightarrow> (\<forall>k \<in> fst ` set m. \<not> EqualFold k key)"
  by (induction m) (auto split: if_splits)

lemma setKeyValue_lookup: "ParseDiskParametersForKey (setKeyValue m key value) key = Some value"
proof (cases "setFold m key value")
  case None
  then have "key \<notin> fst ` set m" by (auto simp: setFold_None)
  then have "gset key value m = m @ [(key, value)]" by (rule gset_fresh)
  moreover have "ParseDiskParametersForKey m key = None"
    using None by (simp add: setFold_None ParseDiskParametersForKey_None)
  ultimately show ?thesis using None by (simp add: setKeyValue_def ParseDiskParametersForKey_append)
next
  case (Some m')
  then show ?thesis by (simp add: setKeyValue_def setFold_lookup)
qed

lemma setKeyValue_wf: "wf_map m \<Longrightarrow> wf_map (setKeyValue m key value)"
proof (cases "setFold m key value")
  case (Some m')
  then have "map fst m' = map fst m" by (rule setFold_keys)
  then show "wf_map m \<Longrightarrow> wf_map (setKeyValue m key value)"
    using Some by (simp add: setKeyValue_def wf_map_def)
qed (simp add: setKeyValue_def)

subsection \<open>File systems\<close>

definition SupportedFSTypes :: "string \<Rightarrow> string list" where
  "SupportedFSTypes goos =
     (if goos = ''windows'' then [''ntfs''] else [''btrfs'', ''ext2'', ''ext3'', ''ext4'', ''xfs''])"

definition NormalizeFSType :: "string \<Rightarrow> string \<Rightarrow> string result" where
  "NormalizeFSType goos fsType =
     (let normalized = ToLower (TrimSpace fsType); supported = SupportedFSTypes goos
      in if normalized \<notin> set supported
         then Inl (errorf (''fsType('' @ [CHR 0x22] @ normalized @ [CHR 0x22] @ '') is not supported on '' @ goos
                @ '', supported fsTypes are ['' @ Join supported '' '' @ '']''))
         else Inr normalized)"

subsection \<open>Device paths and LUNs\<close>

definition lunPathRE :: "rxitem list" where
  "lunPathRE = [RLit ''/dev'', RStar, RLit ''/disk/azure/scsi'', RStar, RLit ''/lun'', RCapture]"

definition GetDiskLUN :: "string \<Rightarrow> int result" where
  "GetDiskLUN deviceInfo =
     (let diskLUN = (if length deviceInfo \<le> 2 then Some deviceInfo else rxFind id lunPathRE deviceInfo)
      in case diskLUN of
           None \<Rightarrow> Inl (errorf (''cannot parse deviceInfo: '' @ deviceInfo))
         | Some l \<Rightarrow> ParseInt 32 l)"

subsection \<open>Names of disks and snapshots\<close>

definition diskNameMinLength :: nat where "diskNameMinLength = 1"
definition diskNameMaxLength :: nat where "diskNameMaxLength = 80"
definition diskNameGenerateMaxLength :: int where "diskNameGenerateMaxLength = 76"

definition nameCharBad :: "nat \<Rightarrow> nat \<Rightarrow> char \<Rightarrow> bool" where
  "nameCharBad len i v \<longleftrightarrow>
     \<not> (isLetter v \<or> isDigit v \<or> v = CHR ''_'' \<or> v = CHR ''.'' \<or> v = CHR ''-'')
     \<or> (i = 0 \<and> \<not> (isLetter v \<or> isDigit v))
     \<or> (int i = int len - 1 \<and> \<not> (isLetter v \<or> isDigit v \<or> v = CHR ''_''))"

definition checkDiskName :: "string \<Rightarrow> bool" where
  "checkDiskName diskName \<longleftrightarrow>
     list_all (\<lambda>(i, v). \<not> nameCharBad (length diskName) i v) (List.enumerate 0 diskName)"

definition GenerateVolumeName :: "string \<Rightarrow> string \<Rightarrow> int \<Rightarrow> string result" where
  "GenerateVolumeName clusterName pvName maxLength =
     (let pre = clusterName @ ''-dynamic''; pvLen = int (length pvName)
      in if pvLen + 1 + int (length pre) > maxLength
         then (if maxLength - pvLen - 1 < 0 then Inl (panicf ''slice bounds out of range'')
               else Inr (take (nat (maxLength - pvLen - 1)) pre @ ''-'' @ pvName))
         else Inr (pre @ ''-'' @ pvName))"

definition CreateValidDiskName :: "string \<Rightarrow> string \<Rightarrow> string result" where
  "CreateValidDiskName uuid volumeName =
     (let diskName = (if length volumeName > diskNameMaxLength then take diskNameMaxLength volumeName
                      else volumeName)
      in if \<not> checkDiskName diskName \<or> length diskName < diskNameMinLength
         then GenerateVolumeName ''pvc-disk'' uuid diskNameGenerateMaxLength
         else Inr diskName)"

lemma checkDiskName_nth:
  "checkDiskName s \<longleftrightarrow> (\<forall>i < length s. \<not> nameCharBad (length s) i (s ! i))"
  by (auto simp: checkDiskName_def list_all_iff in_set_enumerate_eq)

definition validDiskName :: "string \<Rightarrow> bool" where
  "validDiskName s \<longleftrightarrow> 1 \<le> length s \<and> length s \<le> 80
     \<and> (\<forall>c \<in> set s. isLetter c \<or> isDigit c \<or> c = CHR ''_'' \<or> c = CHR ''.'' \<or> c = CHR ''-'')
     \<and> (isLetter (hd s) \<or> isDigit (hd s))
     \<and> (isLetter (last s) \<or> isDigit (last s) \<or> last s = CHR ''_'')"

lemma checkDiskName_valid:
  assumes "s \<noteq> []" "length s \<le> 80"
  shows "checkDiskName s \<longleftrightarrow> validDiskName s"
proof -
  let ?ok = "\<lambda>c. isLetter c \<or> isDigit c \<or> c = CHR ''_'' \<or> c = CHR ''.'' \<or> c = CHR ''-''"
  have all: "(\<forall>c \<in> set s. ?ok c) \<longleftrightarrow> (\<forall>i < length s. ?ok (s ! i))"
    by (simp add: all_set_conv_all_nth)
  have first: "(isLetter (hd s) \<or> isDigit (hd s)) \<longleftrightarrow> (\<forall>i < length s. i = 0 \<longrightarrow> isLetter (s ! i) \<or> isDigit (s ! i))"
    using assms by (auto simp: hd_conv_nth)
  have lst: "(isLetter (last s) \<or> isDigit (last s) \<or> last s = CHR ''_'')
      \<longleftrightarrow> (\<forall>i < length s. int i = int (length s) - 1 \<longrightarrow> isLetter (s ! i) \<or> isDigit (s ! i) \<or> s ! i = CHR ''_'')"
  proof -
    have "int i = int (length s) - 1 \<longleftrightarrow> i = length s - 1" if "i < length s" for i using that by auto
    then show ?thesis using assms by (auto simp: last_conv_nth)
  qed
  show ?thesis
    unfolding validDiskName_def all first lst checkDiskName_nth nameCharBad_def
    using assms by (cases s) auto
qed

text \<open>What \<open>uuid.NewUUID\<close> documents: 36 characters, hexadecimal digits and hyphens, ending in a digit.\<close>

definition uuidShape :: "string \<Rightarrow> bool" where
  "uuidShape u \<longleftrightarrow> length u = 36 \<and> (\<forall>c \<in> set u. isLetter c \<or> isDigit c \<or> c = CHR ''-'')
     \<and> (isLetter (last u) \<or> isDigit (last u))"

lemma GenerateVolumeName_uuid:
  assumes "uuidShape u"
  shows "GenerateVolumeName ''pvc-disk'' u diskNameGenerateMaxLength = Inr (''pvc-disk-dynamic-'' @ u)"
  using assms by (simp add: GenerateVolumeName_def uuidShape_def diskNameGenerateMaxLength_def)

lemma generated_name_valid:
  assumes "uuidShape u"
  shows "validDiskName (''pvc-disk-dynamic-'' @ u)"
proof -
  have ne: "u \<noteq> []" using assms by (auto simp: uuidShape_def)
  have pre: "\<forall>c \<in> set ''pvc-disk-dynamic-''. isLetter c \<or> isDigit c \<or> c = CHR ''_'' \<or> c = CHR ''.'' \<or> c = CHR ''-''"
    by (simp add: isLetter_def isDigit_def)
  have suf: "\<forall>c \<in> set u. isLetter c \<or> isDigit c \<or> c = CHR ''_'' \<or> c = CHR ''.'' \<or> c = CHR ''-''"
    using assms by (auto simp: uuidShape_def)
  have "isLetter CHR ''p''" by (simp add: isLetter_def)
  with pre suf ne assms show ?thesis
    unfolding validDiskName_def set_append by (auto simp: uuidShape_def)
qed

subsection \<open>Clouds, zones and regions\<close>

definition IsAzureStackCloud :: "string \<Rightarrow> bool \<Rightarrow> bool" where
  "IsAzureStackCloud cloud disableAzureStackCloud \<longleftrightarrow>
     \<not> disableAzureStackCloud \<and> EqualFold cloud ''AZURESTACKCLOUD''"

definition IsValidAvailabilityZone :: "string \<Rightarrow> string \<Rightarrow> bool" where
  "IsValidAvailabilityZone zone region \<longleftrightarrow>
     (if region = [] then (let index = Index zone ''-'' in index > 0 \<and> index < int (length zone) - 1)
      else HasPrefix zone (region @ ''-''))"

definition GetRegionFromAvailabilityZone :: "string \<Rightarrow> string" where
  "GetRegionFromAvailabilityZone zone =
     (let parts = Split zone ''-'' in if length parts = 2 then parts ! 0 else [])"

record TopologyRequirement =
  Preferred :: "smap list"
  Requisite :: "smap list"

fun pickZone :: "smap list \<Rightarrow> string \<Rightarrow> string \<Rightarrow> string option" where
  "pickZone [] region topologyKey = None"
| "pickZone (segments # rest) region topologyKey =
     (case gget segments WellKnownTopologyKey of
        Some zone \<Rightarrow> if IsValidAvailabilityZone zone region then Some zone
                     else (case gget segments topologyKey of
                             Some zone' \<Rightarrow> if IsValidAvailabilityZone zone' region then Some zone'
                                           else pickZone rest region topologyKey
                           | None \<Rightarrow> pickZone rest region topologyKey)
      | None \<Rightarrow> (case gget segments topologyKey of
                   Some zone' \<Rightarrow> if IsValidAvailabilityZone zone' region then Some zone'
                                 else pickZone rest region topologyKey
                 | None \<Rightarrow> pickZone rest region topologyKey))"

definition PickAvailabilityZone :: "TopologyRequirement option \<Rightarrow> string \<Rightarrow> string \<Rightarrow> string" where
  "PickAvailabilityZone requirement region topologyKey =
     (case requirement of
        None \<Rightarrow> []
      | Some r \<Rightarrow>
          (case pickZone (Preferred r) region topologyKey of
             Some zone \<Rightarrow> zone
           | None \<Rightarrow> (case pickZone (Requisite r) region topologyKey of Some zone \<Rightarrow> zone | None \<Rightarrow> [])))"

text \<open>The zones a topology term offers: what it names under either key.\<close>

definition offers :: "string \<Rightarrow> smap \<Rightarrow> string \<Rightarrow> bool" where
  "offers topologyKey seg zone \<longleftrightarrow> gget seg WellKnownTopologyKey = Some zone \<or> gget seg topologyKey = Some zone"

lemma pickZone_Some:
  "pickZone ts region tk = Some z \<Longrightarrow>
     IsValidAvailabilityZone z region \<and> (\<exists>seg \<in> set ts. offers tk seg z)"
  by (induction ts) (auto simp: offers_def split: option.splits if_splits)

lemma pickZone_None:
  "pickZone ts region tk = None \<Longrightarrow> seg \<in> set ts \<Longrightarrow> offers tk seg z \<Longrightarrow> \<not> IsValidAvailabilityZone z region"
  by (induction ts) (auto simp: offers_def split: option.splits if_splits)

lemma pickZone_first:
  "pickZone (seg # ts) region tk = (case pickZone [seg] region tk of Some z \<Rightarrow> Some z | None \<Rightarrow> pickZone ts region tk)"
  by (auto split: option.splits)

lemma IsValidAvailabilityZone_nonempty: "IsValidAvailabilityZone z region \<Longrightarrow> z \<noteq> []"
  by (cases region) (auto simp: IsValidAvailabilityZone_def Index_def HasPrefix_def)

subsection \<open>Volume capabilities\<close>

definition volumeCaps :: "AccessMode list" where
  "volumeCaps = [SINGLE_NODE_WRITER, SINGLE_NODE_READER_ONLY, SINGLE_NODE_SINGLE_WRITER,
     SINGLE_NODE_MULTI_WRITER, MULTI_NODE_READER_ONLY, MULTI_NODE_SINGLE_WRITER, MULTI_NODE_MULTI_WRITER]"

definition IsValidAccessModes :: "VolumeCapability list \<Rightarrow> bool" where
  "IsValidAccessModes volCaps \<longleftrightarrow> list_all (\<lambda>c. list_ex (\<lambda>m. m = getMode c) volumeCaps) volCaps"

definition multiNodeMode :: "AccessMode \<Rightarrow> bool" where
  "multiNodeMode m \<longleftrightarrow> m = MULTI_NODE_MULTI_WRITER \<or> m = MULTI_NODE_READER_ONLY \<or> m = MULTI_NODE_SINGLE_WRITER"

fun capabilityLoop :: "VolumeCapability list \<Rightarrow> int \<Rightarrow> goerror option" where
  "capabilityLoop [] maxShares = None"
| "capabilityLoop (c # cs) maxShares =
     (if \<not> vc_Block c \<and> \<not> vc_Mount c then Some (errorf ''blockVolume and mountVolume are both nil'')
      else if vc_Block c \<and> vc_Mount c then Some (errorf ''blockVolume and mountVolume are both not nil'')
      else if vc_Mount c \<and> multiNodeMode (getMode c)
        then Some (errorf (''mountVolume is not supported for access mode: '' @ accessModeString (getMode c)))
      else if maxShares < 2 \<and> multiNodeMode (getMode c)
        then Some (errorf (''access mode: '' @ accessModeString (getMode c) @ '' is not supported for non-shared disk''))
      else capabilityLoop cs maxShares)"

definition IsValidVolumeCapabilities :: "VolumeCapability list \<Rightarrow> int \<Rightarrow> goerror option" where
  "IsValidVolumeCapabilities volCaps maxShares =
     (if \<not> IsValidAccessModes volCaps then Some (errorf ''invalid access mode: '')
      else capabilityLoop volCaps maxShares)"

definition capabilityOK :: "int \<Rightarrow> VolumeCapability \<Rightarrow> bool" where
  "capabilityOK maxShares c \<longleftrightarrow>
     getMode c \<noteq> UNKNOWN \<and> (vc_Block c \<noteq> vc_Mount c)
     \<and> (multiNodeMode (getMode c) \<longrightarrow> vc_Block c \<and> 2 \<le> maxShares)"

lemma volumeCaps_all: "list_ex (\<lambda>m. m = x) volumeCaps \<longleftrightarrow> x \<noteq> UNKNOWN"
  by (cases x) (simp_all add: volumeCaps_def)

lemma capabilityLoop_None:
  "capabilityLoop cs n = None \<longleftrightarrow>
     (\<forall>c \<in> set cs. (vc_Block c \<noteq> vc_Mount c) \<and> (multiNodeMode (getMode c) \<longrightarrow> vc_Block c \<and> 2 \<le> n))"
  by (induction cs) auto

subsection \<open>Normalisation of enumerated parameters\<close>

definition NormalizeNetworkAccessPolicy :: "string \<Rightarrow> string result" where
  "NormalizeNetworkAccessPolicy p =
     (if p = [] then Inr p
      else if list_ex (\<lambda>s. p = s) PossibleNetworkAccessPolicyValues then Inr p
      else Inl (errorf (''azureDisk - '' @ p @ '' is not supported NetworkAccessPolicy. Supported values are [''
              @ Join PossibleNetworkAccessPolicyValues '' '' @ '']'')))"

definition NormalizePublicNetworkAccess :: "string \<Rightarrow> string result" where
  "NormalizePublicNetworkAccess p =
     (if p = [] then Inr p
      else if list_ex (\<lambda>s. p = s) PossiblePublicNetworkAccessValues then Inr p
      else Inl (errorf (''azureDisk - '' @ p @ '' is not supported PublicNetworkAccess. Supported values are [''
              @ Join PossiblePublicNetworkAccessValues '' '' @ '']'')))"

definition NormalizeStorageAccountType :: "string \<Rightarrow> string \<Rightarrow> bool \<Rightarrow> string result" where
  "NormalizeStorageAccountType storageAccountType cloud disableAzureStackCloud =
     (if storageAccountType = [] then
        (if IsAzureStackCloud cloud disableAzureStackCloud then Inr ''Standard_LRS'' else Inr ''StandardSSD_LRS'')
      else
        (let supportedSkuNames = (if IsAzureStackCloud cloud disableAzureStackCloud
               then [''Standard_LRS'', ''Premium_LRS''] else PossibleDiskStorageAccountTypesValues)
         in if list_ex (\<lambda>s. storageAccountType = s) supportedSkuNames then Inr storageAccountType
            else Inl (errorf (''azureDisk - '' @ storageAccountType
                   @ '' is not supported sku/storageaccounttype. Supported values are ['' @ Join supportedSkuNames '' '' @ '']''))))"

definition ValidateDiskEncryptionType :: "string \<Rightarrow> goerror option" where
  "ValidateDiskEncryptionType t =
     (if t = [] then None
      else if list_ex (\<lambda>s. t = s) PossibleEncryptionTypeValues then None
      else Some (errorf (''DiskEncryptionType('' @ t @ '') is not supported'')))"

definition ValidateDataAccessAuthMode :: "string \<Rightarrow> goerror option" where
  "ValidateDataAccessAuthMode m =
     (if m = [] then None
      else if list_ex (\<lambda>s. m = s) PossibleDataAccessAuthModeValues then None
      else Some (errorf (''dataAccessAuthMode('' @ m @ '') is not supported'')))"

lemma NormalizeStorageAccountType_ok:
  "NormalizeStorageAccountType t cloud dis = Inr s \<Longrightarrow> s \<in> set PossibleDiskStorageAccountTypesValues"
  by (auto simp: NormalizeStorageAccountType_def PossibleDiskStorageAccountTypesValues_def Let_def
      split: if_splits)

subsection \<open>Creation data\<close>

definition GetValidCreationData :: "string \<Rightarrow> string \<Rightarrow> string \<Rightarrow> string \<Rightarrow> CreationData result" where
  "GetValidCreationData subscriptionID resourceGroup sourceResourceID sourceType =
     (if sourceResourceID = [] then Inr (emptyCreationData\<lparr>cd_CreateOption := Some ''Empty''\<rparr>)
      else if sourceType \<noteq> SourceSnapshot \<and> sourceType \<noteq> SourceVolume
        then Inr (emptyCreationData\<lparr>cd_CreateOption := Some ''Empty''\<rparr>)
      else
        (let rid = (if sourceType = SourceSnapshot
               then (if rxFind toLowerC DiskSnapshotPathRE sourceResourceID = None
                     then diskSnapshotPath subscriptionID resourceGroup sourceResourceID else sourceResourceID)
               else (if rxFind toLowerC ManagedDiskPathRE sourceResourceID = None
                     then ManagedDiskPath subscriptionID resourceGroup sourceResourceID else sourceResourceID))
         in if length (Split rid ''/'') > 9
            then Inl (errorf (''sourceResourceID('' @ rid @ '') is invalid, correct format: ''))
            else Inr (emptyCreationData\<lparr>cd_CreateOption := Some ''Copy'', cd_SourceResourceID := Some rid\<rparr>)))"

subsection \<open>Throttling\<close>

definition IsThrottlingError :: "goerror option \<Rightarrow> bool" where
  "IsThrottlingError err =
     (case err of
        None \<Rightarrow> False
      | Some e \<Rightarrow> (let m = ToLower (emsg e)
                    in Contains m (ToLower TooManyRequests) \<or> Contains m ClientThrottled
                       \<or> Contains m ErrTooManyRequestMsg))"

fun findRetryAfter :: "string \<Rightarrow> string option" where
  "findRetryAfter [] = None"
| "findRetryAfter (c # cs) =
     (let s = c # cs; rest = drop 12 s; ds = takeWhile isDigit rest
      in if prefix ''RetryAfter: '' s \<and> ds \<noteq> [] \<and> prefix ''s'' (dropWhile isDigit rest) then Some ds
         else findRetryAfter cs)"

definition GetRetryAfterSeconds :: "goerror option \<Rightarrow> int" where
  "GetRetryAfterSeconds err =
     (case err of
        None \<Rightarrow> 0
      | Some e \<Rightarrow> (case findRetryAfter (emsg e) of
                     None \<Rightarrow> 0
                   | Some ds \<Rightarrow> (case Atoi ds of Inr n \<Rightarrow> n | Inl _ \<Rightarrow> 0)))"

definition getRetryAfterSeconds :: "goerror option \<Rightarrow> int" where
  "getRetryAfterSeconds err = min (GetRetryAfterSeconds err) MaxThrottlingSleepSec"

text \<open>The seconds \<open>SleepIfThrottled\<close> sleeps.\<close>

definition SleepIfThrottled :: "goerror option \<Rightarrow> int \<Rightarrow> int" where
  "SleepIfThrottled err defaultSleepSec =
     (if err \<noteq> None \<and> IsThrottlingError err
      then (let retryAfter = getRetryAfterSeconds err
            in if retryAfter = 0 then defaultSleepSec else retryAfter)
      else 0)"

subsection \<open>Options and templates\<close>

fun RemoveOptionIfExists :: "string list \<Rightarrow> string \<Rightarrow> string list \<times> bool" where
  "RemoveOptionIfExists [] removeOption = ([], False)"
| "RemoveOptionIfExists (o1 # os) removeOption =
     (if o1 = removeOption then (os, True)
      else (case RemoveOptionIfExists os removeOption of (r, b) \<Rightarrow> (o1 # r, b)))"

definition replaceTemplateVariables :: "string \<Rightarrow> string \<Rightarrow> string \<Rightarrow> string \<Rightarrow> string" where
  "replaceTemplateVariables str pvcName pvcNamespace pvName =
     ReplaceAll (ReplaceAll (ReplaceAll str PvcMetaDataName pvcName) PvcMetaDataNamespace pvcNamespace)
       PvMetaDataName pvName"

subsection \<open>Disk properties in the publish context\<close>

definition putOpt :: "string \<Rightarrow> string option \<Rightarrow> smap \<Rightarrow> smap" where
  "putOpt k v m = (case v of None \<Rightarrow> m | Some x \<Rightarrow> gset k x m)"

definition InsertDiskProperties :: "Disk option \<Rightarrow> smap option \<Rightarrow> smap option result" where
  "InsertDiskProperties disk publishContext =
     (case (disk, publishContext) of
        (Some d, Some ctx) \<Rightarrow>
          (case (case d_SKU d of
                   None \<Rightarrow> Inr ctx
                 | Some None \<Rightarrow> Inl (panicf ''nil pointer dereference'')
                 | Some (Some name) \<Rightarrow> Inr (gset SkuNameField name ctx)) of
             Inl e \<Rightarrow> Inl e
           | Inr ctx1 \<Rightarrow>
               (case d_Properties d of
                  None \<Rightarrow> Inr (Some ctx1)
                | Some p \<Rightarrow>
                    Inr (Some (putOpt MaxSharesField (map_option Itoa (p_MaxShares p))
                          (putOpt DesIDField (Option.bind (p_Encryption p) enc_DiskEncryptionSetID)
                            (putOpt LogicalSectorSizeField
                               (map_option Itoa (Option.bind (p_CreationData p) cd_LogicalSectorSize))
                              (putOpt DiskMBPSReadWriteField (map_option Itoa (p_DiskMBpsReadWrite p))
                                (putOpt DiskIOPSReadWriteField (map_option Itoa (p_DiskIOPSReadWrite p))
                                  (putOpt NetworkAccessPolicyField (p_NetworkAccessPolicy p) ctx1)))))))))
      | _ \<Rightarrow> Inr publishContext)"

lemma GetRetryAfterSeconds_nonneg: "0 \<le> GetRetryAfterSeconds err"
proof -
  have digits: "findRetryAfter s = Some ds \<Longrightarrow> list_all isDigit ds \<and> ds \<noteq> []" for s ds
    by (induction s) (auto simp: Let_def list_all_iff dest: set_takeWhileD split: if_splits)
  have "Atoi ds = Inr n \<Longrightarrow> list_all isDigit ds \<Longrightarrow> ds \<noteq> [] \<Longrightarrow> 0 \<le> n" for ds n
    by (cases ds) (auto simp: Atoi_def parseDec_def Let_def split: if_splits)
  with digits show ?thesis
    by (auto simp: GetRetryAfterSeconds_def split: option.splits sum.splits)
qed

subsection \<open>Properties\<close>

text \<open>Whatever name is requested, \<open>CreateValidDiskName\<close> returns (it never panics) a name Azure accepts:
  1 to 80 characters, only letters, digits, underscores, periods and hyphens, starting with a letter or
  digit and ending with a letter, digit or underscore; a name that is already valid is kept.\<close>

theorem CreateValidDiskName_valid:
  assumes "uuidShape uuid"
  shows "(\<exists>d. CreateValidDiskName uuid volumeName = Inr d \<and> validDiskName d)
    \<and> (validDiskName volumeName \<longrightarrow> CreateValidDiskName uuid volumeName = Inr volumeName)"
proof -
  let ?d = "if length volumeName > diskNameMaxLength then take diskNameMaxLength volumeName else volumeName"
  have len: "length ?d \<le> 80" by (simp add: diskNameMaxLength_def)
  have eq: "CreateValidDiskName uuid volumeName =
      (if validDiskName ?d then Inr ?d else Inr (''pvc-disk-dynamic-'' @ uuid))"
  proof (cases "?d = []")
    case True
    then show ?thesis
      using assms by (simp add: CreateValidDiskName_def GenerateVolumeName_uuid validDiskName_def diskNameMinLength_def)
  next
    case False
    then show ?thesis
      using assms len by (simp add: CreateValidDiskName_def GenerateVolumeName_uuid checkDiskName_valid
          diskNameMinLength_def Suc_le_eq)
  qed
  have "validDiskName volumeName \<Longrightarrow> ?d = volumeName" by (simp add: validDiskName_def diskNameMaxLength_def)
  with eq generated_name_valid [OF assms] show ?thesis by auto
qed

theorem CreateValidDiskName_valid_witness:
  "CreateValidDiskName ''123e4567-e89b-12d3-a456-426614174000'' ''pvc-1'' = Inr ''pvc-1''
   \<and> CreateValidDiskName ''123e4567-e89b-12d3-a456-426614174000'' ''-bad''
     = Inr ''pvc-disk-dynamic-123e4567-e89b-12d3-a456-426614174000''"
proof -
  let ?u = "''123e4567-e89b-12d3-a456-426614174000''"
  have u: "uuidShape ?u" by (simp add: uuidShape_def isLetter_def isDigit_def)
  have v: "validDiskName ''pvc-1''" by (simp add: validDiskName_def isLetter_def isDigit_def)
  have "CreateValidDiskName ?u ''-bad'' = Inr (''pvc-disk-dynamic-'' @ ?u)" by code_simp
  with CreateValidDiskName_valid [OF u, of "''pvc-1''"] v show ?thesis by simp
qed

text \<open>The capability check accepts exactly the requests in which every capability has a known access mode,
  is either a block or a mount volume and not both, and asks for a multi-node mode only as a block volume
  of a disk that at least two nodes may share.\<close>

theorem IsValidVolumeCapabilities_iff:
  "IsValidVolumeCapabilities volCaps maxShares = None \<longleftrightarrow> (\<forall>c \<in> set volCaps. capabilityOK maxShares c)"
  by (auto simp: IsValidVolumeCapabilities_def IsValidAccessModes_def capabilityOK_def list_all_iff
      volumeCaps_all capabilityLoop_None)

theorem IsValidVolumeCapabilities_iff_witness:
  "capabilityOK 1 \<lparr>vc_Block = False, vc_Mount = True, vc_AccessMode = Some SINGLE_NODE_WRITER\<rparr>
   \<and> \<not> capabilityOK 5 \<lparr>vc_Block = False, vc_Mount = True, vc_AccessMode = Some MULTI_NODE_MULTI_WRITER\<rparr>"
  using IsValidVolumeCapabilities_iff [of "[\<lparr>vc_Block = False, vc_Mount = True, vc_AccessMode = Some SINGLE_NODE_WRITER\<rparr>]" 1]
    IsValidVolumeCapabilities_iff [of "[\<lparr>vc_Block = False, vc_Mount = True, vc_AccessMode = Some MULTI_NODE_MULTI_WRITER\<rparr>]" 5]
  by (simp add: IsValidVolumeCapabilities_def IsValidAccessModes_def volumeCaps_all getMode_def multiNodeMode_def)

text \<open>\<open>PickAvailabilityZone\<close> returns a zone that a topology term of the request offers and that is valid
  for the region, or the empty string, and the latter only if no preferred or requisite term offers a
  valid zone; a valid zone offered by a preferred term wins over the requisite ones.\<close>

theorem PickAvailabilityZone_sound_complete:
  "(let z = PickAvailabilityZone (Some r) region tk in
     if z = [] then \<not> (\<exists>seg \<in> set (Preferred r) \<union> set (Requisite r). \<exists>z'. offers tk seg z' \<and> IsValidAvailabilityZone z' region)
     else IsValidAvailabilityZone z region
       \<and> (\<exists>seg \<in> (if \<exists>seg' \<in> set (Preferred r). \<exists>z'. offers tk seg' z' \<and> IsValidAvailabilityZone z' region
                   then set (Preferred r) else set (Requisite r)). offers tk seg z))"
proof (cases "pickZone (Preferred r) region tk")
  case (Some z)
  then show ?thesis
    using pickZone_Some [OF Some] IsValidAvailabilityZone_nonempty [of z region]
    by (auto simp: PickAvailabilityZone_def)
next
  case None
  have no: "\<not> (\<exists>seg' \<in> set (Preferred r). \<exists>z'. offers tk seg' z' \<and> IsValidAvailabilityZone z' region)"
    using pickZone_None [OF None] by blast
  show ?thesis
  proof (cases "pickZone (Requisite r) region tk")
    case None': None
    show ?thesis using None None' no pickZone_None [OF None'] by (auto simp: PickAvailabilityZone_def)
  next
    case (Some z)
    then show ?thesis
      using None no pickZone_Some [OF Some] IsValidAvailabilityZone_nonempty [of z region]
      by (auto simp: PickAvailabilityZone_def)
  qed
qed

text \<open>\<open>SetKeyValueInMap\<close> on a non-nil map: a case-insensitive lookup of the key afterwards gives the new value,
  and the map keeps distinct keys.\<close>

theorem SetKeyValueInMap_lookup:
  assumes "wf_map m"
  shows "\<exists>m'. SetKeyValueInMap (Some m) key value = Some m' \<and> wf_map m'
    \<and> ParseDiskParametersForKey m' key = Some value"
  using assms by (simp add: SetKeyValueInMap_def setKeyValue_lookup setKeyValue_wf)

theorem SetKeyValueInMap_lookup_witness:
  "\<exists>m'. SetKeyValueInMap (Some [(''CachingMode'', ''ReadOnly'')]) ''cachingmode'' ''None'' = Some m'
     \<and> ParseDiskParametersForKey m' ''cachingmode'' = Some ''None''"
  using SetKeyValueInMap_lookup [of "[(''CachingMode'', ''ReadOnly'')]" "''cachingmode''" "''None''"]
  by (auto simp: wf_map_def)

text \<open>The delay after a throttling error is never negative and never above the cap of 1200 seconds when
  ARM states one, and it is the default when ARM states none; an error that is not throttling never sleeps.\<close>

theorem SleepIfThrottled_bounds:
  assumes "0 \<le> dflt"
  shows "0 \<le> SleepIfThrottled err dflt \<and> SleepIfThrottled err dflt \<le> max dflt 1200
    \<and> (\<not> IsThrottlingError err \<longrightarrow> SleepIfThrottled err dflt = 0)
    \<and> (IsThrottlingError err \<longrightarrow> GetRetryAfterSeconds err = 0 \<longrightarrow> SleepIfThrottled err dflt = dflt)"
  using assms GetRetryAfterSeconds_nonneg [of err]
  by (auto simp: SleepIfThrottled_def getRetryAfterSeconds_def const_defs Let_def min_def IsThrottlingError_def
      split: option.splits)

theorem SleepIfThrottled_bounds_witness:
  "SleepIfThrottled (Some (errorf ''TooManyRequests, RetryAfter: 9999s'')) 50 \<le> 1200"
  using SleepIfThrottled_bounds [of 50 "Some (errorf ''TooManyRequests, RetryAfter: 9999s'')"] by simp

end
