(* ===== verification/TimedCache.thy ===== *)
theory TimedCache
  imports Consts
begin

text \<open>
  The timed cache of the cloud provider library (\<open>TimedCache\<close> in \<open>azure_cache.go\<close>, vendored), as the driver
  uses it: keys to optional data (\<open>nil\<close> is \<open>None\<close>) with the time the entry was written. The driver builds its
  caches with a getter that returns \<open>nil, nil\<close>, and uses them as sets of keys with an expiry: throttled
  operations, and nodes that hit their data-disk limit. Times are in seconds.
\<close>

record CacheEntry =
  ce_Data :: "string option"
  ce_CreatedOn :: int

record TimedCache =
  tc_TTL :: int
  tc_Store :: "(string, CacheEntry) gomap"

type_synonym getter = "string \<Rightarrow> string option result"

definition nilGetter :: getter where
  "nilGetter key = Inr None"

text \<open>\<open>getInternal\<close>: an absent key gets an entry with no data and the zero time, so that it is expired.\<close>

definition getInternal :: "TimedCache \<Rightarrow> string \<Rightarrow> CacheEntry \<times> TimedCache" where
  "getInternal t key = (case gget (tc_Store t) key of
     Some entry \<Rightarrow> (entry, t)
   | None \<Rightarrow> let newEntry = \<lparr>ce_Data = None, ce_CreatedOn = 0\<rparr>
             in (newEntry, t\<lparr>tc_Store := gset key newEntry (tc_Store t)\<rparr>))"

text \<open>\<open>Get\<close> with \<open>CacheReadTypeDefault\<close>, the read type of every call the driver makes.\<close>

definition cacheGet :: "getter \<Rightarrow> int \<Rightarrow> string \<Rightarrow> TimedCache \<Rightarrow> string option result \<times> TimedCache" where
  "cacheGet getter now key t =
     (let (entry, t1) = getInternal t key
      in if ce_Data entry \<noteq> None \<and> now - ce_CreatedOn entry < tc_TTL t1 then (Inr (ce_Data entry), t1)
      else case getter key of
          Inl err \<Rightarrow> (Inl err, t1)
        | Inr data \<Rightarrow>
            (Inr data, t1\<lparr>tc_Store := gset key \<lparr>ce_Data = data, ce_CreatedOn = now\<rparr> (tc_Store t1)\<rparr>))"

definition cacheSet :: "int \<Rightarrow> string \<Rightarrow> string \<Rightarrow> TimedCache \<Rightarrow> TimedCache" where
  "cacheSet now key data t =
     t\<lparr>tc_Store := gset key \<lparr>ce_Data = Some data, ce_CreatedOn = now\<rparr> (tc_Store t)\<rparr>"

text \<open>
  What a client of an expiring set may rely on: with the \<open>nil\<close> getter a read never fails, and it finds a key
  exactly while the last write of that key is younger than the lifetime.
\<close>

locale expiring_set =
  fixes member :: "int \<Rightarrow> string \<Rightarrow> 'c \<Rightarrow> bool \<times> 'c"
    and add :: "int \<Rightarrow> string \<Rightarrow> 'c \<Rightarrow> 'c"
    and ttl :: "'c \<Rightarrow> int"
  assumes member_add: "fst (member now k (add t k' c)) \<longleftrightarrow> (if k' = k then now - t < ttl c else fst (member now k c))"
    and member_later: "now \<le> now' \<Longrightarrow> fst (member now' k' (snd (member now k c))) \<longleftrightarrow> fst (member now' k' c)"
begin

lemma member_fresh: "now - t < ttl c \<Longrightarrow> fst (member now k (add t k c))"
  by (simp add: member_add)

lemma member_expired: "ttl c \<le> now - t \<Longrightarrow> \<not> fst (member now k (add t k c))"
  by (simp add: member_add)

end

definition cacheMember :: "int \<Rightarrow> string \<Rightarrow> TimedCache \<Rightarrow> bool \<times> TimedCache" where
  "cacheMember now key t = (case cacheGet nilGetter now key t of
     (Inr (Some _), t') \<Rightarrow> (True, t') | (_, t') \<Rightarrow> (False, t'))"

lemma cacheGet_nilGetter_ok: "\<exists>d t'. cacheGet nilGetter now key t = (Inr d, t')"
  by (auto simp: cacheGet_def nilGetter_def split: prod.split)

lemma fst_cacheMember:
  "fst (cacheMember now k c) \<longleftrightarrow>
     (\<exists>e. gget (tc_Store c) k = Some e \<and> ce_Data e \<noteq> None \<and> now - ce_CreatedOn e < tc_TTL c)"
  by (auto simp: cacheMember_def cacheGet_def getInternal_def nilGetter_def Let_def split: option.splits)

lemma snd_cacheMember:
  "tc_TTL (snd (cacheMember now k c)) = tc_TTL c"
  "k' \<noteq> k \<Longrightarrow> gget (tc_Store (snd (cacheMember now k c))) k' = gget (tc_Store c) k'"
  "fst (cacheMember now k c) \<Longrightarrow> snd (cacheMember now k c) = c"
  by (auto simp: cacheMember_def cacheGet_def getInternal_def nilGetter_def Let_def split: option.splits)

lemma snd_cacheMember_absent:
  "\<not> fst (cacheMember now k c) \<Longrightarrow> \<exists>e. gget (tc_Store (snd (cacheMember now k c))) k = Some e \<and> ce_Data e = None"
  by (auto simp: cacheMember_def cacheGet_def getInternal_def nilGetter_def Let_def split: option.splits if_splits)

interpretation tc: expiring_set cacheMember "\<lambda>now k. cacheSet now k []" tc_TTL
proof
  fix now t :: int and k k' :: string and c :: TimedCache
  show "fst (cacheMember now k (cacheSet t k' [] c)) \<longleftrightarrow>
      (if k' = k then now - t < tc_TTL c else fst (cacheMember now k c))"
    by (simp add: fst_cacheMember cacheSet_def)
next
  fix now now' :: int and k k' :: string and c :: TimedCache
  assume le: "now \<le> now'"
  show "fst (cacheMember now' k' (snd (cacheMember now k c))) \<longleftrightarrow> fst (cacheMember now' k' c)"
  proof (cases "k' = k \<and> \<not> fst (cacheMember now k c)")
    case True
    then have "\<not> fst (cacheMember now' k' c)" using le by (force simp: fst_cacheMember)
    moreover have "\<not> fst (cacheMember now' k' (snd (cacheMember now k c)))"
      using True snd_cacheMember_absent by (fastforce simp: fst_cacheMember)
    ultimately show ?thesis by simp
  next
    case False
    then show ?thesis
      by (cases "k' = k") (auto simp: snd_cacheMember fst_cacheMember)
  qed
qed

subsection \<open>The driver's throttling flags\<close>

definition isGetDiskThrottled :: "int \<Rightarrow> TimedCache \<Rightarrow> bool \<times> TimedCache" where
  "isGetDiskThrottled now throttlingCache = cacheMember now GetDiskThrottlingKey throttlingCache"

definition isCheckDiskLunThrottled :: "int \<Rightarrow> TimedCache \<Rightarrow> bool \<times> TimedCache" where
  "isCheckDiskLunThrottled now checkDiskLunThrottlingCache =
     cacheMember now CheckDiskLunThrottlingKey checkDiskLunThrottlingCache"

text \<open>Once a throttled LUN check has set the flag at time \<open>t\<close>, the LUN check is skipped at any later time
  exactly until the lifetime of the cache has passed, however often the flag was read in between.\<close>

theorem checkDiskLunThrottled_window:
  assumes "t \<le> now" "now \<le> now'"
  shows "fst (isCheckDiskLunThrottled now'
           (snd (isCheckDiskLunThrottled now (cacheSet t CheckDiskLunThrottlingKey [] c)))) \<longleftrightarrow> now' < t + tc_TTL c"
  unfolding isCheckDiskLunThrottled_def tc.member_later [OF assms(2)] tc.member_add by auto

theorem checkDiskLunThrottled_window_witness:
  "fst (isCheckDiskLunThrottled 1900 (snd (isCheckDiskLunThrottled 200
     (cacheSet 101 CheckDiskLunThrottlingKey [] \<lparr>tc_TTL = 1800, tc_Store = []\<rparr>))))"
  using checkDiskLunThrottled_window [of 101 200 1900 "\<lparr>tc_TTL = 1800, tc_Store = []\<rparr>"] by simp

end
