(* ===== verification/DiskQueue.thy ===== *)
theory DiskQueue
  imports Util ArmCompute TimedCache
begin

text \<open>
  The state of \<open>controllerCommon\<close> (\<open>azure_controller_common.go\<close>), its per-entry mutexes (\<open>lockMap\<close> in
  \<open>util.go\<close>) and its two request queues: a node has at most one map of pending attach requests and one of
  pending detach requests, which the requests of many goroutines fill and one of them takes away as a batch.

  A \<open>sync.Map\<close> holds values of type \<open>any\<close>: \<open>any\<close> lists what the code may store there, so that its type
  assertions are branches of the model.
\<close>

subsection \<open>Per-entry mutexes\<close>

record lockMap =
  mutexMap :: "(string, bool) gomap"

definition newLockMap :: lockMap where
  "newLockMap = \<lparr>mutexMap = []\<rparr>"

definition heldEntry :: "lockMap \<Rightarrow> string \<Rightarrow> bool" where
  "heldEntry lm entry \<longleftrightarrow> gget (mutexMap lm) entry = Some True"

text \<open>
  \<open>LockEntry\<close> creates the mutex when it is missing and locks it. The flag is \<open>False\<close> when the mutex is
  held, that is when the call blocks. \<open>UnlockEntry\<close> ignores a missing mutex; unlocking a free one is fatal.
\<close>

definition LockEntry :: "string \<Rightarrow> lockMap \<Rightarrow> bool \<times> lockMap" where
  "LockEntry entry lm = (case gget (mutexMap lm) entry of
     Some True \<Rightarrow> (False, lm)
   | _ \<Rightarrow> (True, lm\<lparr>mutexMap := gset entry True (mutexMap lm)\<rparr>))"

definition UnlockEntry :: "string \<Rightarrow> lockMap \<Rightarrow> lockMap result" where
  "UnlockEntry entry lm = (case gget (mutexMap lm) entry of
     None \<Rightarrow> Inr lm
   | Some True \<Rightarrow> Inr (lm\<lparr>mutexMap := gset entry False (mutexMap lm)\<rparr>)
   | Some False \<Rightarrow> Inl (panicf ''sync: unlock of unlocked mutex''))"

definition unlocked :: "string \<Rightarrow> lockMap \<Rightarrow> lockMap" where
  "unlocked entry lm = (case UnlockEntry entry lm of Inl _ \<Rightarrow> lm | Inr lm' \<Rightarrow> lm')"

interpretation lm: try_lock LockEntry unlocked heldEntry
  by unfold_locales
    (auto simp: LockEntry_def UnlockEntry_def unlocked_def heldEntry_def split: option.splits bool.splits if_splits)

lemma UnlockEntry_held: "heldEntry lm e \<Longrightarrow> UnlockEntry e lm = Inr (unlocked e lm)"
  by (simp add: heldEntry_def UnlockEntry_def unlocked_def)

subsection \<open>The controller\<close>

record AttachDiskOptions =
  ao_CachingMode :: string
  ao_DiskName :: string
  ao_DiskEncryptionSetID :: string
  ao_WriteAcceleratorEnabled :: bool
  ao_Lun :: int

text \<open>An attach batch maps disk URIs to pointers, \<open>None\<close> being \<open>nil\<close>; a detach batch maps URIs to names.\<close>

type_synonym attach_batch = "(string, AttachDiskOptions option) gomap"

datatype any = AttachMap attach_batch | DetachMap smap | OtherValue

text \<open>
  \<open>diskStateMap\<close> is keyed by \<open>any\<close> as well: the code uses a \<open>*armcompute.Disk\<close> (an address, possibly
  \<open>nil\<close>) in one place and a lower-case URI in the others.
\<close>

datatype state_key = KeyDiskPtr "nat option" | KeyURI string

record 'w controllerCommon =
  cc_diskStateMap :: "(state_key, string) gomap"
  cc_lockMap :: lockMap
  cc_hasNodeLister :: bool
  cc_attachDiskMap :: "(string, any) gomap"
  cc_detachDiskMap :: "(string, any) gomap"
  cc_DisableDiskLunCheck :: bool
  cc_DetachOperationMinTimeoutInSeconds :: int
  cc_AttachDetachInitialDelayInMs :: int
  cc_VMSSDetachTimeoutInSeconds :: int
  cc_ForceDetachBackoff :: bool
  cc_WaitForDetach :: bool
  cc_CheckDiskCountForBatching :: bool
  cc_WaitForDetachDiskComplete :: bool
  cc_hitMaxDataDiskCountCache :: TimedCache
  cc_world :: 'w

definition attachDiskMapKeySuffix :: string where
  "attachDiskMapKeySuffix = ''attachdiskmap''"

definition detachDiskMapKeySuffix :: string where
  "detachDiskMapKeySuffix = ''detachdiskmap''"

text \<open>The section between \<open>LockEntry\<close> and the deferred \<open>UnlockEntry\<close>, from the moment the mutex is taken.\<close>

definition locking :: "string \<Rightarrow> ('w controllerCommon, 'a) io \<Rightarrow> ('w controllerCommon, 'a) io" where
  "locking entry m = modifyE (\<lambda>c. c\<lparr>cc_lockMap := snd (LockEntry entry (cc_lockMap c))\<rparr>)
     (deferE m (State_Monad.update (\<lambda>c. c\<lparr>cc_lockMap := unlocked entry (cc_lockMap c)\<rparr>)))"

subsection \<open>The attach queue\<close>

definition insertAttach :: "string \<Rightarrow> AttachDiskOptions \<Rightarrow> attach_batch \<Rightarrow> attach_batch" where
  "insertAttach diskURI options diskMap =
     (if gget diskMap diskURI \<noteq> None then diskMap else gset diskURI (Some options) diskMap)"

definition batchAttachDiskRequest ::
  "string \<Rightarrow> string \<Rightarrow> AttachDiskOptions \<Rightarrow> ('w controllerCommon, int) io" where
  "batchAttachDiskRequest diskURI nodeName options = locking (nodeName @ attachDiskMapKeySuffix) (getE (\<lambda>c.
     let store = (\<lambda>diskMap. modifyE
           (\<lambda>c. c\<lparr>cc_attachDiskMap := gset nodeName (AttachMap diskMap) (cc_attachDiskMap c)\<rparr>)
           (okE (int (length diskMap))))
     in case gget (cc_attachDiskMap c) nodeName of
         Some (AttachMap diskMap) \<Rightarrow> store (insertAttach diskURI options diskMap)
       | Some _ \<Rightarrow> failE (errorf (''convert attachDiskMap failure on node('' @ nodeName @ '')''))
       | None \<Rightarrow> store (insertAttach diskURI options [])))"

definition retrieveAttachBatchedDiskRequests ::
  "string \<Rightarrow> string \<Rightarrow> ('w controllerCommon, attach_batch) io" where
  "retrieveAttachBatchedDiskRequests nodeName diskURI = locking (nodeName @ attachDiskMapKeySuffix) (getE (\<lambda>c.
     case gget (cc_attachDiskMap c) nodeName of
         None \<Rightarrow> okE []
       | Some (AttachMap diskMap) \<Rightarrow>
           (if gget diskMap diskURI = None then okE []
            else modifyE (\<lambda>c. c\<lparr>cc_attachDiskMap := gset nodeName (AttachMap []) (cc_attachDiskMap c)\<rparr>)
              (okE diskMap))
       | Some _ \<Rightarrow> failE (errorf (''convert attachDiskMap failure on node('' @ nodeName @ '')''))))"

subsection \<open>The detach queue\<close>

definition insertDetach :: "string \<Rightarrow> string \<Rightarrow> smap \<Rightarrow> smap" where
  "insertDetach diskURI diskName diskMap =
     (if gget diskMap diskURI \<noteq> None then diskMap else gset diskURI diskName diskMap)"

definition batchDetachDiskRequest :: "string \<Rightarrow> string \<Rightarrow> string \<Rightarrow> ('w controllerCommon, int) io" where
  "batchDetachDiskRequest diskName diskURI nodeName = locking (nodeName @ detachDiskMapKeySuffix) (getE (\<lambda>c.
     let store = (\<lambda>diskMap. modifyE
           (\<lambda>c. c\<lparr>cc_detachDiskMap := gset nodeName (DetachMap diskMap) (cc_detachDiskMap c)\<rparr>)
           (okE (int (length diskMap))))
     in case gget (cc_detachDiskMap c) nodeName of
         Some (DetachMap diskMap) \<Rightarrow> store (insertDetach diskURI diskName diskMap)
       | Some _ \<Rightarrow> failE (errorf (''convert detachDiskMap failure on node('' @ nodeName @ '')''))
       | None \<Rightarrow> store (insertDetach diskURI diskName [])))"

definition retrieveDetachBatchedDiskRequests :: "string \<Rightarrow> string \<Rightarrow> ('w controllerCommon, smap) io" where
  "retrieveDetachBatchedDiskRequests nodeName diskURI = locking (nodeName @ detachDiskMapKeySuffix) (getE (\<lambda>c.
     case gget (cc_detachDiskMap c) nodeName of
         None \<Rightarrow> okE []
       | Some (DetachMap diskMap) \<Rightarrow>
           (if gget diskMap diskURI = None then okE []
            else modifyE (\<lambda>c. c\<lparr>cc_detachDiskMap := gset nodeName (DetachMap []) (cc_detachDiskMap c)\<rparr>)
              (okE diskMap))
       | Some _ \<Rightarrow> failE (errorf (''convert detachDiskMap failure on node('' @ nodeName @ '')''))))"

definition getDetachDiskRequestNum :: "string \<Rightarrow> ('w controllerCommon, int) io" where
  "getDetachDiskRequestNum nodeName = locking (nodeName @ detachDiskMapKeySuffix) (getE (\<lambda>c.
     case gget (cc_detachDiskMap c) nodeName of
         None \<Rightarrow> okE 0
       | Some (DetachMap diskMap) \<Rightarrow> okE (int (length diskMap))
       | Some _ \<Rightarrow> failE (errorf (''convert detachDiskMap failure on node('' @ nodeName @ '')''))))"

subsection \<open>What the two queues promise\<close>

text \<open>
  Both queues implement one interface: \<open>enq\<close> adds a request unless the same disk is already pending and
  returns the length of the queue; \<open>tak\<close> takes the whole queue of a node, provided the caller's disk is in
  it. \<open>typed\<close> is the invariant under which the type assertions succeed.

  The goroutines that use a queue form the system \<open>q_step\<close>: each has at most one outstanding request
  (\<open>qs_phase\<close>), takes its batch later or returns early without doing so, and \<open>oth\<close> is any other activity.
  Three ghost fields record the history: how many times a request entered the queue and left it in a batch, and which
  goroutines had their request in a batch that was taken while they waited.
\<close>

record 's qsys =
  qs_state :: 's
  qs_phase :: "nat \<rightharpoonup> string \<times> string"
  qs_served :: "nat set"
  qs_in :: "string \<times> string \<Rightarrow> nat"
  qs_out :: "string \<times> string \<Rightarrow> nat"

type_synonym ('s, 'a) enqueue = "string \<Rightarrow> string \<Rightarrow> 'a \<Rightarrow> 's \<Rightarrow> int result \<times> 's"
type_synonym ('s, 'v) takeall = "string \<Rightarrow> string \<Rightarrow> 's \<Rightarrow> (string, 'v) gomap result \<times> 's"
type_synonym ('s, 'v) pending = "'s \<Rightarrow> string \<Rightarrow> (string, 'v) gomap"

inductive q_step :: "('s, 'a) enqueue \<Rightarrow> ('s, 'v) takeall \<Rightarrow> ('s, 'v) pending \<Rightarrow> ('s \<Rightarrow> 's \<Rightarrow> bool)
    \<Rightarrow> 's qsys \<Rightarrow> 's qsys \<Rightarrow> bool" for enq tak pend oth where
  queue: "qs_phase y t = None \<Longrightarrow> enq n k v (qs_state y) = (Inr c, s') \<Longrightarrow>
    q_step enq tak pend oth y (y\<lparr>qs_state := s', qs_phase := (qs_phase y)(t \<mapsto> (n, k)), qs_served := qs_served y - {t},
      qs_in := (if gget (pend (qs_state y) n) k = None then (qs_in y)((n, k) := Suc (qs_in y (n, k))) else qs_in y)\<rparr>)"
| take: "qs_phase y t = Some (n, k) \<Longrightarrow> tak n k (qs_state y) = (Inr b, s') \<Longrightarrow>
    q_step enq tak pend oth y (y\<lparr>qs_state := s', qs_phase := (qs_phase y)(t := None),
      qs_served := qs_served y \<union> {u. \<exists>k'. qs_phase y u = Some (n, k') \<and> gget b k' \<noteq> None},
      qs_out := (\<lambda>(n', k'). qs_out y (n', k') + (if n' = n \<and> gget b k' \<noteq> None then 1 else 0))\<rparr>)"
| abandon: "qs_phase y t = Some (n, k) \<Longrightarrow> q_step enq tak pend oth y (y\<lparr>qs_phase := (qs_phase y)(t := None)\<rparr>)"
| other: "oth (qs_state y) s' \<Longrightarrow> q_step enq tak pend oth y (y\<lparr>qs_state := s'\<rparr>)"

inductive q_reach :: "('s, 'a) enqueue \<Rightarrow> ('s, 'v) takeall \<Rightarrow> ('s, 'v) pending \<Rightarrow> ('s \<Rightarrow> 's \<Rightarrow> bool)
    \<Rightarrow> 's \<Rightarrow> 's qsys \<Rightarrow> bool" for enq tak pend oth s0 where
  init: "q_reach enq tak pend oth s0 \<lparr>qs_state = s0, qs_phase = Map.empty, qs_served = {}, qs_in = (\<lambda>_. 0), qs_out = (\<lambda>_. 0)\<rparr>"
| step: "q_reach enq tak pend oth s0 y \<Longrightarrow> q_step enq tak pend oth y y' \<Longrightarrow> q_reach enq tak pend oth s0 y'"

lemma q_reach_first:
  assumes "enq n k v s0 = (Inr c, s')"
  shows "q_reach enq tak pend oth s0 \<lparr>qs_state = s', qs_phase = [t \<mapsto> (n, k)], qs_served = {},
    qs_in = (if gget (pend s0 n) k = None then (\<lambda>_. 0)((n, k) := 1) else (\<lambda>_. 0)), qs_out = (\<lambda>_. 0)\<rparr>"
proof -
  let ?y = "\<lparr>qs_state = s0, qs_phase = Map.empty, qs_served = {}, qs_in = (\<lambda>_. 0), qs_out = (\<lambda>_. 0)\<rparr>"
  have "qs_phase ?y t = None" "enq n k v (qs_state ?y) = (Inr c, s')" using assms by simp_all
  from q_step.queue [where enq = enq and tak = tak and pend = pend and oth = oth, OF this]
  have "q_step enq tak pend oth ?y \<lparr>qs_state = s', qs_phase = [t \<mapsto> (n, k)], qs_served = {},
    qs_in = (if gget (pend s0 n) k = None then (\<lambda>_. 0)((n, k) := 1) else (\<lambda>_. 0)), qs_out = (\<lambda>_. 0)\<rparr>"
    by (simp cong: if_cong)
  with q_reach.init show ?thesis by (rule q_reach.step)
qed

locale batch_queue =
  fixes enq :: "('s, 'a) enqueue"
    and tak :: "('s, 'v) takeall"
    and pend :: "('s, 'v) pending"
    and val :: "'a \<Rightarrow> 'v"
    and typed :: "'s \<Rightarrow> bool"
    and oth :: "'s \<Rightarrow> 's \<Rightarrow> bool"
  assumes enq_typed: "typed s \<Longrightarrow> typed (snd (enq n k v s))"
    and tak_typed: "typed s \<Longrightarrow> typed (snd (tak n k s))"
    and oth_keeps: "oth s s' \<Longrightarrow> typed s \<Longrightarrow> typed s' \<and> pend s' = pend s"
    and enq_pend: "typed s \<Longrightarrow> pend (snd (enq n k v s)) n' =
          (if n' = n \<and> gget (pend s n) k = None then gset k (val v) (pend s n) else pend s n')"
    and enq_length: "typed s \<Longrightarrow> fst (enq n k v s) = Inr (int (length (pend (snd (enq n k v s)) n)))"
    and tak_batch: "typed s \<Longrightarrow> fst (tak n k s) = Inr (if gget (pend s n) k = None then [] else pend s n)"
    and tak_pend: "typed s \<Longrightarrow> pend (snd (tak n k s)) n' = (if n' = n \<and> gget (pend s n) k \<noteq> None then [] else pend s n')"
begin

definition consistent :: "'s qsys \<Rightarrow> bool" where
  "consistent y \<longleftrightarrow> typed (qs_state y)
     \<and> (\<forall>n k. qs_in y (n, k) = qs_out y (n, k) + (if gget (pend (qs_state y) n) k = None then 0 else 1))
     \<and> (\<forall>t n k. qs_phase y t = Some (n, k) \<longrightarrow> gget (pend (qs_state y) n) k \<noteq> None \<or> t \<in> qs_served y)"

lemma consistent_step:
  assumes "q_step enq tak pend oth y y'" "consistent y"
  shows "consistent y'"
  using assms
proof (induction rule: q_step.induct)
  case (queue y t n k v c s')
  then have s': "s' = snd (enq n k v (qs_state y))" and ty: "typed (qs_state y)"
    by (auto simp: consistent_def)
  have p: "pend s' n' = (if n' = n \<and> gget (pend (qs_state y) n) k = None then gset k (val v) (pend (qs_state y) n)
      else pend (qs_state y) n')" for n'
    unfolding s' by (rule enq_pend [OF ty])
  show ?case using queue ty enq_typed [OF ty, of n k v] by (auto simp: consistent_def p s' [symmetric])
next
  case (take y t n k b s')
  then have s': "s' = snd (tak n k (qs_state y))" and ty: "typed (qs_state y)"
    and b: "b = (if gget (pend (qs_state y) n) k = None then [] else pend (qs_state y) n)"
    using tak_batch [of "qs_state y" n k] by (auto simp: consistent_def)
  have p: "pend s' n' = (if n' = n \<and> gget (pend (qs_state y) n) k \<noteq> None then [] else pend (qs_state y) n')" for n'
    unfolding s' by (rule tak_pend [OF ty])
  have q: "gget (pend (qs_state y) n') k' = None \<Longrightarrow> qs_phase y u = Some (n', k') \<Longrightarrow> u \<in> qs_served y" for u n' k'
    using take.prems unfolding consistent_def by blast
  show ?case using take ty tak_typed [OF ty, of n k] by (auto simp: consistent_def p b s' [symmetric] dest: q)
next
  case (abandon y t n k)
  then show ?case by (auto simp: consistent_def)
next
  case (other y s')
  then show ?case using oth_keeps [of "qs_state y" s'] by (simp add: consistent_def)
qed

lemma consistent_reach:
  "q_reach enq tak pend oth s0 y \<Longrightarrow> typed s0 \<Longrightarrow> (\<And>n. pend s0 n = []) \<Longrightarrow> consistent y"
proof (induction rule: q_reach.induct)
  case init
  then show ?case by (simp add: consistent_def)
next
  case (step y y')
  then show ?case using consistent_step by blast
qed

lemma taken_batch:
  assumes "consistent y" "qs_phase y t = Some (n, k)"
  obtains b s' where "tak n k (qs_state y) = (Inr b, s')" "gget b k \<noteq> None \<or> b = [] \<and> t \<in> qs_served y"
proof -
  have ty: "typed (qs_state y)" and *: "gget (pend (qs_state y) n) k \<noteq> None \<or> t \<in> qs_served y"
    using assms by (auto simp: consistent_def)
  show ?thesis
    using that [of "if gget (pend (qs_state y) n) k = None then [] else pend (qs_state y) n" "snd (tak n k (qs_state y))"]
      tak_batch [OF ty, of n k] * by (cases "tak n k (qs_state y)") auto
qed

end

subsection \<open>The two queues keep the promise\<close>

definition pendingAttach :: "'w controllerCommon \<Rightarrow> string \<Rightarrow> attach_batch" where
  "pendingAttach c node = (case gget (cc_attachDiskMap c) node of Some (AttachMap m) \<Rightarrow> m | _ \<Rightarrow> [])"

definition pendingDetach :: "'w controllerCommon \<Rightarrow> string \<Rightarrow> smap" where
  "pendingDetach c node = (case gget (cc_detachDiskMap c) node of Some (DetachMap m) \<Rightarrow> m | _ \<Rightarrow> [])"

definition attachTyped :: "'w controllerCommon \<Rightarrow> bool" where
  "attachTyped c \<longleftrightarrow> (\<forall>node a. gget (cc_attachDiskMap c) node = Some a \<longrightarrow> (\<exists>m. a = AttachMap m))"

definition detachTyped :: "'w controllerCommon \<Rightarrow> bool" where
  "detachTyped c \<longleftrightarrow> (\<forall>node a. gget (cc_detachDiskMap c) node = Some a \<longrightarrow> (\<exists>m. a = DetachMap m))"

definition attachEnq :: "('w controllerCommon, AttachDiskOptions) enqueue" where
  "attachEnq node diskURI options = run_state (batchAttachDiskRequest diskURI node options)"

definition attachTake :: "('w controllerCommon, AttachDiskOptions option) takeall" where
  "attachTake node diskURI = run_state (retrieveAttachBatchedDiskRequests node diskURI)"

definition detachEnq :: "('w controllerCommon, string) enqueue" where
  "detachEnq node diskURI diskName = run_state (batchDetachDiskRequest diskName diskURI node)"

definition detachTake :: "('w controllerCommon, string) takeall" where
  "detachTake node diskURI = run_state (retrieveDetachBatchedDiskRequests node diskURI)"

lemma run_locking:
  "run_state (locking e m) c = (case run_state m (c\<lparr>cc_lockMap := snd (LockEntry e (cc_lockMap c))\<rparr>) of
     (r, c') \<Rightarrow> (r, c'\<lparr>cc_lockMap := unlocked e (cc_lockMap c')\<rparr>))"
  by (simp add: locking_def split: prod.split)

lemmas attach_queue_defs = attachEnq_def attachTake_def batchAttachDiskRequest_def
  retrieveAttachBatchedDiskRequests_def insertAttach_def attachTyped_def pendingAttach_def

lemmas detach_queue_defs = detachEnq_def detachTake_def batchDetachDiskRequest_def
  retrieveDetachBatchedDiskRequests_def insertDetach_def detachTyped_def pendingDetach_def

interpretation aq: batch_queue attachEnq attachTake pendingAttach Some attachTyped
  "\<lambda>c c'. cc_attachDiskMap c' = cc_attachDiskMap c"
proof (unfold_locales, goal_cases)
  case (3 c c')
  then show ?case by (auto simp: attachTyped_def pendingAttach_def fun_eq_iff)
qed (auto simp: attach_queue_defs run_locking Let_def split: option.splits any.splits if_splits)

interpretation dq: batch_queue detachEnq detachTake pendingDetach "\<lambda>v. v" detachTyped
  "\<lambda>c c'. cc_detachDiskMap c' = cc_detachDiskMap c"
proof (unfold_locales, goal_cases)
  case (3 c c')
  then show ?case by (auto simp: detachTyped_def pendingDetach_def fun_eq_iff)
qed (auto simp: detach_queue_defs run_locking Let_def split: option.splits any.splits if_splits)

subsection \<open>Properties\<close>

definition exampleController :: "unit controllerCommon" where
  "exampleController = \<lparr>cc_diskStateMap = [], cc_lockMap = newLockMap, cc_hasNodeLister = False, cc_attachDiskMap = [],
     cc_detachDiskMap = [], cc_DisableDiskLunCheck = False, cc_DetachOperationMinTimeoutInSeconds = 240,
     cc_AttachDetachInitialDelayInMs = 1000, cc_VMSSDetachTimeoutInSeconds = 200, cc_ForceDetachBackoff = True,
     cc_WaitForDetach = True, cc_CheckDiskCountForBatching = False, cc_WaitForDetachDiskComplete = True,
     cc_hitMaxDataDiskCountCache = \<lparr>tc_TTL = 300, tc_Store = []\<rparr>, cc_world = ()\<rparr>"

definition exampleOptions :: AttachDiskOptions where
  "exampleOptions = \<lparr>ao_CachingMode = ''None'', ao_DiskName = ''d'', ao_DiskEncryptionSetID = [],
     ao_WriteAcceleratorEnabled = False, ao_Lun = -1\<rparr>"

text \<open>(C13) The attach queue loses and duplicates no entry, however the goroutines interleave: a disk has been taken in as many
  batches as it entered the queue of its node times, one less while it is still pending; and a goroutine that comes to take its
  batch never hits the type-assertion error, and either gets a batch with its own disk or gets nothing because another
  goroutine took its disk in a batch while it waited. (What \<open>AttachDisk\<close> does with a batch it has taken, such as leaving out disks above the
  limit of the node, and a disk that is enqueued again later, are not part of the claim.)\<close>

theorem attach_requests_accounted:
  assumes "q_reach attachEnq attachTake pendingAttach (\<lambda>c c'. cc_attachDiskMap c' = cc_attachDiskMap c) c0 y"
    and "cc_attachDiskMap c0 = []"
  shows "(\<forall>n k. qs_in y (n, k) = qs_out y (n, k) + (if gget (pendingAttach (qs_state y) n) k = None then 0 else 1))
    \<and> (\<forall>t n k. qs_phase y t = Some (n, k) \<longrightarrow> (\<exists>b c'. attachTake n k (qs_state y) = (Inr b, c')
         \<and> (gget b k \<noteq> None \<or> b = [] \<and> t \<in> qs_served y)))"
proof -
  have "aq.consistent y"
    by (rule aq.consistent_reach [OF assms(1)]) (simp_all add: assms(2) attachTyped_def pendingAttach_def)
  then show ?thesis using aq.taken_batch unfolding aq.consistent_def by metis
qed

theorem attach_requests_accounted_witness:
  "\<exists>y :: unit controllerCommon qsys. qs_in y (''n'', ''u'') = 1 \<and> qs_out y (''n'', ''u'') = 0 \<and>
     (\<exists>b c'. attachTake ''n'' ''u'' (qs_state y) = (Inr b, c') \<and> (gget b ''u'' \<noteq> None \<or> b = [] \<and> 7 \<in> qs_served y))"
proof -
  obtain c c' where e: "attachEnq ''n'' ''u'' exampleOptions exampleController = (Inr c, c')"
    by (simp add: attachEnq_def batchAttachDiskRequest_def run_locking exampleController_def Let_def)
  have c0: "cc_attachDiskMap exampleController = []" by (simp add: exampleController_def)
  define y where "y = \<lparr>qs_state = c', qs_phase = [7 \<mapsto> (''n'', ''u'')], qs_served = {},
    qs_in = (\<lambda>_. 0)((''n'', ''u'') := 1), qs_out = (\<lambda>_. 0)\<rparr>"
  have y: "q_reach attachEnq attachTake pendingAttach (\<lambda>c c'. cc_attachDiskMap c' = cc_attachDiskMap c) exampleController y"
    using q_reach_first [where enq = attachEnq and tak = attachTake and pend = pendingAttach and t = 7, OF e] by (simp add: y_def pendingAttach_def c0)
  have "qs_phase y 7 = Some (''n'', ''u'')" "qs_in y (''n'', ''u'') = 1" "qs_out y (''n'', ''u'') = 0"
    by (simp_all add: y_def)
  then show ?thesis using attach_requests_accounted [OF y c0] by blast
qed

text \<open>The same accounting for detach requests.\<close>

theorem detach_requests_accounted:
  assumes "q_reach detachEnq detachTake pendingDetach (\<lambda>c c'. cc_detachDiskMap c' = cc_detachDiskMap c) c0 y"
    and "cc_detachDiskMap c0 = []"
  shows "(\<forall>n k. qs_in y (n, k) = qs_out y (n, k) + (if gget (pendingDetach (qs_state y) n) k = None then 0 else 1))
    \<and> (\<forall>t n k. qs_phase y t = Some (n, k) \<longrightarrow> (\<exists>b c'. detachTake n k (qs_state y) = (Inr b, c')
         \<and> (gget b k \<noteq> None \<or> b = [] \<and> t \<in> qs_served y)))"
proof -
  have "dq.consistent y"
    by (rule dq.consistent_reach [OF assms(1)]) (simp_all add: assms(2) detachTyped_def pendingDetach_def)
  then show ?thesis using dq.taken_batch unfolding dq.consistent_def by metis
qed

theorem detach_requests_accounted_witness:
  "\<exists>(y :: unit controllerCommon qsys) b c'. detachTake ''n'' ''u'' (qs_state y) = (Inr b, c') \<and> (gget b ''u'' \<noteq> None \<or> b = [] \<and> 3 \<in> qs_served y)"
proof -
  obtain c c' where e: "detachEnq ''n'' ''u'' ''d'' exampleController = (Inr c, c')"
    by (simp add: detachEnq_def batchDetachDiskRequest_def run_locking exampleController_def Let_def)
  have c0: "cc_detachDiskMap exampleController = []" by (simp add: exampleController_def)
  define y where "y = \<lparr>qs_state = c', qs_phase = [3 \<mapsto> (''n'', ''u'')], qs_served = {},
    qs_in = (\<lambda>_. 0)((''n'', ''u'') := 1), qs_out = (\<lambda>_. 0)\<rparr>"
  have y: "q_reach detachEnq detachTake pendingDetach (\<lambda>c c'. cc_detachDiskMap c' = cc_detachDiskMap c) exampleController y"
    using q_reach_first [where enq = detachEnq and tak = detachTake and pend = pendingDetach and t = 3, OF e] by (simp add: y_def pendingDetach_def c0)
  have "qs_phase y 3 = Some (''n'', ''u'')" by (simp add: y_def)
  then show ?thesis using detach_requests_accounted [OF y c0] by blast
qed

end
