(* ===== verification/DiskLuns.thy ===== *)
theory DiskLuns
  imports DiskQueue
begin

text \<open>
  The pure parts of \<open>azure_controller_common.go\<close>: finding the LUN of a disk in the data disks of a VM
  (\<open>GetDiskLun\<close>), allocating LUNs to a batch of attach requests (\<open>SetDiskLun\<close>), the caching mode of a large
  disk and the classification of detach errors. Error texts that print a whole map are cut before the map.
\<close>

definition diskCachingLimit :: int where
  "diskCachingLimit = 4096"

definition maxLUN :: nat where
  "maxLUN = 64"

definition detachInProgress :: string where
  "detachInProgress = ''detach in progress''"

definition effectiveCachingModeForDisk :: "string \<Rightarrow> int option \<Rightarrow> string" where
  "effectiveCachingModeForDisk cachingMode diskSizeGB = (case diskSizeGB of
     None \<Rightarrow> cachingMode
   | Some sz \<Rightarrow> if sz \<ge> diskCachingLimit \<and> cachingMode \<noteq> ''None'' then ''None'' else cachingMode)"

definition isInstanceNotFoundError :: "goerror \<Rightarrow> bool" where
  "isInstanceNotFoundError err =
     (let notFound = (case find (\<lambda>k. case k of ResponseError _ \<Rightarrow> True | _ \<Rightarrow> False) (ekind err # ewraps err) of
            Some (ResponseError statusCode) \<Rightarrow> statusCode = 404 | _ \<Rightarrow> False);
          errMsg = ToLower (emsg err)
      in if notFound then True
         else if Contains errMsg (ToLower VmssVMNotActiveErrorMessage) then True
         else Contains errMsg ''statuscode=400'' \<and> Contains errMsg ''code=\"invalidparameter\"''
              \<and> Contains errMsg ''target=\"instanceids\"'')"

definition preemptedByForceOperation :: "goerror \<Rightarrow> bool" where
  "preemptedByForceOperation err = Contains (ToLower (emsg err)) (ToLower ''DataDisksForceDetached'')"

subsection \<open>Finding a disk\<close>

text \<open>
  The condition of \<open>GetDiskLun\<close>: in Go \<open>&&\<close> binds tighter than \<open>||\<close>, so the test \<open>disk.Lun != nil\<close> guards the
  name comparison only. Dereferencing a nil \<open>ManagedDisk.ID\<close> panics.
\<close>

definition matchesDisk :: "DataDisk \<Rightarrow> string \<Rightarrow> string \<Rightarrow> bool result" where
  "matchesDisk disk diskName diskURI =
     (if dd_Lun disk \<noteq> None \<and> (case dd_Name disk of None \<Rightarrow> False | Some n \<Rightarrow> diskName \<noteq> [] \<and> EqualFold n diskName)
         \<or> (case dd_VhdURI disk of Some (Some u) \<Rightarrow> diskURI \<noteq> [] \<and> EqualFold u diskURI | _ \<Rightarrow> False)
      then Inr True
      else case dd_ManagedDiskID disk of
          None \<Rightarrow> Inr False
        | Some None \<Rightarrow> Inl (panicf ''nil pointer dereference'')
        | Some (Some i) \<Rightarrow> Inr (EqualFold i diskURI))"

fun findDiskLun :: "string \<Rightarrow> string \<Rightarrow> string \<Rightarrow> DataDisk list \<Rightarrow> int result" where
  "findDiskLun diskName diskURI nodeName [] = Inl (errorf (CannotFindDiskLUN @ '' for disk '' @ diskName))"
| "findDiskLun diskName diskURI nodeName (disk # disks) = (case matchesDisk disk diskName diskURI of
     Inl e \<Rightarrow> Inl e
   | Inr False \<Rightarrow> findDiskLun diskName diskURI nodeName disks
   | Inr True \<Rightarrow> (case dd_Lun disk of
         None \<Rightarrow> Inl (panicf ''nil pointer dereference'')
       | Some lun \<Rightarrow>
           if dd_ToBeDetached disk = Some True
           then Inl (errorf (''disk('' @ diskURI @ '') is in ToBeDetached state on node('' @ nodeName @ ''): '' @ detachInProgress))
           else Inr lun))"

subsection \<open>Allocating LUNs\<close>

text \<open>
  The first loop: mark the LUNs the VM uses, and when the caller's disk is not in the batch look for it on the VM.
  Indexing outside \<open>used\<close> panics.
\<close>

fun markUsed :: "bool \<Rightarrow> string \<Rightarrow> DataDisk list \<Rightarrow> bool list \<Rightarrow> int \<Rightarrow> (bool list \<times> int) result" where
  "markUsed isDiskInMap diskURI [] used lun = Inr (used, lun)"
| "markUsed isDiskInMap diskURI (disk # disks) used lun = (case dd_Lun disk of
     None \<Rightarrow> markUsed isDiskInMap diskURI disks used lun
   | Some l \<Rightarrow>
       if l < 0 \<or> int (length used) \<le> l then Inl (panicf ''index out of range'')
       else let used' = used[nat l := True] in
         if isDiskInMap then markUsed isDiskInMap diskURI disks used' lun
         else case dd_ManagedDiskID disk of
             None \<Rightarrow> markUsed isDiskInMap diskURI disks used' lun
           | Some None \<Rightarrow> Inl (panicf ''nil pointer dereference'')
           | Some (Some i) \<Rightarrow> markUsed isDiskInMap diskURI disks used' (if EqualFold i diskURI then l else lun))"

fun markOccupied :: "int list \<Rightarrow> bool list \<Rightarrow> bool list" where
  "markOccupied [] used = used"
| "markOccupied (lun # luns) used =
     markOccupied luns (if 0 \<le> lun \<and> lun < int maxLUN then used[nat lun := True] else used)"

text \<open>The LUNs that are free, in order, at most \<open>n\<close> of them; \<open>k\<close> is the index of the head of the list.\<close>

fun collectLuns :: "nat \<Rightarrow> bool list \<Rightarrow> nat \<Rightarrow> int list" where
  "collectLuns k [] n = []"
| "collectLuns k (v # vs) n =
     (if v then collectLuns (Suc k) vs n
      else int k # (if n \<le> 1 then [] else collectLuns (Suc k) vs (n - 1)))"

fun assignLuns :: "string \<Rightarrow> attach_batch \<Rightarrow> int list \<Rightarrow> int \<Rightarrow> (int \<times> attach_batch) result" where
  "assignLuns diskURI ((uri, opt) # m) (l # ls) lun = (case opt of
     None \<Rightarrow> Inl (errorf ''unexpected nil pointer in diskMap'')
   | Some opts \<Rightarrow> (case assignLuns diskURI m ls (if EqualFold uri diskURI then l else lun) of
         Inl e \<Rightarrow> Inl e
       | Inr (lun', m') \<Rightarrow> Inr (lun', (uri, Some (opts\<lparr>ao_Lun := l\<rparr>)) # m')))"
| "assignLuns diskURI m ls lun = Inr (lun, m)"

text \<open>\<open>SetDiskLun\<close> after it has read the data disks: the LUN of \<open>diskURI\<close> and the batch with its LUNs.\<close>

definition allocateLuns :: "DataDisk list \<Rightarrow> string \<Rightarrow> attach_batch \<Rightarrow> int list \<Rightarrow> (int \<times> attach_batch) result" where
  "allocateLuns disks diskURI diskMap occupiedLuns =
     (let isDiskInMap = gget diskMap diskURI \<noteq> None
      in case markUsed isDiskInMap diskURI disks (replicate maxLUN False) (- 1) of
          Inl e \<Rightarrow> Inl e
        | Inr (used, lun) \<Rightarrow>
            if \<not> isDiskInMap \<and> lun < 0 then Inl (errorf (''could not find disk('' @ diskURI @ '') in current disk list''))
            else if diskMap = [] then Inr (lun, diskMap)
            else let diskLuns = collectLuns 0 (markOccupied occupiedLuns used) (length diskMap)
              in if length diskLuns \<noteq> length diskMap then Inl (errorf ''could not find enough disk luns'')
              else case assignLuns diskURI diskMap diskLuns lun of
                  Inl e \<Rightarrow> Inl e
                | Inr (lun', diskMap') \<Rightarrow>
                    if lun' < 0 then Inl (errorf (''could not find lun of diskURI('' @ diskURI @ '')''))
                    else Inr (lun', diskMap'))"

text \<open>The specification: the LUNs a batch may use.\<close>

definition freeLuns :: "DataDisk list \<Rightarrow> int list \<Rightarrow> nat set" where
  "freeLuns disks occupiedLuns =
     {l. l < maxLUN \<and> Some (int l) \<notin> dd_Lun ` set disks \<and> int l \<notin> set occupiedLuns}"

definition lunsInRange :: "DataDisk list \<Rightarrow> bool" where
  "lunsInRange disks \<longleftrightarrow> (\<forall>d \<in> set disks. \<forall>l. dd_Lun d = Some l \<longrightarrow> 0 \<le> l \<and> l < int maxLUN)"

subsection \<open>Lemmas\<close>

lemma markUsed_inMap:
  assumes "\<forall>d \<in> set disks. \<forall>l. dd_Lun d = Some l \<longrightarrow> 0 \<le> l \<and> l < int (length used)"
  shows "\<exists>used'. markUsed True uri disks used lun = Inr (used', lun) \<and> length used' = length used
    \<and> (\<forall>i < length used. used' ! i \<longleftrightarrow> used ! i \<or> Some (int i) \<in> dd_Lun ` set disks)"
  using assms
proof (induction disks arbitrary: used)
  case (Cons d ds)
  show ?case
  proof (cases "dd_Lun d")
    case None
    then show ?thesis using Cons by auto
  next
    case (Some l)
    with Cons.prems have l: "0 \<le> l" "l < int (length used)" by auto
    from Cons.IH [of "used[nat l := True]"] Cons.prems obtain used' where
      u: "markUsed True uri ds (used[nat l := True]) lun = Inr (used', lun)" "length used' = length used"
        "\<forall>i < length used. used' ! i \<longleftrightarrow> used[nat l := True] ! i \<or> Some (int i) \<in> dd_Lun ` set ds"
      by auto
    have "used' ! i \<longleftrightarrow> used ! i \<or> Some (int i) \<in> dd_Lun ` set (d # ds)" if "i < length used" for i
      using u(3) that Some l by (auto simp: nth_list_update)
    with u Some l show ?thesis by simp
  qed
qed simp

lemma length_markOccupied [simp]: "length (markOccupied occ used) = length used"
  by (induction occ arbitrary: used) auto

lemma nth_markOccupied:
  "length used = maxLUN \<Longrightarrow> i < maxLUN \<Longrightarrow> markOccupied occ used ! i \<longleftrightarrow> used ! i \<or> int i \<in> set occ"
  by (induction occ arbitrary: used) (auto simp: nth_list_update split: if_splits)

lemma collectLuns_eq: "0 < n \<Longrightarrow> collectLuns k used n = map int (take n (filter (\<lambda>i. \<not> used ! (i - k)) [k..<k + length used]))"
proof (induction k used n rule: collectLuns.induct)
  case (2 k v vs n)
  have "[k..<k + length (v # vs)] = k # [Suc k..<Suc k + length vs]"
    using upt_conv_Cons [of k "k + Suc (length vs)"] by simp
  moreover have "filter (\<lambda>i. \<not> (v # vs) ! (i - k)) [Suc k..<Suc k + length vs] = filter (\<lambda>i. \<not> vs ! (i - Suc k)) [Suc k..<Suc k + length vs]"
    by (rule filter_cong) (auto simp: nth_Cons')
  ultimately have e: "filter (\<lambda>i. \<not> (v # vs) ! (i - k)) [k..<k + length (v # vs)]
      = (if v then [] else [k]) @ filter (\<lambda>i. \<not> vs ! (i - Suc k)) [Suc k..<Suc k + length vs]"
    by (simp only: filter.simps) simp
  show ?case
  proof (cases v)
    case True
    then show ?thesis using 2 unfolding e by simp
  next
    case False
    show ?thesis
    proof (cases "n \<le> 1")
      case True
      then show ?thesis using \<open>\<not> v\<close> 2(3) unfolding e by (simp add: take_Cons')
    next
      case n: False
      then show ?thesis using False 2(2) [OF False n] unfolding e by (simp add: take_Cons')
    qed
  qed
qed simp

lemma assignLuns_ok:
  assumes "length ls = length m" "\<forall>(u, opt) \<in> set m. opt \<noteq> None"
  shows "\<exists>lun'. assignLuns uri m ls lun = Inr (lun', map2 (\<lambda>(u, opt) l. (u, map_option (\<lambda>x. x\<lparr>ao_Lun := l\<rparr>) opt)) m ls)
    \<and> (lun' = lun \<and> (\<forall>u \<in> fst ` set m. \<not> EqualFold u uri)
       \<or> (\<exists>i < length m. EqualFold (fst (m ! i)) uri \<and> lun' = ls ! i \<and> (\<forall>j < length m. i < j \<longrightarrow> \<not> EqualFold (fst (m ! j)) uri)))"
  using assms
proof (induction m arbitrary: ls lun)
  case (Cons x m)
  obtain u o' where x: "x = (u, Some o')" using Cons.prems(2) by (cases x) auto
  obtain l ls' where ls: "ls = l # ls'" using Cons.prems(1) by (cases ls) auto
  let ?lun = "if EqualFold u uri then l else lun"
  from Cons.IH [of ls' ?lun] Cons.prems obtain lun' where
    a: "assignLuns uri m ls' ?lun = Inr (lun', map2 (\<lambda>(u, opt) l. (u, map_option (\<lambda>x. x\<lparr>ao_Lun := l\<rparr>) opt)) m ls')"
    and b: "lun' = ?lun \<and> (\<forall>u \<in> fst ` set m. \<not> EqualFold u uri)
      \<or> (\<exists>i < length m. EqualFold (fst (m ! i)) uri \<and> lun' = ls' ! i \<and> (\<forall>j < length m. i < j \<longrightarrow> \<not> EqualFold (fst (m ! j)) uri))"
    by (auto simp: ls)
  from b have "lun' = lun \<and> (\<forall>u \<in> fst ` set (x # m). \<not> EqualFold u uri)
       \<or> (\<exists>i < length (x # m). EqualFold (fst ((x # m) ! i)) uri \<and> lun' = ls ! i
          \<and> (\<forall>j < length (x # m). i < j \<longrightarrow> \<not> EqualFold (fst ((x # m) ! j)) uri))"
  proof
    assume "lun' = ?lun \<and> (\<forall>u \<in> fst ` set m. \<not> EqualFold u uri)"
    then show ?thesis by (cases "EqualFold u uri") (auto simp: x ls nth_Cons split: nat.splits intro: exI [of _ 0])
  next
    assume "\<exists>i < length m. EqualFold (fst (m ! i)) uri \<and> lun' = ls' ! i \<and> (\<forall>j < length m. i < j \<longrightarrow> \<not> EqualFold (fst (m ! j)) uri)"
    then obtain i where "i < length m" "EqualFold (fst (m ! i)) uri" "lun' = ls' ! i" "\<forall>j < length m. i < j \<longrightarrow> \<not> EqualFold (fst (m ! j)) uri"
      by blast
    then show ?thesis by (intro disjI2 exI [of _ "Suc i"]) (auto simp: ls nth_Cons split: nat.splits)
  qed
  with a show ?case by (simp add: x ls)
qed simp

text \<open>The free LUNs in increasing order, as \<open>SetDiskLun\<close> finds them.\<close>

definition sortedFree :: "DataDisk list \<Rightarrow> int list \<Rightarrow> nat list" where
  "sortedFree disks occ = filter (\<lambda>l. l \<in> freeLuns disks occ) [0..<maxLUN]"

lemma sortedFree [simp]:
  "set (sortedFree disks occ) = freeLuns disks occ" "distinct (sortedFree disks occ)"
  "length (sortedFree disks occ) = card (freeLuns disks occ)"
proof -
  show s: "set (sortedFree disks occ) = freeLuns disks occ" and d: "distinct (sortedFree disks occ)"
    by (auto simp: sortedFree_def freeLuns_def)
  show "length (sortedFree disks occ) = card (freeLuns disks occ)"
    using distinct_card [OF d] s by simp
qed

lemma collect_free:
  assumes "lunsInRange disks" "0 < n"
  obtains used where "markUsed True uri disks (replicate maxLUN False) lun = Inr (used, lun)"
    "collectLuns 0 (markOccupied occ used) n = map int (take n (sortedFree disks occ))"
proof -
  from markUsed_inMap [of disks "replicate maxLUN False" uri lun] assms(1)
  obtain used where u: "markUsed True uri disks (replicate maxLUN False) lun = Inr (used, lun)"
    "length used = maxLUN" "\<forall>i < maxLUN. used ! i \<longleftrightarrow> Some (int i) \<in> dd_Lun ` set disks"
    by (auto simp: lunsInRange_def)
  have "filter (\<lambda>i. \<not> markOccupied occ used ! i) [0..<maxLUN] = sortedFree disks occ"
    unfolding sortedFree_def by (rule filter_cong) (use u nth_markOccupied [OF u(2)] in \<open>auto simp: freeLuns_def\<close>)
  then show ?thesis using that u collectLuns_eq [OF assms(2), of 0 "markOccupied occ used"] by simp
qed

text \<open>What a correct allocation is: every request of the batch keeps its options and gets a LUN of its own that is
  free on the VM and not reserved, and the LUN returned is the one of the caller's disk.\<close>

definition validAllocation :: "DataDisk list \<Rightarrow> int list \<Rightarrow> string \<Rightarrow> attach_batch \<Rightarrow> int \<Rightarrow> attach_batch \<Rightarrow> bool" where
  "validAllocation disks occ uri m lun m' \<longleftrightarrow>
     map fst m' = map fst m \<and> (\<exists>luns. distinct luns \<and> set luns \<subseteq> freeLuns disks occ \<and> length luns = length m
       \<and> map snd m' = map2 (\<lambda>opt l. map_option (\<lambda>x. x\<lparr>ao_Lun := int l\<rparr>) opt) (map snd m) luns)
     \<and> (\<exists>opts. gget m' uri = Some (Some opts) \<and> ao_Lun opts = lun)"

lemma map2_fst_snd:
  "length ls = length m \<Longrightarrow> map fst (map2 (\<lambda>(u, opt) l. (u, f l opt)) m ls) = map fst m"
  "length ls = length m \<Longrightarrow> map snd (map2 (\<lambda>(u, opt) l. (u, f l opt)) m ls) = map2 (\<lambda>opt l. f l opt) (map snd m) ls"
  by (induction m ls rule: list_induct2') auto

lemma gget_nth: "wf_map m \<Longrightarrow> i < length m \<Longrightarrow> gget m (fst (m ! i)) = Some (snd (m ! i))"
  by (simp add: gget_eq_Some_iff)

lemma allocateLuns_inMap:
  assumes "lunsInRange disks" "wf_map m" "gget m uri \<noteq> None" "\<forall>(u, opt) \<in> set m. opt \<noteq> None"
    and lower: "ToLower uri = uri" "\<forall>u \<in> fst ` set m. ToLower u = u"
    and enough: "length m \<le> card (freeLuns disks occ)"
  shows "\<exists>lun m'. allocateLuns disks uri m occ = Inr (lun, m') \<and> validAllocation disks occ uri m lun m'"
proof -
  have ne: "m \<noteq> []" using assms(3) by auto
  let ?ls = "map int (take (length m) (sortedFree disks occ))"
  let ?m' = "map2 (\<lambda>(u, opt) l. (u, map_option (\<lambda>x. x\<lparr>ao_Lun := l\<rparr>) opt)) m ?ls"
  have len: "length ?ls = length m" using enough by simp
  obtain used where u: "markUsed True uri disks (replicate maxLUN False) (- 1) = Inr (used, - 1)"
    "collectLuns 0 (markOccupied occ used) (length m) = ?ls"
    using collect_free [OF assms(1), of "length m" uri "- 1" occ] ne by auto
  from assignLuns_ok [OF len assms(4), of uri "- 1"] obtain lun where
    a: "assignLuns uri m ?ls (- 1) = Inr (lun, ?m')"
    and b: "lun = - 1 \<and> (\<forall>u \<in> fst ` set m. \<not> EqualFold u uri)
       \<or> (\<exists>i < length m. EqualFold (fst (m ! i)) uri \<and> lun = ?ls ! i \<and> (\<forall>j < length m. i < j \<longrightarrow> \<not> EqualFold (fst (m ! j)) uri))"
    by blast
  have "uri \<in> fst ` set m" using assms(3) by (simp add: gget_eq_None_iff)
  then have "\<not> (\<forall>u \<in> fst ` set m. \<not> EqualFold u uri)" unfolding EqualFold_def by blast
  with b obtain i where i: "i < length m" "EqualFold (fst (m ! i)) uri" "lun = ?ls ! i" by blast
  have "fst (m ! i) \<in> fst ` set m" using i(1) by simp
  then have fi: "fst (m ! i) = uri" using lower i(2) unfolding EqualFold_def by metis
  have lun0: "0 \<le> lun" using i len by auto
  obtain opts where opts: "snd (m ! i) = Some opts" using assms(4) nth_mem [OF i(1)] by fastforce
  have keys: "map fst ?m' = map fst m" by (rule map2_fst_snd(1) [OF len])
  have wf': "wf_map ?m'" using assms(2) unfolding wf_map_def keys by simp
  have "?m' ! i = (uri, Some (opts\<lparr>ao_Lun := lun\<rparr>))"
    using i len fi opts by (simp add: case_prod_beta)
  then have g: "gget ?m' uri = Some (Some (opts\<lparr>ao_Lun := lun\<rparr>))"
    using gget_nth [OF wf', of i] i(1) len by simp
  have "validAllocation disks occ uri m lun ?m'"
    unfolding validAllocation_def
  proof (intro conjI exI)
    show "map fst ?m' = map fst m" by (rule keys)
    show "distinct (take (length m) (sortedFree disks occ))" by simp
    show "set (take (length m) (sortedFree disks occ)) \<subseteq> freeLuns disks occ"
      using set_take_subset [of "length m" "sortedFree disks occ"] by simp
    show "length (take (length m) (sortedFree disks occ)) = length m" using len by simp
    show "map snd ?m' = map2 (\<lambda>opt l. map_option (\<lambda>x. x\<lparr>ao_Lun := int l\<rparr>) opt) (map snd m) (take (length m) (sortedFree disks occ))"
      unfolding map2_fst_snd(2) [OF len] by (simp add: zip_map2 case_prod_beta comp_def)
    show "gget ?m' uri = Some (Some (opts\<lparr>ao_Lun := lun\<rparr>))" by (rule g)
  qed simp
  moreover have "allocateLuns disks uri m occ = Inr (lun, ?m')"
    using assms(3) u a len ne lun0 by (simp add: allocateLuns_def Let_def)
  ultimately show ?thesis by blast
qed

lemma allocateLuns_short:
  assumes "lunsInRange disks" "gget m uri \<noteq> None" and few: "card (freeLuns disks occ) < length m"
  shows "allocateLuns disks uri m occ = Inl (errorf ''could not find enough disk luns'')"
proof -
  have ne: "m \<noteq> []" using assms(2) by auto
  obtain used where "markUsed True uri disks (replicate maxLUN False) (- 1) = Inr (used, - 1)"
    "collectLuns 0 (markOccupied occ used) (length m) = map int (take (length m) (sortedFree disks occ))"
    using collect_free [OF assms(1), of "length m" uri "- 1" occ] ne by auto
  with few ne assms(2) show ?thesis by (simp add: allocateLuns_def Let_def)
qed

text \<open>The data disk that \<open>GetDiskLun\<close> means: same name, same VHD or same managed disk, up to case.\<close>

definition denotes :: "DataDisk \<Rightarrow> string \<Rightarrow> string \<Rightarrow> bool" where
  "denotes disk diskName diskURI \<longleftrightarrow>
     (\<exists>n. dd_Name disk = Some n \<and> diskName \<noteq> [] \<and> EqualFold n diskName)
     \<or> (\<exists>u. dd_VhdURI disk = Some (Some u) \<and> diskURI \<noteq> [] \<and> EqualFold u diskURI)
     \<or> (\<exists>i. dd_ManagedDiskID disk = Some (Some i) \<and> EqualFold i diskURI)"

definition completeDisk :: "DataDisk \<Rightarrow> bool" where
  "completeDisk disk \<longleftrightarrow> dd_Lun disk \<noteq> None \<and> dd_ManagedDiskID disk \<noteq> Some None"

lemma matchesDisk_complete: "completeDisk d \<Longrightarrow> matchesDisk d diskName diskURI = Inr (denotes d diskName diskURI)"
  by (auto simp: matchesDisk_def denotes_def completeDisk_def split: option.splits)

lemma findDiskLun_complete:
  assumes "\<forall>d \<in> set disks. completeDisk d"
  shows "findDiskLun diskName diskURI node disks = (case find (\<lambda>d. denotes d diskName diskURI) disks of
     None \<Rightarrow> Inl (errorf (CannotFindDiskLUN @ '' for disk '' @ diskName))
   | Some d \<Rightarrow> if dd_ToBeDetached d = Some True
       then Inl (errorf (''disk('' @ diskURI @ '') is in ToBeDetached state on node('' @ node @ ''): '' @ detachInProgress))
       else Inr (the (dd_Lun d)))"
  using assms by (induction disks) (auto simp: matchesDisk_complete completeDisk_def split: bool.splits)

lemma findDiskLun_Inr:
  "findDiskLun diskName diskURI node disks = Inr lun \<Longrightarrow>
     \<exists>d \<in> set disks. denotes d diskName diskURI \<and> dd_Lun d = Some lun \<and> dd_ToBeDetached d \<noteq> Some True"
proof (induction disks)
  case (Cons d ds)
  show ?case
  proof (cases "matchesDisk d diskName diskURI")
    case (Inr b)
    show ?thesis
    proof (cases b)
      case True
      with Cons.prems Inr have "denotes d diskName diskURI \<and> dd_Lun d = Some lun \<and> dd_ToBeDetached d \<noteq> Some True"
        by (auto simp: matchesDisk_def denotes_def split: option.splits if_splits)
      then show ?thesis by auto
    qed (use Cons Inr in auto)
  qed (use Cons.prems in simp)
qed simp

subsection \<open>Properties\<close>

text \<open>(C3) LUN allocation is sound and complete: for a batch that has the caller's disk, on a VM whose data disks have
  LUNs in range, it succeeds exactly when enough LUNs are free, and then every request of the batch gets a LUN of its
  own below 64 that no data disk of the VM has and no pending attachment has reserved, its other options are
  untouched, and the LUN returned is the one given to the caller's disk.\<close>

theorem SetDiskLun_allocation:
  assumes "lunsInRange disks" "wf_map m" "gget m uri \<noteq> None" "\<forall>(u, opt) \<in> set m. opt \<noteq> None"
    and "ToLower uri = uri" "\<forall>u \<in> fst ` set m. ToLower u = u"
  shows "if length m \<le> card (freeLuns disks occ)
     then \<exists>lun m'. allocateLuns disks uri m occ = Inr (lun, m') \<and> validAllocation disks occ uri m lun m'
     else allocateLuns disks uri m occ = Inl (errorf ''could not find enough disk luns'')"
  using allocateLuns_inMap [OF assms] allocateLuns_short [OF assms(1,3)] by (simp add: not_le)

definition exampleDataDisk :: "int \<Rightarrow> DataDisk" where
  "exampleDataDisk l = \<lparr>dd_Lun = Some l, dd_Name = Some ''other'', dd_VhdURI = None, dd_ManagedDiskID = Some (Some ''/other''),
     dd_ToBeDetached = None\<rparr>"

theorem SetDiskLun_allocation_witness:
  "\<exists>lun m'. allocateLuns [exampleDataDisk 0] ''/u'' [(''/v'', Some exampleOptions), (''/u'', Some exampleOptions)] [1]
       = Inr (lun, m') \<and> validAllocation [exampleDataDisk 0] [1] ''/u'' [(''/v'', Some exampleOptions), (''/u'', Some exampleOptions)] lun m'"
proof -
  let ?m = "[(''/v'', Some exampleOptions), (''/u'', Some exampleOptions)]"
  have "{2, 3} \<subseteq> freeLuns [exampleDataDisk 0] [1]"
    by (auto simp: freeLuns_def exampleDataDisk_def maxLUN_def)
  moreover have "finite (freeLuns [exampleDataDisk 0] [1])" by (simp add: freeLuns_def)
  ultimately have "card {2, 3 :: nat} \<le> card (freeLuns [exampleDataDisk 0] [1])" by (metis card_mono)
  then have c: "length ?m \<le> card (freeLuns [exampleDataDisk 0] [1])" by simp
  have "ToLower ''/u'' = ''/u''" "ToLower ''/v'' = ''/v''" by code_simp+
  then show ?thesis
    using SetDiskLun_allocation [of "[exampleDataDisk 0]" ?m "''/u''" "[1]"] c
    by (simp add: lunsInRange_def exampleDataDisk_def maxLUN_def wf_map_def gget_def)
qed

text \<open>(C28) A LUN is reported only for a data disk of the VM that has that name, VHD or managed disk and is not being
  detached; and when every data disk has a LUN and a managed-disk ID, the disk is reported missing exactly when
  no data disk denotes it, and the call never panics.\<close>

theorem GetDiskLun_correct:
  shows "(\<forall>lun. findDiskLun diskName diskURI node disks = Inr lun \<longrightarrow>
      (\<exists>d \<in> set disks. denotes d diskName diskURI \<and> dd_Lun d = Some lun \<and> dd_ToBeDetached d \<noteq> Some True))
    \<and> ((\<forall>d \<in> set disks. completeDisk d) \<longrightarrow>
      (findDiskLun diskName diskURI node disks = Inl (errorf (CannotFindDiskLUN @ '' for disk '' @ diskName))
         \<longleftrightarrow> (\<forall>d \<in> set disks. \<not> denotes d diskName diskURI))
      \<and> (\<forall>e. findDiskLun diskName diskURI node disks = Inl e \<longrightarrow> ekind e \<noteq> Panicked))"
proof (intro conjI impI allI)
  assume c: "\<forall>d \<in> set disks. completeDisk d"
  have ne: "''disk('' @ x \<noteq> CannotFindDiskLUN @ y" for x y by (simp add: CannotFindDiskLUN_def)
  show "findDiskLun diskName diskURI node disks = Inl (errorf (CannotFindDiskLUN @ '' for disk '' @ diskName))
         \<longleftrightarrow> (\<forall>d \<in> set disks. \<not> denotes d diskName diskURI)"
    using ne unfolding findDiskLun_complete [OF c]
    by (auto simp: errorf_def find_None_iff dest: find_None_iff [THEN iffD1] split: option.splits if_splits)
       (metis find_Some_iff nth_mem)+
  show "ekind e \<noteq> Panicked" if "findDiskLun diskName diskURI node disks = Inl e" for e
    using that unfolding findDiskLun_complete [OF c] by (auto split: option.splits if_splits)
qed (rule findDiskLun_Inr)

theorem GetDiskLun_correct_witness:
  "(\<exists>d \<in> set [exampleDataDisk 4]. denotes d ''OTHER'' ''/x'' \<and> dd_Lun d = Some 4 \<and> dd_ToBeDetached d \<noteq> Some True)"
proof -
  have "findDiskLun ''OTHER'' ''/x'' ''n'' [exampleDataDisk 4] = Inr 4" by code_simp
  then show ?thesis using GetDiskLun_correct [of "''OTHER''" "''/x''" "''n''" "[exampleDataDisk 4]"] by blast
qed

text \<open>The nil check of a data disk's LUN guards the comparison of names only: a VM that reports the
  caller's managed disk without a LUN makes \<open>GetDiskLun\<close> dereference a nil pointer, whatever disks follow it.\<close>

theorem GetDiskLun_nil_lun_panics:
  assumes "dd_Lun d = None" "dd_VhdURI d = None" "dd_ManagedDiskID d = Some (Some i)" "EqualFold i diskURI"
  shows "findDiskLun diskName diskURI node (d # ds) = Inl (panicf ''nil pointer dereference'')"
  using assms by (simp add: matchesDisk_def)

theorem GetDiskLun_nil_lun_panics_witness:
  "findDiskLun ''n'' ''/u'' ''node'' [\<lparr>dd_Lun = None, dd_Name = None, dd_VhdURI = None,
     dd_ManagedDiskID = Some (Some ''/u''), dd_ToBeDetached = None\<rparr>] = Inl (panicf ''nil pointer dereference'')"
  by (rule GetDiskLun_nil_lun_panics [where i = "''/u''"]) (simp_all add: EqualFold_def)

end
