(* ===== verification/AttachDetach.thy ===== *)
theory AttachDetach
  imports DiskUtils DiskLuns
begin

text \<open>
  \<open>AttachDisk\<close>, \<open>DetachDisk\<close>, \<open>UpdateVM\<close> and the verification and polling around them
  (\<open>azure_controller_common.go\<close>), and the node lookups they use (\<open>azuredisk.go\<close>, \<open>nodeserver.go\<close>).

  The cloud provider, the disk client, the Kubernetes API, the clock and the other goroutines are an \<open>env\<close>: each
  call is an arbitrary transformer of the whole controller state, so that whatever other goroutines do while the
  call is in progress is part of it. A VM set is a handle. Contexts matter where the code derives or inspects
  one: \<open>WithTimeout\<close> records the timeout (nanoseconds). Tracing spans and log lines are left out.
\<close>

subsection \<open>The environment\<close>

datatype ctx = RequestCtx | WithTimeout ctx int

datatype lister_object = PartialObjectMetadata smap | OtherObject

record 'w env =
  cloud_GetNodeVMSet :: "string \<Rightarrow> ('w controllerCommon, nat) io"
  cloud_InstanceID :: "string \<Rightarrow> ('w controllerCommon, string) io"
  cloud_VMSet :: nat
  vm_GetNodeNameByProviderID :: "nat \<Rightarrow> string \<Rightarrow> ('w controllerCommon, string) io"
  vm_GetDataDisks :: "nat \<Rightarrow> string \<Rightarrow> ('w controllerCommon, DataDisk list result \<times> string option) state"
  vm_AttachDisk :: "nat \<Rightarrow> string \<Rightarrow> attach_batch \<Rightarrow> ('w controllerCommon, unit) io"
  vm_DetachDisk :: "nat \<Rightarrow> ctx \<Rightarrow> string \<Rightarrow> smap \<Rightarrow> bool \<Rightarrow> ('w controllerCommon, unit) io"
  vm_UpdateVM :: "nat \<Rightarrow> string \<Rightarrow> ('w controllerCommon, unit) io"
  vm_DeleteCacheForNode :: "nat \<Rightarrow> string \<Rightarrow> ('w controllerCommon, unit) state"
  cf_GetDiskClientForSub :: "string \<Rightarrow> ('w controllerCommon, nat) io"
  dc_Get :: "nat \<Rightarrow> string \<Rightarrow> string \<Rightarrow> ('w controllerCommon, Disk) io"
  lister_Get :: "string \<Rightarrow> ('w controllerCommon, lister_object) io"
  kube_GetNodeLabels :: "string \<Rightarrow> ('w controllerCommon, smap) io"
  kube_present :: bool
  sys_Now :: "('w controllerCommon, int) state"
  sys_Sleep :: "int \<Rightarrow> ('w controllerCommon, unit) state"
  sys_AwaitMutex :: "string \<Rightarrow> ('w controllerCommon, unit) state"
  sys_PollTick :: "('w controllerCommon, bool) state"
  ctx_Remaining :: "ctx \<Rightarrow> ('w controllerCommon, int option) state"
  ctx_Err :: "ctx \<Rightarrow> ('w controllerCommon, goerror option) state"
  ctx_Wait :: "ctx \<Rightarrow> nat \<Rightarrow> ('w controllerCommon, goerror option) state"
  tbl_maxDataDiskCountMap :: "(string, int) gomap"

text \<open>\<open>LockEntry\<close> blocks until the mutex is free; the deferred \<open>UnlockEntry\<close> runs on every exit.\<close>

definition lockNode :: "'w env \<Rightarrow> string \<Rightarrow> ('w controllerCommon, 'a) io \<Rightarrow> ('w controllerCommon, 'a) io" where
  "lockNode env node m = doE (sys_AwaitMutex env node) (\<lambda>_. locking node m)"

text \<open>\<open>ExponentialBackoffWithContext\<close> (vendored \<open>backoff.go\<close>) with the number of steps that are left.\<close>

fun ExponentialBackoffWithContext ::
  "'w env \<Rightarrow> ctx \<Rightarrow> nat \<Rightarrow> ('w controllerCommon, bool) io \<Rightarrow> ('w controllerCommon, unit) io" where
  "ExponentialBackoffWithContext env ctx 0 cond = failE (GoErr WaitTimeout ''timed out waiting for the condition'' [])"
| "ExponentialBackoffWithContext env ctx (Suc steps) cond =
     doE (ctx_Err env ctx) (\<lambda>done. case done of
         Some err \<Rightarrow> failE err
       | None \<Rightarrow> bindE cond (\<lambda>ok.
           if ok then okE ()
           else if steps = 0 then ExponentialBackoffWithContext env ctx 0 cond
           else doE (ctx_Wait env ctx steps) (\<lambda>done. case done of
               Some err \<Rightarrow> failE err
             | None \<Rightarrow> ExponentialBackoffWithContext env ctx steps cond)))"

definition defaultBackOff_Steps :: nat where
  "defaultBackOff_Steps = 7"

subsection \<open>Data disks of a node\<close>

definition GetNodeDataDisks ::
  "'w env \<Rightarrow> string \<Rightarrow> ('w controllerCommon, DataDisk list result \<times> string option) state" where
  "GetNodeDataDisks env nodeName = State_Monad.bind (cloud_GetNodeVMSet env nodeName) (\<lambda>r. case r of
     Inl err \<Rightarrow> State_Monad.return (Inl err, None)
   | Inr vmset \<Rightarrow> vm_GetDataDisks env vmset nodeName)"

definition GetDiskLun ::
  "'w env \<Rightarrow> string \<Rightarrow> string \<Rightarrow> string \<Rightarrow> ('w controllerCommon, int result \<times> string option) state" where
  "GetDiskLun env diskName diskURI nodeName = State_Monad.bind (GetNodeDataDisks env nodeName) (\<lambda>(r, state).
     State_Monad.return (case r of Inl err \<Rightarrow> Inl err | Inr disks \<Rightarrow> findDiskLun diskName diskURI nodeName disks, state))"

definition SetDiskLun :: "'w env \<Rightarrow> string \<Rightarrow> string \<Rightarrow> attach_batch \<Rightarrow> int list
    \<Rightarrow> ('w controllerCommon, int \<times> attach_batch) io" where
  "SetDiskLun env nodeName diskURI diskMap occupiedLuns = doE (GetNodeDataDisks env nodeName) (\<lambda>(r, _). case r of
     Inl err \<Rightarrow> failE err
   | Inr disks \<Rightarrow> liftE (allocateLuns disks diskURI diskMap occupiedLuns))"

definition UpdateVM :: "'w env \<Rightarrow> string \<Rightarrow> ('w controllerCommon, unit) io" where
  "UpdateVM env nodeName = bindE (cloud_GetNodeVMSet env nodeName) (\<lambda>vmset.
     lockNode env (ToLower nodeName)
       (deferE (vm_UpdateVM env vmset nodeName) (vm_DeleteCacheForNode env vmset nodeName)))"

definition verifyAttach :: "'w env \<Rightarrow> string \<Rightarrow> string \<Rightarrow> string \<Rightarrow> ('w controllerCommon, int) io" where
  "verifyAttach env diskName diskURI nodeName = doE (GetDiskLun env diskName diskURI nodeName) (\<lambda>(r, vmState).
     case r of
       Inl err \<Rightarrow> if ekind err = Panicked then failE err
         else failE (wrapf (''disk('' @ diskURI @ '') could not be found on node('' @ nodeName @ ''), vmState: ''
           @ derefStr vmState @ '', error: '' @ emsg err) err)
     | Inr lun \<Rightarrow> okE lun)"

definition verifyDetach :: "'w env \<Rightarrow> string \<Rightarrow> string \<Rightarrow> string \<Rightarrow> ('w controllerCommon, unit) io" where
  "verifyDetach env diskName diskURI nodeName = doE (GetDiskLun env diskName diskURI nodeName) (\<lambda>(r, vmState).
     case r of
       Inl err \<Rightarrow> if ekind err \<noteq> Panicked \<and> Contains (emsg err) CannotFindDiskLUN then okE () else failE err
     | Inr lun \<Rightarrow> failE (errorf (''disk('' @ diskURI @ '') is still attached to node('' @ nodeName @ '') on lun(''
         @ Itoa lun @ ''), vmState: '' @ derefStr vmState)))"

definition pollForDetachCompletion ::
  "'w env \<Rightarrow> ctx \<Rightarrow> string \<Rightarrow> string \<Rightarrow> string \<Rightarrow> nat \<Rightarrow> ('w controllerCommon, unit) io" where
  "pollForDetachCompletion env detachCtx diskName diskURI nodeName vmset =
     ExponentialBackoffWithContext env detachCtx defaultBackOff_Steps
       (doE (vm_DeleteCacheForNode env vmset nodeName) (\<lambda>_.
        doE (GetDiskLun env diskName diskURI nodeName) (\<lambda>(r, _). case r of
            Inl err \<Rightarrow>
              if ekind err = Panicked then failE err
              else if Contains (emsg err) CannotFindDiskLUN then okE True
              else if Contains (emsg err) detachInProgress then okE False
              else failE err
          | Inr _ \<Rightarrow> okE False)))"

subsection \<open>Waiting for Azure to forget a deleted VM\<close>

definition managedByRemoved :: "'w env \<Rightarrow> string \<Rightarrow> string \<Rightarrow> string \<Rightarrow> string \<Rightarrow> ('w controllerCommon, bool) io" where
  "managedByRemoved env subsID resourceGroup diskName nodeName =
     bindE (tryE (cf_GetDiskClientForSub env subsID)) (\<lambda>r. case r of
       Inl err \<Rightarrow> failE (wrapf (''error making diskClient while verifying detach: '' @ emsg err) err)
     | Inr diskclient \<Rightarrow> bindE (tryE (dc_Get env diskclient resourceGroup diskName)) (\<lambda>r. case r of
         Inl err \<Rightarrow> failE (wrapf (''error getting disk: '' @ emsg err) err)
       | Inr disk \<Rightarrow> (case d_ManagedBy disk of
           None \<Rightarrow> okE True
         | Some managedBy \<Rightarrow>
             bindE (tryE (vm_GetNodeNameByProviderID env (cloud_VMSet env) managedBy)) (\<lambda>r. case r of
               Inl err \<Rightarrow>
                 if errorsIs err InstanceNotFound \<or> isInstanceNotFoundError err then okE False
                 else failE (wrapf (''error resolving node name from providerID '' @ managedBy @ '': '' @ emsg err) err)
             | Inr attachedNode \<Rightarrow> okE (\<not> EqualFold attachedNode nodeName)))))"

definition waitForDiskManagedByTobeRemoved :: "'w env \<Rightarrow> string \<Rightarrow> string \<Rightarrow> ('w controllerCommon, unit) io" where
  "waitForDiskManagedByTobeRemoved env diskURI nodeName = getE (\<lambda>c.
     if \<not> cc_WaitForDetachDiskComplete c then okE ()
     else bindE (liftE (GetInfoFromURI diskURI)) (\<lambda>(subsID, resourceGroup, diskName).
       ExponentialBackoffWithContext env RequestCtx defaultBackOff_Steps
         (managedByRemoved env subsID resourceGroup diskName nodeName)))"

subsection \<open>How many disks a node takes\<close>

definition isMaxDataDiskCountExceeded :: "'w env \<Rightarrow> string \<Rightarrow> ('w controllerCommon, bool) io" where
  "isMaxDataDiskCountExceeded env nodeName = doE (sys_Now env) (\<lambda>now. getE (\<lambda>c.
     let (r, cache') = cacheGet nilGetter now nodeName (cc_hitMaxDataDiskCountCache c)
     in modifyE (\<lambda>c. c\<lparr>cc_hitMaxDataDiskCountCache := cache'\<rparr>)
          (okE (case r of Inl _ \<Rightarrow> False | Inr _ \<Rightarrow> True))))"

definition GetNodeInfoFromNodeLister :: "'w env \<Rightarrow> string \<Rightarrow> ('w controllerCommon, string \<times> string) io" where
  "GetNodeInfoFromNodeLister env nodeName = getE (\<lambda>c.
     if \<not> cc_hasNodeLister c then failE (errorf ''nodeLister is nil'')
     else bindE (tryE (lister_Get env nodeName)) (\<lambda>r. case r of
         Inl err \<Rightarrow> if errorsIs err APINotFound then okE ([], [])
           else failE (errorf (''get node('' @ nodeName @ '') from lister failed: '' @ emsg err))
       | Inr OtherObject \<Rightarrow> failE (errorf (''node('' @ nodeName @ '') from lister is not *metav1.PartialObjectMetadata''))
       | Inr (PartialObjectMetadata labels) \<Rightarrow>
           if labels = [] then failE (errorf (''node('' @ nodeName @ '') label is empty''))
           else okE (gstr labels WellKnownTopologyKey, gstr labels InstanceTypeKey)))"

definition GetNodeInfoFromLabels :: "'w env \<Rightarrow> string \<Rightarrow> ('w controllerCommon, string \<times> string) io" where
  "GetNodeInfoFromLabels env nodeName =
     (if \<not> kube_present env then failE (errorf ''kubeClient is nil'')
      else bindE (tryE (kube_GetNodeLabels env nodeName)) (\<lambda>r. case r of
          Inl err \<Rightarrow> failE (errorf (''get node('' @ nodeName @ '') failed with '' @ emsg err))
        | Inr labels \<Rightarrow>
            if labels = [] then failE (errorf (''node('' @ nodeName @ '') label is empty''))
            else okE (gstr labels WellKnownTopologyKey, gstr labels InstanceTypeKey)))"

definition defaultAzureVolumeLimit :: int where
  "defaultAzureVolumeLimit = 16"

definition GetMaxDataDiskCount :: "(string, int) gomap \<Rightarrow> string \<Rightarrow> int \<times> bool" where
  "GetMaxDataDiskCount maxDataDiskCountMap instanceType = (case gget maxDataDiskCountMap (ToUpper instanceType) of
     Some maxDataDiskCount \<Rightarrow> (maxDataDiskCount, True)
   | None \<Rightarrow> (defaultAzureVolumeLimit, False))"

text \<open>\<open>math.MaxInt\<close> unless the disk count is to be checked and the VM size is known.\<close>

definition maxInt :: int where
  "maxInt = 2 ^ 63 - 1"

definition numDisksAllowed :: "'w env \<Rightarrow> string \<Rightarrow> ('w controllerCommon, int) io" where
  "numDisksAllowed env nodeName = getE (\<lambda>c.
     if \<not> cc_CheckDiskCountForBatching c then okE maxInt
     else bindE (tryE (if cc_hasNodeLister c then GetNodeInfoFromNodeLister env nodeName
                       else GetNodeInfoFromLabels env nodeName)) (\<lambda>r. case r of
         Inl err \<Rightarrow> okE maxInt
       | Inr (zone, instanceType) \<Rightarrow>
           if instanceType = [] then okE maxInt
           else let (maxNumDisks, instanceExists) = GetMaxDataDiskCount (tbl_maxDataDiskCountMap env) instanceType
             in if \<not> instanceExists then okE maxInt
                else doE (GetNodeDataDisks env nodeName) (\<lambda>(r, _). case r of
                    Inl err \<Rightarrow> failE err
                  | Inr attachedDisks \<Rightarrow>
                      let numDisksAttached = int (length attachedDisks)
                      in okE (if maxNumDisks > numDisksAttached then maxNumDisks - numDisksAttached else 0))))"

text \<open>The loop that removes disks from the batch: a nil entry counts as removed but stays.\<close>

fun removeFromBatch :: "int \<Rightarrow> attach_batch \<Rightarrow> attach_batch" where
  "removeFromBatch removeDisks [] = []"
| "removeFromBatch removeDisks ((diskURI, options) # diskMap) =
     (if removeDisks = 0 then (diskURI, options) # diskMap
      else if options \<noteq> None then removeFromBatch (removeDisks - 1) diskMap
      else (diskURI, options) # removeFromBatch (removeDisks - 1) diskMap)"

definition limitBatch :: "int \<Rightarrow> attach_batch \<Rightarrow> attach_batch" where
  "limitBatch allowed diskMap =
     (let removeDisks = int (length diskMap) - allowed
      in if removeDisks > 0 then removeFromBatch removeDisks diskMap else diskMap)"

subsection \<open>AttachDisk\<close>

text \<open>A \<open>*armcompute.Disk\<close> argument: \<open>None\<close> is nil, otherwise the address and the value.\<close>

type_synonym disk_ptr = "(nat \<times> Disk) option"

definition singleAttach :: "int option \<Rightarrow> bool" where
  "singleAttach maxShares = (case maxShares of None \<Rightarrow> True | Some n \<Rightarrow> n \<le> 1)"

text \<open>The checks before anything is queued: a non-shared disk with an owner is not attached again. The value is
  \<open>Some lun\<close> when the call returns with it.\<close>

definition attachedElsewhere ::
  "'w env \<Rightarrow> string \<Rightarrow> string \<Rightarrow> string \<Rightarrow> Disk \<Rightarrow> ('w controllerCommon, int option) io" where
  "attachedElsewhere env diskName diskURI nodeName disk = (case d_ManagedBy disk of
     None \<Rightarrow> okE None
   | Some managedBy \<Rightarrow>
       if singleAttach (Option.bind (d_Properties disk) p_MaxShares)
       then bindE (cloud_GetNodeVMSet env nodeName) (\<lambda>vmset.
         bindE (vm_GetNodeNameByProviderID env vmset managedBy) (\<lambda>attachedNode.
         if EqualFold nodeName attachedNode
         then bindE (UpdateVM env nodeName) (\<lambda>_.
           doE (GetDiskLun env diskName diskURI nodeName) (\<lambda>(r, _).
             case r of Inl err \<Rightarrow> failE err | Inr lun \<Rightarrow> okE (Some lun)))
         else failE (GoErr (DanglingAttach attachedNode) (''disk('' @ diskURI @ '') already attached to node('' @ managedBy
           @ ''), could not be attached to node('' @ nodeName @ '')'') [])))
       else okE None)"

definition attachOptions :: "string \<Rightarrow> string \<Rightarrow> string \<Rightarrow> Disk option \<Rightarrow> AttachDiskOptions result" where
  "attachOptions diskName diskURI cachingMode disk =
     (let options = (\<lambda>mode des wa. \<lparr>ao_CachingMode = mode, ao_DiskName = diskName, ao_DiskEncryptionSetID = des,
            ao_WriteAcceleratorEnabled = wa, ao_Lun = - 1\<rparr>)
      in case disk of
          None \<Rightarrow> Inr (options cachingMode [] False)
        | Some d \<Rightarrow>
            let mode1 = (case d_Properties d of None \<Rightarrow> cachingMode
                  | Some p \<Rightarrow> effectiveCachingModeForDisk cachingMode (p_DiskSizeGB p));
                des = derefStr (Option.bind (Option.bind (d_Properties d) p_Encryption) enc_DiskEncryptionSetID);
                mode2 = (if d_SKU d = Some (Some ''PremiumV2_LRS'') then ''None'' else mode1);
                wa = (case gget (d_Tags d) ''writeacceleratorenabled'' of
                  Some (Some v) \<Rightarrow> EqualFold v ''true'' | _ \<Rightarrow> False)
            in case Option.bind (d_Properties d) p_DiskState of
                Some st \<Rightarrow>
                  if st \<noteq> ''Unattached'' \<and> singleAttach (Option.bind (d_Properties d) p_MaxShares)
                  then Inl (errorf (''state of disk('' @ diskURI @ '') is '' @ st @ '', not in expected Unattached state''))
                  else Inr (options mode2 des wa)
              | None \<Rightarrow> Inr (options mode2 des wa))"

text \<open>
  \<open>PollUntilContextTimeout\<close> every 2 seconds for 30 seconds, the first time at once: at most 16 evaluations. Only
  whether it waited matters; errors are logged.
\<close>

fun waitForDetachQueue :: "nat \<Rightarrow> 'w env \<Rightarrow> string \<Rightarrow> bool \<Rightarrow> ('w controllerCommon, bool) io" where
  "waitForDetachQueue 0 env node happened = okE happened"
| "waitForDetachQueue (Suc polls) env node happened =
     bindE (tryE (getDetachDiskRequestNum node)) (\<lambda>r. case r of
       Inl err \<Rightarrow> okE happened
     | Inr num \<Rightarrow>
         if num = 0 then okE happened
         else doE (sys_PollTick env) (\<lambda>more. if more then waitForDetachQueue polls env node True else okE True))"

definition setState :: "state_key \<Rightarrow> string \<Rightarrow> ('w controllerCommon, 'a) io \<Rightarrow> ('w controllerCommon, 'a) io" where
  "setState key v m = modifyE (\<lambda>c. c\<lparr>cc_diskStateMap := gset key v (cc_diskStateMap c)\<rparr>)
     (deferE m (State_Monad.update (\<lambda>c. c\<lparr>cc_diskStateMap := gdel key (cc_diskStateMap c)\<rparr>)))"

definition onError :: "('s, 'a) io \<Rightarrow> ('s, unit) state \<Rightarrow> ('s, 'a) io" where
  "onError m d = State_Monad.bind m (\<lambda>r. case r of
     Inl err \<Rightarrow> if ekind err = Panicked then failE err else State_Monad.bind d (\<lambda>_. failE err)
   | Inr x \<Rightarrow> okE x)"

text \<open>The VM update, its retry after a preempted operation, and the check of the LUN.\<close>

definition updateAndVerify ::
  "'w env \<Rightarrow> nat \<Rightarrow> string \<Rightarrow> string \<Rightarrow> string \<Rightarrow> attach_batch \<Rightarrow> int \<Rightarrow> ('w controllerCommon, int) io" where
  "updateAndVerify env vmset diskName diskURI nodeName diskMap lun =
     bindE (tryE (vm_AttachDisk env vmset nodeName diskMap)) (\<lambda>r.
       bindE (case r of
           Inr _ \<Rightarrow> okE ()
         | Inl err \<Rightarrow>
             doE (if Contains (emsg err) MaximumDataDiskExceededMsg
                  then State_Monad.bind (sys_Now env) (\<lambda>now. State_Monad.update (\<lambda>c. c\<lparr>cc_hitMaxDataDiskCountCache :=
                      cacheSet now (ToLower nodeName) [] (cc_hitMaxDataDiskCountCache c)\<rparr>))
                  else State_Monad.return ()) (\<lambda>_.
             if Contains (emsg err) ''OperationPreempted'' then vm_UpdateVM env vmset nodeName else failE err))
         (\<lambda>_. getE (\<lambda>c. if \<not> cc_DisableDiskLunCheck c then verifyAttach env diskName diskURI nodeName else okE lun)))"

definition attachBatch :: "'w env \<Rightarrow> string \<Rightarrow> string \<Rightarrow> string \<Rightarrow> nat option \<Rightarrow> int list \<Rightarrow> attach_batch \<Rightarrow> ('w controllerCommon, int) io" where
  "attachBatch env diskName diskURI nodeName diskPtr occupiedLuns diskMap =
     bindE (SetDiskLun env nodeName (ToLower diskURI) diskMap occupiedLuns) (\<lambda>(lun, diskMap').
     bindE (cloud_GetNodeVMSet env nodeName) (\<lambda>vmset.
       setState (KeyDiskPtr diskPtr) ''attaching''
         (onError (updateAndVerify env vmset diskName diskURI nodeName diskMap' lun)
           (vm_DeleteCacheForNode env vmset nodeName))))"

definition AttachDisk :: "'w env \<Rightarrow> string \<Rightarrow> string \<Rightarrow> string \<Rightarrow> string \<Rightarrow> disk_ptr \<Rightarrow> int list \<Rightarrow> ('w controllerCommon, int) io" where
  "AttachDisk env diskName diskURI nodeName cachingMode disk occupiedLuns =
     bindE (case disk of None \<Rightarrow> okE None | Some (_, d) \<Rightarrow> attachedElsewhere env diskName diskURI nodeName d) (\<lambda>early.
     case early of Some lun \<Rightarrow> okE lun | None \<Rightarrow>
     bindE (liftE (attachOptions diskName diskURI cachingMode (map_option snd disk))) (\<lambda>options.
     let node = ToLower nodeName; diskuri = ToLower diskURI in
     bindE (batchAttachDiskRequest diskuri node options) (\<lambda>requestNum.
     bindE (getE (\<lambda>c. if \<not> cc_WaitForDetach c then okE False
              else bindE (isMaxDataDiskCountExceeded env nodeName) (\<lambda>exceeded.
                if exceeded then waitForDetachQueue 16 env node False else okE False))) (\<lambda>waitForDetachHappened.
     lockNode env node (getE (\<lambda>c.
       doE (if \<not> waitForDetachHappened \<and> cc_AttachDetachInitialDelayInMs c > 0 \<and> requestNum = 1
            then sys_Sleep env (cc_AttachDetachInitialDelayInMs c) else State_Monad.return ()) (\<lambda>_.
       bindE (numDisksAllowed env nodeName) (\<lambda>allowed.
       bindE (retrieveAttachBatchedDiskRequests node diskuri) (\<lambda>diskMap.
         if diskMap = [] then verifyAttach env diskName diskURI nodeName
         else attachBatch env diskName diskURI nodeName (map_option fst disk) occupiedLuns (limitBatch allowed diskMap))))))))))"

subsection \<open>DetachDisk\<close>

definition second :: int where
  "second = 1000000000"

definition detachTimeout :: "int \<Rightarrow> int option \<Rightarrow> int" where
  "detachTimeout minTimeoutInSeconds remaining =
     (let minTimeout = int64 (minTimeoutInSeconds * second)
      in case remaining of None \<Rightarrow> minTimeout
         | Some r \<Rightarrow> if r sdiv 2 > minTimeout then r sdiv 2 else minTimeout)"

definition vmssDetachTimeout :: "int \<Rightarrow> int \<Rightarrow> int" where
  "vmssDetachTimeout vmssTimeoutInSeconds detachContextTimeout =
     (let t = int64 (vmssTimeoutInSeconds * second)
      in if t = 0 \<or> t > detachContextTimeout then detachContextTimeout else t)"

text \<open>What follows an error of the regular detach. \<open>Inr True\<close> means that the detach is taken as done and only the LUN
  check is left, \<open>Inr False\<close> that the call returns success at once.\<close>

definition afterDetachError :: "'w env \<Rightarrow> nat \<Rightarrow> ctx \<Rightarrow> string \<Rightarrow> string \<Rightarrow> string \<Rightarrow> smap \<Rightarrow> goerror \<Rightarrow> ('w controllerCommon, bool) io" where
  "afterDetachError env vmset detachCtx diskName diskURI nodeName diskMap err =
     (if isInstanceNotFoundError err
      then bindE (waitForDiskManagedByTobeRemoved env diskURI nodeName) (\<lambda>_. okE False)
      else if preemptedByForceOperation err
      then bindE (verifyDetach env diskName diskURI nodeName) (\<lambda>_. okE False)
      else bindE (if errorsIs err DeadlineExceeded
                  then tryE (pollForDetachCompletion env detachCtx diskName diskURI nodeName vmset)
                  else okE (Inl err)) (\<lambda>r.
        case r of
          Inr _ \<Rightarrow> okE True
        | Inl err \<Rightarrow> getE (\<lambda>c. if cc_ForceDetachBackoff c
            then bindE (vm_DetachDisk env vmset RequestCtx nodeName diskMap True) (\<lambda>_. okE True)
            else failE err)))"

definition detachBatch :: "'w env \<Rightarrow> nat \<Rightarrow> string \<Rightarrow> string \<Rightarrow> string \<Rightarrow> smap \<Rightarrow> ('w controllerCommon, unit) io" where
  "detachBatch env vmset diskName diskURI nodeName diskMap =
     setState (KeyURI (ToLower diskURI)) ''detaching'' (getE (\<lambda>c.
       doE (ctx_Remaining env RequestCtx) (\<lambda>remaining.
       let detachContextTimeout = detachTimeout (cc_DetachOperationMinTimeoutInSeconds c) remaining;
           detachCtx = WithTimeout RequestCtx detachContextTimeout;
           earlyExitCtx = WithTimeout detachCtx (vmssDetachTimeout (cc_VMSSDetachTimeoutInSeconds c) detachContextTimeout)
       in bindE (tryE (vm_DetachDisk env vmset earlyExitCtx nodeName diskMap False)) (\<lambda>r.
          bindE (case r of
              Inr _ \<Rightarrow> okE True
            | Inl err \<Rightarrow> afterDetachError env vmset detachCtx diskName diskURI nodeName diskMap err) (\<lambda>check.
          if \<not> check then okE ()
          else getE (\<lambda>c. if \<not> cc_DisableDiskLunCheck c then verifyDetach env diskName diskURI nodeName else okE ()))))))"

definition DetachDisk :: "'w env \<Rightarrow> string \<Rightarrow> string \<Rightarrow> string \<Rightarrow> ('w controllerCommon, unit) io" where
  "DetachDisk env diskName diskURI nodeName =
     bindE (tryE (cloud_InstanceID env nodeName)) (\<lambda>r. case r of
       Inl err \<Rightarrow>
         if errorsIs err InstanceNotFound then waitForDiskManagedByTobeRemoved env diskURI nodeName
         else failE (wrapf (''failed to get azure instance id for node \"'' @ nodeName @ ''\": '' @ emsg err) err)
     | Inr _ \<Rightarrow>
         bindE (cloud_GetNodeVMSet env nodeName) (\<lambda>vmset.
         let node = ToLower nodeName; formattedDiskURI = ToLower diskURI in
         bindE (batchDetachDiskRequest diskName formattedDiskURI node) (\<lambda>batchCount.
         lockNode env node (getE (\<lambda>c.
           doE (if cc_AttachDetachInitialDelayInMs c > 0 \<and> batchCount = 1
                then sys_Sleep env (cc_AttachDetachInitialDelayInMs c) else State_Monad.return ()) (\<lambda>_.
           bindE (retrieveDetachBatchedDiskRequests node formattedDiskURI) (\<lambda>diskMap.
             if diskMap = [] then verifyDetach env diskName diskURI nodeName
             else detachBatch env vmset diskName diskURI nodeName diskMap)))))))"

end
