(* ===== verification/AttachDetachProps.thy ===== *)
theory AttachDetachProps
  imports AttachDetach
begin

text \<open>
  Properties of attach and detach. Two preorders on controller states are followed through the whole call tree:
  no mutex stays locked and no disk keeps a state mark, and the configuration does not change. Success
  postconditions (\<open>post\<close>) then tie the result of \<open>AttachDisk\<close> and \<open>DetachDisk\<close> to the data disks of the VM.
\<close>

subsection \<open>What the calls to the environment keep\<close>

definition calm :: "('w controllerCommon \<Rightarrow> 'w controllerCommon \<Rightarrow> bool) \<Rightarrow> 'w env \<Rightarrow> bool" where
  "calm R env \<longleftrightarrow>
     (\<forall>n. stays R (cloud_GetNodeVMSet env n)) \<and> (\<forall>n. stays R (cloud_InstanceID env n))
     \<and> (\<forall>v p. stays R (vm_GetNodeNameByProviderID env v p)) \<and> (\<forall>v n. stays R (vm_GetDataDisks env v n))
     \<and> (\<forall>v n b. stays R (vm_AttachDisk env v n b)) \<and> (\<forall>v x n b f. stays R (vm_DetachDisk env v x n b f))
     \<and> (\<forall>v n. stays R (vm_UpdateVM env v n)) \<and> (\<forall>v n. stays R (vm_DeleteCacheForNode env v n))
     \<and> (\<forall>s. stays R (cf_GetDiskClientForSub env s)) \<and> (\<forall>d g n. stays R (dc_Get env d g n))
     \<and> (\<forall>n. stays R (lister_Get env n)) \<and> (\<forall>n. stays R (kube_GetNodeLabels env n))
     \<and> stays R (sys_Now env) \<and> (\<forall>t. stays R (sys_Sleep env t)) \<and> (\<forall>e. stays R (sys_AwaitMutex env e))
     \<and> stays R (sys_PollTick env) \<and> (\<forall>x. stays R (ctx_Remaining env x)) \<and> (\<forall>x. stays R (ctx_Err env x))
     \<and> (\<forall>x k. stays R (ctx_Wait env x k))"

text \<open>
  A preorder that the environment keeps, that taking and freeing a mutex keeps, that a state mark with its removal
  keeps, and that does not see the queues and the cache is kept by every operation of the controller.
\<close>

locale controller_preorder = preorder_on_states R
  for R :: "'w controllerCommon \<Rightarrow> 'w controllerCommon \<Rightarrow> bool" +
  assumes R_section: "R (c\<lparr>cc_lockMap := snd (LockEntry e (cc_lockMap c))\<rparr>) c' \<Longrightarrow>
      R c (c'\<lparr>cc_lockMap := unlocked e (cc_lockMap c')\<rparr>)"
    and R_mark: "R (c\<lparr>cc_diskStateMap := gset k v (cc_diskStateMap c)\<rparr>) c' \<Longrightarrow>
      R c (c'\<lparr>cc_diskStateMap := gdel k (cc_diskStateMap c')\<rparr>)"
    and R_attachMap: "R c (c\<lparr>cc_attachDiskMap := am\<rparr>)"
    and R_detachMap: "R c (c\<lparr>cc_detachDiskMap := dm\<rparr>)"
    and R_cache: "R c (c\<lparr>cc_hitMaxDataDiskCountCache := tc\<rparr>)"
begin

lemma env_stays:
  "calm R env \<Longrightarrow> stays R (cloud_GetNodeVMSet env n)" "calm R env \<Longrightarrow> stays R (cloud_InstanceID env n)"
  "calm R env \<Longrightarrow> stays R (vm_GetNodeNameByProviderID env v p)" "calm R env \<Longrightarrow> stays R (vm_GetDataDisks env v n)"
  "calm R env \<Longrightarrow> stays R (vm_AttachDisk env v n b)" "calm R env \<Longrightarrow> stays R (vm_DetachDisk env v x n bd f)" "calm R env \<Longrightarrow> stays R (vm_UpdateVM env v n)"
  "calm R env \<Longrightarrow> stays R (vm_DeleteCacheForNode env v n)" "calm R env \<Longrightarrow> stays R (cf_GetDiskClientForSub env n)" "calm R env \<Longrightarrow> stays R (dc_Get env d g n)"
  "calm R env \<Longrightarrow> stays R (lister_Get env n)" "calm R env \<Longrightarrow> stays R (kube_GetNodeLabels env n)" "calm R env \<Longrightarrow> stays R (sys_Now env)"
  "calm R env \<Longrightarrow> stays R (sys_Sleep env t)" "calm R env \<Longrightarrow> stays R (sys_AwaitMutex env n)" "calm R env \<Longrightarrow> stays R (sys_PollTick env)"
  "calm R env \<Longrightarrow> stays R (ctx_Remaining env x)" "calm R env \<Longrightarrow> stays R (ctx_Err env x)" "calm R env \<Longrightarrow> stays R (ctx_Wait env x k)"
  by (simp_all add: calm_def)

lemma stays_update_cache: "stays R (State_Monad.update (\<lambda>c. c\<lparr>cc_hitMaxDataDiskCountCache := f c\<rparr>))"
  by (simp add: stays_def R_cache)

lemma R_locking: "stays R m \<Longrightarrow> stays R (locking e m)"
  unfolding stays_def run_locking by (auto intro!: R_section split: prod.split) (metis snd_conv)

lemma R_setState: "stays R m \<Longrightarrow> stays R (setState k v m)"
  unfolding stays_def setState_def by (auto intro!: R_mark [where v = v] split: prod.split) (metis snd_conv)

lemmas basic = stays_return stays_bind stays_doE stays_bindE stays_tryE stays_getE stays_if env_stays stays_modifyE
  stays_deferE R_locking R_setState R_attachMap R_detachMap R_cache stays_update_cache

lemma stays_lockNode: "calm R env \<Longrightarrow> stays R m \<Longrightarrow> stays R (lockNode env e m)"
  unfolding lockNode_def by (auto intro!: basic)

lemma stays_onError: "stays R m \<Longrightarrow> stays R d \<Longrightarrow> stays R (onError m d)"
  unfolding onError_def by (auto intro!: basic split: sum.split)

lemma stays_backoff: "calm R env \<Longrightarrow> stays R cond \<Longrightarrow> stays R (ExponentialBackoffWithContext env x k cond)"
  by (induction k) (auto intro!: basic split: option.split)

lemma stays_GetNodeDataDisks: "calm R env \<Longrightarrow> stays R (GetNodeDataDisks env n)"
  unfolding GetNodeDataDisks_def by (auto intro!: basic split: sum.split)

lemma stays_GetDiskLun: "calm R env \<Longrightarrow> stays R (GetDiskLun env a b n)"
  unfolding GetDiskLun_def by (auto intro!: basic stays_GetNodeDataDisks split: sum.split)

lemma stays_SetDiskLun: "calm R env \<Longrightarrow> stays R (SetDiskLun env n u m oc)"
  unfolding SetDiskLun_def by (auto intro!: basic stays_GetNodeDataDisks split: sum.split)

lemma stays_UpdateVM: "calm R env \<Longrightarrow> stays R (UpdateVM env n)"
  unfolding UpdateVM_def by (auto intro!: basic stays_lockNode)

lemma stays_verifyAttach: "calm R env \<Longrightarrow> stays R (verifyAttach env a b n)"
  unfolding verifyAttach_def by (auto intro!: basic stays_GetDiskLun split: sum.split)

lemma stays_verifyDetach: "calm R env \<Longrightarrow> stays R (verifyDetach env a b n)"
  unfolding verifyDetach_def by (auto intro!: basic stays_GetDiskLun split: sum.split)

lemma stays_poll: "calm R env \<Longrightarrow> stays R (pollForDetachCompletion env x a b n v)"
  unfolding pollForDetachCompletion_def
  by (auto intro!: stays_backoff basic stays_GetDiskLun split: sum.split)

lemma stays_managedByRemoved: "calm R env \<Longrightarrow> stays R (managedByRemoved env a b cc n)"
  unfolding managedByRemoved_def by (auto intro!: basic split: sum.split option.split)

lemma stays_wait: "calm R env \<Longrightarrow> stays R (waitForDiskManagedByTobeRemoved env u n)"
  unfolding waitForDiskManagedByTobeRemoved_def
  by (auto intro!: basic stays_backoff stays_managedByRemoved split: prod.split)

lemma stays_queues:
  "calm R env \<Longrightarrow> stays R (batchAttachDiskRequest u n opts)" "calm R env \<Longrightarrow> stays R (retrieveAttachBatchedDiskRequests n u)"
  "calm R env \<Longrightarrow> stays R (batchDetachDiskRequest d u n)" "calm R env \<Longrightarrow> stays R (retrieveDetachBatchedDiskRequests n u)"
  "calm R env \<Longrightarrow> stays R (getDetachDiskRequestNum n)"
  unfolding batchAttachDiskRequest_def retrieveAttachBatchedDiskRequests_def batchDetachDiskRequest_def
    retrieveDetachBatchedDiskRequests_def getDetachDiskRequestNum_def Let_def
  by (auto intro!: basic split: option.split any.split)

lemma stays_waitForDetachQueue: "calm R env \<Longrightarrow> stays R (waitForDetachQueue k env n h)"
  by (induction k arbitrary: h) (auto intro!: basic stays_queues split: sum.split)

lemma stays_numDisksAllowed: "calm R env \<Longrightarrow> stays R (numDisksAllowed env n)"
  unfolding numDisksAllowed_def GetNodeInfoFromNodeLister_def GetNodeInfoFromLabels_def Let_def
  by (auto intro!: basic stays_GetNodeDataDisks split: sum.split prod.split lister_object.split)

lemma stays_isMax: "calm R env \<Longrightarrow> stays R (isMaxDataDiskCountExceeded env n)"
  unfolding isMaxDataDiskCountExceeded_def by (auto intro!: basic simp: Let_def split: prod.split)

lemma stays_attachedElsewhere: "calm R env \<Longrightarrow> stays R (attachedElsewhere env a u n d)"
  unfolding attachedElsewhere_def
  by (auto intro!: basic stays_UpdateVM stays_GetDiskLun split: option.split sum.split prod.split)

lemma stays_updateAndVerify: "calm R env \<Longrightarrow> stays R (updateAndVerify env v a u n b l)"
  unfolding updateAndVerify_def by (auto intro!: basic stays_verifyAttach split: sum.split)

lemma stays_attachBatch: "calm R env \<Longrightarrow> stays R (attachBatch env a u n p oc b)"
  unfolding attachBatch_def
  by (auto intro!: basic stays_SetDiskLun stays_onError stays_updateAndVerify split: prod.split)

lemma stays_AttachDisk: "calm R env \<Longrightarrow> stays R (AttachDisk env a u n cm d oc)"
  unfolding AttachDisk_def Let_def
  by (auto intro!: basic stays_attachedElsewhere stays_queues stays_isMax stays_waitForDetachQueue stays_lockNode
      stays_numDisksAllowed stays_verifyAttach stays_attachBatch split: option.split prod.split)

lemma stays_afterDetachError: "calm R env \<Longrightarrow> stays R (afterDetachError env v x a u n b err)"
  unfolding afterDetachError_def
  by (auto intro!: basic stays_wait stays_verifyDetach stays_poll split: sum.split)

lemma stays_detachBatch: "calm R env \<Longrightarrow> stays R (detachBatch env v a u n b)"
  unfolding detachBatch_def Let_def
  by (auto intro!: basic stays_afterDetachError stays_verifyDetach split: sum.split)

lemma stays_DetachDisk: "calm R env \<Longrightarrow> stays R (DetachDisk env a u n)"
  unfolding DetachDisk_def Let_def
  by (auto intro!: basic stays_wait stays_queues stays_lockNode stays_verifyDetach stays_detachBatch split: sum.split)

end

subsection \<open>Two preorders\<close>

text \<open>After the call no mutex is held and no disk is marked that was not before.\<close>

definition noLeak :: "'w controllerCommon \<Rightarrow> 'w controllerCommon \<Rightarrow> bool" where
  "noLeak c c' \<longleftrightarrow> (\<forall>e. heldEntry (cc_lockMap c') e \<longrightarrow> heldEntry (cc_lockMap c) e)
     \<and> (\<forall>k. gget (cc_diskStateMap c') k \<noteq> None \<longrightarrow> gget (cc_diskStateMap c) k \<noteq> None)"

lemma held_LockEntry: "heldEntry (snd (LockEntry e lm)) j \<longleftrightarrow> j = e \<or> heldEntry lm j"
  by (auto simp: LockEntry_def heldEntry_def split: option.splits bool.splits)

lemma held_unlocked: "heldEntry (unlocked e lm) j \<longleftrightarrow> j \<noteq> e \<and> heldEntry lm j"
  by (auto simp: unlocked_def UnlockEntry_def heldEntry_def split: option.splits bool.splits)

interpretation nl: controller_preorder noLeak
  by unfold_locales (auto simp: noLeak_def held_LockEntry held_unlocked)

text \<open>The configuration is fixed.\<close>

definition sameConfig :: "'w controllerCommon \<Rightarrow> 'w controllerCommon \<Rightarrow> bool" where
  "sameConfig c c' \<longleftrightarrow> cc_DisableDiskLunCheck c' = cc_DisableDiskLunCheck c
     \<and> cc_WaitForDetachDiskComplete c' = cc_WaitForDetachDiskComplete c"

interpretation sc: controller_preorder sameConfig
  by unfold_locales (auto simp: sameConfig_def)

subsection \<open>Success postconditions\<close>

text \<open>\<open>post P m\<close>: with the LUN check enabled, whenever \<open>m\<close> succeeds its value and the final state satisfy \<open>P\<close>.\<close>

definition lunCheck :: "'w controllerCommon \<Rightarrow> bool" where
  "lunCheck c \<longleftrightarrow> \<not> cc_DisableDiskLunCheck c"

definition post :: "('a \<Rightarrow> 'w controllerCommon \<Rightarrow> bool) \<Rightarrow> ('w controllerCommon, 'a) io \<Rightarrow> bool" where
  "post P m \<longleftrightarrow> valid lunCheck m (\<lambda>r c. case r of Inl _ \<Rightarrow> True | Inr x \<Rightarrow> P x c)"

lemma postI: "(\<And>c x c'. lunCheck c \<Longrightarrow> run_state m c = (Inr x, c') \<Longrightarrow> P x c') \<Longrightarrow> post P m"
  unfolding post_def valid_def by (auto split: sum.split prod.split)

lemma postD: "post P m \<Longrightarrow> lunCheck c \<Longrightarrow> run_state m c = (Inr x, c') \<Longrightarrow> P x c'"
  unfolding post_def valid_def by (auto split: sum.splits prod.splits)

lemma stays_checking: "stays sameConfig m \<Longrightarrow> lunCheck c \<Longrightarrow> run_state m c = (r, c') \<Longrightarrow> lunCheck c'"
  unfolding stays_def sameConfig_def lunCheck_def by (metis snd_conv)

lemma post_return: "post P (failE e)" "(\<And>c. P x c) \<Longrightarrow> post P (okE x)"
  by (auto intro: postI)

lemma post_bindE:
  assumes "stays sameConfig m" "\<And>x. post P (f x)"
  shows "post P (bindE m f)"
proof (rule postI)
  fix c x c'
  assume c: "lunCheck c" and r: "run_state (bindE m f) c = (Inr x, c')"
  from r obtain y c1 where m: "run_state m c = (Inr y, c1)" and f: "run_state (f y) c1 = (Inr x, c')"
    by (auto split: prod.splits sum.splits)
  show "P x c'" by (rule postD [OF assms(2) stays_checking [OF assms(1) c m] f])
qed

lemma post_bindE_value:
  assumes "stays sameConfig m" "post M m" "\<And>c y x c'. M y c \<Longrightarrow> lunCheck c \<Longrightarrow> run_state (f y) c = (Inr x, c') \<Longrightarrow> P x c'"
  shows "post P (bindE m f)"
proof (rule postI)
  fix c x c'
  assume c: "lunCheck c" and r: "run_state (bindE m f) c = (Inr x, c')"
  from r obtain y c1 where m: "run_state m c = (Inr y, c1)" and f: "run_state (f y) c1 = (Inr x, c')"
    by (auto split: prod.splits sum.splits)
  show "P x c'" by (rule assms(3) [OF postD [OF assms(2) c m] stays_checking [OF assms(1) c m] f])
qed

lemma post_doE:
  assumes "stays sameConfig m" "\<And>x. post P (f x)"
  shows "post P (doE m f)"
proof (rule postI)
  fix c x c'
  assume c: "lunCheck c" and r: "run_state (doE m f) c = (Inr x, c')"
  obtain y c1 where m: "run_state m c = (y, c1)" by (cases "run_state m c")
  with r have f: "run_state (f y) c1 = (Inr x, c')" by simp
  show "P x c'" by (rule postD [OF assms(2) stays_checking [OF assms(1) c m] f])
qed

lemma post_getE: "(\<And>c. lunCheck c \<Longrightarrow> post P (f c)) \<Longrightarrow> post P (getE f)"
  unfolding post_def valid_def by simp

lemma post_if: "(b \<Longrightarrow> post P m) \<Longrightarrow> (\<not> b \<Longrightarrow> post P n) \<Longrightarrow> post P (if b then m else n)"
  by simp

lemma post_tryE:
  assumes "\<And>c e c'. run_state m c = (Inl e, c') \<Longrightarrow> Q e"
  shows "post (\<lambda>r _. \<forall>e. r = Inl e \<longrightarrow> Q e) (tryE m)"
  by (rule postI) (auto dest: assms split: prod.splits sum.splits if_splits)

lemma post_bindE_pred:
  "stays sameConfig m \<Longrightarrow> post (\<lambda>y _. N y) m \<Longrightarrow> (\<And>y. N y \<Longrightarrow> post P (f y)) \<Longrightarrow> post P (bindE m f)"
  by (rule post_bindE_value [where M = "\<lambda>y _. N y"]) (auto dest: postD)

text \<open>The postconditions of interest speak of the VM only, so that the deferred calls keep them.\<close>

lemma post_locking: "post (\<lambda>x c. P x (cc_world c)) m \<Longrightarrow> post (\<lambda>x c. P x (cc_world c)) (locking e m)"
  unfolding post_def valid_def by (force simp: run_locking lunCheck_def split: prod.splits sum.splits)

lemma post_setState: "post (\<lambda>x c. P x (cc_world c)) m \<Longrightarrow> post (\<lambda>x c. P x (cc_world c)) (setState k v m)"
  unfolding post_def valid_def by (force simp: setState_def lunCheck_def split: prod.splits sum.splits)

lemma post_onError: "post P m \<Longrightarrow> post P (onError m d)"
  by (rule postI, erule (1) postD) (auto simp: onError_def split: prod.splits sum.splits if_splits)

lemma post_lockNode:
  "calm sameConfig env \<Longrightarrow> post (\<lambda>x c. P x (cc_world c)) m \<Longrightarrow> post (\<lambda>x c. P x (cc_world c)) (lockNode env e m)"
  unfolding lockNode_def by (intro post_doE sc.env_stays post_locking)

lemmas post_rules = post_return post_bindE post_doE post_getE post_if post_lockNode post_setState post_onError sc.basic

subsection \<open>Results and the VM\<close>

text \<open>
  What \<open>GetDataDisks\<close> is documented to return: the data disks of the VM, each with its LUN and managed disk, at
  some moment of the call; here \<open>disksOf\<close> of the world it leaves. Its errors do not speak of a missing LUN.
\<close>

definition truthful :: "('w \<Rightarrow> string \<Rightarrow> DataDisk list) \<Rightarrow> 'w env \<Rightarrow> bool" where
  "truthful disksOf env \<longleftrightarrow>
     (\<forall>v n c ds st c'. run_state (vm_GetDataDisks env v n) c = ((Inr ds, st), c') \<longrightarrow>
        ds = disksOf (cc_world c') n \<and> (\<forall>d \<in> set ds. completeDisk d))
     \<and> (\<forall>v n c e st c'. run_state (vm_GetDataDisks env v n) c = ((Inl e, st), c') \<longrightarrow> \<not> Contains (emsg e) CannotFindDiskLUN)
     \<and> (\<forall>n c e c'. run_state (cloud_GetNodeVMSet env n) c = (Inl e, c') \<longrightarrow> \<not> Contains (emsg e) CannotFindDiskLUN)"

definition attachedAt :: "('w \<Rightarrow> string \<Rightarrow> DataDisk list) \<Rightarrow> string \<Rightarrow> string \<Rightarrow> string \<Rightarrow> int \<Rightarrow> 'w \<Rightarrow> bool" where
  "attachedAt disksOf diskName diskURI nodeName lun w \<longleftrightarrow>
     (\<exists>d \<in> set (disksOf w nodeName). denotes d diskName diskURI \<and> dd_Lun d = Some lun \<and> dd_ToBeDetached d \<noteq> Some True)"

definition absentFrom :: "('w \<Rightarrow> string \<Rightarrow> DataDisk list) \<Rightarrow> string \<Rightarrow> string \<Rightarrow> string \<Rightarrow> 'w \<Rightarrow> bool" where
  "absentFrom disksOf diskName diskURI nodeName w \<longleftrightarrow> (\<forall>d \<in> set (disksOf w nodeName). \<not> denotes d diskName diskURI)"

lemma GetDiskLun_truth:
  assumes "truthful disksOf env" "run_state (GetDiskLun env diskName diskURI node) c = ((r, st), c')"
  shows "(\<exists>ds. ds = disksOf (cc_world c') node \<and> (\<forall>d \<in> set ds. completeDisk d) \<and> r = findDiskLun diskName diskURI node ds)
    \<or> (\<exists>e. r = Inl e \<and> \<not> Contains (emsg e) CannotFindDiskLUN)"
  using assms unfolding truthful_def GetDiskLun_def GetNodeDataDisks_def
  by (fastforce split: prod.splits sum.splits)

lemma post_verifyAttach:
  assumes "truthful disksOf env"
  shows "post (\<lambda>lun c. attachedAt disksOf diskName diskURI node lun (cc_world c)) (verifyAttach env diskName diskURI node)"
proof (rule postI)
  fix c lun c'
  assume "run_state (verifyAttach env diskName diskURI node) c = (Inr lun, c')"
  then obtain st where "run_state (GetDiskLun env diskName diskURI node) c = ((Inr lun, st), c')"
    by (auto simp: verifyAttach_def split: prod.splits sum.splits if_splits)
  from GetDiskLun_truth [OF assms this] show "attachedAt disksOf diskName diskURI node lun (cc_world c')"
    unfolding attachedAt_def using findDiskLun_Inr by fastforce
qed

definition toBeDetachedMsg :: "string \<Rightarrow> string \<Rightarrow> string" where
  "toBeDetachedMsg diskURI node = ''disk('' @ diskURI @ '') is in ToBeDetached state on node('' @ node @ ''): '' @ detachInProgress"

lemma post_verifyDetach:
  assumes "truthful disksOf env" "\<not> Contains (toBeDetachedMsg diskURI node) CannotFindDiskLUN"
  shows "post (\<lambda>_ c. absentFrom disksOf diskName diskURI node (cc_world c)) (verifyDetach env diskName diskURI node)"
proof (rule postI)
  fix c x c'
  assume "run_state (verifyDetach env diskName diskURI node) c = (Inr x, c')"
  then obtain e st where g: "run_state (GetDiskLun env diskName diskURI node) c = ((Inl e, st), c')"
    and m: "Contains (emsg e) CannotFindDiskLUN"
    by (auto simp: verifyDetach_def split: prod.splits sum.splits if_splits)
  from GetDiskLun_truth [OF assms(1) g] m obtain ds where ds: "ds = disksOf (cc_world c') node"
    "\<forall>d \<in> set ds. completeDisk d" "Inl e = findDiskLun diskName diskURI node ds" by blast
  have "find (\<lambda>d. denotes d diskName diskURI) ds = None"
    using ds(3) m assms(2) unfolding findDiskLun_complete [OF ds(2)]
    by (auto simp: toBeDetachedMsg_def split: option.splits if_splits)
  with ds(1) show "absentFrom disksOf diskName diskURI node (cc_world c')"
    by (simp add: absentFrom_def find_None_iff)
qed

text \<open>The value of the early checks: a LUN only if the disk is there.\<close>

definition earlyOK :: "('w \<Rightarrow> string \<Rightarrow> DataDisk list) \<Rightarrow> string \<Rightarrow> string \<Rightarrow> string \<Rightarrow> int option \<Rightarrow> 'w controllerCommon \<Rightarrow> bool" where
  "earlyOK disksOf diskName diskURI node r c \<longleftrightarrow> (\<forall>lun. r = Some lun \<longrightarrow> attachedAt disksOf diskName diskURI node lun (cc_world c))"

lemma post_attachedElsewhere:
  assumes "truthful disksOf env" "calm sameConfig env"
  shows "post (earlyOK disksOf diskName diskURI node) (attachedElsewhere env diskName diskURI node d)"
proof -
  define G where "G = doE (GetDiskLun env diskName diskURI node)
    (\<lambda>(r, _). case r of Inl err \<Rightarrow> failE err | Inr lun \<Rightarrow> okE (Some lun))"
  have g: "post (earlyOK disksOf diskName diskURI node) G"
  proof (rule postI)
    fix c r c'
    assume "run_state G c = (Inr r, c')"
    then obtain lun st where r: "r = Some lun" and g: "run_state (GetDiskLun env diskName diskURI node) c = ((Inr lun, st), c')"
      by (auto simp: G_def split: prod.splits sum.splits)
    from GetDiskLun_truth [OF assms(1) g] r show "earlyOK disksOf diskName diskURI node r c'"
      unfolding attachedAt_def earlyOK_def using findDiskLun_Inr by fastforce
  qed
  have n: "post (earlyOK disksOf diskName diskURI node) (okE None)"
    by (rule post_return) (simp add: earlyOK_def)
  show ?thesis
    unfolding attachedElsewhere_def G_def [symmetric] using assms(2) g n
    by (auto intro!: post_rules(1) post_bindE post_if sc.env_stays sc.stays_UpdateVM split: option.split)
qed

lemma post_attachBatch:
  assumes "truthful disksOf env" "calm sameConfig env"
  shows "post (\<lambda>lun c. attachedAt disksOf diskName diskURI node lun (cc_world c))
    (attachBatch env diskName diskURI node p oc b)"
proof -
  have "post (\<lambda>lun c. attachedAt disksOf diskName diskURI node lun (cc_world c))
      (updateAndVerify env v diskName diskURI node b' l)" for v b' l
    unfolding updateAndVerify_def using assms post_verifyAttach [OF assms(1)]
    by (auto intro!: post_rules simp: lunCheck_def split: sum.split)
  then show ?thesis
    unfolding attachBatch_def using assms
    by (auto intro!: post_rules sc.stays_SetDiskLun split: prod.split)
qed

lemma post_AttachDisk:
  assumes "truthful disksOf env" "calm sameConfig env"
  shows "post (\<lambda>lun c. attachedAt disksOf diskName diskURI node lun (cc_world c))
    (AttachDisk env diskName diskURI node cm d oc)"
proof -
  let ?P = "\<lambda>lun c. attachedAt disksOf diskName diskURI node lun (cc_world c)"
  let ?early = "case d of None \<Rightarrow> okE None | Some (_, x) \<Rightarrow> attachedElsewhere env diskName diskURI node x"
  have s: "stays sameConfig ?early"
    using assms(2) by (auto intro!: sc.basic sc.stays_attachedElsewhere split: option.split prod.split)
  have e: "post (earlyOK disksOf diskName diskURI node) ?early"
    using post_attachedElsewhere [OF assms] post_return(2) [of "earlyOK disksOf diskName diskURI node" None]
    by (auto simp: earlyOK_def split: option.split prod.split)
  show ?thesis
    unfolding AttachDisk_def
  proof (rule post_bindE_value [OF s e])
    fix c y x c'
    assume y: "earlyOK disksOf diskName diskURI node y c" and c: "lunCheck c"
      and run: "run_state (case y of Some lun \<Rightarrow> okE lun | None \<Rightarrow>
         bindE (liftE (attachOptions diskName diskURI cm (map_option snd d))) (\<lambda>options.
         let nd = ToLower node; diskuri = ToLower diskURI in
         bindE (batchAttachDiskRequest diskuri nd options) (\<lambda>requestNum.
         bindE (getE (\<lambda>c. if \<not> cc_WaitForDetach c then okE False
              else bindE (isMaxDataDiskCountExceeded env node) (\<lambda>exceeded.
                if exceeded then waitForDetachQueue 16 env nd False else okE False))) (\<lambda>waitForDetachHappened.
         lockNode env nd (getE (\<lambda>c.
           doE (if \<not> waitForDetachHappened \<and> cc_AttachDetachInitialDelayInMs c > 0 \<and> requestNum = 1
                then sys_Sleep env (cc_AttachDetachInitialDelayInMs c) else State_Monad.return ()) (\<lambda>_.
           bindE (numDisksAllowed env node) (\<lambda>allowed.
           bindE (retrieveAttachBatchedDiskRequests nd diskuri) (\<lambda>diskMap.
             if diskMap = [] then verifyAttach env diskName diskURI node
             else attachBatch env diskName diskURI node (map_option fst d) oc (limitBatch allowed diskMap))))))))) ) c
        = (Inr x, c')"
    show "?P x c'"
    proof (cases y)
      case None
      show ?thesis
        by (rule postD [OF _ c run]) (use None assms post_verifyAttach [OF assms(1)] post_attachBatch [OF assms] in
          \<open>auto simp: Let_def intro!: post_rules sc.stays_queues sc.stays_isMax sc.stays_waitForDetachQueue sc.stays_numDisksAllowed\<close>)
    next
      case (Some lun)
      then show ?thesis using y run by (simp add: earlyOK_def)
    qed
  qed
qed

lemma post_DetachDisk:
  assumes "truthful disksOf env" "calm sameConfig env" "\<not> Contains (toBeDetachedMsg diskURI node) CannotFindDiskLUN"
    and inst: "\<And>c e c'. run_state (cloud_InstanceID env node) c = (Inl e, c') \<Longrightarrow> \<not> errorsIs e InstanceNotFound"
    and det: "\<And>v x b f c e c'. run_state (vm_DetachDisk env v x node b f) c = (Inl e, c') \<Longrightarrow> \<not> isInstanceNotFoundError e"
  shows "post (\<lambda>_ c. absentFrom disksOf diskName diskURI node (cc_world c)) (DetachDisk env diskName diskURI node)"
proof -
  let ?P = "\<lambda>_ c. absentFrom disksOf diskName diskURI node (cc_world c)"
  note vd = post_verifyDetach [OF assms(1,3), of diskName]
  have after: "post (\<lambda>check c. \<not> check \<longrightarrow> absentFrom disksOf diskName diskURI node (cc_world c))
      (afterDetachError env v x diskName diskURI node b e)" if "\<not> isInstanceNotFoundError e" for v x b e
    unfolding afterDetachError_def using that assms(2) sc.stays_poll [OF assms(2)]
    by (auto intro!: post_rules post_bindE_value [OF sc.stays_verifyDetach vd] split: sum.split)
  have check: "post ?P (getE (\<lambda>c. if \<not> cc_DisableDiskLunCheck c then verifyDetach env diskName diskURI node else okE ()))"
    using vd by (auto intro!: post_getE simp: lunCheck_def)
  have batch: "post ?P (detachBatch env v diskName diskURI node b)" for v b
    unfolding detachBatch_def Let_def
  proof (intro post_setState post_getE post_doE sc.env_stays assms(2), rule post_bindE_pred)
    fix c rem
    let ?x = "WithTimeout (WithTimeout RequestCtx (detachTimeout (cc_DetachOperationMinTimeoutInSeconds c) rem))
      (vmssDetachTimeout (cc_VMSSDetachTimeoutInSeconds c) (detachTimeout (cc_DetachOperationMinTimeoutInSeconds c) rem))"
    show "stays sameConfig (tryE (vm_DetachDisk env v ?x node b False))" using assms(2) by (auto intro!: sc.basic)
    show "post (\<lambda>r _. \<forall>e. r = Inl e \<longrightarrow> \<not> isInstanceNotFoundError e) (tryE (vm_DetachDisk env v ?x node b False))"
      by (rule post_tryE) (rule det)
  next
    fix c rem r
    assume "\<forall>e. r = Inl e \<longrightarrow> \<not> isInstanceNotFoundError e"
    then show "post ?P (bindE (case r of Inr _ \<Rightarrow> okE True | Inl err \<Rightarrow> afterDetachError env v
        (WithTimeout RequestCtx (detachTimeout (cc_DetachOperationMinTimeoutInSeconds c) rem)) diskName diskURI node b err)
      (\<lambda>check. if \<not> check then okE () else getE (\<lambda>c. if \<not> cc_DisableDiskLunCheck c
        then verifyDetach env diskName diskURI node else okE ())))"
      by (intro post_bindE_value [where M = "\<lambda>check c. \<not> check \<longrightarrow> absentFrom disksOf diskName diskURI node (cc_world c)"])
        (auto intro!: sc.basic sc.stays_afterDetachError assms(2) post_return after intro: postD [OF check]
          split: sum.split if_splits)
  qed
  show ?thesis
    unfolding DetachDisk_def Let_def
  proof (rule post_bindE_pred)
    show "stays sameConfig (tryE (cloud_InstanceID env node))" using assms(2) by (auto intro!: sc.basic)
    show "post (\<lambda>r _. \<forall>e. r = Inl e \<longrightarrow> \<not> errorsIs e InstanceNotFound) (tryE (cloud_InstanceID env node))"
      by (rule post_tryE) (rule inst)
  qed (use vd batch assms(2) in \<open>auto intro!: post_rules sc.stays_queues split: sum.split\<close>)
qed

subsection \<open>A concrete cloud\<close>

text \<open>One VM whose data disks are the world: attaching adds the batch, detaching removes it, nothing fails.\<close>

definition toDataDisk :: "string \<times> AttachDiskOptions option \<Rightarrow> DataDisk" where
  "toDataDisk e = (case e of (uri, opts) \<Rightarrow> \<lparr>dd_Lun = Some (case opts of None \<Rightarrow> 0 | Some x \<Rightarrow> ao_Lun x), dd_Name = map_option ao_DiskName opts,
     dd_VhdURI = None, dd_ManagedDiskID = Some (Some uri), dd_ToBeDetached = None\<rparr>)"

definition exampleEnv :: "DataDisk list env" where
  "exampleEnv = \<lparr>cloud_GetNodeVMSet = (\<lambda>_. okE 0), cloud_InstanceID = (\<lambda>_. okE ''vm''), cloud_VMSet = 0,
     vm_GetNodeNameByProviderID = (\<lambda>_ _. okE ''node''),
     vm_GetDataDisks = (\<lambda>_ _. State (\<lambda>c. ((Inr (filter completeDisk (cc_world c)), None), c\<lparr>cc_world := filter completeDisk (cc_world c)\<rparr>))),
     vm_AttachDisk = (\<lambda>_ _ b. modifyE (\<lambda>c. c\<lparr>cc_world := cc_world c @ map toDataDisk b\<rparr>) (okE ())),
     vm_DetachDisk = (\<lambda>_ _ _ b _. modifyE (\<lambda>c. c\<lparr>cc_world := filter (\<lambda>d. dd_ManagedDiskID d \<notin> Some ` Some ` fst ` set b) (cc_world c)\<rparr>) (okE ())),
     vm_UpdateVM = (\<lambda>_ _. okE ()), vm_DeleteCacheForNode = (\<lambda>_ _. State_Monad.return ()),
     cf_GetDiskClientForSub = (\<lambda>_. okE 0), dc_Get = (\<lambda>_ _ _. okE emptyDisk),
     lister_Get = (\<lambda>_. okE OtherObject), kube_GetNodeLabels = (\<lambda>_. okE [(InstanceTypeKey, ''Standard_D2s_v3'')]), kube_present = True,
     sys_Now = State_Monad.return 0, sys_Sleep = (\<lambda>_. State_Monad.return ()), sys_AwaitMutex = (\<lambda>_. State_Monad.return ()),
     sys_PollTick = State_Monad.return False, ctx_Remaining = (\<lambda>_. State_Monad.return None),
     ctx_Err = (\<lambda>_. State_Monad.return None), ctx_Wait = (\<lambda>_ _. State_Monad.return None),
     tbl_maxDataDiskCountMap = [(''STANDARD_D2S_V3'', 4)]\<rparr>"

definition exampleState :: "DataDisk list \<Rightarrow> DataDisk list controllerCommon" where
  "exampleState ds = \<lparr>cc_diskStateMap = [], cc_lockMap = newLockMap, cc_hasNodeLister = False, cc_attachDiskMap = [],
     cc_detachDiskMap = [], cc_DisableDiskLunCheck = False, cc_DetachOperationMinTimeoutInSeconds = 240,
     cc_AttachDetachInitialDelayInMs = 1000, cc_VMSSDetachTimeoutInSeconds = 200, cc_ForceDetachBackoff = True,
     cc_WaitForDetach = True, cc_CheckDiskCountForBatching = True, cc_WaitForDetachDiskComplete = True,
     cc_hitMaxDataDiskCountCache = \<lparr>tc_TTL = 300, tc_Store = []\<rparr>, cc_world = ds\<rparr>"

lemma exampleEnv_truthful: "truthful (\<lambda>w _. filter completeDisk w) exampleEnv"
  by (auto simp: truthful_def exampleEnv_def)

lemma exampleEnv_calm: "calm sameConfig exampleEnv" "calm noLeak exampleEnv"
  by (simp_all add: calm_def exampleEnv_def stays_def sameConfig_def noLeak_def)

subsection \<open>Properties\<close>

text \<open>(C1) When \<open>AttachDisk\<close> succeeds with the LUN check enabled, the VM has at that moment a data disk with
  that name or URI on the LUN it returns, and that disk is not being detached; this holds on every path: the disk
  was already on the node, was attached by this call, or by another goroutine's batch.\<close>

theorem AttachDisk_success_attached:
  assumes "truthful disksOf env" "calm sameConfig env" "\<not> cc_DisableDiskLunCheck c"
    and "run_state (AttachDisk env diskName diskURI node cachingMode disk occupiedLuns) c = (Inr lun, c')"
  shows "attachedAt disksOf diskName diskURI node lun (cc_world c')"
  using postD [OF post_AttachDisk [OF assms(1,2)] _ assms(4)] assms(3) by (simp add: lunCheck_def)

theorem AttachDisk_success_attached_witness:
  "\<exists>c'. attachedAt (\<lambda>w _. filter completeDisk w) ''d'' ''/U'' ''N'' 1 (cc_world c')
     \<and> run_state (AttachDisk exampleEnv ''d'' ''/U'' ''N'' ''None'' None [0]) (exampleState []) = (Inr 1, c')"
proof -
  have "fst (run_state (AttachDisk exampleEnv ''d'' ''/U'' ''N'' ''None'' None [0]) (exampleState [])) = Inr 1"
    by code_simp
  then obtain c' where r: "run_state (AttachDisk exampleEnv ''d'' ''/U'' ''N'' ''None'' None [0]) (exampleState []) = (Inr 1, c')"
    by (metis prod.collapse)
  have "\<not> cc_DisableDiskLunCheck (exampleState [])" by (simp add: exampleState_def)
  from AttachDisk_success_attached [OF exampleEnv_truthful exampleEnv_calm(1) this r] r show ?thesis by blast
qed

text \<open>(C2) When \<open>DetachDisk\<close> succeeds with the LUN check enabled and the VM exists throughout, no data disk of the VM
  has that name or URI any more, whichever way the call took: the regular or the forced detach, a poll after a
  timeout, a preempted operation, or a batch of another goroutine.\<close>

theorem DetachDisk_success_absent:
  assumes "truthful disksOf env" "calm sameConfig env" "\<not> cc_DisableDiskLunCheck c"
    and "\<not> Contains (toBeDetachedMsg diskURI node) CannotFindDiskLUN"
    and "\<And>c e c'. run_state (cloud_InstanceID env node) c = (Inl e, c') \<Longrightarrow> \<not> errorsIs e InstanceNotFound"
    and "\<And>v x b f c e c'. run_state (vm_DetachDisk env v x node b f) c = (Inl e, c') \<Longrightarrow> \<not> isInstanceNotFoundError e"
    and "run_state (DetachDisk env diskName diskURI node) c = (Inr (), c')"
  shows "absentFrom disksOf diskName diskURI node (cc_world c')"
  using postD [OF post_DetachDisk [OF assms(1,2,4)] _ assms(7)] assms(3,5,6) by (simp add: lunCheck_def)

theorem DetachDisk_success_absent_witness:
  "\<exists>c'. absentFrom (\<lambda>w _. filter completeDisk w) ''other'' ''/other'' ''N'' (cc_world c')
     \<and> run_state (DetachDisk exampleEnv ''other'' ''/other'' ''N'') (exampleState [exampleDataDisk 0]) = (Inr (), c')"
proof -
  have "fst (run_state (DetachDisk exampleEnv ''other'' ''/other'' ''N'') (exampleState [exampleDataDisk 0])) = Inr ()"
    by code_simp
  then obtain c' where r: "run_state (DetachDisk exampleEnv ''other'' ''/other'' ''N'') (exampleState [exampleDataDisk 0]) = (Inr (), c')"
    by (metis prod.collapse)
  have l: "\<not> cc_DisableDiskLunCheck (exampleState [exampleDataDisk 0])" by (simp add: exampleState_def)
  have m: "\<not> Contains (toBeDetachedMsg ''/other'' ''N'') CannotFindDiskLUN" by code_simp
  from DetachDisk_success_absent [OF exampleEnv_truthful exampleEnv_calm(1) l m _ _ r] r show ?thesis
    by (auto simp: exampleEnv_def)
qed

text \<open>No path through \<open>AttachDisk\<close>, \<open>DetachDisk\<close> or \<open>UpdateVM\<close>, panics included, leaves a node's mutex
  locked or a disk marked as attaching or detaching.\<close>

theorem attach_detach_no_leak:
  assumes "calm noLeak env"
  shows "noLeak c (snd (run_state (AttachDisk env diskName diskURI node cachingMode disk occupiedLuns) c))
    \<and> noLeak c (snd (run_state (DetachDisk env diskName diskURI node) c))
    \<and> noLeak c (snd (run_state (UpdateVM env node) c))"
  using nl.stays_AttachDisk [OF assms] nl.stays_DetachDisk [OF assms] nl.stays_UpdateVM [OF assms] by (simp add: stays_def)

theorem attach_detach_no_leak_witness:
  "noLeak (exampleState []) (snd (run_state (AttachDisk exampleEnv ''d'' ''/u'' ''n'' ''None'' None []) (exampleState [])))"
  using attach_detach_no_leak [OF exampleEnv_calm(2)] by blast

text \<open>\<open>isMaxDataDiskCountExceeded\<close> answers true for every node at every time: the cache it asks is filled by a getter that
  never fails, and the code tests the error instead of the value.\<close>

theorem isMaxDataDiskCountExceeded_always:
  "fst (run_state (isMaxDataDiskCountExceeded env nodeName) c) = Inr True"
  using cacheGet_nilGetter_ok
  by (auto simp: isMaxDataDiskCountExceeded_def split: prod.splits sum.splits) (metis Inl_Inr_False fst_conv)

subsection \<open>A failed attach stays queued\<close>

text \<open>The preorder that keeps the attach queue: what is done between the enqueuing of a request and the taking of the batch, in a controller that counts
  disks and reads the nodes from the lister or from the API.\<close>

definition countsDisks :: "bool \<Rightarrow> 'w controllerCommon \<Rightarrow> bool" where
  "countsDisks lister c \<longleftrightarrow> cc_CheckDiskCountForBatching c \<and> cc_hasNodeLister c = lister"

definition sameQueue :: "bool \<Rightarrow> 'w controllerCommon \<Rightarrow> 'w controllerCommon \<Rightarrow> bool" where
  "sameQueue lister c c' \<longleftrightarrow> (countsDisks lister c \<longrightarrow> countsDisks lister c' \<and> cc_attachDiskMap c' = cc_attachDiskMap c)"

interpretation keep: preorder_on_states "sameQueue lister" for lister
  by unfold_locales (auto simp: sameQueue_def)

lemmas keep_basic = keep.stays_return keep.stays_doE keep.stays_bindE keep.stays_tryE keep.stays_getE keep.stays_if keep.stays_modifyE

lemma keep_locking:
  assumes "stays (sameQueue b) m"
  shows "stays (sameQueue b) (locking e m)"
  unfolding stays_def
proof
  fix c :: "'a controllerCommon"
  let ?c = "c\<lparr>cc_lockMap := snd (LockEntry e (cc_lockMap c))\<rparr>"
  have "sameQueue b ?c (snd (run_state m ?c))" using assms unfolding stays_def ..
  then show "sameQueue b c (snd (run_state (locking e m) c))"
    by (cases "run_state m ?c") (simp add: run_locking sameQueue_def countsDisks_def)
qed

lemma keep_wait: "calm (sameQueue b) env \<Longrightarrow> stays (sameQueue b) (waitForDetachQueue k env n h)"
proof (induction k arbitrary: h)
  case (Suc k)
  have "stays (sameQueue b) (getDetachDiskRequestNum n)"
    unfolding getDetachDiskRequestNum_def
    by (rule keep_locking) (auto intro!: keep_basic split: option.split any.split)
  moreover have "stays (sameQueue b) (sys_PollTick env)" using Suc.prems by (simp add: calm_def)
  ultimately show ?case using Suc by (auto intro!: keep_basic split: sum.split)
qed (simp add: keep_basic)

lemma keep_isMax: "calm (sameQueue b) env \<Longrightarrow> stays (sameQueue b) (isMaxDataDiskCountExceeded env n)"
  unfolding isMaxDataDiskCountExceeded_def Let_def
  by (auto intro!: keep_basic simp: calm_def sameQueue_def countsDisks_def split: prod.split)

text \<open>A call that fails in such a controller, and what it is followed by.\<close>

definition countFails :: "bool \<Rightarrow> ('w controllerCommon, 'a) io \<Rightarrow> bool" where
  "countFails lister m \<longleftrightarrow> (\<forall>c. countsDisks lister c \<longrightarrow> isl (fst (run_state m c)))"

lemma countFails_first: "countFails b m \<Longrightarrow> countFails b (bindE m f)"
  unfolding countFails_def by (fastforce split: prod.split sum.split)

lemma countFails_second:
  fixes m :: "('w controllerCommon, 'a) io"
  assumes "stays (sameQueue b) m" "\<And>x. countFails b (f x)"
  shows "countFails b (bindE m f)"
  unfolding countFails_def
proof (intro allI impI)
  fix c :: "'w controllerCommon"
  assume c: "countsDisks b c"
  obtain r c' where m: "run_state m c = (r, c')" by fastforce
  with assms(1) c have "countsDisks b c'" unfolding stays_def sameQueue_def by (metis snd_conv)
  with assms(2) m show "isl (fst (run_state (bindE m f) c))" unfolding countFails_def by (simp split: sum.split)
qed

lemma countFails_doE: "stays (sameQueue b) m \<Longrightarrow> (\<And>x. countFails b (f x)) \<Longrightarrow> countFails b (doE m f)"
  unfolding countFails_def stays_def sameQueue_def doE_def by (auto split: prod.split)

lemma countFails_lockNode:
  assumes "stays (sameQueue b) (sys_AwaitMutex env n)" "countFails b m"
  shows "countFails b (lockNode env n m)"
proof -
  have "countFails b (locking n m)"
    unfolding countFails_def
  proof (intro allI impI)
    fix c :: "'a controllerCommon"
    assume "countsDisks b c"
    then have "countsDisks b (c\<lparr>cc_lockMap := snd (LockEntry n (cc_lockMap c))\<rparr>)" by (simp add: countsDisks_def)
    with assms(2) have "isl (fst (run_state m (c\<lparr>cc_lockMap := snd (LockEntry n (cc_lockMap c))\<rparr>)))" by (simp add: countFails_def)
    then show "isl (fst (run_state (locking n m) c))"
      by (cases "run_state m (c\<lparr>cc_lockMap := snd (LockEntry n (cc_lockMap c))\<rparr>)") (simp add: run_locking)
  qed
  then show ?thesis unfolding lockNode_def by (rule countFails_doE [OF assms(1)])
qed

lemma stays_failing:
  assumes "countFails b m" "stays (sameQueue b) m"
  shows "stays (sameQueue b) (bindE m f)"
  unfolding stays_def
proof
  fix c
  obtain r c' where m: "run_state m c = (r, c')" by fastforce
  show "sameQueue b c (snd (run_state (bindE m f) c))"
  proof (cases "countsDisks b c")
    case True
    with assms(1) m obtain e where "r = Inl e" unfolding countFails_def by (metis fst_conv isl_def)
    moreover have "sameQueue b c c'" using assms(2) m unfolding stays_def by (metis snd_conv)
    ultimately show ?thesis using m by simp
  qed (simp add: sameQueue_def)
qed

text \<open>What \<open>AttachDisk\<close> does once its request is in the queue, when counting the disks fails.\<close>

lemma counting_fails:
  assumes "calm (sameQueue b) env" "countFails b (numDisksAllowed env nodeName)" "stays (sameQueue b) (numDisksAllowed env nodeName)"
  shows "stays (sameQueue b) (lockNode env node (getE (\<lambda>c. doE (if w \<and> p c then sys_Sleep env (t c) else State_Monad.return ())
      (\<lambda>_. bindE (numDisksAllowed env nodeName) (f c)))))" (is "stays _ (lockNode env node (getE ?section))")
    and "countFails b (lockNode env node (getE (\<lambda>c. doE (if w \<and> p c then sys_Sleep env (t c) else State_Monad.return ())
      (\<lambda>_. bindE (numDisksAllowed env nodeName) (f c)))))"
proof -
  have env: "stays (sameQueue b) (sys_Sleep env x)" "stays (sameQueue b) (sys_AwaitMutex env e)" for x e using assms(1) by (simp_all add: calm_def)
  have count: "stays (sameQueue b) (bindE (numDisksAllowed env nodeName) (f c))" for c by (rule stays_failing [OF assms(2,3)])
  show "stays (sameQueue b) (lockNode env node (getE ?section))"
    unfolding lockNode_def by (intro keep.stays_doE keep_locking keep.stays_getE keep.stays_if keep.stays_return env count)
  have "countFails b (?section c)" for c
    by (intro countFails_doE countFails_first [OF assms(2)] keep.stays_if keep.stays_return env)
  then have "countFails b (getE ?section)" by (simp add: countFails_def)
  then show "countFails b (lockNode env node (getE ?section))" by (rule countFails_lockNode [OF env(2)])
qed

lemma keep_numDisksAllowed: "calm (sameQueue b) env \<Longrightarrow> stays (sameQueue b) (numDisksAllowed env n)"
proof -
  assume calm: "calm (sameQueue b) env"
  have "stays (sameQueue b) (GetNodeDataDisks env n)"
    unfolding GetNodeDataDisks_def by (rule keep.stays_bind) (use calm in \<open>auto simp: calm_def intro: keep_basic split: sum.split\<close>)
  moreover have "stays (sameQueue b) (GetNodeInfoFromNodeLister env n)" "stays (sameQueue b) (GetNodeInfoFromLabels env n)"
    unfolding GetNodeInfoFromNodeLister_def GetNodeInfoFromLabels_def
    using calm by (auto simp: calm_def intro!: keep_basic split: sum.split lister_object.split)
  ultimately show ?thesis
    unfolding numDisksAllowed_def Let_def by (auto intro!: keep_basic split: sum.split prod.split)
qed

text \<open>(C39) A failed attach leaves its request behind. When counting the data disks of the node fails, which the code does before it takes the batch,
  \<open>AttachDisk\<close> of a disk that no VM owns fails, and its request is still in the queue of the node afterwards; whichever disk is attached to the node
  next, the batch that is then taken attaches the failed disk as well. The environment is assumed not to touch the queue.\<close>

theorem failed_attach_stays_queued:
  assumes "calm (sameQueue lister) env" "attachTyped c" "countsDisks lister c" "countFails lister (numDisksAllowed env nodeName)"
    and "\<And>p d. disk = Some (p, d) \<Longrightarrow> d_ManagedBy d = None"
    and "attachOptions diskName diskURI cachingMode (map_option snd disk) = Inr options"
  shows "\<exists>e c'. run_state (AttachDisk env diskName diskURI nodeName cachingMode disk occupiedLuns) c = (Inl e, c')
    \<and> gget (pendingAttach c' (ToLower nodeName)) (ToLower diskURI) \<noteq> None
    \<and> (\<forall>u o'. \<exists>n c1 b c2. run_state (batchAttachDiskRequest u (ToLower nodeName) o') c' = (Inr n, c1)
         \<and> run_state (retrieveAttachBatchedDiskRequests (ToLower nodeName) u) c1 = (Inr b, c2)
         \<and> gget b (ToLower diskURI) \<noteq> None)"
proof -
  let ?n = "ToLower nodeName" and ?u = "ToLower diskURI"
  define wait where "wait = getE (\<lambda>c. if \<not> cc_WaitForDetach c then okE False
    else bindE (isMaxDataDiskCountExceeded env nodeName) (\<lambda>exceeded. if exceeded then waitForDetachQueue 16 env ?n False else okE False))"
  define rest where "rest = (\<lambda>k happened. lockNode env ?n (getE (\<lambda>c.
      doE (if \<not> happened \<and> cc_AttachDetachInitialDelayInMs c > 0 \<and> k = (1 :: int) then sys_Sleep env (cc_AttachDetachInitialDelayInMs c)
           else State_Monad.return ()) (\<lambda>_.
      bindE (numDisksAllowed env nodeName) (\<lambda>allowed. bindE (retrieveAttachBatchedDiskRequests ?n ?u) (\<lambda>diskMap.
        if diskMap = [] then verifyAttach env diskName diskURI nodeName
        else attachBatch env diskName diskURI nodeName (map_option fst disk) occupiedLuns (limitBatch allowed diskMap)))))))"
  have "run_state (case disk of None \<Rightarrow> okE None | Some (_, d) \<Rightarrow> attachedElsewhere env diskName diskURI nodeName d) s = (Inr None, s)" for s
    using assms(5) by (auto simp: attachedElsewhere_def split: option.split)
  then have run: "run_state (AttachDisk env diskName diskURI nodeName cachingMode disk occupiedLuns) c
      = run_state (bindE (batchAttachDiskRequest ?u ?n options) (\<lambda>k. bindE wait (rest k))) c"
    by (simp add: AttachDisk_def assms(6) wait_def rest_def Let_def)
  obtain k c0 where enq: "run_state (batchAttachDiskRequest ?u ?n options) c = (Inr k, c0)"
    using aq.enq_length [OF assms(2), of ?n ?u options] by (metis attachEnq_def prod.collapse)
  have typed: "attachTyped c0" using aq.enq_typed [OF assms(2), of ?n ?u options] enq by (simp add: attachEnq_def)
  have pending: "gget (pendingAttach c0 ?n) ?u \<noteq> None"
    using aq.enq_pend [OF assms(2), of ?n ?u options ?n] enq by (auto simp: attachEnq_def split: if_splits)
  have counts: "countsDisks lister c0"
    using assms(3) enq by (auto simp: countsDisks_def batchAttachDiskRequest_def run_locking Let_def split: option.splits any.splits)
  have wait: "stays (sameQueue lister) wait" unfolding wait_def
    by (intro keep_basic keep_isMax [OF assms(1)] keep_wait [OF assms(1)])
  note last = counting_fails [OF assms(1,4) keep_numDisksAllowed [OF assms(1)]]
  have "stays (sameQueue lister) (bindE wait (rest k))" unfolding rest_def by (rule keep.stays_bindE [OF wait last(1)])
  moreover have "countFails lister (bindE wait (rest k))" unfolding rest_def by (rule countFails_second [OF wait last(2)])
  ultimately have f: "isl (fst (run_state (bindE wait (rest k)) c0))" "cc_attachDiskMap (snd (run_state (bindE wait (rest k)) c0)) = cc_attachDiskMap c0"
    using counts by (auto simp: countFails_def stays_def sameQueue_def)
  then obtain e c' where c': "run_state (bindE wait (rest k)) c0 = (Inl e, c')" "cc_attachDiskMap c' = cc_attachDiskMap c0"
    by (cases "run_state (bindE wait (rest k)) c0") (auto simp: isl_def)
  have typed': "attachTyped c'" and same: "pendingAttach c' = pendingAttach c0"
    using aq.oth_keeps [OF c'(2) typed] by simp_all
  have "\<exists>n c1 b c2. run_state (batchAttachDiskRequest u ?n o') c' = (Inr n, c1)
      \<and> run_state (retrieveAttachBatchedDiskRequests ?n u) c1 = (Inr b, c2) \<and> gget b ?u \<noteq> None" for u o'
  proof -
    obtain n c1 where e1: "run_state (batchAttachDiskRequest u ?n o') c' = (Inr n, c1)"
      using aq.enq_length [OF typed', of ?n u o'] by (metis attachEnq_def prod.collapse)
    have t1: "attachTyped c1" using aq.enq_typed [OF typed', of ?n u o'] e1 by (simp add: attachEnq_def)
    have p1: "gget (pendingAttach c1 ?n) u \<noteq> None" "gget (pendingAttach c1 ?n) ?u \<noteq> None"
      using aq.enq_pend [OF typed', of ?n u o' ?n] e1 pending same by (auto simp: attachEnq_def gget_gset)
    from aq.tak_batch [OF t1, of ?n u] p1 have "fst (run_state (retrieveAttachBatchedDiskRequests ?n u) c1) = Inr (pendingAttach c1 ?n)"
      by (simp add: attachTake_def)
    with e1 p1(2) show ?thesis by (metis prod.collapse)
  qed
  with run enq c' pending same show ?thesis by (simp del: run_bindE add: run_bindE [of "batchAttachDiskRequest ?u ?n options"])
qed

definition throttledEnv :: "DataDisk list env" where
  "throttledEnv = exampleEnv\<lparr>vm_GetDataDisks := (\<lambda>_ _. State_Monad.return (Inl (errorf ''throttled''), None))\<rparr>"

theorem failed_attach_stays_queued_witness:
  "\<exists>e c'. run_state (AttachDisk throttledEnv ''a'' ''/a'' ''n'' ''None'' None []) (exampleState []) = (Inl e, c')
     \<and> gget (pendingAttach c' ''n'') ''/a'' \<noteq> None"
proof -
  have calm: "calm (sameQueue False) throttledEnv"
    by (simp add: calm_def throttledEnv_def exampleEnv_def stays_def sameQueue_def countsDisks_def)
  have typed: "attachTyped (exampleState [])" "countsDisks False (exampleState [])"
    by (simp_all add: attachTyped_def countsDisks_def exampleState_def)
  have labels: "run_state (GetNodeInfoFromLabels throttledEnv ''n'') c = (Inr ([], ''Standard_D2s_v3''), c)" for c
    by (simp add: GetNodeInfoFromLabels_def throttledEnv_def exampleEnv_def gstr_def gget_def WellKnownTopologyKey_def InstanceTypeKey_def)
  have size: "GetMaxDataDiskCount (tbl_maxDataDiskCountMap throttledEnv) ''Standard_D2s_v3'' = (4, True)" by code_simp
  have disks: "run_state (GetNodeDataDisks throttledEnv ''n'') c = ((Inl (errorf ''throttled''), None), c)" for c
    by (simp add: GetNodeDataDisks_def throttledEnv_def exampleEnv_def)
  have count: "countFails False (numDisksAllowed throttledEnv ''n'')"
    by (simp add: countFails_def countsDisks_def numDisksAllowed_def labels size disks Let_def)
  have lower: "ToLower ''n'' = ''n''" "ToLower ''/a'' = ''/a''" by code_simp+
  have options: "attachOptions ''a'' ''/a'' ''None'' (map_option snd (None :: disk_ptr))
      = Inr \<lparr>ao_CachingMode = ''None'', ao_DiskName = ''a'', ao_DiskEncryptionSetID = [], ao_WriteAcceleratorEnabled = False, ao_Lun = - 1\<rparr>"
    by (simp add: attachOptions_def)
  from failed_attach_stays_queued [OF calm typed count _ options, of "[]"] lower show ?thesis by auto
qed

text \<open>In full: the next attach on the node attaches both disks.\<close>

lemma failed_attach_is_retried:
  "map dd_Name (cc_world (snd (run_state (AttachDisk exampleEnv ''b'' ''/b'' ''n'' ''None'' None [])
     (snd (run_state (AttachDisk throttledEnv ''a'' ''/a'' ''n'' ''None'' None []) (exampleState [])))))) = [Some ''a'', Some ''b'']"
  by code_simp

lemma backoff_success:
  "run_state (ExponentialBackoffWithContext env x k cond) c = (Inr (), c') \<Longrightarrow> \<exists>c1. run_state cond c1 = (Inr True, c')"
proof (induction k arbitrary: c)
  case (Suc k)
  obtain d c1 where d: "run_state (ctx_Err env x) c = (d, c1)" by (cases "run_state (ctx_Err env x) c")
  show ?case
  proof (cases d)
    case None
    with Suc.prems d obtain ok c2 where ok: "run_state cond c1 = (Inr ok, c2)" by (auto split: prod.splits sum.splits)
    show ?thesis
    proof (cases ok)
      case False
      obtain w c3 where w: "run_state (ctx_Wait env x k) c2 = (w, c3)" by (cases "run_state (ctx_Wait env x k) c2")
      from Suc.prems d None ok False w have "run_state (ExponentialBackoffWithContext env x k cond) c3 = (Inr (), c')"
        by (auto split: if_splits option.splits)
      then show ?thesis by (rule Suc.IH)
    qed (use Suc.prems d None ok in auto)
  qed (use Suc.prems d in auto)
qed simp

text \<open>Waiting for a deleted VM to let go of a disk ends in success only after a read of the disk that showed it owned by
  no VM, or by a VM that resolves to another node.\<close>

theorem waitForDiskManagedByTobeRemoved_success:
  assumes "run_state (waitForDiskManagedByTobeRemoved env diskURI nodeName) c = (Inr (), c')"
    and "cc_WaitForDetachDiskComplete c"
  shows "\<exists>sub rg name client disk c1 c2. GetInfoFromURI diskURI = Inr (sub, rg, name)
     \<and> run_state (dc_Get env client rg name) c1 = (Inr disk, c2)
     \<and> (d_ManagedBy disk = None \<and> c' = c2
        \<or> (\<exists>vm other. d_ManagedBy disk = Some vm \<and> \<not> EqualFold other nodeName
             \<and> run_state (vm_GetNodeNameByProviderID env (cloud_VMSet env) vm) c2 = (Inr other, c')))"
proof -
  obtain sub rg name where uri: "GetInfoFromURI diskURI = Inr (sub, rg, name)"
    and "run_state (ExponentialBackoffWithContext env RequestCtx defaultBackOff_Steps (managedByRemoved env sub rg name nodeName)) c = (Inr (), c')"
    using assms by (auto simp: waitForDiskManagedByTobeRemoved_def split: sum.splits)
  from backoff_success [OF this(2)] obtain c0 where "run_state (managedByRemoved env sub rg name nodeName) c0 = (Inr True, c')" ..
  then have "\<exists>client disk c1 c2. run_state (dc_Get env client rg name) c1 = (Inr disk, c2)
     \<and> (d_ManagedBy disk = None \<and> c' = c2
        \<or> (\<exists>vm other. d_ManagedBy disk = Some vm \<and> \<not> EqualFold other nodeName
             \<and> run_state (vm_GetNodeNameByProviderID env (cloud_VMSet env) vm) c2 = (Inr other, c')))"
    by (auto simp: managedByRemoved_def split: prod.splits sum.splits option.splits if_splits) blast+
  with uri show ?thesis by blast
qed

theorem waitForDiskManagedByTobeRemoved_success_witness:
  "\<exists>sub rg name. GetInfoFromURI ''/subscriptions/s/resourceGroups/g/providers/Microsoft.Compute/disks/d'' = Inr (sub, rg, name)"
proof -
  let ?u = "''/subscriptions/s/resourceGroups/g/providers/Microsoft.Compute/disks/d''"
  have "fst (run_state (waitForDiskManagedByTobeRemoved exampleEnv ?u ''n'') (exampleState [])) = Inr ()" by code_simp
  then obtain c' where r: "run_state (waitForDiskManagedByTobeRemoved exampleEnv ?u ''n'') (exampleState []) = (Inr (), c')"
    by (metis prod.collapse)
  have "cc_WaitForDetachDiskComplete (exampleState [])" by (simp add: exampleState_def)
  from waitForDiskManagedByTobeRemoved_success [OF r this] show ?thesis by blast
qed

text \<open>The timeouts of a detach: the regular detach gets at least the configured minimum, never more than what a larger
  of the minimum and half the remaining time allows, and the early exit of the scale-set call never comes after it, so that
  a forced detach still has half of a long deadline.\<close>

theorem detach_timeouts:
  assumes "0 \<le> minTimeout" "minTimeout < 2 ^ 33" "0 \<le> vmssTimeout" "vmssTimeout < 2 ^ 33"
  shows "minTimeout * second \<le> detachTimeout minTimeout remaining
    \<and> (\<forall>r. remaining = Some r \<longrightarrow> 2 * minTimeout * second \<le> r \<longrightarrow> 2 * detachTimeout minTimeout remaining \<le> r \<and> r \<le> 2 * detachTimeout minTimeout remaining + 1)
    \<and> vmssDetachTimeout vmssTimeout (detachTimeout minTimeout remaining) \<le> detachTimeout minTimeout remaining
    \<and> (0 < vmssTimeout \<longrightarrow> vmssDetachTimeout vmssTimeout (detachTimeout minTimeout remaining)
         = min (vmssTimeout * second) (detachTimeout minTimeout remaining))"
proof -
  have w: "int64 (t * second) = t * second" if "0 \<le> t" "t < 2 ^ 33" for t
    using that by (intro int64_id in_int64I) (auto simp: second_def)
  have half: "r sdiv 2 = r div 2" if "0 \<le> r" for r :: int
    using that by (rule sdiv_nonneg) simp
  have pos: "0 \<le> minTimeout * second" using assms(1) by (simp add: second_def)
  show ?thesis
    unfolding detachTimeout_def vmssDetachTimeout_def w [OF assms(1,2)] w [OF assms(3,4)] Let_def
    using pos half by (auto simp: second_def split: option.splits)
qed

theorem detach_timeouts_witness:
  "2 * detachTimeout 240 (Some 600000000001) \<le> 600000000001
     \<and> vmssDetachTimeout 200 (detachTimeout 240 (Some 600000000001)) \<le> detachTimeout 240 (Some 600000000001)"
  using detach_timeouts [of 240 200 "Some 600000000001"] by (simp add: second_def)

text \<open>The options queued for a disk: caching is off for every disk of 4 TiB or more and for every PremiumV2 disk, and
  otherwise as requested; and a disk that is not shared is queued only when Azure reports no state or \<open>Unattached\<close>.\<close>

theorem attachOptions_sound:
  assumes "attachOptions diskName diskURI cachingMode (Some d) = Inr opts"
  shows "ao_DiskName opts = diskName \<and> ao_Lun opts = - 1
    \<and> ao_CachingMode opts =
        (if d_SKU d = Some (Some ''PremiumV2_LRS'') \<or> (\<exists>p g. d_Properties d = Some p \<and> p_DiskSizeGB p = Some g \<and> 4096 \<le> g)
         then ''None'' else cachingMode)
    \<and> (\<forall>p st. d_Properties d = Some p \<longrightarrow> p_DiskState p = Some st \<longrightarrow> st \<noteq> ''Unattached'' \<longrightarrow> (\<exists>n. p_MaxShares p = Some n \<and> 1 < n))"
  using assms
  by (auto simp: attachOptions_def Let_def effectiveCachingModeForDisk_def diskCachingLimit_def singleAttach_def
      split: option.splits if_splits)

theorem attachOptions_sound_witness:
  "\<exists>opts. attachOptions ''d'' ''/d'' ''ReadOnly'' (Some (emptyDisk\<lparr>d_Properties := Some (emptyDiskProperties\<lparr>p_DiskSizeGB := Some 4096\<rparr>)\<rparr>)) = Inr opts
     \<and> ao_CachingMode opts = ''None''"
proof -
  let ?d = "emptyDisk\<lparr>d_Properties := Some (emptyDiskProperties\<lparr>p_DiskSizeGB := Some 4096\<rparr>)\<rparr>"
  obtain opts where o: "attachOptions ''d'' ''/d'' ''ReadOnly'' (Some ?d) = Inr opts"
    by (simp add: attachOptions_def Let_def emptyDisk_def emptyDiskProperties_def)
  from attachOptions_sound [OF o] o show ?thesis by auto
qed

lemma removeFromBatch_length:
  "\<forall>(u, opt) \<in> set m. opt \<noteq> None \<Longrightarrow> 0 \<le> n \<Longrightarrow> int (length (removeFromBatch n m)) = max 0 (int (length m) - n)"
proof (induction m arbitrary: n)
  case (Cons x m)
  obtain u opt where x: "x = (u, opt)" by (cases x)
  show ?case using Cons.IH [of "n - 1"] Cons.prems by (auto simp: x)
qed simp

lemma removeFromBatch_subset: "set (removeFromBatch n m) \<subseteq> set m"
  by (induction n m rule: removeFromBatch.induct) auto

text \<open>The batch sent to Azure never holds more disks than the VM size still allows, is never cut further than that, and
  has only requests that were queued.\<close>

theorem limitBatch_bound:
  assumes "\<forall>(u, opt) \<in> set m. opt \<noteq> None" "0 \<le> allowed"
  shows "int (length (limitBatch allowed m)) = min (int (length m)) allowed \<and> set (limitBatch allowed m) \<subseteq> set m"
  using removeFromBatch_length [OF assms(1), of "int (length m) - allowed"] removeFromBatch_subset [of "int (length m) - allowed" m] assms(2)
  by (auto simp: limitBatch_def Let_def)

theorem limitBatch_bound_witness:
  "int (length (limitBatch 1 [(''/a'', Some exampleOptions), (''/b'', Some exampleOptions)])) = 1"
  using limitBatch_bound [of "[(''/a'', Some exampleOptions), (''/b'', Some exampleOptions)]" 1] by simp

end
