(* ===== verification/ManagedDisk.thy ===== *)
theory ManagedDisk
  imports AttachDetachProps
begin

text \<open>
  The managed disk controller (\<open>azure_managedDiskController.go\<close>): creating, deleting, resizing and modifying a disk
  through the Azure disk client. The writes of the client are a \<open>disk_api\<close>; reads, contexts and waits come from
  the environment of \<open>AttachDetach\<close>. A read that succeeds yields a disk, never nil.
\<close>

record ManagedDiskOptions =
  mo_StorageAccountType :: string
  mo_DiskName :: string
  mo_PVCName :: string
  mo_ResourceGroup :: string
  mo_AvailabilityZone :: string
  mo_Tags :: smap
  mo_DiskIOPSReadWrite :: string
  mo_DiskMBpsReadWrite :: string
  mo_SourceResourceID :: string
  mo_SourceType :: string
  mo_DiskEncryptionSetID :: string
  mo_DiskEncryptionType :: string
  mo_SizeGB :: int
  mo_MaxShares :: int
  mo_LogicalSectorSize :: int
  mo_SkipGetDiskOperation :: bool
  mo_PublicNetworkAccess :: string
  mo_NetworkAccessPolicy :: string
  mo_DiskAccessID :: "string option"
  mo_BurstingEnabled :: "bool option"
  mo_SubscriptionID :: string
  mo_Location :: string
  mo_PerformancePlus :: "bool option"

record cloud_config =
  cfg_ResourceGroup :: string
  cfg_SubscriptionID :: string
  cfg_Location :: string
  cfg_Cloud :: string
  cfg_DisableAzureStackCloud :: bool
  cfg_ExtendedLocationName :: string
  cfg_ExtendedLocationType :: string

record DiskUpdate =
  du_SKU :: "string option"
  du_Properties :: "DiskProperties option"

record 'w disk_api =
  da_CreateOrUpdate :: "nat \<Rightarrow> string \<Rightarrow> string \<Rightarrow> Disk \<Rightarrow> ('w controllerCommon, Disk option) io"
  da_Delete :: "nat \<Rightarrow> string \<Rightarrow> string \<Rightarrow> ('w controllerCommon, unit) io"
  da_Patch :: "nat \<Rightarrow> string \<Rightarrow> string \<Rightarrow> DiskUpdate \<Rightarrow> ('w controllerCommon, unit) io"

subsection \<open>The model of a new disk\<close>

text \<open>\<open>GetZoneID\<close> and \<open>HasExtendedLocation\<close> of the vendored cloud provider.\<close>

definition GetZoneID :: "cloud_config \<Rightarrow> string \<Rightarrow> string" where
  "GetZoneID cfg zoneLabel =
     (if HasPrefix zoneLabel (cfg_Location cfg @ ''-'') then TrimPrefix zoneLabel (cfg_Location cfg @ ''-'') else [])"

definition HasExtendedLocation :: "cloud_config \<Rightarrow> bool" where
  "HasExtendedLocation cfg \<longleftrightarrow> cfg_ExtendedLocationName cfg \<noteq> [] \<and> cfg_ExtendedLocationType cfg \<noteq> []"

definition getValidCreationData :: "string \<Rightarrow> string \<Rightarrow> ManagedDiskOptions \<Rightarrow> CreationData result" where
  "getValidCreationData subscriptionID resourceGroup options =
     (let empty = emptyCreationData\<lparr>cd_CreateOption := Some ''Empty'', cd_PerformancePlus := mo_PerformancePlus options\<rparr>;
          src = mo_SourceResourceID options;
          copy = (\<lambda>rid. if length (Split rid ''/'') > 9
            then Inl (errorf (''sourceResourceID('' @ rid @ '') is invalid, correct format: ''))
            else Inr (emptyCreationData\<lparr>cd_CreateOption := Some ''Copy'', cd_SourceResourceID := Some rid,
                   cd_PerformancePlus := mo_PerformancePlus options\<rparr>))
      in if src = [] then Inr empty
         else if mo_SourceType options = SourceSnapshot
         then copy (if rxFind toLowerC DiskSnapshotPathRE src = None then diskSnapshotPath subscriptionID resourceGroup src else src)
         else if mo_SourceType options = SourceVolume
         then copy (if rxFind toLowerC ManagedDiskPathRE src = None then ManagedDiskPath subscriptionID resourceGroup src else src)
         else Inr empty)"

fun putTags :: "smap \<Rightarrow> (string, string option) gomap \<Rightarrow> (string, string option) gomap" where
  "putTags [] m = m"
| "putTags ((k, v) # tags) m = putTags tags (gset k (Some v) m)"

definition newDiskTags :: "smap \<Rightarrow> (string, string option) gomap" where
  "newDiskTags tags = putTags tags [(CreatedByTag, Some AzureDiskDriverTag)]"

definition isUltraOrV2 :: "string \<Rightarrow> bool" where
  "isUltraOrV2 sku \<longleftrightarrow> sku = ''UltraSSD_LRS'' \<or> sku = ''PremiumV2_LRS''"

definition networkProps :: "bool \<Rightarrow> ManagedDiskOptions \<Rightarrow> DiskProperties \<Rightarrow> DiskProperties result" where
  "networkProps isAzureStack options p =
     (let p1 = (if mo_PublicNetworkAccess options \<noteq> [] then p\<lparr>p_PublicNetworkAccess := Some (mo_PublicNetworkAccess options)\<rparr>
                else if isAzureStack then p else p\<lparr>p_PublicNetworkAccess := Some ''Disabled''\<rparr>);
          policy = mo_NetworkAccessPolicy options
      in if policy \<noteq> []
         then let p2 = p1\<lparr>p_NetworkAccessPolicy := Some policy\<rparr>
           in if policy = ''AllowPrivate''
              then (if mo_DiskAccessID options = None
                    then Inl (errorf ''DiskAccessID should not be empty when NetworkAccessPolicy is AllowPrivate'')
                    else Inr (p2\<lparr>p_DiskAccessID := mo_DiskAccessID options\<rparr>))
              else (case mo_DiskAccessID options of
                  Some d \<Rightarrow> Inl (errorf (''DiskAccessID('' @ d @ '') must be empty when NetworkAccessPolicy('' @ policy @ '') is not AllowPrivate''))
                | None \<Rightarrow> Inr p2)
         else Inr (if isAzureStack then p1 else p1\<lparr>p_NetworkAccessPolicy := Some ''DenyAll''\<rparr>))"

text \<open>A performance field: the default for an Ultra disk, the parsed number otherwise.\<close>

definition perfValue :: "string \<Rightarrow> string \<Rightarrow> string \<Rightarrow> int \<Rightarrow> int option result" where
  "perfValue name sku v dflt =
     (if v = [] then Inr (if sku = ''UltraSSD_LRS'' then Some dflt else None)
      else case Atoi v of
          Inl err \<Rightarrow> Inl (wrapf (''AzureDisk - failed to parse '' @ name @ '': '' @ emsg err) err)
        | Inr n \<Rightarrow> Inr (Some n))"

definition perfProps :: "ManagedDiskOptions \<Rightarrow> DiskProperties \<Rightarrow> DiskProperties result" where
  "perfProps options p =
     (let sku = mo_StorageAccountType options
      in if isUltraOrV2 sku
         then case perfValue ''DiskIOPSReadWrite'' sku (mo_DiskIOPSReadWrite options) 500 of
             Inl e \<Rightarrow> Inl e
           | Inr iops \<Rightarrow> (case perfValue ''DiskMBpsReadWrite'' sku (mo_DiskMBpsReadWrite options) 100 of
               Inl e \<Rightarrow> Inl e
             | Inr mbps \<Rightarrow> Inr (p\<lparr>p_DiskIOPSReadWrite := iops, p_DiskMBpsReadWrite := mbps,
                 p_CreationData := (if mo_LogicalSectorSize options \<noteq> 0
                   then map_option (\<lambda>cd. cd\<lparr>cd_LogicalSectorSize := Some (mo_LogicalSectorSize options)\<rparr>) (p_CreationData p)
                   else p_CreationData p)\<rparr>))
         else if mo_DiskIOPSReadWrite options \<noteq> []
         then Inl (errorf ''AzureDisk - DiskIOPSReadWrite parameter is only applicable in UltraSSD_LRS disk type'')
         else if mo_DiskMBpsReadWrite options \<noteq> []
         then Inl (errorf ''AzureDisk - DiskMBpsReadWrite parameter is only applicable in UltraSSD_LRS disk type'')
         else if mo_LogicalSectorSize options \<noteq> 0
         then Inl (errorf ''AzureDisk - LogicalSectorSize parameter is only applicable in UltraSSD_LRS disk type'')
         else Inr p)"

definition encryptionProps :: "ManagedDiskOptions \<Rightarrow> DiskProperties \<Rightarrow> DiskProperties result" where
  "encryptionProps options p =
     (let set_id = mo_DiskEncryptionSetID options; ty = mo_DiskEncryptionType options
      in if set_id \<noteq> []
         then if Index (ToLower set_id) ''/subscriptions/'' \<noteq> 0
           then Inl (errorf (''AzureDisk - format of DiskEncryptionSetID('' @ set_id @ '') is incorrect, correct format: ''
             @ ''/subscriptions/{subs-id}/resourceGroups/{rg-name}/providers/Microsoft.Compute/diskEncryptionSets/{diskEncryptionSet-name}''))
           else Inr (p\<lparr>p_Encryption := Some \<lparr>enc_DiskEncryptionSetID = Some set_id,
             enc_Type = Some (if ty \<noteq> [] then ty else ''EncryptionAtRestWithCustomerKey'')\<rparr>\<rparr>)
         else if ty \<noteq> []
         then Inl (errorf (''AzureDisk - DiskEncryptionType('' @ ty @ '') should be empty when DiskEncryptionSetID is not set''))
         else Inr p)"

text \<open>The part of \<open>CreateManagedDisk\<close> before the client is called: subscription, resource group and the disk to create.\<close>

definition diskModel :: "cloud_config \<Rightarrow> ManagedDiskOptions \<Rightarrow> (string \<times> string \<times> Disk) result" where
  "diskModel cfg options =
     (let requestedZone = (if mo_AvailabilityZone options = [] then [] else GetZoneID cfg (mo_AvailabilityZone options));
          diskSizeGB = int32 (mo_SizeGB options);
          rg = (if mo_ResourceGroup options \<noteq> [] then mo_ResourceGroup options else cfg_ResourceGroup cfg);
          subsID = (if mo_SubscriptionID options \<noteq> [] then mo_SubscriptionID options else cfg_SubscriptionID cfg);
          isAzureStack = IsAzureStackCloud (cfg_Cloud cfg) (cfg_DisableAzureStackCloud cfg)
      in if mo_SubscriptionID options \<noteq> [] \<and> \<not> EqualFold (mo_SubscriptionID options) (cfg_SubscriptionID cfg)
            \<and> mo_ResourceGroup options = []
         then Inl (errorf (''resourceGroup must be specified when subscriptionID('' @ mo_SubscriptionID options @ '') is not empty''))
         else
           bindR (getValidCreationData subsID rg options) (\<lambda>creationData.
           bindR (networkProps isAzureStack options (emptyDiskProperties\<lparr>p_CreationData := Some creationData,
             p_BurstingEnabled := mo_BurstingEnabled options,
             p_DiskSizeGB := (if diskSizeGB = 0 \<and> mo_SourceType options = SourceSnapshot then None else Some diskSizeGB)\<rparr>)) (\<lambda>p1.
           bindR (perfProps options p1) (\<lambda>p2.
           bindR (encryptionProps options p2) (\<lambda>p3.
           Inr (subsID, rg, emptyDisk\<lparr>
             d_Location := Some (if mo_Location options \<noteq> [] then mo_Location options else cfg_Location cfg),
             d_Tags := newDiskTags (mo_Tags options),
             d_SKU := Some (Some (mo_StorageAccountType options)),
             d_Properties := Some (if mo_MaxShares options > 1 then p3\<lparr>p_MaxShares := Some (mo_MaxShares options)\<rparr> else p3),
             d_ExtendedLocation := (if HasExtendedLocation cfg
               then Some (cfg_ExtendedLocationName cfg, cfg_ExtendedLocationType cfg) else None),
             d_Zones := (if requestedZone \<noteq> [] then [Some requestedZone] else [])\<rparr>))))))"

subsection \<open>Creating a disk\<close>

definition provisioned :: "Disk option \<Rightarrow> bool" where
  "provisioned disk = (case disk of None \<Rightarrow> False | Some d \<Rightarrow> (case d_Properties d of None \<Rightarrow> False
     | Some p \<Rightarrow> EqualFold (derefStr (p_ProvisioningState p)) ''succeeded''))"

text \<open>
  The backoff loop of \<open>CreateManagedDisk\<close> with its variables \<open>disk\<close> and \<open>diskID\<close>; its error is only logged,
  so that the value is the \<open>diskID\<close> at the end. \<open>steps\<close> is what is left of the backoff.
\<close>

fun waitProvisioned :: "'w env \<Rightarrow> nat \<Rightarrow> string \<Rightarrow> string \<Rightarrow> bool \<Rightarrow> nat \<Rightarrow> Disk option \<Rightarrow> string \<Rightarrow> ('w controllerCommon, string) io" where
  "waitProvisioned env diskClient rg diskName skipGet 0 disk diskID = okE diskID"
| "waitProvisioned env diskClient rg diskName skipGet (Suc steps) disk diskID =
     doE (ctx_Err env RequestCtx) (\<lambda>done.
       if done \<noteq> None then okE diskID
       else if provisioned disk
       then okE (let i = derefStr (Option.bind disk d_ID) in if i \<noteq> [] then i else diskID)
       else if skipGet then okE diskID
       else bindE (tryE (dc_Get env diskClient rg diskName)) (\<lambda>r. case r of
           Inl err \<Rightarrow> okE diskID
         | Inr disk' \<Rightarrow>
             if steps = 0 then okE diskID
             else doE (ctx_Wait env RequestCtx steps) (\<lambda>done.
               if done \<noteq> None then okE diskID
               else waitProvisioned env diskClient rg diskName skipGet steps (Some disk') diskID)))"

definition CreateManagedDisk :: "'w env \<Rightarrow> 'w disk_api \<Rightarrow> cloud_config \<Rightarrow> ManagedDiskOptions \<Rightarrow> ('w controllerCommon, string) io" where
  "CreateManagedDisk env api cfg options =
     bindE (liftE (diskModel cfg options)) (\<lambda>(subsID, rg, model).
     bindE (cf_GetDiskClientForSub env subsID) (\<lambda>diskClient.
     bindE (da_CreateOrUpdate api diskClient rg (mo_DiskName options) model) (\<lambda>disk.
       waitProvisioned env diskClient rg (mo_DiskName options) (mo_SkipGetDiskOperation options) defaultBackOff_Steps
         disk (ManagedDiskPath subsID rg (mo_DiskName options)))))"

subsection \<open>Reading and deleting a disk\<close>

definition GetDisk :: "'w env \<Rightarrow> string \<Rightarrow> string \<Rightarrow> string \<Rightarrow> ('w controllerCommon, Disk) io" where
  "GetDisk env subsID resourceGroup diskName =
     bindE (cf_GetDiskClientForSub env subsID) (\<lambda>diskclient. dc_Get env diskclient resourceGroup diskName)"

definition GetDiskByURI :: "'w env \<Rightarrow> string \<Rightarrow> ('w controllerCommon, Disk) io" where
  "GetDiskByURI env diskURI =
     bindE (liftE (GetInfoFromURI diskURI)) (\<lambda>(subsID, resourceGroup, diskName). GetDisk env subsID resourceGroup diskName)"

text \<open>\<open>errors.As\<close> with an \<open>*azcore.ResponseError\<close>: the status code of the first one in the chain.\<close>

fun firstStatus :: "err_kind list \<Rightarrow> int option" where
  "firstStatus [] = None"
| "firstStatus (ResponseError code # ks) = Some code"
| "firstStatus (k # ks) = firstStatus ks"

definition responseStatus :: "goerror \<Rightarrow> int option" where
  "responseStatus err = firstStatus (ekind err # ewraps err)"

definition diskManagedError :: "string \<Rightarrow> string \<Rightarrow> goerror" where
  "diskManagedError diskURI managedBy = GoErr (DiskManaged managedBy)
     (''disk('' @ diskURI @ '') is managed by Azure resource('' @ managedBy @ ''), could not be deleted'') []"

definition DeleteManagedDisk :: "'w env \<Rightarrow> 'w disk_api \<Rightarrow> string \<Rightarrow> ('w controllerCommon, unit) io" where
  "DeleteManagedDisk env api diskURI =
     bindE (liftE (GetInfoFromURI diskURI)) (\<lambda>(subsID, resourceGroup, diskName). getE (\<lambda>c.
     case gget (cc_diskStateMap c) (KeyURI (ToLower diskURI)) of
       Some state \<Rightarrow> failE (errorf (''failed to delete disk('' @ diskURI @ '') since it'' @ [CHR 0x27] @ ''s in '' @ state @ '' state''))
     | None \<Rightarrow>
         bindE (cf_GetDiskClientForSub env subsID) (\<lambda>diskClient.
         bindE (tryE (dc_Get env diskClient resourceGroup diskName)) (\<lambda>r. case r of
           Inl err \<Rightarrow> if responseStatus err = Some 404 then okE () else failE err
         | Inr disk \<Rightarrow> (case d_ManagedBy disk of
             Some managedBy \<Rightarrow> failE (diskManagedError diskURI managedBy)
           | None \<Rightarrow> da_Delete api diskClient resourceGroup diskName)))))"

subsection \<open>Resizing a disk\<close>

text \<open>\<open>RoundUpToGiBInt32\<close> of the vendored volume helpers, on a quantity in bytes.\<close>

definition RoundUpToGiBInt32 :: "int \<Rightarrow> int result" where
  "RoundUpToGiBInt32 quantity =
     (if quantity \<ge> 2 ^ 63 - 1 then Inl (errorf ''quantity is too great, overflows int64'')
      else let q = quantity sdiv GiB; roundedUp = (if quantity smod GiB > 0 then q + 1 else q)
        in if roundedUp > 2 ^ 31 - 1 then Inl (errorf ''quantity is too great, overflows int32'')
           else Inr (int32 roundedUp))"

text \<open>Sizes are quantities in bytes; an error comes with the old size in Go.\<close>

definition ResizeDisk :: "'w env \<Rightarrow> 'w disk_api \<Rightarrow> string \<Rightarrow> int \<Rightarrow> bool \<Rightarrow> ('w controllerCommon, int) io" where
  "ResizeDisk env api diskURI newSize supportOnlineResize =
     bindE (liftE (GetInfoFromURI diskURI)) (\<lambda>(subsID, resourceGroup, diskName).
     bindE (cf_GetDiskClientForSub env subsID) (\<lambda>diskClient.
     bindE (dc_Get env diskClient resourceGroup diskName) (\<lambda>disk.
     case Option.bind (d_Properties disk) p_DiskSizeGB of
       None \<Rightarrow> failE (errorf (''DiskProperties of disk('' @ diskName @ '') is nil''))
     | Some current \<Rightarrow>
         bindE (liftE (RoundUpToGiBInt32 newSize)) (\<lambda>requestGiB.
         if current \<ge> requestGiB then okE (requestGiB * GiB)
         else let state = Option.bind (d_Properties disk) p_DiskState in
           if \<not> supportOnlineResize \<and> state = None then failE (panicf ''nil pointer dereference'')
           else if \<not> supportOnlineResize \<and> state \<noteq> Some ''Unattached''
           then failE (errorf (''azureDisk - disk resize is only supported on Unattached disk, current disk state: ''
             @ derefStr state @ '', already attached to '' @ derefStr (d_ManagedBy disk)))
           else bindE (da_Patch api diskClient resourceGroup diskName
               \<lparr>du_SKU = None, du_Properties = Some (emptyDiskProperties\<lparr>p_DiskSizeGB := Some requestGiB\<rparr>)\<rparr>) (\<lambda>_.
             okE (requestGiB * GiB))))))"

subsection \<open>Modifying a disk\<close>

definition modifyPerf :: "string \<Rightarrow> string \<Rightarrow> int option result" where
  "modifyPerf name v = perfValue name [] v 0"

definition diskUpdate :: "string \<Rightarrow> ManagedDiskOptions \<Rightarrow> DiskUpdate result" where
  "diskUpdate currentSku options =
     (let change = mo_StorageAccountType options \<noteq> [] \<and> mo_StorageAccountType options \<noteq> currentSku;
          diskSku = (if change then mo_StorageAccountType options else currentSku);
          sku = (if change then Some diskSku else None)
      in if isUltraOrV2 diskSku
         then bindR (modifyPerf ''DiskIOPSReadWrite'' (mo_DiskIOPSReadWrite options)) (\<lambda>iops.
              bindR (modifyPerf ''DiskMBpsReadWrite'' (mo_DiskMBpsReadWrite options)) (\<lambda>mbps.
              Inr \<lparr>du_SKU = sku, du_Properties = Some (emptyDiskProperties\<lparr>p_DiskIOPSReadWrite := iops, p_DiskMBpsReadWrite := mbps\<rparr>)\<rparr>))
         else if mo_DiskIOPSReadWrite options \<noteq> []
         then Inl (errorf ''AzureDisk - DiskIOPSReadWrite parameter is only applicable in UltraSSD_LRS or PremiumV2_LRS disk type'')
         else if mo_DiskMBpsReadWrite options \<noteq> []
         then Inl (errorf ''AzureDisk - DiskMBpsReadWrite parameter is only applicable in UltraSSD_LRS or PremiumV2_LRS disk type'')
         else Inr \<lparr>du_SKU = sku, du_Properties = None\<rparr>)"

definition ModifyDisk :: "'w env \<Rightarrow> 'w disk_api \<Rightarrow> ManagedDiskOptions \<Rightarrow> ('w controllerCommon, unit) io" where
  "ModifyDisk env api options =
     bindE (liftE (GetInfoFromURI (mo_SourceResourceID options))) (\<lambda>(subsID, rg, diskName).
     bindE (cf_GetDiskClientForSub env subsID) (\<lambda>diskClient.
     bindE (dc_Get env diskClient rg diskName) (\<lambda>disk.
     case (d_Properties disk, Option.bind (d_SKU disk) (\<lambda>n. n)) of
       (Some _, Some sku) \<Rightarrow>
         bindE (liftE (diskUpdate sku options)) (\<lambda>model.
         if du_SKU model \<noteq> None \<or> du_Properties model \<noteq> None then da_Patch api diskClient rg diskName model else okE ())
     | _ \<Rightarrow> failE (errorf (''DiskProperties or SKU of disk('' @ diskName @ '') is nil'')))))"

subsection \<open>Lemmas\<close>

lemma RoundUpToGiBInt32_ok:
  assumes "RoundUpToGiBInt32 b = Inr g" "0 \<le> b"
  shows "b \<le> g * GiB" "g * GiB < b + GiB" "0 \<le> g" "g < 2 ^ 31"
proof -
  have q: "b sdiv GiB = b div GiB" "b smod GiB = b mod GiB"
    using assms(2) by (simp_all add: sdiv_nonneg smod_nonneg GiB_def)
  let ?r = "if b mod GiB > 0 then b div GiB + 1 else b div GiB"
  have r: "?r \<le> 2 ^ 31 - 1" and g: "g = int32 ?r"
    using assms(1) by (auto simp: RoundUpToGiBInt32_def q Let_def split: if_splits)
  have nonneg: "0 \<le> ?r" using assms(2) by (simp add: GiB_def pos_imp_zdiv_nonneg_iff)
  have "in_int32 ?r" using r nonneg by (simp add: in_int32_def)
  then have gr: "g = ?r" unfolding g by (rule int32_id)
  show "b \<le> g * GiB" "g * GiB < b + GiB" unfolding gr by (auto simp: GiB_def) presburger+
  show "0 \<le> g" "g < 2 ^ 31" using nonneg r by (simp_all add: gr)
qed

lemma gget_putTags: "wf_map tags \<Longrightarrow> gget (putTags tags m) k = (case gget tags k of Some v \<Rightarrow> Some (Some v) | None \<Rightarrow> gget m k)"
proof (induction tags arbitrary: m)
  case (Cons kv tags)
  obtain k' v where kv: "kv = (k', v)" by (cases kv)
  have "wf_map tags" "gget tags k' = None"
    using Cons.prems by (auto simp: kv wf_map_def gget_eq_None_iff)
  moreover have "gget ((k', v) # tags) k = (if k = k' then Some v else gget tags k)" by (simp add: gget_def)
  ultimately show ?case using Cons.IH by (auto simp: kv split: option.splits)
qed simp

subsection \<open>Properties\<close>

text \<open>The requirements on a disk the driver creates: performance settings exist only on Ultra and PremiumV2 disks, an Ultra disk
  always has both; a private endpoint is present exactly under \<open>AllowPrivate\<close>; encryption with customer keys is set exactly
  when a set is given; outside Azure Stack nothing is left open by default.\<close>

definition wellConfigured :: "cloud_config \<Rightarrow> ManagedDiskOptions \<Rightarrow> DiskProperties \<Rightarrow> bool" where
  "wellConfigured cfg options p \<longleftrightarrow>
     (\<not> isUltraOrV2 (mo_StorageAccountType options) \<longrightarrow> p_DiskIOPSReadWrite p = None \<and> p_DiskMBpsReadWrite p = None)
     \<and> (mo_StorageAccountType options = ''UltraSSD_LRS'' \<longrightarrow> p_DiskIOPSReadWrite p \<noteq> None \<and> p_DiskMBpsReadWrite p \<noteq> None)
     \<and> (p_DiskAccessID p \<noteq> None \<longleftrightarrow> p_NetworkAccessPolicy p = Some ''AllowPrivate'')
     \<and> (p_Encryption p \<noteq> None \<longleftrightarrow> mo_DiskEncryptionSetID options \<noteq> [])
     \<and> (\<not> IsAzureStackCloud (cfg_Cloud cfg) (cfg_DisableAzureStackCloud cfg) \<longrightarrow>
          p_PublicNetworkAccess p = Some (if mo_PublicNetworkAccess options = [] then ''Disabled'' else mo_PublicNetworkAccess options)
          \<and> p_NetworkAccessPolicy p = Some (if mo_NetworkAccessPolicy options = [] then ''DenyAll'' else mo_NetworkAccessPolicy options))
     \<and> (p_DiskSizeGB p = None \<longleftrightarrow> int32 (mo_SizeGB options) = 0 \<and> mo_SourceType options = SourceSnapshot)
     \<and> (p_MaxShares p = (if mo_MaxShares options > 1 then Some (mo_MaxShares options) else None))"

lemma networkProps_ok:
  "networkProps stack options p = Inr q \<Longrightarrow> p_DiskAccessID p = None \<Longrightarrow> p_NetworkAccessPolicy p = None \<Longrightarrow>
     (p_DiskAccessID q \<noteq> None \<longleftrightarrow> p_NetworkAccessPolicy q = Some ''AllowPrivate'')
     \<and> (\<not> stack \<longrightarrow> p_PublicNetworkAccess q = Some (if mo_PublicNetworkAccess options = [] then ''Disabled'' else mo_PublicNetworkAccess options)
          \<and> p_NetworkAccessPolicy q = Some (if mo_NetworkAccessPolicy options = [] then ''DenyAll'' else mo_NetworkAccessPolicy options))
     \<and> p_DiskSizeGB q = p_DiskSizeGB p \<and> p_DiskIOPSReadWrite q = p_DiskIOPSReadWrite p \<and> p_DiskMBpsReadWrite q = p_DiskMBpsReadWrite p
     \<and> p_Encryption q = p_Encryption p \<and> p_MaxShares q = p_MaxShares p"
  by (auto simp: networkProps_def Let_def split: if_splits option.splits)

lemma perfValue_ok: "perfValue name sku v d = Inr x \<Longrightarrow> sku = ''UltraSSD_LRS'' \<Longrightarrow> x \<noteq> None"
  by (auto simp: perfValue_def split: if_splits sum.splits)

lemma perfProps_ok:
  "perfProps options p = Inr q \<Longrightarrow> p_DiskIOPSReadWrite p = None \<Longrightarrow> p_DiskMBpsReadWrite p = None \<Longrightarrow>
     (\<not> isUltraOrV2 (mo_StorageAccountType options) \<longrightarrow> p_DiskIOPSReadWrite q = None \<and> p_DiskMBpsReadWrite q = None)
     \<and> (mo_StorageAccountType options = ''UltraSSD_LRS'' \<longrightarrow> p_DiskIOPSReadWrite q \<noteq> None \<and> p_DiskMBpsReadWrite q \<noteq> None)
     \<and> p_DiskAccessID q = p_DiskAccessID p \<and> p_NetworkAccessPolicy q = p_NetworkAccessPolicy p
     \<and> p_PublicNetworkAccess q = p_PublicNetworkAccess p \<and> p_DiskSizeGB q = p_DiskSizeGB p
     \<and> p_Encryption q = p_Encryption p \<and> p_MaxShares q = p_MaxShares p"
  by (auto simp: perfProps_def Let_def isUltraOrV2_def dest: perfValue_ok split: if_splits sum.splits)

lemma encryptionProps_ok:
  "encryptionProps options p = Inr q \<Longrightarrow> p_Encryption p = None \<Longrightarrow>
     (p_Encryption q \<noteq> None \<longleftrightarrow> mo_DiskEncryptionSetID options \<noteq> [])
     \<and> p_DiskIOPSReadWrite q = p_DiskIOPSReadWrite p \<and> p_DiskMBpsReadWrite q = p_DiskMBpsReadWrite p
     \<and> p_DiskAccessID q = p_DiskAccessID p \<and> p_NetworkAccessPolicy q = p_NetworkAccessPolicy p
     \<and> p_PublicNetworkAccess q = p_PublicNetworkAccess p \<and> p_DiskSizeGB q = p_DiskSizeGB p \<and> p_MaxShares q = p_MaxShares p"
  by (auto simp: encryptionProps_def Let_def split: if_splits)

lemma guard_Inr: "(if b then Inl e else r) = Inr x \<longleftrightarrow> \<not> b \<and> r = Inr x"
  by simp

lemma diskModel_stages:
  assumes "diskModel cfg options = Inr (sub, rg, d)"
  shows "\<exists>cd p1 p2 p3.
    networkProps (IsAzureStackCloud (cfg_Cloud cfg) (cfg_DisableAzureStackCloud cfg)) options
      (emptyDiskProperties\<lparr>p_CreationData := Some cd, p_BurstingEnabled := mo_BurstingEnabled options,
       p_DiskSizeGB := (if int32 (mo_SizeGB options) = 0 \<and> mo_SourceType options = SourceSnapshot then None
        else Some (int32 (mo_SizeGB options)))\<rparr>) = Inr p1
    \<and> perfProps options p1 = Inr p2 \<and> encryptionProps options p2 = Inr p3
    \<and> d_Properties d = Some (if mo_MaxShares options > 1 then p3\<lparr>p_MaxShares := Some (mo_MaxShares options)\<rparr> else p3)
    \<and> d_Tags d = newDiskTags (mo_Tags options)"
  using assms by (auto simp: diskModel_def Let_def bindR_Inr_iff guard_Inr split del: if_split) blast+

text \<open>(C27) Every disk that \<open>CreateManagedDisk\<close> asks Azure for is well configured, whatever the options, and it carries every
  requested tag and the mark of the driver unless a tag of that name was requested.\<close>

theorem created_disk_well_configured:
  assumes "diskModel cfg options = Inr (sub, rg, d)" "wf_map (mo_Tags options)"
  shows "(\<exists>p. d_Properties d = Some p \<and> wellConfigured cfg options p)
    \<and> (\<forall>k v. gget (mo_Tags options) k = Some v \<longrightarrow> gget (d_Tags d) k = Some (Some v))
    \<and> (gget (mo_Tags options) CreatedByTag = None \<longrightarrow> gget (d_Tags d) CreatedByTag = Some (Some AzureDiskDriverTag))"
proof -
  let ?stack = "IsAzureStackCloud (cfg_Cloud cfg) (cfg_DisableAzureStackCloud cfg)"
  obtain cd p1 p2 p3 where
    n: "networkProps ?stack options (emptyDiskProperties\<lparr>p_CreationData := Some cd, p_BurstingEnabled := mo_BurstingEnabled options,
      p_DiskSizeGB := (if int32 (mo_SizeGB options) = 0 \<and> mo_SourceType options = SourceSnapshot then None
        else Some (int32 (mo_SizeGB options)))\<rparr>) = Inr p1"
    and p: "perfProps options p1 = Inr p2" and e: "encryptionProps options p2 = Inr p3"
    and d: "d_Properties d = Some (if mo_MaxShares options > 1 then p3\<lparr>p_MaxShares := Some (mo_MaxShares options)\<rparr> else p3)"
    and t: "d_Tags d = newDiskTags (mo_Tags options)"
    using diskModel_stages [OF assms(1)] by blast
  have "wellConfigured cfg options (if mo_MaxShares options > 1 then p3\<lparr>p_MaxShares := Some (mo_MaxShares options)\<rparr> else p3)"
    unfolding wellConfigured_def
    using networkProps_ok [OF n] perfProps_ok [OF p] encryptionProps_ok [OF e]
    by (auto simp: emptyDiskProperties_def)
  with d t assms(2) show ?thesis by (auto simp: newDiskTags_def gget_putTags) (simp add: gget_def)
qed

definition exampleOptionsMD :: ManagedDiskOptions where
  "exampleOptionsMD = \<lparr>mo_StorageAccountType = ''UltraSSD_LRS'', mo_DiskName = ''d'', mo_PVCName = [], mo_ResourceGroup = [],
     mo_AvailabilityZone = ''eastus-1'', mo_Tags = [(''team'', ''a'')], mo_DiskIOPSReadWrite = ''700'', mo_DiskMBpsReadWrite = [],
     mo_SourceResourceID = [], mo_SourceType = [], mo_DiskEncryptionSetID = [], mo_DiskEncryptionType = [], mo_SizeGB = 10,
     mo_MaxShares = 2, mo_LogicalSectorSize = 512, mo_SkipGetDiskOperation = False, mo_PublicNetworkAccess = [],
     mo_NetworkAccessPolicy = [], mo_DiskAccessID = None, mo_BurstingEnabled = None, mo_SubscriptionID = [], mo_Location = [],
     mo_PerformancePlus = None\<rparr>"

definition exampleConfig :: cloud_config where
  "exampleConfig = \<lparr>cfg_ResourceGroup = ''g'', cfg_SubscriptionID = ''s'', cfg_Location = ''eastus'', cfg_Cloud = ''AzurePublicCloud'',
     cfg_DisableAzureStackCloud = False, cfg_ExtendedLocationName = [], cfg_ExtendedLocationType = []\<rparr>"

theorem created_disk_well_configured_witness:
  "\<exists>sub rg d p. diskModel exampleConfig exampleOptionsMD = Inr (sub, rg, d) \<and> d_Properties d = Some p
     \<and> wellConfigured exampleConfig exampleOptionsMD p \<and> gget (d_Tags d) ''team'' = Some (Some ''a'')"
proof -
  have "case diskModel exampleConfig exampleOptionsMD of Inl _ \<Rightarrow> False | Inr _ \<Rightarrow> True" by code_simp
  then obtain sub rg d where m: "diskModel exampleConfig exampleOptionsMD = Inr (sub, rg, d)" by (auto split: sum.splits)
  have w: "wf_map (mo_Tags exampleOptionsMD)" "gget (mo_Tags exampleOptionsMD) ''team'' = Some ''a''"
    by (simp_all add: exampleOptionsMD_def wf_map_def gget_def)
  from created_disk_well_configured [OF m w(1)] w(2) m show ?thesis by blast
qed

text \<open>(C22) A resize never shrinks a disk and never loses precision: success returns the request rounded up to whole GiB, and
  the size is patched exactly when the disk is smaller, to that size, and only on an unattached disk unless online resize
  is supported; otherwise nothing is written.\<close>

theorem ResizeDisk_success:
  assumes "run_state (ResizeDisk env api uri newSize online) c = (Inr q, c')" "0 \<le> newSize"
  shows "\<exists>g client rg name disk current c1. q = g * GiB \<and> newSize \<le> q \<and> q < newSize + GiB
    \<and> Option.bind (d_Properties disk) p_DiskSizeGB = Some current
    \<and> (\<exists>c0. run_state (dc_Get env client rg name) c0 = (Inr disk, c1))
    \<and> (if current \<ge> g then c' = c1
       else (online \<or> Option.bind (d_Properties disk) p_DiskState = Some ''Unattached'')
         \<and> (\<exists>u. run_state (da_Patch api client rg name
              \<lparr>du_SKU = None, du_Properties = Some (emptyDiskProperties\<lparr>p_DiskSizeGB := Some g\<rparr>)\<rparr>) c1 = (Inr u, c')))"
proof -
  obtain sub rg name client disk current g c0 c1 where
    get: "run_state (dc_Get env client rg name) c0 = (Inr disk, c1)"
    and cur: "Option.bind (d_Properties disk) p_DiskSizeGB = Some current"
    and g: "RoundUpToGiBInt32 newSize = Inr g" "q = g * GiB"
    and rest: "if current \<ge> g then c' = c1
       else (online \<or> Option.bind (d_Properties disk) p_DiskState = Some ''Unattached'')
         \<and> (\<exists>u. run_state (da_Patch api client rg name
              \<lparr>du_SKU = None, du_Properties = Some (emptyDiskProperties\<lparr>p_DiskSizeGB := Some g\<rparr>)\<rparr>) c1 = (Inr u, c'))"
    using assms(1) by (auto simp: ResizeDisk_def Let_def split: prod.splits sum.splits option.splits if_splits)
  with RoundUpToGiBInt32_ok(1,2) [OF g(1) assms(2)] show ?thesis by blast
qed

definition exampleDisk :: Disk where
  "exampleDisk = emptyDisk\<lparr>d_Properties := Some (emptyDiskProperties\<lparr>p_DiskSizeGB := Some 4, p_DiskState := Some ''Unattached''\<rparr>)\<rparr>"

definition exampleURI :: string where
  "exampleURI = ''/subscriptions/s/resourceGroups/g/providers/Microsoft.Compute/disks/d''"

definition exampleApi :: "DataDisk list disk_api" where
  "exampleApi = \<lparr>da_CreateOrUpdate = (\<lambda>_ _ _ d. okE (Some d)), da_Delete = (\<lambda>_ _ _. okE ()), da_Patch = (\<lambda>_ _ _ _. okE ())\<rparr>"

theorem ResizeDisk_success_witness:
  "\<exists>g. 10 * GiB = g * GiB \<and> 10 * GiB - 5 \<le> g * GiB"
proof -
  let ?env = "exampleEnv\<lparr>dc_Get := (\<lambda>_ _ _. okE exampleDisk)\<rparr>"
  have "fst (run_state (ResizeDisk ?env exampleApi exampleURI (10 * GiB - 5) False) (exampleState [])) = Inr (10 * GiB)"
    by code_simp
  then obtain c' where r: "run_state (ResizeDisk ?env exampleApi exampleURI (10 * GiB - 5) False) (exampleState []) = (Inr (10 * GiB), c')"
    by (metis prod.collapse)
  have "0 \<le> 10 * GiB - 5" by (simp add: GiB_def)
  from ResizeDisk_success [OF r this] show ?thesis by blast
qed

text \<open>\<open>DeleteManagedDisk\<close> fails before it reads the disk, or reads it unmarked and goes on by what it has read.\<close>

lemma DeleteManagedDisk_reads:
  assumes "run_state (DeleteManagedDisk env api uri) c = (r, c')"
  obtains (early) "r \<noteq> Inr ()" "c' = c \<or> (\<exists>s x. run_state (cf_GetDiskClientForSub env s) c = (x, c'))"
  | (read) sub rg name client c0 d c1 where "gget (cc_diskStateMap c) (KeyURI (ToLower uri)) = None" "GetInfoFromURI uri = Inr (sub, rg, name)"
      "run_state (cf_GetDiskClientForSub env sub) c = (Inr client, c0)" "run_state (dc_Get env client rg name) c0 = (d, c1)"
      "case d of Inl e \<Rightarrow> c' = c1 \<and> (r = Inr () \<longrightarrow> responseStatus e = Some 404)
       | Inr disk \<Rightarrow> if d_ManagedBy disk = None then run_state (da_Delete api client rg name) c1 = (r, c') else c' = c1 \<and> r \<noteq> Inr ()"
proof (cases "GetInfoFromURI uri")
  case (Inl e)
  with assms early show ?thesis by (auto simp: DeleteManagedDisk_def)
next
  case (Inr info)
  obtain sub rg name where uri: "GetInfoFromURI uri = Inr (sub, rg, name)" using Inr by (cases info) simp
  obtain cl c0 where cl: "run_state (cf_GetDiskClientForSub env sub) c = (cl, c0)" by fastforce
  show ?thesis
  proof (cases "\<exists>client. gget (cc_diskStateMap c) (KeyURI (ToLower uri)) = None \<and> cl = Inr client")
    case True
    then obtain client where free: "gget (cc_diskStateMap c) (KeyURI (ToLower uri)) = None" "cl = Inr client" by blast
    obtain d c1 where get: "run_state (dc_Get env client rg name) c0 = (d, c1)" by fastforce
    show ?thesis
      by (rule read [OF free(1) uri cl [unfolded free(2)] get])
        (use assms free uri cl get in \<open>auto simp: DeleteManagedDisk_def split: sum.split option.splits if_splits\<close>)
  next
    case False
    have "r \<noteq> Inr () \<and> (c' = c \<or> c' = c0)"
      using assms False uri cl by (cases cl; cases "gget (cc_diskStateMap c) (KeyURI (ToLower uri))") (auto simp: DeleteManagedDisk_def)
    with early cl show ?thesis by blast
  qed
qed

text \<open>(C21) A disk is deleted only when it is free. Let \<open>R\<close> hold between states that differ in anything but what the delete call does:
  it is kept by the lookup of the client and by the read of the disk. If a run of \<open>DeleteManagedDisk\<close>, successful or not, breaks \<open>R\<close>, then the
  disk was not marked as being detached, it was read in the same call, before it was changed, and shown owned by no VM, and the run ends with the
  delete of that disk. A success is that of the delete, or Azure reported the disk gone.\<close>

theorem DeleteManagedDisk_deletes_free:
  assumes "preorder_on_states R" "\<And>s. stays R (cf_GetDiskClientForSub env s)" "\<And>k g n. stays R (dc_Get env k g n)"
    and "run_state (DeleteManagedDisk env api uri) c = (r, c')" "\<not> R c c' \<or> r = Inr ()"
  shows "gget (cc_diskStateMap c) (KeyURI (ToLower uri)) = None
    \<and> (\<exists>sub rg name client c0. GetInfoFromURI uri = Inr (sub, rg, name)
       \<and> ((\<exists>disk c1. run_state (dc_Get env client rg name) c0 = (Inr disk, c1) \<and> R c c1 \<and> d_ManagedBy disk = None
             \<and> run_state (da_Delete api client rg name) c1 = (r, c'))
          \<or> R c c' \<and> (\<exists>e. run_state (dc_Get env client rg name) c0 = (Inl e, c') \<and> responseStatus e = Some 404)))"
proof -
  have client: "R c c0" if "run_state (cf_GetDiskClientForSub env s) c = (x, c0)" for s x c0
    using assms(2) [of s] that unfolding stays_def by (metis snd_conv)
  have get: "R c c1" if "R c c0" "run_state (dc_Get env k g n) c0 = (x, c1)" for k g n c0 x c1
    using assms(3) [of k g n] that preorder_on_states.R_trans [OF assms(1)] unfolding stays_def by (metis snd_conv)
  from assms(4) show ?thesis
  proof (cases rule: DeleteManagedDisk_reads)
    case early
    with client preorder_on_states.R_refl [OF assms(1)] assms(5) show ?thesis by blast
  next
    case (read sub rg name k c0 d c1)
    have "R c c1" by (rule get [OF client [OF read(3)] read(4)])
    with read assms(5) show ?thesis by (fastforce split: sum.splits if_splits)
  qed
qed

theorem DeleteManagedDisk_deletes_free_witness:
  "\<exists>sub rg name disk c1. GetInfoFromURI exampleURI = Inr (sub, rg, name) \<and> d_ManagedBy disk = None
     \<and> cc_world c1 = [exampleDataDisk 0] \<and> run_state (dc_Get (exampleEnv\<lparr>dc_Get := (\<lambda>_ _ _. okE exampleDisk)\<rparr>) 0 rg name) c1 = (Inr disk, c1)"
proof -
  let ?env = "exampleEnv\<lparr>dc_Get := (\<lambda>_ _ _. okE exampleDisk)\<rparr>"
  let ?api = "exampleApi\<lparr>da_Delete := (\<lambda>_ _ _. modifyE (\<lambda>c. c\<lparr>cc_world := []\<rparr>) (okE ()))\<rparr>"
  let ?c = "exampleState [exampleDataDisk 0]" and ?c' = "exampleState []"
  let ?R = "\<lambda>c c' :: DataDisk list controllerCommon. cc_world c' = cc_world c"
  have pre: "preorder_on_states ?R" by unfold_locales simp_all
  have st: "stays ?R (cf_GetDiskClientForSub ?env s)" "stays ?R (dc_Get ?env k g n)" for s k g n
    by (simp_all add: exampleEnv_def stays_def)
  have "fst (run_state (DeleteManagedDisk ?env ?api exampleURI) ?c) = Inr ()"
    "cc_world (snd (run_state (DeleteManagedDisk ?env ?api exampleURI) ?c)) = []" by code_simp+
  then obtain c' where r: "run_state (DeleteManagedDisk ?env ?api exampleURI) ?c = (Inr (), c')" and w: "cc_world c' = []"
    by (cases "run_state (DeleteManagedDisk ?env ?api exampleURI) ?c") simp
  from DeleteManagedDisk_deletes_free [OF pre st r, simplified] w show ?thesis
    by (auto simp: exampleState_def)
qed

text \<open>The mark of a disk that is being attached does not stop its deletion: \<open>AttachDisk\<close> stores the mark under the address of
  the disk, \<open>DeleteManagedDisk\<close> looks it up under the URI, so that a delete during an attach behaves as if there were no mark.\<close>

theorem delete_ignores_attaching:
  assumes "\<And>sub c m. run_state (cf_GetDiskClientForSub env sub) (c\<lparr>cc_diskStateMap := m\<rparr>)
      = (case run_state (cf_GetDiskClientForSub env sub) c of (r, c') \<Rightarrow> (r, c'\<lparr>cc_diskStateMap := m\<rparr>))"
    and "\<And>cl rg n c m. run_state (dc_Get env cl rg n) (c\<lparr>cc_diskStateMap := m\<rparr>)
      = (case run_state (dc_Get env cl rg n) c of (r, c') \<Rightarrow> (r, c'\<lparr>cc_diskStateMap := m\<rparr>))"
    and "\<And>cl rg n c m. run_state (da_Delete api cl rg n) (c\<lparr>cc_diskStateMap := m\<rparr>)
      = (case run_state (da_Delete api cl rg n) c of (r, c') \<Rightarrow> (r, c'\<lparr>cc_diskStateMap := m\<rparr>))"
    and "gget (cc_diskStateMap c) (KeyURI (ToLower uri)) = None"
  shows "fst (run_state (DeleteManagedDisk env api uri)
           (c\<lparr>cc_diskStateMap := gset (KeyDiskPtr p) ''attaching'' (cc_diskStateMap c)\<rparr>))
       = fst (run_state (DeleteManagedDisk env api uri) c)"
  using assms(4)
  by (auto simp: DeleteManagedDisk_def assms(1-3) split: prod.splits sum.splits option.splits)

theorem delete_ignores_attaching_witness:
  "fst (run_state (DeleteManagedDisk exampleEnv exampleApi exampleURI)
     ((exampleState [])\<lparr>cc_diskStateMap := gset (KeyDiskPtr (Some 1)) ''attaching'' (cc_diskStateMap (exampleState []))\<rparr>))
   = fst (run_state (DeleteManagedDisk exampleEnv exampleApi exampleURI) (exampleState []))"
  by (rule delete_ignores_attaching) (simp_all add: exampleEnv_def exampleApi_def exampleState_def)

end
