(* ===== verification/Snapshots.thy ===== *)
theory Snapshots
  imports DiskUtils
begin

text \<open>
  \<^verbatim>\<open>pkg/azureutils/azure_snapshot_utils.go\<close>: converting an Azure snapshot to a CSI snapshot, and the
  pagination of \<open>ListSnapshots\<close>. Dereferencing a nil field is the error of kind \<open>Panicked\<close>.
\<close>

record CSISnapshot =
  cs_SizeBytes :: int
  cs_SnapshotId :: string
  cs_SourceVolumeId :: string
  cs_CreationTime :: int
  cs_ReadyToUse :: bool

definition GetSourceVolumeID :: "Snapshot option \<Rightarrow> string" where
  "GetSourceVolumeID snapshot =
     (case Option.bind (Option.bind (Option.bind snapshot s_Properties) sp_CreationData) cd_SourceResourceID of
        Some rid \<Rightarrow> rid | None \<Rightarrow> [])"

definition isCSISnapshotReady :: "string \<Rightarrow> bool" where
  "isCSISnapshotReady state \<longleftrightarrow> ToLower state = ''succeeded''"

definition nilDeref :: goerror where
  "nilDeref = panicf ''invalid memory address or nil pointer dereference''"

text \<open>
  The completion check is skipped for an instant-access snapshot; a missing completion percentage
  counts as 100. The log line of an incomplete snapshot dereferences the snapshot's name.
\<close>

definition GenerateCSISnapshot :: "string \<Rightarrow> Snapshot option \<Rightarrow> CSISnapshot result" where
  "GenerateCSISnapshot sourceVolumeID snapshot =
     (case snapshot of
        None \<Rightarrow> Inl (errorf ''snapshot property is nil'')
      | Some s \<Rightarrow>
     (case s_Properties s of
        None \<Rightarrow> Inl (errorf ''snapshot property is nil'')
      | Some p \<Rightarrow>
     (case sp_TimeCreated p of
        None \<Rightarrow> Inl (errorf ''TimeCreated of snapshot property is nil'')
      | Some created \<Rightarrow>
     (case sp_DiskSizeGB p of
        None \<Rightarrow> Inl (errorf ''diskSizeGB of snapshot property is nil'')
      | Some sizeGB \<Rightarrow>
     (case sp_ProvisioningState p of
        None \<Rightarrow> Inl nilDeref
      | Some state \<Rightarrow>
        (let ready = isCSISnapshotReady state;
             src = (if sourceVolumeID = [] then GetSourceVolumeID snapshot else sourceVolumeID);
             checkPercent = (ready \<and> Option.bind (sp_CreationData p) cd_InstantAccessDurationMinutes = None);
             completionPercent = (case sp_CompletionPercent p of None \<Rightarrow> 100 | Some c \<Rightarrow> c);
             incomplete = (checkPercent \<and> completionPercent < 100)
         in if incomplete \<and> s_Name s = None then Inl nilDeref
            else (case s_ID s of
                    None \<Rightarrow> Inl nilDeref
                  | Some sid \<Rightarrow>
                      Inr \<lparr>cs_SizeBytes = GiBToBytes sizeGB, cs_SnapshotId = sid, cs_SourceVolumeId = src,
                           cs_CreationTime = created, cs_ReadyToUse = ready \<and> \<not> incomplete\<rparr>)))))))"

definition GetSnapshotNameFromURI :: "string \<Rightarrow> string result" where
  "GetSnapshotNameFromURI snapshotURI =
     (case rxFind toLowerC DiskSnapshotPathRE snapshotURI of
        None \<Rightarrow> Inl (errorf (''could not get snapshot name from '' @ snapshotURI @ '', correct format: ''))
      | Some name \<Rightarrow> Inr name)"

subsection \<open>Pagination\<close>

record ListSnapshotsRequest =
  ls_MaxEntries :: int
  ls_StartingToken :: string
  ls_SourceVolumeId :: string
  ls_SnapshotId :: string

record ListSnapshotsResponse =
  lr_Entries :: "CSISnapshot list"
  lr_NextToken :: string

definition matchesSource :: "string \<Rightarrow> Snapshot option \<Rightarrow> bool" where
  "matchesSource src s \<longleftrightarrow> (src \<noteq> [] \<and> src = GetSourceVolumeID s) \<or> src = []"

text \<open>The loop from index \<open>start\<close>: \<open>rest\<close> is \<open>snapshots[start:]\<close>; it returns the entries and what is left.\<close>

fun snapshotLoop :: "string \<Rightarrow> int \<Rightarrow> Snapshot option list \<Rightarrow> int \<Rightarrow> CSISnapshot list
    \<Rightarrow> (CSISnapshot list \<times> Snapshot option list) result" where
  "snapshotLoop src maxEntries [] cnt entries = Inr (entries, [])"
| "snapshotLoop src maxEntries (s # rest) cnt entries =
     (if cnt < maxEntries then
        (if matchesSource src s then
           (case GenerateCSISnapshot src s of
              Inl e \<Rightarrow> Inl (if ekind e = Panicked then e
                              else errorf (''failed to generate snapshot entry: '' @ emsg e))
            | Inr cs \<Rightarrow> snapshotLoop src maxEntries rest (cnt + 1) (entries @ [cs]))
         else snapshotLoop src maxEntries rest cnt entries)
      else Inr (entries, s # rest))"

definition snapshotStart :: "string \<Rightarrow> nat \<Rightarrow> int result" where
  "snapshotStart token n =
     (if token = [] then Inr 0
      else (case Atoi token of
              Inl e \<Rightarrow> Inl (statusf Aborted (''ListSnapshots starting token('' @ token @ '') parsing with error: '' @ emsg e))
            | Inr start \<Rightarrow>
                if start \<ge> int n then Inl (statusf Aborted (''ListSnapshots starting token('' @ Itoa start
                     @ '') is greater than total number of snapshots''))
                else if start < 0 then Inl (statusf Aborted (''ListSnapshots starting token('' @ Itoa start
                     @ '') can not be negative''))
                else Inr start))"

definition GetEntriesAndNextToken ::
  "ListSnapshotsRequest option \<Rightarrow> Snapshot option list \<Rightarrow> ListSnapshotsResponse result" where
  "GetEntriesAndNextToken req snapshots =
     (case req of
        None \<Rightarrow> Inl (statusf Aborted ''request is nil'')
      | Some r \<Rightarrow>
          (case snapshotStart (ls_StartingToken r) (length snapshots) of
             Inl e \<Rightarrow> Inl e
           | Inr start \<Rightarrow>
               (let avail = int (length snapshots) - start;
                    maxEntries = (if ls_MaxEntries r > 0 \<and> ls_MaxEntries r < avail then ls_MaxEntries r else avail)
                in case snapshotLoop (ls_SourceVolumeId r) maxEntries (drop (nat start) snapshots) 0 [] of
                     Inl e \<Rightarrow> Inl e
                   | Inr (entries, rest) \<Rightarrow>
                       Inr \<lparr>lr_Entries = entries,
                            lr_NextToken = (if rest \<noteq> [] then Itoa (int (length snapshots) - int (length rest)) else [])\<rparr>)))"

text \<open>
  What a client that follows \<open>NextToken\<close> sees: page after page until the token is empty; \<open>None\<close> when
  the number of pages exceeds the fuel.
\<close>

fun followTokens :: "nat \<Rightarrow> ListSnapshotsRequest \<Rightarrow> Snapshot option list \<Rightarrow> CSISnapshot list \<Rightarrow> CSISnapshot list result option" where
  "followTokens 0 r snapshots acc = None"
| "followTokens (Suc n) r snapshots acc =
     (case GetEntriesAndNextToken (Some r) snapshots of
        Inl e \<Rightarrow> Some (Inl e)
      | Inr resp \<Rightarrow>
          if lr_NextToken resp = [] then Some (Inr (acc @ lr_Entries resp))
          else followTokens n (r\<lparr>ls_StartingToken := lr_NextToken resp\<rparr>) snapshots (acc @ lr_Entries resp))"

text \<open>The entries the request asks for, without pagination.\<close>

definition matching :: "string \<Rightarrow> Snapshot option list \<Rightarrow> CSISnapshot list" where
  "matching src snapshots =
     List.map_filter (\<lambda>s. if matchesSource src s
        then (case GenerateCSISnapshot src s of Inr cs \<Rightarrow> Some cs | Inl _ \<Rightarrow> None) else None) snapshots"

definition convertible :: "string \<Rightarrow> Snapshot option list \<Rightarrow> bool" where
  "convertible src snapshots \<longleftrightarrow>
     list_all (\<lambda>s. matchesSource src s \<longrightarrow> (case GenerateCSISnapshot src s of Inr _ \<Rightarrow> True | Inl _ \<Rightarrow> False)) snapshots"

lemma matching_append: "matching src (xs @ ys) = matching src xs @ matching src ys"
  by (simp add: matching_def List.map_filter_def)

lemma matching_Cons: "matching src (s # ys) = matching src [s] @ matching src ys"
  by (simp add: matching_def List.map_filter_def)

lemma convertible_append [simp]: "convertible src (xs @ ys) \<longleftrightarrow> convertible src xs \<and> convertible src ys"
  by (simp add: convertible_def)

text \<open>The loop stops with the entries of a prefix; it stops early only when the page is full.\<close>

lemma snapshotLoop_ok:
  "convertible src xs \<Longrightarrow> \<exists>ys zs. xs = ys @ zs
     \<and> snapshotLoop src n xs c acc = Inr (acc @ matching src ys, zs)
     \<and> (zs \<noteq> [] \<longrightarrow> n \<le> c + int (length (matching src ys)))
     \<and> (c < n \<longrightarrow> xs \<noteq> [] \<longrightarrow> ys \<noteq> [])"
proof (induction xs arbitrary: c acc)
  case (Cons s xs)
  have cv: "convertible src xs" using Cons.prems by (simp add: convertible_def)
  show ?case
  proof (cases "c < n")
    case False
    then show ?thesis
      by (rule_tac x = "[]" in exI, rule_tac x = "s # xs" in exI) (simp add: matching_def List.map_filter_def)
  next
    case True
    show ?thesis
    proof (cases "matchesSource src s")
      case False
      then have m0: "matching src [s] = []" by (simp add: matching_def List.map_filter_def)
      obtain ys zs where "xs = ys @ zs" "snapshotLoop src n xs c acc = Inr (acc @ matching src ys, zs)"
        "zs \<noteq> [] \<longrightarrow> n \<le> c + int (length (matching src ys))"
        using Cons.IH [OF cv, of c acc] by blast
      with True False m0 show ?thesis
        by (rule_tac x = "s # ys" in exI, rule_tac x = zs in exI) (simp add: matching_Cons [of src s ys])
    next
      case m: True
      obtain cs where g: "GenerateCSISnapshot src s = Inr cs"
        using Cons.prems m by (cases "GenerateCSISnapshot src s") (auto simp: convertible_def)
      then have m1: "matching src [s] = [cs]" using m by (simp add: matching_def List.map_filter_def)
      obtain ys zs where "xs = ys @ zs"
        "snapshotLoop src n xs (c + 1) (acc @ [cs]) = Inr ((acc @ [cs]) @ matching src ys, zs)"
        "zs \<noteq> [] \<longrightarrow> n \<le> c + 1 + int (length (matching src ys))"
        using Cons.IH [OF cv, of "c + 1" "acc @ [cs]"] by blast
      with True m g m1 show ?thesis
        by (rule_tac x = "s # ys" in exI, rule_tac x = zs in exI) (simp add: matching_Cons [of src s ys] add.assoc)
    qed
  qed
qed (simp add: matching_def List.map_filter_def)

text \<open>A page never holds more than the limit.\<close>

lemma snapshotLoop_bound:
  "snapshotLoop src n xs c acc = Inr (out, zs) \<Longrightarrow> int (length out) \<le> max (int (length acc)) (int (length acc) + (n - c))"
proof (induction xs arbitrary: c acc)
  case (Cons s xs)
  then show ?case
    by (fastforce split: if_splits sum.splits)
qed auto

lemma GetEntriesAndNextToken_page:
  assumes cv: "convertible (ls_SourceVolumeId r) snapshots"
    and st: "snapshotStart (ls_StartingToken r) (length snapshots) = Inr (int k)" "k \<le> length snapshots"
  shows "\<exists>ys zs. drop k snapshots = ys @ zs
     \<and> GetEntriesAndNextToken (Some r) snapshots = Inr \<lparr>lr_Entries = matching (ls_SourceVolumeId r) ys,
          lr_NextToken = (if zs \<noteq> [] then Itoa (int (length snapshots) - int (length zs)) else [])\<rparr>
     \<and> (drop k snapshots \<noteq> [] \<longrightarrow> ys \<noteq> [])
     \<and> (ls_MaxEntries r > 0 \<longrightarrow> int (length (matching (ls_SourceVolumeId r) ys)) \<le> ls_MaxEntries r)"
proof -
  let ?src = "ls_SourceVolumeId r"
  define avail where "avail = int (length snapshots) - int k"
  define n where "n = (if ls_MaxEntries r > 0 \<and> ls_MaxEntries r < avail then ls_MaxEntries r else avail)"
  have cvd: "convertible ?src (drop k snapshots)"
    using cv by (metis append_take_drop_id convertible_append)
  obtain ys zs where split: "drop k snapshots = ys @ zs"
    and loop: "snapshotLoop ?src n (drop k snapshots) 0 [] = Inr (matching ?src ys, zs)"
    and prog: "0 < n \<longrightarrow> drop k snapshots \<noteq> [] \<longrightarrow> ys \<noteq> []"
    using snapshotLoop_ok [OF cvd, of n 0 "[]"] unfolding append_Nil by blast
  have pos: "0 < n" if "drop k snapshots \<noteq> []" using that by (auto simp: n_def avail_def)
  have "n \<le> ls_MaxEntries r" if "ls_MaxEntries r > 0" using that by (auto simp: n_def)
  then have le: "int (length (matching ?src ys)) \<le> ls_MaxEntries r" if "ls_MaxEntries r > 0"
    using snapshotLoop_bound [OF loop] that by simp
  have page: "GetEntriesAndNextToken (Some r) snapshots = Inr \<lparr>lr_Entries = matching ?src ys,
      lr_NextToken = (if zs \<noteq> [] then Itoa (int (length snapshots) - int (length zs)) else [])\<rparr>"
    using st(1) loop unfolding GetEntriesAndNextToken_def n_def avail_def Let_def by simp
  show ?thesis
    using page split prog pos le by blast
qed

lemma snapshotStart_Itoa:
  "k < n \<Longrightarrow> int n < 2 ^ 63 \<Longrightarrow> snapshotStart (Itoa (int k)) n = Inr (int k)"
  by (simp add: snapshotStart_def Atoi_Itoa in_int64_def)

lemma followTokens_ok:
  assumes "convertible (ls_SourceVolumeId r) snapshots" "int (length snapshots) < 2 ^ 63"
    and "snapshotStart (ls_StartingToken r) (length snapshots) = Inr (int k)" "k \<le> length snapshots"
    and "length snapshots - k < fuel"
  shows "followTokens fuel r snapshots acc = Some (Inr (acc @ matching (ls_SourceVolumeId r) (drop k snapshots)))"
  using assms
proof (induction fuel arbitrary: r k acc)
  case (Suc fuel)
  let ?src = "ls_SourceVolumeId r"
  obtain ys zs where split: "drop k snapshots = ys @ zs"
    and page: "GetEntriesAndNextToken (Some r) snapshots = Inr \<lparr>lr_Entries = matching ?src ys,
          lr_NextToken = (if zs \<noteq> [] then Itoa (int (length snapshots) - int (length zs)) else [])\<rparr>"
    and prog: "drop k snapshots \<noteq> [] \<longrightarrow> ys \<noteq> []"
    using GetEntriesAndNextToken_page [OF Suc.prems(1,3,4)] by blast
  show ?case
  proof (cases "zs = []")
    case True
    then show ?thesis using page split by simp
  next
    case False
    let ?k = "length snapshots - length zs"
    let ?r = "r\<lparr>ls_StartingToken := Itoa (int ?k)\<rparr>"
    have lens: "length ys + length zs = length snapshots - k"
      using arg_cong [OF split, of length] by simp
    have ys: "0 < length ys" using prog split False by auto
    have zs: "0 < length zs" using False by simp
    have "?k = length ys + k" using lens zs by arith
    then have dk: "drop ?k snapshots = zs" using split by (simp flip: drop_drop)
    have "followTokens fuel ?r snapshots (acc @ matching ?src ys)
        = Some (Inr ((acc @ matching ?src ys) @ matching (ls_SourceVolumeId ?r) (drop ?k snapshots)))"
    proof (rule Suc.IH)
      have "?k < length snapshots" using zs lens by arith
      then show "snapshotStart (ls_StartingToken ?r) (length snapshots) = Inr (int ?k)"
        using snapshotStart_Itoa [of ?k "length snapshots"] Suc.prems(2) by simp
      show "length snapshots - ?k < fuel" using Suc.prems(5) lens ys zs by arith
    qed (use Suc.prems in simp_all)
    moreover have "int ?k = int (length snapshots) - int (length zs)" using lens by auto
    ultimately show ?thesis using page False split dk by (simp add: matching_append)
  qed
qed simp

subsection \<open>Properties\<close>

text \<open>(C32) Pagination of \<open>ListSnapshots\<close> is complete: a client that starts without a token and follows
  \<open>NextToken\<close> gets, after finitely many pages, every snapshot that matches the request exactly once and in
  order, for every page size and source filter, provided each matching snapshot can be converted.\<close>

theorem ListSnapshots_pagination_complete:
  assumes "convertible (ls_SourceVolumeId r) snapshots" "int (length snapshots) < 2 ^ 63" "ls_StartingToken r = []"
    and "length snapshots < fuel"
  shows "followTokens fuel r snapshots [] = Some (Inr (matching (ls_SourceVolumeId r) snapshots))"
  using followTokens_ok [of r snapshots 0 fuel "[]"] assms by (simp add: snapshotStart_def)

definition exampleSnapshot :: "string \<Rightarrow> Snapshot option" where
  "exampleSnapshot sid = Some \<lparr>s_ID = Some sid, s_Name = Some sid, s_Location = None, s_Tags = [], s_SKU = None,
     s_Properties = Some \<lparr>sp_CreationData = None, sp_Incremental = None, sp_TimeCreated = Some 0, sp_DiskSizeGB = Some 1,
       sp_DiskSizeBytes = None, sp_ProvisioningState = Some ''Succeeded'', sp_CompletionPercent = None,
       sp_DataAccessAuthMode = None, sp_NetworkAccessPolicy = None, sp_PublicNetworkAccess = None\<rparr>,
     s_ExtendedLocation = None\<rparr>"

theorem ListSnapshots_pagination_complete_witness:
  "followTokens 4 \<lparr>ls_MaxEntries = 2, ls_StartingToken = [], ls_SourceVolumeId = [], ls_SnapshotId = []\<rparr>
     [exampleSnapshot ''a'', exampleSnapshot ''b'', exampleSnapshot ''c''] []
   = Some (Inr (matching [] [exampleSnapshot ''a'', exampleSnapshot ''b'', exampleSnapshot ''c'']))"
proof -
  let ?s = "[exampleSnapshot ''a'', exampleSnapshot ''b'', exampleSnapshot ''c'']"
  have "convertible [] ?s"
    by (simp add: convertible_def exampleSnapshot_def GenerateCSISnapshot_def isCSISnapshotReady_def ToLower_def toLowerC_def Let_def)
  then show ?thesis
    using ListSnapshots_pagination_complete [of "\<lparr>ls_MaxEntries = 2, ls_StartingToken = [], ls_SourceVolumeId = [], ls_SnapshotId = []\<rparr>" ?s 4]
    by simp
qed

text \<open>A snapshot is reported ready exactly when its provisioning succeeded and either it is an instant-access
  snapshot or its copy is complete; its size is that of the disk in bytes, without wrap-around.\<close>

theorem GenerateCSISnapshot_ready:
  assumes "GenerateCSISnapshot src (Some s) = Inr cs" "s_Properties s = Some p"
  shows "(cs_ReadyToUse cs \<longleftrightarrow>
      (\<exists>st. sp_ProvisioningState p = Some st \<and> EqualFold st ''Succeeded'')
      \<and> (Option.bind (sp_CreationData p) cd_InstantAccessDurationMinutes \<noteq> None
         \<or> (\<forall>c. sp_CompletionPercent p = Some c \<longrightarrow> 100 \<le> c)))
    \<and> (\<forall>g. sp_DiskSizeGB p = Some g \<longrightarrow> in_int32 g \<longrightarrow> cs_SizeBytes cs = g * GiB)"
proof -
  have "ToLower ''Succeeded'' = ''succeeded''" by code_simp
  then have succ: "isCSISnapshotReady st \<longleftrightarrow> EqualFold st ''Succeeded''" for st
    by (simp add: isCSISnapshotReady_def EqualFold_def)
  show ?thesis
    using assms
    by (auto simp: GenerateCSISnapshot_def Let_def succ GiBToBytes_int32 split: option.splits if_splits)
qed

theorem GenerateCSISnapshot_ready_witness:
  "case GenerateCSISnapshot [] (exampleSnapshot ''a'') of Inr cs \<Rightarrow> cs_ReadyToUse cs | Inl _ \<Rightarrow> False"
proof -
  obtain s p where s: "exampleSnapshot ''a'' = Some s" "s_Properties s = Some p"
    and p: "sp_ProvisioningState p = Some ''Succeeded''" "sp_CompletionPercent p = None"
    by (simp add: exampleSnapshot_def)
  have "\<exists>cs. GenerateCSISnapshot [] (exampleSnapshot ''a'') = Inr cs"
    by (simp add: exampleSnapshot_def GenerateCSISnapshot_def isCSISnapshotReady_def ToLower_def toLowerC_def Let_def)
  then obtain cs where g: "GenerateCSISnapshot [] (Some s) = Inr cs" using s by auto
  from GenerateCSISnapshot_ready [OF g s(2)] p g s(1) show ?thesis by simp
qed

end
