(* ===== verification/DiskParams.thy ===== *)
theory DiskParams
  imports DiskUtils
begin

text \<open>
  The storage-class parameters: \<open>ParseDiskParameters\<close> of \<^verbatim>\<open>pkg/azureutils/azure_disk_utils.go\<close> with the
  helpers of \<^verbatim>\<open>pkg/optimization/device_perf_helper.go\<close> it validates device settings with, the attach
  mode of \<^verbatim>\<open>pkg/azuredisk/attach_mode.go\<close>, and the mutable parameters of
  \<^verbatim>\<open>pkg/azuredisk/controllerserver.go\<close>.
\<close>

subsection \<open>Performance profiles and device settings\<close>

definition isPerfTuningEnabled :: "string \<Rightarrow> bool" where
  "isPerfTuningEnabled profile \<longleftrightarrow> ToLower profile = PerfProfileBasic \<or> ToLower profile = PerfProfileAdvanced"

definition IsValidPerfProfile :: "string \<Rightarrow> bool" where
  "IsValidPerfProfile profile \<longleftrightarrow> isPerfTuningEnabled profile \<or> EqualFold profile PerfProfileNone"

definition accountSupportsPerfOptimization :: "string \<Rightarrow> bool" where
  "accountSupportsPerfOptimization accountType \<longleftrightarrow>
     HasPrefix (ToLower accountType) ''premium'' \<or> HasPrefix (ToLower accountType) ''standardssd''"

definition GetDeviceSettingFromAttribute :: "string \<Rightarrow> string result" where
  "GetDeviceSettingFromAttribute key =
     (if \<not> HasPrefix key DeviceSettingsKeyPrefix
      then Inl (errorf (''GetDeviceSettingFromAttribute: '' @ key @ '' is not a valid device setting override''))
      else Inr (TrimPrefix key DeviceSettingsKeyPrefix))"

text \<open>\<open>filepath.Abs\<close> of a relative path starts from the working directory \<open>cwd\<close>.\<close>

definition pathAbs :: "string \<Rightarrow> string \<Rightarrow> string" where
  "pathAbs cwd p = (if HasPrefix p ''/'' then pathClean p else pathJoin2 cwd p)"

definition AreDeviceSettingsValid :: "string \<Rightarrow> string \<Rightarrow> smap \<Rightarrow> goerror option" where
  "AreDeviceSettingsValid cwd deviceRoot deviceSettings =
     (if deviceSettings = [] then Some (errorf ''AreDeviceSettingsValid: No deviceSettings passed'')
      else (case find (\<lambda>(setting, _). \<not> HasPrefix (pathAbs cwd setting) (pathClean deviceRoot @ ''/'')) deviceSettings of
              Some (setting, _) \<Rightarrow> Some (errorf (''AreDeviceSettingsValid: Setting '' @ setting
                  @ '' is not a valid file path under '' @ deviceRoot))
            | None \<Rightarrow> None))"

subsection \<open>The parsed parameters\<close>

record ManagedDiskParameters =
  dp_AccountType :: string
  dp_CachingMode :: string
  dp_DeviceSettings :: smap
  dp_DiskAccessID :: string
  dp_DiskEncryptionSetID :: string
  dp_DiskEncryptionType :: string
  dp_DiskIOPSReadWrite :: string
  dp_DiskMBPSReadWrite :: string
  dp_DiskName :: string
  dp_EnableBursting :: "bool option"
  dp_PerformancePlus :: "bool option"
  dp_FsType :: string
  dp_Location :: string
  dp_LogicalSectorSize :: int
  dp_MaxShares :: int
  dp_NetworkAccessPolicy :: string
  dp_PublicNetworkAccess :: string
  dp_PerfProfile :: string
  dp_SubscriptionID :: string
  dp_ResourceGroup :: string
  dp_Tags :: smap
  dp_UserAgent :: string
  dp_VolumeContext :: smap
  dp_WriteAcceleratorEnabled :: string
  dp_Zoned :: string

definition initDiskParameters :: "smap \<Rightarrow> ManagedDiskParameters" where
  "initDiskParameters parameters =
     \<lparr>dp_AccountType = [], dp_CachingMode = [], dp_DeviceSettings = [], dp_DiskAccessID = [],
      dp_DiskEncryptionSetID = [], dp_DiskEncryptionType = [], dp_DiskIOPSReadWrite = [],
      dp_DiskMBPSReadWrite = [], dp_DiskName = [], dp_EnableBursting = None, dp_PerformancePlus = None,
      dp_FsType = [], dp_Location = [], dp_LogicalSectorSize = 0, dp_MaxShares = 0,
      dp_NetworkAccessPolicy = [], dp_PublicNetworkAccess = [], dp_PerfProfile = [], dp_SubscriptionID = [],
      dp_ResourceGroup = [], dp_Tags = [], dp_UserAgent = [], dp_VolumeContext = parameters,
      dp_WriteAcceleratorEnabled = [], dp_Zoned = []\<rparr>"

text \<open>The parser's local variables: the parameters so far and the strings it resolves after the loop.\<close>

record parse_state =
  ps_params :: ManagedDiskParameters
  ps_originTags :: string
  ps_tagValueDelimiter :: string
  ps_pvcName :: string
  ps_pvcNamespace :: string
  ps_pvName :: string

definition parseFailed :: "string \<Rightarrow> goerror \<Rightarrow> goerror" where
  "parseFailed v e = errorf (''parse '' @ v @ '' failed with error: '' @ emsg e)"

definition updParams :: "(ManagedDiskParameters \<Rightarrow> ManagedDiskParameters) \<Rightarrow> parse_state \<Rightarrow> parse_state result" where
  "updParams f st = Inr (st\<lparr>ps_params := f (ps_params st)\<rparr>)"

text \<open>One iteration of the loop over the parameters: the cases of the \<open>switch\<close> in the order of the source.\<close>

definition parseDiskParameter :: "string \<Rightarrow> string \<Rightarrow> parse_state \<Rightarrow> parse_state result" where
  "parseDiskParameter k v st =
    (let lk = ToLower k in
     if lk = SkuNameField then updParams (\<lambda>p. p\<lparr>dp_AccountType := v\<rparr>) st
     else if lk = LocationField then updParams (\<lambda>p. p\<lparr>dp_Location := v\<rparr>) st
     else if lk = StorageAccountTypeField then updParams (\<lambda>p. p\<lparr>dp_AccountType := v\<rparr>) st
     else if lk = CachingModeField then updParams (\<lambda>p. p\<lparr>dp_CachingMode := v\<rparr>) st
     else if lk = SubscriptionIDField then updParams (\<lambda>p. p\<lparr>dp_SubscriptionID := v\<rparr>) st
     else if lk = ResourceGroupField then updParams (\<lambda>p. p\<lparr>dp_ResourceGroup := v\<rparr>) st
     else if lk = DiskIOPSReadWriteField then
       (case Atoi v of
          Inl e \<Rightarrow> Inl (errorf (''parse '' @ DiskIOPSReadWriteField @ '':'' @ v @ '' failed with error: '' @ emsg e))
        | Inr _ \<Rightarrow> updParams (\<lambda>p. p\<lparr>dp_DiskIOPSReadWrite := v\<rparr>) st)
     else if lk = DiskMBPSReadWriteField then
       (case Atoi v of
          Inl e \<Rightarrow> Inl (errorf (''parse '' @ DiskMBPSReadWriteField @ '':'' @ v @ '' failed with error: '' @ emsg e))
        | Inr _ \<Rightarrow> updParams (\<lambda>p. p\<lparr>dp_DiskMBPSReadWrite := v\<rparr>) st)
     else if lk = LogicalSectorSizeField then
       (case Atoi v of Inl e \<Rightarrow> Inl (parseFailed v e)
        | Inr n \<Rightarrow> updParams (\<lambda>p. p\<lparr>dp_LogicalSectorSize := n\<rparr>) st)
     else if lk = DiskNameField then updParams (\<lambda>p. p\<lparr>dp_DiskName := v\<rparr>) st
     else if lk = DesIDField then updParams (\<lambda>p. p\<lparr>dp_DiskEncryptionSetID := v\<rparr>) st
     else if lk = DiskEncryptionTypeField then updParams (\<lambda>p. p\<lparr>dp_DiskEncryptionType := v\<rparr>) st
     else if lk = TagsField then Inr (st\<lparr>ps_originTags := v\<rparr>)
     else if lk = WriteAcceleratorEnabled then updParams (\<lambda>p. p\<lparr>dp_WriteAcceleratorEnabled := v\<rparr>) st
     else if lk = MaxSharesField then
       (case Atoi v of Inl e \<Rightarrow> Inl (parseFailed v e)
        | Inr n \<Rightarrow> if n < 1 then Inl (errorf (''parse '' @ v @ '' returned with invalid value: '' @ Itoa n))
                   else updParams (\<lambda>p. p\<lparr>dp_MaxShares := n\<rparr>) st)
     else if lk = PvcNameKey then
       updParams (\<lambda>p. p\<lparr>dp_Tags := gset PvcNameTag v (dp_Tags p)\<rparr>) (st\<lparr>ps_pvcName := v\<rparr>)
     else if lk = PvcNamespaceKey then
       updParams (\<lambda>p. p\<lparr>dp_Tags := gset PvcNamespaceTag v (dp_Tags p)\<rparr>) (st\<lparr>ps_pvcNamespace := v\<rparr>)
     else if lk = PvNameKey then
       updParams (\<lambda>p. p\<lparr>dp_Tags := gset PvNameTag v (dp_Tags p)\<rparr>) (st\<lparr>ps_pvName := v\<rparr>)
     else if lk = FsTypeField then updParams (\<lambda>p. p\<lparr>dp_FsType := ToLower v\<rparr>) st
     else if lk = KindField then
       updParams (\<lambda>p. p\<lparr>dp_VolumeContext := gset KindField ''Managed'' (dp_VolumeContext p)\<rparr>) st
     else if lk = PerfProfileField then
       (if \<not> IsValidPerfProfile v
        then Inl (errorf (''perf profile '' @ v @ '' is not supported, supported tuning modes are none and basic''))
        else updParams (\<lambda>p. p\<lparr>dp_PerfProfile := v\<rparr>) st)
     else if lk = NetworkAccessPolicyField then updParams (\<lambda>p. p\<lparr>dp_NetworkAccessPolicy := v\<rparr>) st
     else if lk = PublicNetworkAccessField then updParams (\<lambda>p. p\<lparr>dp_PublicNetworkAccess := v\<rparr>) st
     else if lk = DiskAccessIDField then updParams (\<lambda>p. p\<lparr>dp_DiskAccessID := v\<rparr>) st
     else if lk = EnableBurstingField then
       (if EqualFold v TrueValue then updParams (\<lambda>p. p\<lparr>dp_EnableBursting := Some True\<rparr>) st else Inr st)
     else if lk = UserAgentField then updParams (\<lambda>p. p\<lparr>dp_UserAgent := v\<rparr>) st
     else if lk = EnableAsyncAttachField then Inr st
     else if lk = ZonedField then Inr st
     else if lk = PerformancePlusField then
       (case ParseBool v of
          Inl _ \<Rightarrow> Inl (errorf (''invalid '' @ PerformancePlusField @ '': '' @ v @ '' in storage class''))
        | Inr b \<Rightarrow> updParams (\<lambda>p. p\<lparr>dp_PerformancePlus := Some b\<rparr>) st)
     else if lk = AttachDiskInitialDelayField then
       (case Atoi v of Inl e \<Rightarrow> Inl (parseFailed v e) | Inr _ \<Rightarrow> Inr st)
     else if lk = TagValueDelimiterField then Inr (st\<lparr>ps_tagValueDelimiter := v\<rparr>)
     else if lk = AttachModeField then Inr st
     else
       (case GetDeviceSettingFromAttribute k of
          Inr setting \<Rightarrow> updParams (\<lambda>p. p\<lparr>dp_DeviceSettings :=
              gset (pathJoin2 DummyBlockDevicePathLinux setting) v (dp_DeviceSettings p)\<rparr>) st
        | Inl _ \<Rightarrow> Inl (errorf (''invalid parameter '' @ k @ '' in storage class''))))"

fun parseLoop :: "smap \<Rightarrow> parse_state \<Rightarrow> parse_state result" where
  "parseLoop [] st = Inr st"
| "parseLoop ((k, v) # m) st =
     (case parseDiskParameter k v st of Inl e \<Rightarrow> Inl e | Inr st' \<Rightarrow> parseLoop m st')"

fun addCustomTags :: "smap \<Rightarrow> parse_state \<Rightarrow> smap \<Rightarrow> smap" where
  "addCustomTags [] st tags = tags"
| "addCustomTags ((k, v) # m) st tags =
     addCustomTags m st (gset k (if Contains v ''$''
        then replaceTemplateVariables v (ps_pvcName st) (ps_pvcNamespace st) (ps_pvName st) else v) tags)"

definition ParseDiskParameters :: "smap \<Rightarrow> ManagedDiskParameters result" where
  "ParseDiskParameters parameters =
     (case parseLoop parameters
             \<lparr>ps_params = initDiskParameters parameters, ps_originTags = [], ps_tagValueDelimiter = [],
              ps_pvcName = [], ps_pvcNamespace = [], ps_pvName = []\<rparr> of
        Inl e \<Rightarrow> Inl e
      | Inr st \<Rightarrow>
          (case ConvertTagsToMap (ps_originTags st) (ps_tagValueDelimiter st) of
             Inl e \<Rightarrow> Inl e
           | Inr customTagsMap \<Rightarrow>
               (let p0 = ps_params st;
                    p = p0\<lparr>dp_Tags := addCustomTags customTagsMap st (dp_Tags p0)\<rparr>
                in if EqualFold (dp_AccountType p) ''PremiumV2_LRS'' \<and> dp_CachingMode p \<noteq> []
                      \<and> \<not> EqualFold (dp_CachingMode p) ''None''
                   then Inl (errorf (''cachingMode '' @ dp_CachingMode p @ '' is not supported for PremiumV2_LRS''))
                   else Inr (if Contains (dp_DiskName p) ''$''
                             then p\<lparr>dp_DiskName := replaceTemplateVariables (dp_DiskName p)
                                     (ps_pvcName st) (ps_pvcNamespace st) (ps_pvName st)\<rparr>
                             else p))))"

subsection \<open>Attach mode\<close>

definition getAttachMode :: "smap \<Rightarrow> string result" where
  "getAttachMode parameters =
     (case ParseDiskParametersForKey parameters AttachModeField of
        None \<Rightarrow> Inr AttachModeControllerDriven
      | Some mode \<Rightarrow>
          if EqualFold mode AttachModeControllerDriven then Inr AttachModeControllerDriven
          else if EqualFold mode AttachModeNodeDriven then Inr AttachModeNodeDriven
          else Inl (errorf (''unsupported '' @ AttachModeField @ '' '' @ [CHR 0x22] @ mode @ [CHR 0x22]
             @ '': supported values are '' @ AttachModeControllerDriven @ '' and '' @ AttachModeNodeDriven)))"

subsection \<open>Mutable parameters\<close>

definition mutableDiskParameterKey :: "string \<Rightarrow> string" where
  "mutableDiskParameterKey key =
     (let k = ToLower key in if k = StorageAccountTypeField then SkuNameField else k)"

fun normalizeMutableLoop :: "smap \<Rightarrow> smap \<Rightarrow> smap result" where
  "normalizeMutableLoop [] normalized = Inr normalized"
| "normalizeMutableLoop ((key, value) # m) normalized =
     (let canonicalKey = mutableDiskParameterKey key in
      if canonicalKey \<notin> {SkuNameField, DiskIOPSReadWriteField, DiskMBPSReadWriteField}
        then Inl (errorf (''unsupported mutable disk parameter '' @ [CHR 0x22] @ key @ [CHR 0x22]))
      else if gget normalized canonicalKey \<noteq> None
        then Inl (errorf (''duplicate mutable disk parameter '' @ [CHR 0x22] @ canonicalKey @ [CHR 0x22]))
      else normalizeMutableLoop m (gset canonicalKey value normalized))"

definition normalizeMutableDiskParameters :: "smap \<Rightarrow> smap result" where
  "normalizeMutableDiskParameters parameters = normalizeMutableLoop parameters []"

text \<open>The merge in \<open>CreateVolume\<close>: mutable settings win over storage-class parameters of the same setting.\<close>

definition mergeParameters :: "smap \<Rightarrow> smap \<Rightarrow> smap" where
  "mergeParameters parameters mutableParams =
     foldl (\<lambda>ps (k, v). gset k v ps)
       (foldl (\<lambda>ps (k, v). if gget mutableParams (mutableDiskParameterKey k) = None then gset k v ps else ps) [] parameters)
       mutableParams"

subsection \<open>What one parameter changes\<close>

lemma parse_step_AccountType:
  assumes "parseDiskParameter k v st = Inr st'"
  shows "dp_AccountType (ps_params st') =
    (if mutableDiskParameterKey k = SkuNameField then v else dp_AccountType (ps_params st))"
  using assms
  by (auto simp: parseDiskParameter_def updParams_def Let_def mutableDiskParameterKey_def
      split: if_splits sum.splits) (simp_all add: const_defs)

lemma parse_step_MaxShares:
  assumes "parseDiskParameter k v st = Inr st'" "0 \<le> dp_MaxShares (ps_params st)"
  shows "0 \<le> dp_MaxShares (ps_params st')"
  using assms
  by (auto simp: parseDiskParameter_def updParams_def Let_def split: if_splits sum.splits)

text \<open>The device settings the parser stores are paths joined to the dummy block device.\<close>

definition settingKey :: "string \<Rightarrow> bool" where
  "settingKey s \<longleftrightarrow> (\<exists>r. s = pathJoin2 DummyBlockDevicePathLinux r)"

lemma parse_step_DeviceSettings:
  assumes "parseDiskParameter k v st = Inr st'"
    and "\<forall>s \<in> fst ` set (dp_DeviceSettings (ps_params st)). settingKey s"
  shows "\<forall>s \<in> fst ` set (dp_DeviceSettings (ps_params st')). settingKey s"
proof -
  have "dp_DeviceSettings (ps_params st') = dp_DeviceSettings (ps_params st)
    \<or> (\<exists>r. dp_DeviceSettings (ps_params st') = gset (pathJoin2 DummyBlockDevicePathLinux r) v (dp_DeviceSettings (ps_params st)))"
    using assms(1)
    by (auto simp: parseDiskParameter_def updParams_def Let_def split: if_splits sum.splits)
  then show ?thesis using assms(2) by (metis insertE keys_gset settingKey_def)
qed

subsection \<open>The whole parse\<close>

lemma parseLoop_invariant:
  assumes "parseLoop m st = Inr st'" "P st"
    and "\<And>k v st st'. (k, v) \<in> set m \<Longrightarrow> parseDiskParameter k v st = Inr st' \<Longrightarrow> P st \<Longrightarrow> P st'"
  shows "P st'"
  using assms
proof (induction m arbitrary: st)
  case (Cons kv m)
  obtain k v where kv: "kv = (k, v)" by (cases kv)
  from Cons.prems(1) obtain st1 where s1: "parseDiskParameter k v st = Inr st1" and r: "parseLoop m st1 = Inr st'"
    by (auto simp: kv split: sum.splits)
  have "P st1" using Cons.prems(3) [OF _ s1 Cons.prems(2)] kv by simp
  from Cons.IH [OF r this] Cons.prems(3) show ?case by (meson list.set_intros(2))
qed auto

lemma parseLoop_AccountType:
  assumes "parseLoop m st = Inr st'"
    and "\<forall>(k, v) \<in> set m. mutableDiskParameterKey k = SkuNameField \<longrightarrow> v = s"
    and "dp_AccountType (ps_params st) = s \<or> (\<exists>(k, v) \<in> set m. mutableDiskParameterKey k = SkuNameField)"
  shows "dp_AccountType (ps_params st') = s"
  using assms
proof (induction m arbitrary: st)
  case (Cons kv m)
  obtain k v where kv: "kv = (k, v)" by (cases kv)
  from Cons.prems(1) obtain st1 where s1: "parseDiskParameter k v st = Inr st1" and r: "parseLoop m st1 = Inr st'"
    by (auto simp: kv split: sum.splits)
  show ?case
    by (rule Cons.IH [OF r]) (use Cons.prems(2,3) kv parse_step_AccountType [OF s1] in auto)
qed auto

lemma ParseDiskParameters_loop:
  assumes "ParseDiskParameters m = Inr p"
  obtains st where
    "parseLoop m \<lparr>ps_params = initDiskParameters m, ps_originTags = [], ps_tagValueDelimiter = [],
              ps_pvcName = [], ps_pvcNamespace = [], ps_pvName = []\<rparr> = Inr st"
    "dp_AccountType p = dp_AccountType (ps_params st)" "dp_MaxShares p = dp_MaxShares (ps_params st)"
    "dp_DeviceSettings p = dp_DeviceSettings (ps_params st)" "dp_CachingMode p = dp_CachingMode (ps_params st)"
    "EqualFold (dp_AccountType p) ''PremiumV2_LRS'' \<longrightarrow> dp_CachingMode p = [] \<or> EqualFold (dp_CachingMode p) ''None''"
  using assms unfolding ParseDiskParameters_def Let_def
  by (auto split: sum.splits if_splits)

lemma AreDeviceSettingsValid_None:
  "AreDeviceSettingsValid cwd devRoot ds = None \<longleftrightarrow>
     ds \<noteq> [] \<and> (\<forall>s \<in> fst ` set ds. HasPrefix (pathAbs cwd s) (pathClean devRoot @ ''/''))"
proof -
  have "AreDeviceSettingsValid cwd devRoot ds = None \<longleftrightarrow>
      ds \<noteq> [] \<and> find (\<lambda>(setting, _). \<not> HasPrefix (pathAbs cwd setting) (pathClean devRoot @ ''/'')) ds = None"
    by (simp add: AreDeviceSettingsValid_def split: option.split)
  then show ?thesis by (auto simp: find_None_iff)
qed

lemma settingKey_clean:
  assumes "settingKey s"
  shows "HasPrefix s ''/''" "pathClean s = s" "''..'' \<notin> set (pathComps s)"
proof -
  have "HasPrefix DummyBlockDevicePathLinux ''/''" by (simp add: const_defs HasPrefix_def)
  with assms obtain t where "HasPrefix t ''/''" "s = pathClean t"
    using pathJoin2_rooted by (metis settingKey_def)
  then show "HasPrefix s ''/''" "pathClean s = s" "''..'' \<notin> set (pathComps s)"
    by (simp_all add: pathClean_rooted pathClean_idem pathComps_pathClean(2))
qed

subsection \<open>Merging mutable parameters\<close>

lemma gget_foldl_filter:
  assumes "wf_map m"
  shows "gget (foldl (\<lambda>ps (k, v). if P k then gset k v ps else ps) acc m) k =
    (case gget m k of Some v \<Rightarrow> if P k then Some v else gget acc k | None \<Rightarrow> gget acc k)"
  using assms
proof (induction m arbitrary: acc)
  case (Cons kv m)
  obtain k' v' where kv: "kv = (k', v')" by (cases kv)
  have wf: "wf_map m" and fresh: "gget m k' = None"
    using Cons.prems by (auto simp: kv wf_map_def gget_eq_None_iff)
  have "gget (kv # m) k = (if k = k' then Some v' else gget m k)" by (simp add: kv gget_def)
  then show ?case using Cons.IH [OF wf] fresh by (auto simp: kv split: option.splits)
qed simp

lemma wf_foldl_filter: "wf_map acc \<Longrightarrow> wf_map (foldl (\<lambda>ps (k, v). if P k then gset k v ps else ps) acc m)"
proof (induction m arbitrary: acc)
  case (Cons kv m)
  obtain k v where kv: "kv = (k, v)" by (cases kv)
  show ?case using Cons.IH [of "gset k v acc"] Cons.IH [of acc] Cons.prems by (simp add: kv)
qed simp

lemma gget_mergeParameters:
  assumes "wf_map ps" "wf_map mp"
  shows "gget (mergeParameters ps mp) k = (case gget mp k of Some v \<Rightarrow> Some v
           | None \<Rightarrow> if gget mp (mutableDiskParameterKey k) = None then gget ps k else None)"
  using gget_foldl_filter [OF assms(2), of "\<lambda>_. True"]
  by (simp add: mergeParameters_def gget_foldl_filter [OF assms(1)] split: option.split)

lemma wf_mergeParameters [simp]: "wf_map (mergeParameters ps mp)"
  using wf_foldl_filter [of _ "\<lambda>_. True" mp] wf_foldl_filter [of "[]" _ ps] by (simp add: mergeParameters_def)

lemma mutableDiskParameterKey_idem [simp]: "mutableDiskParameterKey (mutableDiskParameterKey k) = mutableDiskParameterKey k"
proof -
  have "ToLower SkuNameField = SkuNameField" "SkuNameField \<noteq> StorageAccountTypeField" by code_simp+
  then show ?thesis by (simp add: mutableDiskParameterKey_def Let_def)
qed

lemma normalizeMutableLoop_ok:
  "normalizeMutableLoop m n = Inr n' \<Longrightarrow> wf_map n \<Longrightarrow> \<forall>k \<in> fst ` set n. mutableDiskParameterKey k = k \<Longrightarrow>
     wf_map n' \<and> (\<forall>k \<in> fst ` set n'. mutableDiskParameterKey k = k)
     \<and> gget n' k' = (case gget n k' of Some v \<Rightarrow> Some v | None \<Rightarrow> map_of (map (\<lambda>(k, v). (mutableDiskParameterKey k, v)) m) k')"
proof (induction m arbitrary: n)
  case (Cons kv m)
  obtain k v where kv: "kv = (k, v)" by (cases kv)
  let ?c = "mutableDiskParameterKey k"
  from Cons.prems(1) have none: "gget n ?c = None" and r: "normalizeMutableLoop m (gset ?c v n) = Inr n'"
    by (auto simp: kv Let_def split: if_splits)
  have keys: "\<forall>k \<in> fst ` set (gset ?c v n). mutableDiskParameterKey k = k"
    unfolding keys_gset using Cons.prems(3) by simp
  from Cons.IH [OF r _ keys] Cons.prems(2) none show ?case by (auto simp: kv split: option.splits)
qed (auto split: option.splits)

subsection \<open>Properties\<close>

text \<open>(C30) Mutable parameters win: when a request has a valid mutable SKU, every successful parse of the merged
  parameters yields that SKU, whatever the storage class says under \<open>skuName\<close> or \<open>storageAccountType\<close> in any
  case, and in whatever order Go visits the maps.\<close>

theorem mutable_sku_wins:
  assumes "wf_map ps" "normalizeMutableDiskParameters mp = Inr mp'" "gget mp' SkuNameField = Some sku"
    and "set m = set (mergeParameters ps mp')" "ParseDiskParameters m = Inr p"
  shows "dp_AccountType p = sku"
proof -
  have wf: "wf_map mp'" and canon: "\<forall>k \<in> fst ` set mp'. mutableDiskParameterKey k = k"
    using normalizeMutableLoop_ok [of mp "[]" mp'] assms(2) by (auto simp: normalizeMutableDiskParameters_def)
  have only: "v = sku" if "(k, v) \<in> set m" "mutableDiskParameterKey k = SkuNameField" for k v
  proof -
    have g: "gget (mergeParameters ps mp') k = Some v"
      using that(1) assms(4) by (simp add: gget_eq_Some_iff)
    then show ?thesis
    proof (cases "gget mp' k")
      case None
      with g that(2) assms(3) show ?thesis by (simp add: gget_mergeParameters [OF assms(1) wf])
    next
      case (Some w)
      then have "k \<in> fst ` set mp'" by (metis gget_eq_None_iff option.distinct(1))
      then have "k = SkuNameField" using canon that(2) by auto
      with g assms(3) show ?thesis by (simp add: gget_mergeParameters [OF assms(1) wf])
    qed
  qed
  have "gget (mergeParameters ps mp') SkuNameField = Some sku"
    using assms(3) by (simp add: gget_mergeParameters [OF assms(1) wf])
  then have mem: "(SkuNameField, sku) \<in> set m" using assms(4) by (simp add: gget_eq_Some_iff)
  have key: "mutableDiskParameterKey SkuNameField = SkuNameField" by code_simp
  obtain st where loop: "parseLoop m \<lparr>ps_params = initDiskParameters m, ps_originTags = [],
        ps_tagValueDelimiter = [], ps_pvcName = [], ps_pvcNamespace = [], ps_pvName = []\<rparr> = Inr st"
    and acc: "dp_AccountType p = dp_AccountType (ps_params st)"
    using assms(5) by (rule ParseDiskParameters_loop)
  have all: "\<forall>(k, v) \<in> set m. mutableDiskParameterKey k = SkuNameField \<longrightarrow> v = sku" using only by blast
  have ex: "\<exists>(k, v) \<in> set m. mutableDiskParameterKey k = SkuNameField" using mem key by blast
  show ?thesis unfolding acc by (rule parseLoop_AccountType [OF loop all]) (use ex in blast)
qed

theorem mutable_sku_wins_witness:
  "\<exists>p. ParseDiskParameters (mergeParameters [(''storageAccountType'', ''Premium_LRS'')] [(''skuname'', ''StandardSSD_LRS'')]) = Inr p
     \<and> dp_AccountType p = ''StandardSSD_LRS''"
proof -
  let ?ps = "[(''storageAccountType'', ''Premium_LRS'')]" and ?mp = "[(''skuname'', ''StandardSSD_LRS'')]"
  let ?m = "mergeParameters ?ps ?mp"
  have n: "normalizeMutableDiskParameters [(''SkuName'', ''StandardSSD_LRS'')] = Inr ?mp" by code_simp
  have g: "gget ?mp SkuNameField = Some ''StandardSSD_LRS''" by code_simp
  have "case ParseDiskParameters ?m of Inr _ \<Rightarrow> True | Inl _ \<Rightarrow> False" by code_simp
  then obtain p where p: "ParseDiskParameters ?m = Inr p" by (auto split: sum.splits)
  have "wf_map ?ps" by (simp add: wf_map_def)
  from mutable_sku_wins [OF this n g refl p] p show ?thesis by blast
qed

text \<open>(C31) Device settings stay under the block device: if the parser accepts the parameters and the device-setting
  check accepts its result, every path that will be written starts with \<open>/sys/block/sda/\<close> and has no \<open>..\<close>
  component, so no storage-class parameter can name a file elsewhere.\<close>

theorem device_settings_confined:
  assumes "ParseDiskParameters m = Inr p"
    and "AreDeviceSettingsValid cwd DummyBlockDevicePathLinux (dp_DeviceSettings p) = None"
    and "s \<in> fst ` set (dp_DeviceSettings p)"
  shows "HasPrefix s ''/sys/block/sda/'' \<and> ''..'' \<notin> set (pathComps s)"
proof -
  obtain st where loop: "parseLoop m \<lparr>ps_params = initDiskParameters m, ps_originTags = [],
        ps_tagValueDelimiter = [], ps_pvcName = [], ps_pvcNamespace = [], ps_pvName = []\<rparr> = Inr st"
    and ds: "dp_DeviceSettings p = dp_DeviceSettings (ps_params st)"
    using assms(1) by (rule ParseDiskParameters_loop)
  have "\<forall>s \<in> fst ` set (dp_DeviceSettings (ps_params st)). settingKey s"
    by (rule parseLoop_invariant [OF loop, where P = "\<lambda>st. \<forall>s \<in> fst ` set (dp_DeviceSettings (ps_params st)). settingKey s"])
      (simp add: initDiskParameters_def, blast dest: parse_step_DeviceSettings)
  then have sk: "settingKey s" using assms(3) ds by auto
  have root: "pathClean DummyBlockDevicePathLinux @ ''/'' = ''/sys/block/sda/''" by code_simp
  have "HasPrefix (pathAbs cwd s) ''/sys/block/sda/''"
    using assms(2,3) root by (auto simp: AreDeviceSettingsValid_None)
  with settingKey_clean [OF sk] show ?thesis by (simp add: pathAbs_def)
qed

theorem device_settings_confined_witness:
  "\<exists>p. ParseDiskParameters [(''device-setting/queue/../scheduler'', ''none'')] = Inr p
     \<and> HasPrefix ''/sys/block/sda/scheduler'' ''/sys/block/sda/'' \<and> ''..'' \<notin> set (pathComps ''/sys/block/sda/scheduler'')
     \<and> dp_DeviceSettings p = [(''/sys/block/sda/scheduler'', ''none'')]"
proof -
  let ?m = "[(''device-setting/queue/../scheduler'', ''none'')]"
  have "(case ParseDiskParameters ?m of Inr p \<Rightarrow> dp_DeviceSettings p = [(''/sys/block/sda/scheduler'', ''none'')] | Inl _ \<Rightarrow> False)"
    by code_simp
  then obtain p where p: "ParseDiskParameters ?m = Inr p" and d: "dp_DeviceSettings p = [(''/sys/block/sda/scheduler'', ''none'')]"
    by (auto split: sum.splits)
  have "AreDeviceSettingsValid ''/'' DummyBlockDevicePathLinux [(''/sys/block/sda/scheduler'', ''none'')] = None" by code_simp
  with device_settings_confined [OF p, of "''/''" "''/sys/block/sda/scheduler''"] p d show ?thesis by auto
qed

text \<open>With both aliases of the SKU in a storage class (\<open>skuName\<close> and \<open>storageAccountType\<close>), the SKU that
  \<open>ParseDiskParameters\<close> returns depends on the order in which Go happens to iterate over the map.\<close>

theorem account_type_depends_on_iteration_order:
  "\<exists>m m'. wf_map m \<and> wf_map m' \<and> set m = set m'
     \<and> map_sum id dp_AccountType (ParseDiskParameters m) = Inr ''Premium_LRS''
     \<and> map_sum id dp_AccountType (ParseDiskParameters m') = Inr ''Standard_LRS''"
proof (intro exI conjI)
  let ?a = "(''skuName'', ''Standard_LRS'')" and ?b = "(''storageAccountType'', ''Premium_LRS'')"
  show "wf_map [?a, ?b]" "wf_map [?b, ?a]" "set [?a, ?b] = set [?b, ?a]" by (auto simp: wf_map_def)
  show "map_sum id dp_AccountType (ParseDiskParameters [?a, ?b]) = Inr ''Premium_LRS''" by code_simp
  show "map_sum id dp_AccountType (ParseDiskParameters [?b, ?a]) = Inr ''Standard_LRS''" by code_simp
qed

end
