(* ===== verification/ListVolumes.thy ===== *)
theory ListVolumes
  imports DiskUtils "HOL-Library.List_Lexorder" "HOL-Library.Char_ord"
begin

text \<open>
  \<open>ListVolumes\<close> and its helpers (\<open>controllerserver.go\<close>). The reads of one call are a \<open>list_env\<close>: the persistent
  volumes of the cluster (\<open>None\<close> without a Kubernetes client), the disks of each resource group, and the node of
  each VM. Resource groups are visited in the order of \<open>sort.Strings\<close>.
\<close>

record CSIPersistentVolumeSource =
  csi_Driver :: string
  csi_VolumeHandle :: string
  csi_VolumeAttributes :: smap

record PersistentVolume =
  pv_Name :: string
  pv_CSI :: "CSIPersistentVolumeSource option"
  pv_Annotations :: smap

record ListVolumesEntry =
  le_VolumeId :: string
  le_PublishedNodeIds :: "string list"

record ListVolumesResponse =
  lv_Entries :: "ListVolumesEntry list"
  lv_NextToken :: string

record list_env =
  li_driverName :: string
  li_ResourceGroup :: string
  li_pvs :: "PersistentVolume list result option"
  li_disks :: "string \<Rightarrow> Disk list result"
  li_nodeOf :: "string \<Rightarrow> string result"

record listVolumeStatus =
  ls_numVisited :: int
  ls_isCompleteRun :: bool
  ls_entries :: "ListVolumesEntry list"

text \<open>A disk without a generation is not an OS disk.\<close>

definition isDataDisk :: "Disk \<Rightarrow> bool" where
  "isDataDisk disk \<longleftrightarrow> derefStr (Option.bind (d_Properties disk) p_HyperVGeneration) = []"

definition listEntry :: "list_env \<Rightarrow> Disk \<Rightarrow> string \<Rightarrow> ListVolumesEntry result" where
  "listEntry env disk diskID = (case d_ManagedBy disk of
     None \<Rightarrow> Inr \<lparr>le_VolumeId = diskID, le_PublishedNodeIds = []\<rparr>
   | Some vm \<Rightarrow> bindR (li_nodeOf env vm) (\<lambda>attachedNode.
       Inr \<lparr>le_VolumeId = diskID, le_PublishedNodeIds = [attachedNode]\<rparr>))"

text \<open>The loop over the disks from index \<open>i\<close> on: the index at which it stops, whether it visited every disk, and the
  entries. A nil disk ID panics where it is dereferenced.\<close>

fun listLoop :: "list_env \<Rightarrow> string list option \<Rightarrow> int \<Rightarrow> int \<Rightarrow> Disk list \<Rightarrow> ListVolumesEntry list
    \<Rightarrow> (int \<times> bool \<times> ListVolumesEntry list) result" where
  "listLoop env volSet maxEntries i [] entries = Inr (i, True, entries)"
| "listLoop env volSet maxEntries i (disk # disks) entries =
     (if maxEntries > 0 \<and> int (length entries) \<ge> maxEntries then Inr (i, False, entries)
      else if volSet \<noteq> None \<and> d_ID disk = None then Inl (panicf ''nil pointer dereference'')
      else if volSet \<noteq> None \<and> ToLower (derefStr (d_ID disk)) \<notin> set (the volSet)
      then listLoop env volSet maxEntries (i + 1) disks entries
      else if isDataDisk disk
      then (case d_ID disk of
          None \<Rightarrow> (case bindR (listEntry env disk []) (\<lambda>_. Inr ()) of Inl e \<Rightarrow> Inl e | Inr _ \<Rightarrow> Inl (panicf ''nil pointer dereference''))
        | Some diskID \<Rightarrow> bindR (listEntry env disk diskID) (\<lambda>entry.
            listLoop env volSet maxEntries (i + 1) disks (entries @ [entry])))
      else listLoop env volSet maxEntries (i + 1) disks entries)"

text \<open>An error comes with the number of visited disks, which the caller adds up in the \<open>FailedPrecondition\<close> case.\<close>

definition listVolumesByResourceGroup :: "list_env \<Rightarrow> string \<Rightarrow> ListVolumesEntry list \<Rightarrow> int \<Rightarrow> int \<Rightarrow> string list option
    \<Rightarrow> goerror \<times> int + listVolumeStatus" where
  "listVolumesByResourceGroup env resourceGroup entries start maxEntries volSet = (case li_disks env resourceGroup of
     Inl derr \<Rightarrow> Inl (statusf Internal (''ListVolumes on rg('' @ resourceGroup @ '') failed with error: '' @ emsg derr), 0)
   | Inr disks \<Rightarrow>
       if volSet = Some [] then Inr \<lparr>ls_numVisited = int (length disks), ls_isCompleteRun = True, ls_entries = entries\<rparr>
       else if start > 0 \<and> start \<ge> int (length disks)
       then Inl (statusf FailedPrecondition (''ListVolumes starting token('' @ Itoa start @ '') on rg('' @ li_ResourceGroup env
         @ '') is greater than total number of volumes''), int (length disks))
       else let start' = max 0 start in
         case listLoop env volSet maxEntries start' (drop (nat start') disks) entries of
           Inl err \<Rightarrow> Inl (err, 0)
         | Inr (i, isCompleteRun, entries') \<Rightarrow>
             Inr \<lparr>ls_numVisited = i - start', ls_isCompleteRun = isCompleteRun, ls_entries = entries'\<rparr>)"

definition listVolumesInNodeResourceGroup :: "list_env \<Rightarrow> int \<Rightarrow> int \<Rightarrow> ListVolumesResponse result" where
  "listVolumesInNodeResourceGroup env start maxEntries =
     (case listVolumesByResourceGroup env (li_ResourceGroup env) [] start maxEntries None of
        Inl (err, _) \<Rightarrow> Inl err
      | Inr st \<Rightarrow> Inr \<lparr>lv_Entries = ls_entries st,
          lv_NextToken = (if \<not> ls_isCompleteRun st then Itoa (ls_numVisited st) else [])\<rparr>)"

text \<open>The resource groups and the volumes of the cluster, lower-cased, without repetition.\<close>

fun collectVolumes :: "string \<Rightarrow> PersistentVolume list \<Rightarrow> string list \<Rightarrow> string list \<Rightarrow> string list \<times> string list" where
  "collectVolumes driver [] rgs vols = (rgs, vols)"
| "collectVolumes driver (pv # pvs) rgs vols = (case pv_CSI pv of
     None \<Rightarrow> collectVolumes driver pvs rgs vols
   | Some csi \<Rightarrow>
       if csi_Driver csi \<noteq> driver then collectVolumes driver pvs rgs vols
       else case GetInfoFromURI (csi_VolumeHandle csi) of
           Inl _ \<Rightarrow> collectVolumes driver pvs rgs vols
         | Inr (_, rg, _) \<Rightarrow> collectVolumes driver pvs (List.insert (ToLower rg) rgs)
             (List.insert (ToLower (csi_VolumeHandle csi)) vols))"

text \<open>The loop over the resource groups: disks visited, whether the run is complete, whether the start was found, entries.\<close>

fun clusterLoop :: "list_env \<Rightarrow> string list \<Rightarrow> int \<Rightarrow> int \<Rightarrow> string list \<Rightarrow> int \<times> bool \<times> bool \<times> ListVolumesEntry list
    \<Rightarrow> (int \<times> bool \<times> bool \<times> ListVolumesEntry list) result" where
  "clusterLoop env volSet start maxEntries [] st = Inr st"
| "clusterLoop env volSet start maxEntries (resourceGroup # rgs) (numVisited, isCompleteRun, startFound, entries) =
     (if \<not> isCompleteRun \<or> maxEntries > 0 \<and> int (length entries) \<ge> maxEntries
      then Inr (numVisited, False, startFound, entries)
      else case listVolumesByResourceGroup env resourceGroup entries (if startFound then 0 else start - numVisited)
             (maxEntries - int (length entries)) (Some volSet) of
          Inl (err, visited) \<Rightarrow>
            if ekind err = Status FailedPrecondition
            then clusterLoop env volSet start maxEntries rgs (numVisited + visited, isCompleteRun, startFound, entries)
            else Inl err
        | Inr st \<Rightarrow> clusterLoop env volSet start maxEntries rgs
            (numVisited + ls_numVisited st, isCompleteRun \<and> ls_isCompleteRun st, True, ls_entries st))"

definition listVolumesInCluster :: "list_env \<Rightarrow> PersistentVolume list result \<Rightarrow> int \<Rightarrow> int \<Rightarrow> ListVolumesResponse result" where
  "listVolumesInCluster env pvList start maxEntries = (case pvList of
     Inl err \<Rightarrow> Inl (statusf Internal (''ListVolumes failed while fetching PersistentVolumes List with error: '' @ emsg err))
   | Inr pvs \<Rightarrow>
       let (rgs, vols) = collectVolumes (li_driverName env) pvs [] []
       in bindR (clusterLoop env vols start maxEntries (sort rgs) (0, True, False, [])) (\<lambda>(numVisited, isCompleteRun, startFound, entries).
          if start > 0 \<and> \<not> startFound
          then Inl (statusf FailedPrecondition (''ListVolumes starting token('' @ Itoa start @ '') is greater than total number of disks''))
          else Inr \<lparr>lv_Entries = entries, lv_NextToken = (if \<not> isCompleteRun then Itoa (start + numVisited) else [])\<rparr>))"

definition ListVolumes :: "list_env \<Rightarrow> string \<Rightarrow> int \<Rightarrow> ListVolumesResponse result" where
  "ListVolumes env startingToken maxEntries =
     bindR (if startingToken = [] then Inr 0 else case Atoi startingToken of
         Inl err \<Rightarrow> Inl (statusf Aborted (''ListVolumes starting token('' @ startingToken @ '') parsing with error: '' @ emsg err))
       | Inr start \<Rightarrow> if start < 0
           then Inl (statusf Aborted (''ListVolumes starting token('' @ Itoa start @ '') can not be negative'')) else Inr start)
     (\<lambda>start. case li_pvs env of
         Some pvList \<Rightarrow> listVolumesInCluster env pvList start maxEntries
       | None \<Rightarrow> listVolumesInNodeResourceGroup env start maxEntries)"

subsection \<open>Reference: the volumes of a cluster\<close>

definition entryOf :: "(string \<Rightarrow> string) \<Rightarrow> Disk \<Rightarrow> ListVolumesEntry" where
  "entryOf node d = \<lparr>le_VolumeId = derefStr (d_ID d), le_PublishedNodeIds = map node (case d_ManagedBy d of None \<Rightarrow> [] | Some vm \<Rightarrow> [vm])\<rparr>"

definition listed :: "string list option \<Rightarrow> Disk \<Rightarrow> bool" where
  "listed vols d \<longleftrightarrow> isDataDisk d \<and> (\<forall>vs. vols = Some vs \<longrightarrow> ToLower (derefStr (d_ID d)) \<in> set vs)"

text \<open>A persistent volume of this driver with a well-formed handle, with its resource group and handle in lower case.\<close>

definition driverVolume :: "string \<Rightarrow> PersistentVolume \<Rightarrow> string \<Rightarrow> string \<Rightarrow> bool" where
  "driverVolume driver pv rg vol \<longleftrightarrow> (\<exists>csi sub r name. pv_CSI pv = Some csi \<and> csi_Driver csi = driver
     \<and> GetInfoFromURI (csi_VolumeHandle csi) = Inr (sub, r, name) \<and> rg = ToLower r \<and> vol = ToLower (csi_VolumeHandle csi))"

lemma collectVolumes_sets:
  "set (fst (collectVolumes driver pvs rgs vols)) = set rgs \<union> {rg. \<exists>pv \<in> set pvs. \<exists>vol. driverVolume driver pv rg vol}"
  "set (snd (collectVolumes driver pvs rgs vols)) = set vols \<union> {vol. \<exists>pv \<in> set pvs. \<exists>rg. driverVolume driver pv rg vol}"
  by (induction pvs arbitrary: rgs vols) (auto simp: driverVolume_def split: option.splits sum.splits)

lemma listLoop_unbounded:
  assumes "maxEntries \<le> 0" "\<And>vm. li_nodeOf env vm = Inr (node vm)" "\<forall>d \<in> set disks. d_ID d \<noteq> None"
  shows "listLoop env vols maxEntries i disks entries = Inr (i + int (length disks), True, entries @ map (entryOf node) (filter (listed vols) disks))"
  using assms(3)
proof (induction disks arbitrary: i entries)
  case (Cons d ds)
  obtain did where i: "d_ID d = Some did" using Cons.prems by auto
  have e: "listEntry env d did = Inr (entryOf node d)"
    by (simp add: listEntry_def entryOf_def assms(2) i derefStr_def split: option.split)
  show ?case
    using Cons.IH Cons.prems assms(1) e by (cases vols) (auto simp: listed_def i derefStr_def)
qed simp

lemma clusterLoop_unbounded:
  assumes "maxEntries \<le> 0" "\<And>vm. li_nodeOf env vm = Inr (node vm)" "vols \<noteq> []"
    and "\<And>rg. rg \<in> set rgs \<Longrightarrow> li_disks env rg = Inr (D rg) \<and> (\<forall>d \<in> set (D rg). d_ID d \<noteq> None)" "0 \<le> n"
  shows "\<exists>n' f'. clusterLoop env vols 0 maxEntries rgs (n, True, f, entries)
     = Inr (n', True, f', entries @ concat (map (\<lambda>rg. map (entryOf node) (filter (listed (Some vols)) (D rg))) rgs))"
  using assms(4,5)
proof (induction rgs arbitrary: n f entries)
  case (Cons rg rgs)
  let ?es = "map (entryOf node) (filter (listed (Some vols)) (D rg))"
  let ?start = "if f then 0 else 0 - n"
  have d: "li_disks env rg = Inr (D rg)" "\<forall>x \<in> set (D rg). d_ID x \<noteq> None" using Cons.prems(1) [of rg] by auto
  have neg: "\<not> 0 < ?start" and m: "max 0 ?start = 0" using Cons.prems(2) by auto
  have "maxEntries - int (length entries) \<le> 0" using assms(1) by simp
  from listLoop_unbounded [OF this assms(2) d(2), of "Some vols" 0 entries]
  have "listVolumesByResourceGroup env rg entries ?start (maxEntries - int (length entries)) (Some vols)
      = Inr \<lparr>ls_numVisited = int (length (D rg)), ls_isCompleteRun = True, ls_entries = entries @ ?es\<rparr>"
    unfolding listVolumesByResourceGroup_def Let_def m using d assms(3) neg by simp
  moreover have "\<exists>n' f'. clusterLoop env vols 0 maxEntries rgs (n + int (length (D rg)), True, True, entries @ ?es)
     = Inr (n', True, f', (entries @ ?es) @ concat (map (\<lambda>rg. map (entryOf node) (filter (listed (Some vols)) (D rg))) rgs))"
    by (rule Cons.IH) (use Cons.prems in auto)
  ultimately show ?case using assms(1) by simp
qed simp

subsection \<open>Properties\<close>

text \<open>The specification, independent of the code: the resource groups and the volumes of the cluster, as sets, and the disks of a group
  that are listed, in the order in which Azure returns them. An OS disk has a generation.\<close>

definition clusterGroups :: "string \<Rightarrow> PersistentVolume list \<Rightarrow> string set" where
  "clusterGroups driver pvs = {rg. \<exists>pv \<in> set pvs. \<exists>vol. driverVolume driver pv rg vol}"

definition clusterVolumes :: "string \<Rightarrow> PersistentVolume list \<Rightarrow> string set" where
  "clusterVolumes driver pvs = {vol. \<exists>pv \<in> set pvs. \<exists>rg. driverVolume driver pv rg vol}"

definition volumeIn :: "string set \<Rightarrow> Disk \<Rightarrow> bool" where
  "volumeIn vols d \<longleftrightarrow> (\<exists>id. d_ID d = Some id \<and> ToLower id \<in> vols)
     \<and> (\<forall>p. d_Properties d = Some p \<longrightarrow> p_HyperVGeneration p \<in> {None, Some []})"

lemma listed_volumeIn: "d_ID d \<noteq> None \<Longrightarrow> listed (Some vols) d \<longleftrightarrow> volumeIn (set vols) d"
  by (cases "d_Properties d") (auto simp: listed_def volumeIn_def isDataDisk_def derefStr_def split: option.splits)

lemma collectVolumes_distinct: "distinct rgs \<Longrightarrow> distinct (fst (collectVolumes driver pvs rgs vols))"
  by (induction pvs arbitrary: rgs vols) (auto split: option.split sum.split)

lemma sort_groups:
  assumes "collectVolumes driver pvs [] [] = (rgs, vols)"
  shows "sort rgs = sorted_list_of_set (clusterGroups driver pvs)" "set vols = clusterVolumes driver pvs"
proof -
  have "set rgs = clusterGroups driver pvs" "set vols = clusterVolumes driver pvs" "distinct rgs"
    using collectVolumes_sets [of driver pvs "[]" "[]"] collectVolumes_distinct [of "[]" driver pvs "[]"]
    by (simp_all add: assms clusterGroups_def clusterVolumes_def)
  then show "sort rgs = sorted_list_of_set (clusterGroups driver pvs)" "set vols = clusterVolumes driver pvs"
    by (simp_all add: sorted_list_of_set_sort_remdups distinct_remdups_id flip: \<open>set rgs = _\<close>)
qed

lemma clusterLoop_groups:
  assumes "maxEntries \<le> 0" "\<And>vm. li_nodeOf env vm = Inr (node vm)"
    and "\<And>rg. li_disks env rg = Inr (D rg)" "\<And>rg d. d \<in> set (D rg) \<Longrightarrow> d_ID d \<noteq> None" "vols = [] \<Longrightarrow> rgs = []"
  shows "\<exists>n f. clusterLoop env vols 0 maxEntries rgs (0, True, False, [])
     = Inr (n, True, f, concat (map (\<lambda>rg. map (entryOf node) (filter (volumeIn (set vols)) (D rg))) rgs))"
proof (cases "vols = []")
  case False
  have "filter (listed (Some vols)) (D rg) = filter (volumeIn (set vols)) (D rg)" for rg
    using assms(4) by (auto intro!: filter_cong listed_volumeIn)
  with clusterLoop_unbounded [OF assms(1,2) False, of rgs D 0 False "[]"] assms(3,4) show ?thesis by auto
qed (auto simp: assms(5))

text \<open>(C33) Without a page size, \<open>ListVolumes\<close> in a cluster lists exactly the data disks that are the volumes of persistent
  volumes of this driver: once for each resource group of such a volume, in sorted order, the disks of the group that are volumes, each with the
  node of its VM; and there is no further page. Node lookups and the listing of the disks are assumed to succeed, with disks that have an ID.\<close>

theorem ListVolumes_cluster_complete:
  assumes "li_pvs env = Some (Inr pvs)" "maxEntries \<le> 0" "\<And>vm. li_nodeOf env vm = Inr (node vm)"
    and "\<And>rg. li_disks env rg = Inr (D rg)" "\<And>rg d. d \<in> set (D rg) \<Longrightarrow> d_ID d \<noteq> None"
  shows "ListVolumes env [] maxEntries = Inr \<lparr>lv_Entries =
     concat (map (\<lambda>rg. map (entryOf node) (filter (volumeIn (clusterVolumes (li_driverName env) pvs)) (D rg)))
       (sorted_list_of_set (clusterGroups (li_driverName env) pvs))), lv_NextToken = []\<rparr>"
proof -
  obtain rgs vols where c: "collectVolumes (li_driverName env) pvs [] [] = (rgs, vols)" by (cases "collectVolumes (li_driverName env) pvs [] []")
  note sets = sort_groups [OF c]
  have "sort rgs = []" if "vols = []"
    using that sets by (auto simp: clusterGroups_def clusterVolumes_def)
  have "\<exists>n f. clusterLoop env vols 0 maxEntries (sort rgs) (0, True, False, [])
      = Inr (n, True, f, concat (map (\<lambda>rg. map (entryOf node) (filter (volumeIn (set vols)) (D rg))) (sort rgs)))"
    by (rule clusterLoop_groups) (use assms \<open>vols = [] \<Longrightarrow> sort rgs = []\<close> in blast)+
  then obtain n f where "clusterLoop env vols 0 maxEntries (sort rgs) (0, True, False, [])
      = Inr (n, True, f, concat (map (\<lambda>rg. map (entryOf node) (filter (volumeIn (set vols)) (D rg))) (sort rgs)))" by blast
  then show ?thesis by (simp add: ListVolumes_def assms(1) listVolumesInCluster_def c sets)
qed

definition exampleListDisk :: "string \<Rightarrow> Disk" where
  "exampleListDisk n = emptyDisk\<lparr>d_ID := Some (ManagedDiskPath ''s'' ''g'' n)\<rparr>"

definition exampleListEnv :: "PersistentVolume list result option \<Rightarrow> list_env" where
  "exampleListEnv pvs = \<lparr>li_driverName = ''disk'', li_ResourceGroup = ''g'', li_pvs = pvs,
     li_disks = (\<lambda>_. Inr [exampleListDisk ''a'', exampleListDisk ''b'', exampleListDisk ''c'']), li_nodeOf = (\<lambda>_. Inr ''n'')\<rparr>"

definition exampleListPV :: PersistentVolume where
  "exampleListPV = \<lparr>pv_Name = ''p'', pv_CSI = Some \<lparr>csi_Driver = ''disk'', csi_VolumeHandle = ManagedDiskPath ''s'' ''g'' ''b'',
     csi_VolumeAttributes = []\<rparr>, pv_Annotations = []\<rparr>"

theorem ListVolumes_cluster_complete_witness:
  "concat (map (\<lambda>rg. map (entryOf (\<lambda>_. ''n'')) (filter (volumeIn (clusterVolumes ''disk'' [exampleListPV, exampleListPV]))
       [exampleListDisk ''a'', exampleListDisk ''b'', exampleListDisk ''c''])) (sorted_list_of_set (clusterGroups ''disk'' [exampleListPV, exampleListPV])))
   = [entryOf (\<lambda>_. ''n'') (exampleListDisk ''b'')]"
proof -
  let ?pvs = "[exampleListPV, exampleListPV]"
  let ?env = "exampleListEnv (Some (Inr ?pvs))"
  let ?D = "\<lambda>_ :: string. [exampleListDisk ''a'', exampleListDisk ''b'', exampleListDisk ''c'']"
  have run: "ListVolumes ?env [] 0 = Inr \<lparr>lv_Entries = [entryOf (\<lambda>_. ''n'') (exampleListDisk ''b'')], lv_NextToken = []\<rparr>" by code_simp
  have e: "li_pvs ?env = Some (Inr ?pvs)" "li_driverName ?env = ''disk''" by (simp_all add: exampleListEnv_def)
  have "ListVolumes ?env [] 0 = Inr \<lparr>lv_Entries =
     concat (map (\<lambda>rg. map (entryOf (\<lambda>_. ''n'')) (filter (volumeIn (clusterVolumes (li_driverName ?env) ?pvs)) (?D rg)))
       (sorted_list_of_set (clusterGroups (li_driverName ?env) ?pvs))), lv_NextToken = []\<rparr>"
    by (rule ListVolumes_cluster_complete [OF e(1)]) (auto simp: exampleListEnv_def exampleListDisk_def)
  with run show ?thesis by (simp add: e(2))
qed

text \<open>Without a Kubernetes client the token of a page does not count the disks before it: with three disks and one per page, the
  second page returns its own token, so that a client that follows the tokens never sees the third disk and never ends.\<close>

theorem ListVolumes_token_repeats:
  "map_sum id lv_NextToken (ListVolumes (exampleListEnv None) [] 1) = Inr ''1''
   \<and> map_sum id lv_NextToken (ListVolumes (exampleListEnv None) ''1'' 1) = Inr ''1''
   \<and> map_sum id (map le_VolumeId \<circ> lv_Entries) (ListVolumes (exampleListEnv None) ''1'' 1) = Inr [ManagedDiskPath ''s'' ''g'' ''b'']"
proof (intro conjI)
  show "map_sum id lv_NextToken (ListVolumes (exampleListEnv None) [] 1) = Inr ''1''" by code_simp
  show "map_sum id lv_NextToken (ListVolumes (exampleListEnv None) ''1'' 1) = Inr ''1''" by code_simp
  show "map_sum id (map le_VolumeId \<circ> lv_Entries) (ListVolumes (exampleListEnv None) ''1'' 1) = Inr [ManagedDiskPath ''s'' ''g'' ''b'']"
    by code_simp
qed

end
