(* ===== verification/Driver.thy ===== *)
theory Driver
  imports ManagedDisk Snapshots DiskParams ListVolumes
begin

text \<open>
  The driver's state and the helpers of its controller service (\<open>azuredisk.go\<close>, \<open>csi-common\<close>, the second half of
  \<open>controllerserver.go\<close>). The driver's own mutable fields are the world of its disk controller, so that one state
  carries volume locks, caches, the attach and detach queues and whatever is outside. Configuration is a record
  of its own. The snapshot client, persistent volumes, volume attachments, HTTP and the decoding of JSON bodies, and
  the migration monitor are a \<open>driver_env\<close>. A response whose body cannot be read has an error for its body.
\<close>

record 'w drv =
  dr_volumeLocks :: VolumeLocks
  dr_throttlingCache :: TimedCache
  dr_checkDiskLunThrottlingCache :: TimedCache
  dr_clusterResourceID :: string
  dr_world :: 'w

type_synonym 'w dst = "'w drv controllerCommon"

datatype RpcType = RPC_UNKNOWN | RPC_CREATE_DELETE_VOLUME | RPC_PUBLISH_UNPUBLISH_VOLUME | RPC_CREATE_DELETE_SNAPSHOT
  | RPC_LIST_SNAPSHOTS | RPC_EXPAND_VOLUME | RPC_LIST_VOLUMES | RPC_MODIFY_VOLUME | RPC_OTHER string

fun rpcString :: "RpcType \<Rightarrow> string" where
  "rpcString RPC_UNKNOWN = ''UNKNOWN''"
| "rpcString RPC_CREATE_DELETE_VOLUME = ''CREATE_DELETE_VOLUME''"
| "rpcString RPC_PUBLISH_UNPUBLISH_VOLUME = ''PUBLISH_UNPUBLISH_VOLUME''"
| "rpcString RPC_CREATE_DELETE_SNAPSHOT = ''CREATE_DELETE_SNAPSHOT''"
| "rpcString RPC_LIST_SNAPSHOTS = ''LIST_SNAPSHOTS''"
| "rpcString RPC_EXPAND_VOLUME = ''EXPAND_VOLUME''"
| "rpcString RPC_LIST_VOLUMES = ''LIST_VOLUMES''"
| "rpcString RPC_MODIFY_VOLUME = ''MODIFY_VOLUME''"
| "rpcString (RPC_OTHER s) = s"

record CSIDriver =
  cd_Name :: string
  cd_NodeID :: string
  cd_Version :: string
  cd_Cap :: "RpcType list"
  cd_VC :: "AccessMode list"

definition NewCSIDriver :: "string \<Rightarrow> string \<Rightarrow> string \<Rightarrow> CSIDriver option" where
  "NewCSIDriver name v nodeID =
     (if name = [] then None else if nodeID = [] then None
      else Some \<lparr>cd_Name = name, cd_NodeID = nodeID, cd_Version = v, cd_Cap = [], cd_VC = []\<rparr>)"

definition AddControllerServiceCapabilities :: "RpcType list \<Rightarrow> CSIDriver \<Rightarrow> CSIDriver" where
  "AddControllerServiceCapabilities cl d = d\<lparr>cd_Cap := cl\<rparr>"

definition AddVolumeCapabilityAccessModes :: "AccessMode list \<Rightarrow> CSIDriver \<Rightarrow> AccessMode list \<times> CSIDriver" where
  "AddVolumeCapabilityAccessModes vc d = (vc, d\<lparr>cd_VC := vc\<rparr>)"

definition ValidateControllerServiceRequest :: "CSIDriver \<Rightarrow> RpcType \<Rightarrow> goerror option" where
  "ValidateControllerServiceRequest d c =
     (if c = RPC_UNKNOWN then None
      else if c \<in> set (cd_Cap d) then None
      else Some (statusf InvalidArgument (rpcString c)))"

record driver_config =
  cfg_csi :: CSIDriver
  cfg_cloud :: cloud_config
  cfg_cwd :: string
  cfg_topologyKey :: string
  cfg_perfOptimizationEnabled :: bool
  cfg_enableDiskCapacityCheck :: bool
  cfg_nodeDrivenAttachDetachEnabled :: bool
  cfg_checkDiskLUNCollision :: bool
  cfg_enableDiskOnlineResize :: bool
  cfg_convertRWCachingModeForIntreePV :: bool
  cfg_migrationMonitor :: bool
  cfg_shouldWaitForSnapshotReady :: bool
  cfg_ResourceManagerEndpoint :: string

record VolumeAttachment =
  va_Name :: string
  va_Attacher :: string
  va_NodeName :: string
  va_PersistentVolumeName :: "string option"
  va_InlineCSI :: "CSIPersistentVolumeSource option"
  va_Attached :: bool
  va_AttachmentMetadata :: smap

record HTTPRequest =
  hq_Method :: string
  hq_URL :: string
  hq_Body :: string
  hq_Authorization :: string
  hq_ContentType :: string

record HTTPResponse =
  hr_StatusCode :: int
  hr_Location :: string
  hr_Body :: "string result"

record 'w driver_env =
  dv_env :: "'w drv env"
  dv_disk :: "'w drv disk_api"
  dv_GetCloudProviderFromClient :: "string \<Rightarrow> ('w dst, cloud_config \<times> 'w drv env \<times> 'w drv disk_api) io"
  dv_GetSnapshotClientForSub :: "string \<Rightarrow> ('w dst, nat) io"
  dv_SnapshotGet :: "nat \<Rightarrow> string \<Rightarrow> string \<Rightarrow> ('w dst, Snapshot) io"
  dv_kubePresent :: bool
  dv_pvIndexer :: "(string \<Rightarrow> ('w dst, PersistentVolume option list) io) option"
  dv_PVGet :: "string \<Rightarrow> ('w dst, PersistentVolume) io"
  dv_PVList :: "('w dst, PersistentVolume list) io"
  dv_VAList :: "('w dst, VolumeAttachment list) io"
  dv_ResourceGroupTags :: "string \<Rightarrow> ('w dst, (string, string option) gomap) io"
  dv_hasCredential :: bool
  dv_GetToken :: "('w dst, string) io"
  dv_NewRequest :: "HTTPRequest \<Rightarrow> HTTPRequest result"
  dv_HTTPDo :: "HTTPRequest \<Rightarrow> ('w dst, HTTPResponse) io"
  dv_UnmarshalClaim :: "string \<Rightarrow> (string \<times> string) option result"
  dv_UnmarshalStatus :: "string \<Rightarrow> string result"
  dv_pollTicks :: nat
  dv_PVUpdate :: "PersistentVolume \<Rightarrow> ('w dst, unit) io"
  dv_SnapshotCreateOrUpdate :: "nat \<Rightarrow> string \<Rightarrow> string \<Rightarrow> Snapshot \<Rightarrow> ('w dst, unit) io"
  dv_SnapshotDelete :: "nat \<Rightarrow> string \<Rightarrow> string \<Rightarrow> ('w dst, unit) io"
  dv_SnapshotList :: "string \<Rightarrow> ('w dst, Snapshot option list) io"
  dv_SnapshotTick :: "nat \<Rightarrow> ('w dst, bool) state"
  dv_StartMigrationMonitoring :: "bool \<Rightarrow> string \<Rightarrow> string \<Rightarrow> string \<Rightarrow> string \<Rightarrow> int \<Rightarrow> ('w dst, unit) io"
  dv_diskAddress :: "('w dst, nat) state"
  dv_NewUUID :: "('w dst, string) state"
  dv_lunCheckSlow :: "('w dst, bool) state"

subsection \<open>Volume locks and throttling\<close>

definition volumeOperationAlreadyExists :: "string \<Rightarrow> string" where
  "volumeOperationAlreadyExists v = ''An operation with the given Volume ID '' @ v @ '' already exists''"

definition releaseVolume :: "string \<Rightarrow> ('w dst, unit) state" where
  "releaseVolume v = State_Monad.update (\<lambda>c. c\<lparr>cc_world := (cc_world c)\<lparr>dr_volumeLocks := Release v (dr_volumeLocks (cc_world c))\<rparr>\<rparr>)"

text \<open>\<open>TryAcquire\<close> with the deferred \<open>Release\<close> around the rest of a handler.\<close>

definition withVolumeLock :: "string \<Rightarrow> ('w dst, 'a) io \<Rightarrow> ('w dst, 'a) io" where
  "withVolumeLock v m = getE (\<lambda>c.
     let (acquired, vl) = TryAcquire v (dr_volumeLocks (cc_world c))
     in if \<not> acquired then failE (statusf Aborted (volumeOperationAlreadyExists v))
        else modifyE (\<lambda>c. c\<lparr>cc_world := (cc_world c)\<lparr>dr_volumeLocks := vl\<rparr>\<rparr>) (deferE m (releaseVolume v)))"

definition getDiskThrottled :: "'w driver_env \<Rightarrow> ('w dst, bool) io" where
  "getDiskThrottled env = doE (sys_Now (dv_env env)) (\<lambda>now. getE (\<lambda>c.
     let (b, cache) = isGetDiskThrottled now (dr_throttlingCache (cc_world c))
     in modifyE (\<lambda>c. c\<lparr>cc_world := (cc_world c)\<lparr>dr_throttlingCache := cache\<rparr>\<rparr>) (okE b)))"

definition checkDiskLunThrottled :: "'w driver_env \<Rightarrow> ('w dst, bool) io" where
  "checkDiskLunThrottled env = doE (sys_Now (dv_env env)) (\<lambda>now. getE (\<lambda>c.
     let (b, cache) = isCheckDiskLunThrottled now (dr_checkDiskLunThrottlingCache (cc_world c))
     in modifyE (\<lambda>c. c\<lparr>cc_world := (cc_world c)\<lparr>dr_checkDiskLunThrottlingCache := cache\<rparr>\<rparr>) (okE b)))"

subsection \<open>Disks\<close>

text \<open>\<open>None\<close> is a nil disk: the read was skipped.\<close>

definition checkDiskExists :: "'w driver_env \<Rightarrow> string \<Rightarrow> ('w dst, Disk option) io" where
  "checkDiskExists env diskURI = bindE (getDiskThrottled env) (\<lambda>throttled.
     if throttled then okE None else bindE (GetDiskByURI (dv_env env) diskURI) (\<lambda>disk. okE (Some disk)))"

text \<open>\<open>reflect.DeepEqual\<close> compares a pointer with a struct and is false, so that nil properties are dereferenced.\<close>

definition checkDiskCapacity :: "'w driver_env \<Rightarrow> string \<Rightarrow> string \<Rightarrow> string \<Rightarrow> int \<Rightarrow> ('w dst, unit) io" where
  "checkDiskCapacity env subsID resourceGroup diskName requestGiB = bindE (getDiskThrottled env) (\<lambda>throttled.
     if throttled then okE ()
     else bindE (tryE (GetDisk (dv_env env) subsID resourceGroup diskName)) (\<lambda>r. case r of
         Inl _ \<Rightarrow> okE ()
       | Inr disk \<Rightarrow> (case d_Properties disk of
           None \<Rightarrow> failE (panicf ''nil pointer dereference'')
         | Some p \<Rightarrow> (case p_DiskSizeGB p of
             Some s \<Rightarrow> if s \<noteq> requestGiB
               then failE (statusf AlreadyExists (''the request volume already exists, but its capacity('' @ Itoa s
                 @ '') is different from ('' @ Itoa requestGiB @ '')''))
               else okE ()
           | None \<Rightarrow> okE ()))))"

text \<open>
  \<open>GetSourceDiskSize\<close> follows the copy chain of a disk to its origin. The recursion is on the depth that is left.
\<close>

function GetSourceDiskSize :: "'w env \<Rightarrow> string \<Rightarrow> string \<Rightarrow> string \<Rightarrow> int \<Rightarrow> int \<Rightarrow> ('w controllerCommon, int \<times> Disk) io" where
  "GetSourceDiskSize env subsID resourceGroup diskName curDepth maxDepth =
     (if curDepth > maxDepth
      then failE (statusf Internal (''current depth ('' @ Itoa curDepth @ '') surpassed the max depth ('' @ Itoa maxDepth
        @ '') while searching for the source disk size''))
      else bindE (GetDisk env subsID resourceGroup diskName) (\<lambda>result. case d_Properties result of
          None \<Rightarrow> failE (statusf Internal (''DiskProperty not found for disk ('' @ diskName @ '') in resource group ('' @ resourceGroup @ '')''))
        | Some p \<Rightarrow>
            if Option.bind (p_CreationData p) cd_CreateOption = Some ''Copy''
            then (case Option.bind (p_CreationData p) cd_SourceResourceID of
                None \<Rightarrow> failE (panicf ''nil pointer dereference'')
              | Some sourceResourceID \<Rightarrow> (case GetInfoFromURI sourceResourceID of
                  Inl err \<Rightarrow> failE (statusf Internal (''failed to get subscription id, resource group from disk uri ('' @ sourceResourceID
                    @ '') with error('' @ emsg err @ '')''))
                | Inr (sub, rg, name) \<Rightarrow> GetSourceDiskSize env sub rg name (curDepth + 1) maxDepth))
            else (case p_DiskSizeGB p of
                None \<Rightarrow> failE (statusf Internal (''DiskSizeGB for disk ('' @ diskName @ '') in resourcegroup ('' @ resourceGroup @ '') is nil''))
              | Some s \<Rightarrow> okE (s, result))))"
  by pat_completeness auto

termination
  by (relation "measure (\<lambda>(_, _, _, _, cur, mx). nat (mx + 1 - cur))") auto

declare GetSourceDiskSize.simps [simp del]

subsection \<open>Snapshots\<close>

definition getSnapshot :: "'w driver_env \<Rightarrow> string \<Rightarrow> ('w dst, Snapshot) io" where
  "getSnapshot env sourceID =
     bindE (liftE (GetInfoFromURI sourceID)) (\<lambda>(subsID, resourceGroup, snapshotName).
     bindE (dv_GetSnapshotClientForSub env subsID) (\<lambda>snapClient.
     dv_SnapshotGet env snapClient resourceGroup snapshotName))"

definition getSnapshotSKUFromSnapshot :: "Snapshot option \<Rightarrow> string result" where
  "getSnapshotSKUFromSnapshot computeSnapshot = (case computeSnapshot of
     None \<Rightarrow> Inl (statusf NotFoundCode ''Snapshot is nil'')
   | Some s \<Rightarrow> (case s_SKU s of
       Some (Some name) \<Rightarrow> Inr name
     | _ \<Rightarrow> Inl (statusf NotFoundCode ''Snapshot SKU property not found'')))"

definition getDiskSizeInBytesFromSnapshot :: "Snapshot option \<Rightarrow> int result" where
  "getDiskSizeInBytesFromSnapshot computeSnapshot = (case computeSnapshot of
     None \<Rightarrow> Inl (statusf NotFoundCode ''Snapshot is nil'')
   | Some s \<Rightarrow> (case Option.bind (s_Properties s) sp_DiskSizeBytes of
       Some b \<Rightarrow> Inr b
     | None \<Rightarrow> Inl (statusf NotFoundCode ''Snapshot size not found'')))"

subsection \<open>Defaults and messages\<close>

definition getDefaultDiskIOPSReadWrite :: "int \<Rightarrow> int" where
  "getDefaultDiskIOPSReadWrite requestGiB =
     (let iops = (if requestGiB > 500 then requestGiB else 500) in if iops > 160000 then 160000 else iops)"

definition getDefaultDiskMBPSReadWrite :: "int \<Rightarrow> int" where
  "getDefaultDiskMBPSReadWrite requestGiB =
     (let iops = getDefaultDiskIOPSReadWrite requestGiB;
          b1 = (if iops sdiv 256 > 100 then RoundUpSize iops 256 else 100);
          b2 = (if b1 > iops sdiv 4 then RoundUpSize iops 4 else b1)
      in if b2 > 4000 then 4000 else b2)"

definition maxErrMsgLength :: nat where
  "maxErrMsgLength = 990"

definition truncateErrMsg :: "string \<Rightarrow> string" where
  "truncateErrMsg errMsg =
     (if length errMsg \<le> maxErrMsgLength then errMsg
      else let ellipsis = '' ... '';
               headLen = (maxErrMsgLength - length ellipsis) div 5;
               tailLen = maxErrMsgLength - headLen - length ellipsis
           in take headLen errMsg @ ellipsis @ drop (length errMsg - tailLen) errMsg)"

subsection \<open>Persistent volumes of node-driven disks\<close>

definition ownVolume :: "driver_config \<Rightarrow> string \<Rightarrow> PersistentVolume \<Rightarrow> bool" where
  "ownVolume cfg diskURI pv = (case pv_CSI pv of None \<Rightarrow> False
     | Some csi \<Rightarrow> csi_Driver csi = cd_Name (cfg_csi cfg) \<and> EqualFold (csi_VolumeHandle csi) diskURI)"

text \<open>The candidates of the index: \<open>None\<close> is an object of another type. \<open>Some pv\<close> is returned, \<open>None\<close> falls back to the list.\<close>

fun refreshCandidate :: "'w driver_env \<Rightarrow> driver_config \<Rightarrow> string \<Rightarrow> PersistentVolume option list \<Rightarrow> ('w dst, PersistentVolume option) io" where
  "refreshCandidate env cfg diskURI [] = okE None"
| "refreshCandidate env cfg diskURI (obj # objs) = (case obj of
     None \<Rightarrow> refreshCandidate env cfg diskURI objs
   | Some candidate \<Rightarrow>
       if pv_Name candidate = [] \<or> \<not> ownVolume cfg diskURI candidate then refreshCandidate env cfg diskURI objs
       else bindE (tryE (dv_PVGet env (pv_Name candidate))) (\<lambda>r. case r of
           Inl err \<Rightarrow> if errorsIs err APINotFound then okE None
             else failE (errorf (''failed to get PersistentVolume '' @ pv_Name candidate @ '': '' @ emsg err))
         | Inr pv \<Rightarrow> okE (if ownVolume cfg diskURI pv then Some pv else None)))"

definition getPVFromDiskURI :: "'w driver_env \<Rightarrow> driver_config \<Rightarrow> string \<Rightarrow> ('w dst, PersistentVolume) io" where
  "getPVFromDiskURI env cfg diskURI =
     (if \<not> dv_kubePresent env then failE (GoErr Plain ''persistent volume metadata is unavailable: Kubernetes client is not initialized'' [PVMetadataUnavailable])
      else bindE (case dv_pvIndexer env of
          None \<Rightarrow> okE None
        | Some byIndex \<Rightarrow> bindE (tryE (byIndex (ToLower diskURI))) (\<lambda>r. case r of
            Inl _ \<Rightarrow> okE None | Inr objs \<Rightarrow> refreshCandidate env cfg diskURI objs)) (\<lambda>found.
        case found of
          Some pv \<Rightarrow> okE pv
        | None \<Rightarrow> bindE (tryE (dv_PVList env)) (\<lambda>r. case r of
            Inl err \<Rightarrow> failE (errorf (''failed to list PersistentVolumes: '' @ emsg err))
          | Inr pvs \<Rightarrow> (case find (ownVolume cfg diskURI) pvs of
              Some pv \<Rightarrow> okE pv
            | None \<Rightarrow> failE (GoErr Plain (''persistent volume not found with diskURI('' @ diskURI @ '')'') [PVNotFound])))))"

definition hasQADInfo :: "PersistentVolume option \<Rightarrow> bool" where
  "hasQADInfo pv = (case pv of None \<Rightarrow> False
     | Some p \<Rightarrow> pv_Name p \<noteq> [] \<and> gget (pv_Annotations p) AttachSequenceAnnotation \<noteq> None)"

text \<open>The persistent volume of a disk, \<open>None\<close> when there is none; any other failure is \<open>codes.Internal\<close>.\<close>

definition lookupPV :: "'w driver_env \<Rightarrow> driver_config \<Rightarrow> string \<Rightarrow> ('w dst, PersistentVolume option) io" where
  "lookupPV env cfg diskURI = bindE (tryE (getPVFromDiskURI env cfg diskURI)) (\<lambda>r. case r of
     Inr pv \<Rightarrow> okE (Some pv)
   | Inl err \<Rightarrow> if errorsIs err PVNotFound then okE None
       else failE (statusf Internal (''failed to get PV from disk URI '' @ diskURI @ '': '' @ emsg err)))"

end
