(* ===== verification/NodeDriven.thy ===== *)
theory NodeDriven
  imports Driver
begin

text \<open>
  Node-driven disks (\<open>controllerserver.go\<close>): the owner of a claim, the claim and unclaim calls of the disk resource
  provider with their asynchronous operations, and the annotations of a persistent volume.

  The polling loop ends at the latest when the context of the request is done. \<open>dv_pollTicks\<close> is the number of ticks
  before that, the recursion is on the ticks that are left.
\<close>

subsection \<open>The owner\<close>

fun clusterTags :: "(string, string option) gomap \<Rightarrow> string \<times> string \<Rightarrow> string \<times> string" where
  "clusterTags [] acc = acc"
| "clusterTags ((key, v) # tags) (clusterName, clusterRG) = (case v of
     None \<Rightarrow> clusterTags tags (clusterName, clusterRG)
   | Some value \<Rightarrow>
       if EqualFold key ''aks-managed-cluster-name'' then clusterTags tags (value, clusterRG)
       else if EqualFold key ''aks-managed-cluster-rg'' then clusterTags tags (clusterName, value)
       else clusterTags tags (clusterName, clusterRG))"

definition getAKSClusterResourceID :: "'w driver_env \<Rightarrow> driver_config \<Rightarrow> ('w dst, string) io" where
  "getAKSClusterResourceID env cfg = getE (\<lambda>c.
     let cached = dr_clusterResourceID (cc_world c); rg = cfg_ResourceGroup (cfg_cloud cfg); sub = cfg_SubscriptionID (cfg_cloud cfg) in
     if cached \<noteq> [] then okE cached
     else bindE (tryE (dv_ResourceGroupTags env rg)) (\<lambda>r. case r of
         Inl err \<Rightarrow> failE (wrapf (''failed to get node resource group \"'' @ rg @ ''\": '' @ emsg err) err)
       | Inr tags \<Rightarrow>
           let (clusterName, clusterRG) = clusterTags tags ([], []);
               rid = (if clusterName = [] \<or> clusterRG = [] then ''/subscriptions/'' @ sub
                      else ''/subscriptions/'' @ sub @ ''/resourceGroups/'' @ clusterRG
                        @ ''/providers/Microsoft.ContainerService/managedClusters/'' @ clusterName)
           in modifyE (\<lambda>c. c\<lparr>cc_world := (cc_world c)\<lparr>dr_clusterResourceID := rid\<rparr>\<rparr>) (okE rid)))"

subsection \<open>Claims\<close>

text \<open>\<open>json.Marshal\<close> of a string, for ASCII.\<close>

definition hexDigit :: "nat \<Rightarrow> char" where
  "hexDigit n = (if n < 10 then char_of (48 + n) else char_of (87 + n))"

definition jsonChar :: "char \<Rightarrow> string" where
  "jsonChar ch = (let n = of_char ch :: nat in
     if n = 34 \<or> n = 92 then [char_of (92 :: nat), ch]
     else if n = 8 then [char_of (92 :: nat), CHR ''b'']
     else if n = 12 then [char_of (92 :: nat), CHR ''f'']
     else if n = 10 then [char_of (92 :: nat), CHR ''n'']
     else if n = 13 then [char_of (92 :: nat), CHR ''r'']
     else if n = 9 then [char_of (92 :: nat), CHR ''t'']
     else if n < 32 \<or> ch \<in> set ''<>&'' then [char_of (92 :: nat), CHR ''u'', CHR ''0'', CHR ''0'', hexDigit (n div 16), hexDigit (n mod 16)]
     else [ch])"

definition jsonString :: "string \<Rightarrow> string" where
  "jsonString s = [char_of (34 :: nat)] @ concat (map jsonChar s) @ [char_of (34 :: nat)]"

definition ownerBody :: "string \<Rightarrow> string" where
  "ownerBody ownerResourceID = ''{'' @ jsonString ''ownerResourceId'' @ '':'' @ jsonString ownerResourceID @ ''}''"

definition claimResourceAPIVersion :: string where
  "claimResourceAPIVersion = ''2025-01-02''"

definition operationURL :: "driver_config \<Rightarrow> string \<Rightarrow> string \<Rightarrow> string" where
  "operationURL cfg diskURI operation =
     TrimSuffix (if cfg_ResourceManagerEndpoint cfg = [] then ''https://management.azure.com'' else cfg_ResourceManagerEndpoint cfg) ''/''
       @ diskURI @ ''/'' @ operation @ ''?api-version='' @ claimResourceAPIVersion"

definition errAs :: "string \<Rightarrow> goerror \<Rightarrow> goerror" where
  "errAs what err = wrapf (what @ '': '' @ emsg err) err"

text \<open>One poll with a fresh token: the body when the operation is over, \<open>None\<close> while it is running.\<close>

definition pollOnce :: "'w driver_env \<Rightarrow> string \<Rightarrow> ('w dst, string option) io" where
  "pollOnce env asyncURL =
     (if \<not> dv_hasCredential env then failE (errorf ''no Azure credential available'')
      else bindE (tryE (dv_GetToken env)) (\<lambda>r. case r of
        Inl err \<Rightarrow> failE (errAs ''failed to get access token for polling'' err)
      | Inr token \<Rightarrow> (case dv_NewRequest env \<lparr>hq_Method = ''GET'', hq_URL = asyncURL, hq_Body = [], hq_Authorization = [], hq_ContentType = []\<rparr> of
        Inl err \<Rightarrow> failE (errAs ''failed to create poll request'' err)
      | Inr pollReq \<Rightarrow> bindE (tryE (dv_HTTPDo env (pollReq\<lparr>hq_Authorization := ''Bearer '' @ token\<rparr>))) (\<lambda>r. case r of
        Inl err \<Rightarrow> failE (errAs ''poll request failed'' err)
      | Inr resp \<Rightarrow> (case hr_Body resp of
        Inl err \<Rightarrow> failE (errAs ''failed to read poll response'' err)
      | Inr body \<Rightarrow>
          if hr_StatusCode resp \<noteq> 200 \<and> hr_StatusCode resp \<noteq> 202
          then failE (errorf (''poll returned status '' @ Itoa (hr_StatusCode resp) @ '': '' @ body))
          else if TrimSpace body = [] then okE (if hr_StatusCode resp = 200 then Some body else None)
          else (case dv_UnmarshalStatus env body of
            Inl err \<Rightarrow> failE (errAs ''failed to parse poll response'' err)
          | Inr st \<Rightarrow>
              if hr_StatusCode resp = 200 \<and> st = [] then okE (Some body)
              else if ToLower st = ''succeeded'' then okE (Some body)
              else if ToLower st = ''failed'' \<or> ToLower st = ''canceled'' \<or> ToLower st = ''cancelled''
              then failE (errorf (''async operation '' @ st @ '': '' @ body))
              else okE None))))))"

fun pollLoop :: "'w driver_env \<Rightarrow> nat \<Rightarrow> string \<Rightarrow> ('w dst, string) io" where
  "pollLoop env 0 asyncURL = failE (GoErr DeadlineExceeded ''context deadline exceeded'' [])"
| "pollLoop env (Suc ticks) asyncURL = doE (ctx_Wait (dv_env env) RequestCtx ticks) (\<lambda>done. case done of
     Some err \<Rightarrow> failE err
   | None \<Rightarrow> bindE (pollOnce env asyncURL) (\<lambda>r. case r of
       Some body \<Rightarrow> okE body | None \<Rightarrow> pollLoop env ticks asyncURL))"

definition pollAsyncOperation :: "'w driver_env \<Rightarrow> string \<Rightarrow> ('w dst, string) io" where
  "pollAsyncOperation env asyncURL = pollLoop env (dv_pollTicks env) asyncURL"

text \<open>The POST that both operations make: status, \<open>Location\<close> and body of the response.\<close>

definition postOwner :: "'w driver_env \<Rightarrow> driver_config \<Rightarrow> string \<Rightarrow> string \<Rightarrow> string \<Rightarrow> ('w dst, int \<times> string \<times> string) io" where
  "postOwner env cfg operation diskURI ownerResourceID =
     (if \<not> dv_hasCredential env then failE (errorf ''no Azure credential available'')
      else bindE (tryE (dv_GetToken env)) (\<lambda>r. case r of
        Inl err \<Rightarrow> failE (errAs ''failed to get access token'' err)
      | Inr token \<Rightarrow> (case dv_NewRequest env \<lparr>hq_Method = ''POST'', hq_URL = operationURL cfg diskURI operation, hq_Body = ownerBody ownerResourceID,
            hq_Authorization = [], hq_ContentType = []\<rparr> of
        Inl err \<Rightarrow> failE (errAs (''failed to create '' @ operation @ '' request'') err)
      | Inr httpReq \<Rightarrow> bindE (tryE (dv_HTTPDo env (httpReq\<lparr>hq_Authorization := ''Bearer '' @ token, hq_ContentType := ''application/json''\<rparr>))) (\<lambda>r. case r of
        Inl err \<Rightarrow> failE (errAs (operation @ '' request failed'') err)
      | Inr resp \<Rightarrow> (case hr_Body resp of
        Inl err \<Rightarrow> failE (errAs (''failed to read '' @ operation @ '' response'') err)
      | Inr body \<Rightarrow> okE (hr_StatusCode resp, hr_Location resp, body))))))"

definition claimDiskResource :: "'w driver_env \<Rightarrow> driver_config \<Rightarrow> string \<Rightarrow> string \<Rightarrow> ('w dst, string \<times> string) io" where
  "claimDiskResource env cfg diskURI ownerResourceID =
     bindE (postOwner env cfg ''claimResource'' diskURI ownerResourceID) (\<lambda>(st, location, body0).
     bindE (if st = 202
            then (if location = [] then failE (errorf ''claimResource returned 202 but no Location header'')
                  else bindE (tryE (pollAsyncOperation env location)) (\<lambda>r. case r of
                    Inl err \<Rightarrow> failE (errAs ''polling claimResource failed'' err) | Inr b \<Rightarrow> okE b))
            else if st \<noteq> 200 then failE (errorf (''claimResource returned status '' @ Itoa st @ '': '' @ body0))
            else okE body0) (\<lambda>body.
     case dv_UnmarshalClaim env body of
       Inl err \<Rightarrow> failE (errAs ''failed to parse claimResource response'' err)
     | Inr None \<Rightarrow> failE (errorf ''claimResource response missing properties'')
     | Inr (Some (blobURL, claimIdentifier)) \<Rightarrow> okE (blobURL, claimIdentifier)))"

definition unclaimDiskResource :: "'w driver_env \<Rightarrow> driver_config \<Rightarrow> string \<Rightarrow> string \<Rightarrow> ('w dst, unit) io" where
  "unclaimDiskResource env cfg diskURI ownerResourceID =
     bindE (postOwner env cfg ''unclaimResource'' diskURI ownerResourceID) (\<lambda>(st, location, body).
     if st = 202
     then (if location = [] then failE (errorf ''unclaimResource returned 202 but no Location header'')
           else bindE (tryE (pollAsyncOperation env location)) (\<lambda>r. case r of
             Inl err \<Rightarrow> failE (errAs ''polling unclaimResource failed'' err) | Inr _ \<Rightarrow> okE ()))
     else if st = 404 then okE ()
     else if st \<noteq> 200 then failE (errorf (''unclaimResource returned status '' @ Itoa st @ '': '' @ body))
     else okE ())"

subsection \<open>Annotations\<close>

text \<open>The annotations to write: \<open>None\<close> when the volume has them already.\<close>

definition qadAnnotations :: "string \<Rightarrow> string \<Rightarrow> string \<Rightarrow> string \<Rightarrow> smap \<Rightarrow> smap option result" where
  "qadAnnotations pvName blobURL claimIdentifier cachePolicy ann =
     (let hasSequence = gget ann AttachSequenceAnnotation \<noteq> None;
          seq = (if hasSequence then gstr ann AttachSequenceAnnotation else ''0'')
      in if blobURL = [] \<or> claimIdentifier = []
         then Inl (errorf (if hasSequence then ''PV '' @ pvName @ '' has attach-sequence annotation but incomplete QAD metadata''
              else ''cannot initialize QAD annotations on PV '' @ pvName @ '' without blob URL and claim identifier''))
         else if gstr ann AttachSequenceAnnotation = seq \<and> gstr ann BlobURLAnnotation = blobURL
            \<and> gstr ann ClaimIdentifierAnnotation = claimIdentifier \<and> gstr ann QADCachePolicyAnnotation = cachePolicy
         then Inr None
         else Inr (Some (gset QADCachePolicyAnnotation cachePolicy (gset ClaimIdentifierAnnotation claimIdentifier
              (gset BlobURLAnnotation blobURL (gset AttachSequenceAnnotation seq ann))))))"

text \<open>
  One attempt, and \<open>RetryOnConflict\<close> around it. The closure assigns the blob URL and the claim identifier it falls back
  to to the captured variables, so that later attempts start from them. The sleep is 10 ms, without its jitter.
\<close>

definition annotateOnce :: "'w driver_env \<Rightarrow> string \<Rightarrow> string \<Rightarrow> string \<Rightarrow> string \<Rightarrow> ('w dst, string \<times> string \<times> unit result) io" where
  "annotateOnce env pvName blobURL claimIdentifier cachePolicy =
     bindE (tryE (dv_PVGet env pvName)) (\<lambda>r. case r of
       Inl err \<Rightarrow> okE (blobURL, claimIdentifier, Inl err)
     | Inr pv \<Rightarrow>
         let ann = pv_Annotations pv;
             b = (if blobURL = [] then gstr ann BlobURLAnnotation else blobURL);
             ci = (if claimIdentifier = [] then gstr ann ClaimIdentifierAnnotation else claimIdentifier)
         in (case qadAnnotations pvName b ci cachePolicy ann of
             Inl err \<Rightarrow> okE (b, ci, Inl err)
           | Inr None \<Rightarrow> okE (b, ci, Inr ())
           | Inr (Some ann') \<Rightarrow> bindE (tryE (dv_PVUpdate env (pv\<lparr>pv_Annotations := ann'\<rparr>))) (\<lambda>r. okE (b, ci, r))))"

fun retryAnnotate :: "'w driver_env \<Rightarrow> nat \<Rightarrow> string \<Rightarrow> string \<Rightarrow> string \<Rightarrow> string \<Rightarrow> goerror \<Rightarrow> ('w dst, unit) io" where
  "retryAnnotate env 0 pvName blobURL claimIdentifier cachePolicy lastErr = failE lastErr"
| "retryAnnotate env (Suc steps) pvName blobURL claimIdentifier cachePolicy lastErr =
     bindE (annotateOnce env pvName blobURL claimIdentifier cachePolicy) (\<lambda>(b, ci, r). case r of
       Inr _ \<Rightarrow> okE ()
     | Inl err \<Rightarrow> if errorsIs err APIConflict
         then doE (if steps = 0 then State_Monad.return () else sys_Sleep (dv_env env) 10) (\<lambda>_.
           retryAnnotate env steps pvName b ci cachePolicy err)
         else failE err)"

definition defaultRetrySteps :: nat where
  "defaultRetrySteps = 5"

definition ensureQADPVAnnotations :: "'w driver_env \<Rightarrow> string \<Rightarrow> string \<Rightarrow> string \<Rightarrow> string \<Rightarrow> ('w dst, unit) io" where
  "ensureQADPVAnnotations env pvName blobURL claimIdentifier cachePolicy =
     (if pvName = [] then failE (errorf ''PV name must not be empty'')
      else retryAnnotate env defaultRetrySteps pvName blobURL claimIdentifier cachePolicy (errorf []))"

end
