(* ===== verification/CreateVolume.thy ===== *)
theory CreateVolume
  imports NodeDriven
begin

text \<open>
  \<open>CreateVolume\<close> (\<open>controllerserver.go\<close>) in the stages the code has: validation of the request, the size, normalization of
  the parameters against the cloud, the content source, the topology, the options of the disk, and the claim of a
  node-driven disk.
\<close>

datatype ContentSource = FromSnapshot string | FromVolume string

record CreateVolumeRequest =
  cr_Name :: string
  cr_Parameters :: smap
  cr_MutableParameters :: smap
  cr_VolumeCapabilities :: "VolumeCapability list"
  cr_RequiredBytes :: int
  cr_LimitBytes :: int
  cr_AccessibilityRequirements :: "TopologyRequirement option"
  cr_VolumeContentSource :: "ContentSource option"

record Volume =
  v_VolumeId :: string
  v_CapacityBytes :: int
  v_VolumeContext :: smap
  v_ContentSource :: "ContentSource option"
  v_AccessibleTopology :: "smap list"

subsection \<open>Validation\<close>

definition validateCreate :: "driver_config \<Rightarrow> CreateVolumeRequest \<Rightarrow> (ManagedDiskParameters \<times> string) result" where
  "validateCreate cfg req = (case ValidateControllerServiceRequest (cfg_csi cfg) RPC_CREATE_DELETE_VOLUME of
     Some err \<Rightarrow> Inl err
   | None \<Rightarrow> (case normalizeMutableDiskParameters (cr_MutableParameters req) of
     Inl err \<Rightarrow> Inl (statusf InvalidArgument (''Invalid mutable disk parameters: '' @ emsg err))
   | Inr mutableParams \<Rightarrow>
     let params = mergeParameters (cr_Parameters req) mutableParams in
     (case ParseDiskParameters params of
       Inl err \<Rightarrow> Inl (statusf InvalidArgument (''Failed parsing disk parameters: '' @ emsg err))
     | Inr diskParams \<Rightarrow> (case getAttachMode params of
       Inl err \<Rightarrow> Inl (statusf InvalidArgument (''Failed parsing disk parameters: '' @ emsg err))
     | Inr attachMode \<Rightarrow>
       if attachMode = AttachModeNodeDriven \<and> \<not> cfg_nodeDrivenAttachDetachEnabled cfg
       then Inl (statusf FailedPrecondition (AttachModeField @ ''='' @ AttachModeNodeDriven @ '' requires the Alpha NodeDrivenAttachDetach feature gate''))
       else if cr_Name req = [] then Inl (statusf InvalidArgument ''CreateVolume Name must be provided'')
       else if cr_VolumeCapabilities req = [] then Inl (statusf InvalidArgument ''CreateVolume Volume capabilities must be provided'')
       else case IsValidVolumeCapabilities (cr_VolumeCapabilities req) (dp_MaxShares diskParams) of
           Some err \<Rightarrow> Inl (statusf InvalidArgument (emsg err))
         | None \<Rightarrow>
             if cfg_perfOptimizationEnabled cfg \<and> EqualFold (dp_PerfProfile diskParams) PerfProfileAdvanced
             then (case AreDeviceSettingsValid (cfg_cwd cfg) DummyBlockDevicePathLinux (dp_DeviceSettings diskParams) of
                 Some err \<Rightarrow> Inl (statusf InvalidArgument (emsg err))
               | None \<Rightarrow> Inr (diskParams, attachMode))
             else Inr (diskParams, attachMode)))))"

text \<open>The size in GiB: rounded up, raised to the minimum of the performance-plus feature and of any disk, below the limit.\<close>

definition requestSize :: "bool option \<Rightarrow> int \<Rightarrow> int \<Rightarrow> int result" where
  "requestSize performancePlus requiredBytes limitBytes =
     (let g0 = RoundUpGiB requiredBytes;
          g1 = (if performancePlus = Some True \<and> g0 < PerformancePlusMinimumDiskSizeGiB then PerformancePlusMinimumDiskSizeGiB else g0);
          g2 = (if g1 < MinimumDiskSizeGiB then MinimumDiskSizeGiB else g1);
          maxVolSize = RoundUpGiB limitBytes
      in if maxVolSize > 0 \<and> maxVolSize < g2
         then Inl (statusf InvalidArgument ''After round-up, volume size exceeds the limit specified'')
         else Inr g2)"

subsection \<open>Normalization\<close>

record normalized =
  nz_params :: ManagedDiskParameters
  nz_skuName :: string
  nz_networkAccessPolicy :: string
  nz_publicNetworkAccess :: string
  nz_diskZone :: string

text \<open>\<open>lc\<close> is the cloud of the user agent of the request, \<open>cfg\<close> has the driver's own, \<open>uuid\<close> a fresh UUID.\<close>

definition normalizeCreate :: "driver_config \<Rightarrow> cloud_config \<Rightarrow> string \<Rightarrow> CreateVolumeRequest \<Rightarrow> ManagedDiskParameters \<Rightarrow> normalized result" where
  "normalizeCreate cfg lc uuid req params =
     (let stack = IsAzureStackCloud (cfg_Cloud lc) (cfg_DisableAzureStackCloud lc);
          invalid = (\<lambda>err. Inl (statusf InvalidArgument (emsg err)));
          validName = CreateValidDiskName uuid (if dp_DiskName params = [] then cr_Name req else dp_DiskName params)
      in if stack \<and> dp_MaxShares params > 1
         then Inl (statusf InvalidArgument (''Invalid maxShares value: '' @ Itoa (dp_MaxShares params) @ '' as Azure Stack does not support shared disk.''))
         else bindR validName (\<lambda>diskName.
           let p1 = params\<lparr>dp_DiskName := diskName,
                 dp_ResourceGroup := (if dp_ResourceGroup params = [] then cfg_ResourceGroup (cfg_cloud cfg) else dp_ResourceGroup params)\<rparr>
           in case NormalizeStorageAccountType (dp_AccountType p1) (cfg_Cloud lc) (cfg_DisableAzureStackCloud lc) of
             Inl err \<Rightarrow> invalid err
           | Inr skuName \<Rightarrow> (case NormalizeCachingMode (dp_CachingMode p1) of
             Inl err \<Rightarrow> invalid err
           | Inr _ \<Rightarrow>
             let p2 = (if skuName = ''PremiumV2_LRS''
                   then p1\<lparr>dp_VolumeContext := setKeyValue (dp_VolumeContext p1) CachingModeField ''None''\<rparr> else p1)
             in (case ValidateDiskEncryptionType (dp_DiskEncryptionType p2) of
             Some err \<Rightarrow> invalid err
           | None \<Rightarrow> (case NormalizeNetworkAccessPolicy (dp_NetworkAccessPolicy p2) of
             Inl err \<Rightarrow> invalid err
           | Inr networkAccessPolicy \<Rightarrow> (case NormalizePublicNetworkAccess (dp_PublicNetworkAccess p2) of
             Inl err \<Rightarrow> invalid err
           | Inr publicNetworkAccess \<Rightarrow>
             let diskZone = PickAvailabilityZone (cr_AccessibilityRequirements req) (dp_Location p2) (cfg_topologyKey cfg);
                 region = GetRegionFromAvailabilityZone diskZone;
                 own = cfg_Location (cfg_cloud cfg);
                 p3 = (if dp_Location p2 = []
                   then p2\<lparr>dp_Location := (if region \<noteq> [] \<and> region \<noteq> own then region else own)\<rparr> else p2)
             in Inr \<lparr>nz_params = p3, nz_skuName = skuName, nz_networkAccessPolicy = networkAccessPolicy,
                  nz_publicNetworkAccess = publicNetworkAccess, nz_diskZone = diskZone\<rparr>))))))"

subsection \<open>Content source\<close>

definition maxSnapshotSizeDifferenceAllowed :: int where
  "maxSnapshotSizeDifferenceAllowed = 50"

record source_info =
  si_sourceID :: string
  si_sourceType :: string
  si_sourceSKU :: string
  si_supplySize :: bool
  si_diskZone :: string
  si_context :: smap

definition noSource :: "string \<Rightarrow> smap \<Rightarrow> source_info" where
  "noSource zone ctx = \<lparr>si_sourceID = [], si_sourceType = [], si_sourceSKU = [], si_supplySize = True, si_diskZone = zone, si_context = ctx\<rparr>"

text \<open>When a snapshot is a little larger than the request, the size is left to Azure.\<close>

definition supplySize :: "Snapshot \<Rightarrow> int \<Rightarrow> bool" where
  "supplySize snapshot requestGiB = (case getDiskSizeInBytesFromSnapshot (Some snapshot) of
     Inl _ \<Rightarrow> True
   | Inr bytes \<Rightarrow> let g = RoundUpGiB bytes
       in \<not> (g > requestGiB \<and> g - requestGiB \<le> maxSnapshotSizeDifferenceAllowed))"

definition snapshotSource :: "'w driver_env \<Rightarrow> driver_config \<Rightarrow> string \<Rightarrow> int \<Rightarrow> string \<Rightarrow> string \<Rightarrow> smap \<Rightarrow> ('w dst, source_info) io" where
  "snapshotSource env cfg skuName requestGiB sourceID zone ctx =
     bindE (tryE (getSnapshot env sourceID)) (\<lambda>r. case r of
       Inl err \<Rightarrow> failE (statusf NotFoundCode (emsg err))
     | Inr snapshot \<Rightarrow> okE ((noSource zone ctx)\<lparr>si_sourceID := sourceID, si_sourceType := SourceSnapshot,
         si_supplySize := supplySize snapshot requestGiB,
         si_sourceSKU := (if skuName = ''PremiumV2_LRS'' \<and> cfg_migrationMonitor cfg
           then case getSnapshotSKUFromSnapshot (Some snapshot) of Inr sku \<Rightarrow> sku | Inl _ \<Rightarrow> [] else [])\<rparr>))"

definition volumeSource :: "'w driver_env \<Rightarrow> driver_config \<Rightarrow> string \<Rightarrow> int \<Rightarrow> string \<Rightarrow> string \<Rightarrow> smap \<Rightarrow> ('w dst, source_info) io" where
  "volumeSource env cfg location requestGiB sourceID zone ctx = (case GetInfoFromURI sourceID of
     Inl err \<Rightarrow> failE (statusf NotFoundCode (emsg err))
   | Inr (subsID, resourceGroup, diskName) \<Rightarrow>
       bindE (tryE (GetSourceDiskSize (dv_env env) subsID resourceGroup diskName 0 SourceDiskSearchMaxDepth)) (\<lambda>r.
       let base = (noSource zone ctx)\<lparr>si_sourceID := sourceID, si_sourceType := SourceVolume\<rparr> in
       case r of
         Inl err \<Rightarrow> okE base
       | Inr (sourceGiB, disk) \<Rightarrow>
           let b1 = (if sourceGiB < int32 requestGiB then base\<lparr>si_context := gset ResizeRequired (FormatBool True) ctx\<rparr> else base);
               b2 = (case d_Zones disk of [Some z] \<Rightarrow> b1\<lparr>si_diskZone := location @ ''-'' @ z\<rparr> | _ \<Rightarrow> b1)
           in (case d_SKU disk of
               Some sku \<Rightarrow> if cfg_migrationMonitor cfg
                 then (case sku of None \<Rightarrow> failE (panicf ''nil pointer dereference'') | Some name \<Rightarrow> okE (b2\<lparr>si_sourceSKU := name\<rparr>))
                 else okE b2
             | None \<Rightarrow> okE b2)))"

subsection \<open>Topology and options\<close>

definition isZRS :: "string \<Rightarrow> bool" where
  "isZRS skuName = HasSuffix (ToLower skuName) ''zrs''"

definition accessibleTopology :: "string \<Rightarrow> string \<Rightarrow> string \<Rightarrow> string \<Rightarrow> string \<times> smap list" where
  "accessibleTopology topologyKey skuName location diskZone =
     (if isZRS skuName
      then ([], map (\<lambda>i. [(topologyKey, location @ ''-'' @ Itoa i)]) [1, 2, 3, 4] @ [[(topologyKey, [])]])
      else (diskZone, [[(topologyKey, diskZone)]]))"

definition ultraDefaults :: "string \<Rightarrow> int \<Rightarrow> ManagedDiskParameters \<Rightarrow> ManagedDiskParameters" where
  "ultraDefaults skuName requestGiB p =
     (if skuName = ''UltraSSD_LRS'' \<and> dp_DiskIOPSReadWrite p = [] \<and> dp_DiskMBPSReadWrite p = []
      then p\<lparr>dp_DiskIOPSReadWrite := Itoa (getDefaultDiskIOPSReadWrite requestGiB),
             dp_DiskMBPSReadWrite := Itoa (getDefaultDiskMBPSReadWrite requestGiB)\<rparr>
      else p)"

definition volumeOptions :: "cloud_config \<Rightarrow> normalized \<Rightarrow> ManagedDiskParameters \<Rightarrow> source_info \<Rightarrow> string \<Rightarrow> int \<Rightarrow> bool \<Rightarrow> ManagedDiskOptions" where
  "volumeOptions lc nz p src diskZone sizeGB skipGet =
     (let public = \<not> IsAzureStackCloud (cfg_Cloud lc) (cfg_DisableAzureStackCloud lc)
      in \<lparr>mo_StorageAccountType = nz_skuName nz, mo_DiskName = dp_DiskName p, mo_PVCName = [],
          mo_ResourceGroup = dp_ResourceGroup p, mo_AvailabilityZone = diskZone, mo_Tags = dp_Tags p,
          mo_DiskIOPSReadWrite = dp_DiskIOPSReadWrite p, mo_DiskMBpsReadWrite = dp_DiskMBPSReadWrite p,
          mo_SourceResourceID = si_sourceID src, mo_SourceType = si_sourceType src,
          mo_DiskEncryptionSetID = dp_DiskEncryptionSetID p, mo_DiskEncryptionType = dp_DiskEncryptionType p,
          mo_SizeGB = sizeGB, mo_MaxShares = int32 (dp_MaxShares p), mo_LogicalSectorSize = int32 (dp_LogicalSectorSize p),
          mo_SkipGetDiskOperation = skipGet,
          mo_PublicNetworkAccess = (if public then nz_publicNetworkAccess nz else []),
          mo_NetworkAccessPolicy = (if public then nz_networkAccessPolicy nz else []),
          mo_DiskAccessID = (if public \<and> dp_DiskAccessID p \<noteq> [] then Some (dp_DiskAccessID p) else None),
          mo_BurstingEnabled = dp_EnableBursting p, mo_SubscriptionID = dp_SubscriptionID p,
          mo_Location = dp_Location p, mo_PerformancePlus = dp_PerformancePlus p\<rparr>)"

text \<open>How an error of the disk creation is reported: throttling is \<open>Aborted\<close>, so that the provisioner retries.\<close>

definition createError :: "goerror \<Rightarrow> goerror" where
  "createError err =
     (if Contains (emsg err) NotFoundMsg then statusf NotFoundCode (emsg err)
      else if IsThrottlingError (Some err) then statusf Aborted (emsg err)
      else statusf Internal (emsg err))"

subsection \<open>Claiming a node-driven disk and monitoring a migration\<close>

definition claimNodeDriven :: "'w driver_env \<Rightarrow> driver_config \<Rightarrow> string \<Rightarrow> int \<Rightarrow> smap \<Rightarrow> ('w dst, smap) io" where
  "claimNodeDriven env cfg diskURI provisionedSizeGiB ctx = (case GetCachingMode ctx of
     Inl err \<Rightarrow> failE (statusf InvalidArgument (''failed to determine QAD cache policy: '' @ emsg err))
   | Inr cachePolicy \<Rightarrow>
       let ctx1 = gset CachingModeField (effectiveCachingModeForDisk cachePolicy (Some (int32 provisionedSizeGiB))) ctx in
       bindE (tryE (getAKSClusterResourceID env cfg)) (\<lambda>r. case r of
         Inl err \<Rightarrow> failE (statusf Aborted (''failed to determine QAD owner resource: '' @ emsg err))
       | Inr owner \<Rightarrow> bindE (tryE (claimDiskResource env cfg diskURI owner)) (\<lambda>r. case r of
           Inl err \<Rightarrow> failE (statusf Aborted (''failed to claim QAD disk '' @ diskURI @ '': '' @ emsg err))
         | Inr (blobURL, claimIdentifier) \<Rightarrow>
             if blobURL = [] then failE (statusf Aborted (''QAD blob URL missing for disk '' @ diskURI))
             else if claimIdentifier = [] then failE (statusf Aborted (''QAD claim identifier missing for disk '' @ diskURI))
             else okE (gset ClaimIdentifierAnnotation claimIdentifier (gset BlobURLAnnotation blobURL ctx1)))))"

definition startSKUMigrationMonitor :: "'w driver_env \<Rightarrow> driver_config \<Rightarrow> bool \<Rightarrow> string \<Rightarrow> string \<Rightarrow> string \<Rightarrow> string \<Rightarrow> int \<Rightarrow> ('w dst, unit) io" where
  "startSKUMigrationMonitor env cfg isProvisioningFlow fromSKUStr toSKU diskURI pvName sizeBytes =
     (if \<not> cfg_migrationMonitor cfg \<or> fromSKUStr = [] then okE ()
      else if toSKU \<noteq> ''PremiumV2_LRS'' \<or> fromSKUStr = toSKU then okE ()
      else case (if pvName = [] then map_sum id (\<lambda>(_, _, n). n) (GetInfoFromURI diskURI) else Inr pvName) of
          Inl _ \<Rightarrow> okE ()
        | Inr pv \<Rightarrow> bindE (tryE (dv_StartMigrationMonitoring env isProvisioningFlow diskURI pv fromSKUStr toSKU sizeBytes)) (\<lambda>_. okE ()))"

subsection \<open>The handler\<close>

text \<open>From the creation of the disk on.\<close>

definition provision :: "'w driver_env \<Rightarrow> driver_config \<Rightarrow> cloud_config \<Rightarrow> 'w drv env \<Rightarrow> 'w drv disk_api \<Rightarrow> CreateVolumeRequest \<Rightarrow> string
    \<Rightarrow> normalized \<Rightarrow> source_info \<Rightarrow> int \<Rightarrow> ('w dst, Volume) io" where
  "provision env cfg lc lenv lapi req attachMode nz src requestGiB =
     (let (zone, topo) = accessibleTopology (cfg_topologyKey cfg) (nz_skuName nz) (dp_Location (nz_params nz)) (si_diskZone src);
          p = ultraDefaults (nz_skuName nz) requestGiB (nz_params nz);
          ctx = gset RequestedSizeGib (Itoa requestGiB) (si_context src);
          sizeGB = (if \<not> si_supplySize src \<and> si_sourceType src = SourceSnapshot then 0 else requestGiB)
      in bindE (getDiskThrottled env) (\<lambda>skipGet.
         bindE (tryE (CreateManagedDisk lenv lapi lc (volumeOptions lc nz p src zone sizeGB skipGet))) (\<lambda>r. case r of
           Inl err \<Rightarrow> failE (createError err)
         | Inr diskURI \<Rightarrow>
             bindE (if attachMode = AttachModeNodeDriven then claimNodeDriven env cfg diskURI requestGiB ctx else okE ctx) (\<lambda>ctx'.
             bindE (startSKUMigrationMonitor env cfg True (si_sourceSKU src) (nz_skuName nz) diskURI (cr_Name req) (cr_RequiredBytes req)) (\<lambda>_.
             okE \<lparr>v_VolumeId = diskURI, v_CapacityBytes = GiBToBytes sizeGB, v_VolumeContext = ctx',
                 v_ContentSource = cr_VolumeContentSource req, v_AccessibleTopology = topo\<rparr>)))))"

text \<open>The write accelerator is a tag of the disk.\<close>

definition accelerated :: "normalized \<Rightarrow> normalized" where
  "accelerated nz = (let p = nz_params nz in
     if EqualFold (dp_WriteAcceleratorEnabled p) TrueValue
     then nz\<lparr>nz_params := p\<lparr>dp_Tags := gset ''writeacceleratorenabled'' TrueValue (dp_Tags p)\<rparr>\<rparr> else nz)"

definition contentSource :: "'w driver_env \<Rightarrow> driver_config \<Rightarrow> CreateVolumeRequest \<Rightarrow> int \<Rightarrow> normalized \<Rightarrow> ('w dst, source_info) io" where
  "contentSource env cfg req requestGiB nz = (let p = nz_params nz in case cr_VolumeContentSource req of
     None \<Rightarrow> okE (noSource (nz_diskZone nz) (dp_VolumeContext p))
   | Some (FromSnapshot s) \<Rightarrow> snapshotSource env cfg (nz_skuName nz) requestGiB s (nz_diskZone nz) (dp_VolumeContext p)
   | Some (FromVolume s) \<Rightarrow> volumeSource env cfg (dp_Location p) requestGiB s (nz_diskZone nz) (dp_VolumeContext p))"

definition createNormalized :: "'w driver_env \<Rightarrow> driver_config \<Rightarrow> cloud_config \<Rightarrow> 'w drv env \<Rightarrow> 'w drv disk_api \<Rightarrow> CreateVolumeRequest \<Rightarrow> string
    \<Rightarrow> int \<Rightarrow> normalized \<Rightarrow> ('w dst, Volume) io" where
  "createNormalized env cfg lc lenv lapi req attachMode requestGiB nz =
     (let p = nz_params nz in
      bindE (if cfg_enableDiskCapacityCheck cfg
             then checkDiskCapacity env (dp_SubscriptionID p) (dp_ResourceGroup p) (dp_DiskName p) requestGiB else okE ()) (\<lambda>_.
      bindE (contentSource env cfg req requestGiB (accelerated nz)) (\<lambda>src.
      provision env cfg lc lenv lapi req attachMode (accelerated nz) src requestGiB)))"

text \<open>The cloud that creates the disk: one for the user agent of the request, or the driver's.\<close>

definition cloudFor :: "'w driver_env \<Rightarrow> driver_config \<Rightarrow> string \<Rightarrow> ('w dst, cloud_config \<times> 'w drv env \<times> 'w drv disk_api) io" where
  "cloudFor env cfg userAgent =
     (if userAgent = [] then okE (cfg_cloud cfg, dv_env env, dv_disk env)
      else bindE (tryE (dv_GetCloudProviderFromClient env userAgent)) (\<lambda>r. case r of
        Inl err \<Rightarrow> failE (statusf Internal (''create cloud with UserAgent('' @ userAgent @ '') failed with: ('' @ emsg err @ '')''))
      | Inr x \<Rightarrow> okE x))"

definition CreateVolume :: "'w driver_env \<Rightarrow> driver_config \<Rightarrow> CreateVolumeRequest \<Rightarrow> ('w dst, Volume) io" where
  "CreateVolume env cfg req =
     bindE (liftE (validateCreate cfg req)) (\<lambda>(diskParams, attachMode).
     withVolumeLock (cr_Name req) (
       bindE (liftE (requestSize (dp_PerformancePlus diskParams) (cr_RequiredBytes req) (cr_LimitBytes req))) (\<lambda>requestGiB.
       bindE (cloudFor env cfg (dp_UserAgent diskParams)) (\<lambda>(lc, lenv, lapi).
       doE (dv_NewUUID env) (\<lambda>uuid.
       bindE (liftE (normalizeCreate cfg lc uuid req diskParams)) (createNormalized env cfg lc lenv lapi req attachMode requestGiB))))))"

end
