(* ===== verification/ControllerServer.thy ===== *)
theory ControllerServer
  imports CreateVolume
begin

text \<open>
  The handlers of the controller service that work on an existing volume (\<open>controllerserver.go\<close>): delete, modify,
  publish, unpublish, validate and expand, and the lookups of used LUNs and volume attachments they make
  (\<open>azuredisk.go\<close>). Where an error message prints the whole request, the request is left out. \<open>dv_diskAddress\<close> is
  the address of the disk that was read, under which an attach marks it.
\<close>

subsection \<open>DeleteVolume\<close>

fun asDiskManaged :: "err_kind list \<Rightarrow> string option" where
  "asDiskManaged [] = None"
| "asDiskManaged (k # ks) = (case k of DiskManaged managedBy \<Rightarrow> Some managedBy | _ \<Rightarrow> asDiskManaged ks)"

definition unclaimBeforeDelete :: "'w driver_env \<Rightarrow> driver_config \<Rightarrow> string \<Rightarrow> ('w dst, unit) io" where
  "unclaimBeforeDelete env cfg diskURI =
     (if \<not> cfg_nodeDrivenAttachDetachEnabled cfg then okE ()
      else bindE (lookupPV env cfg diskURI) (\<lambda>pv.
        if \<not> hasQADInfo pv then okE ()
        else bindE (tryE (getAKSClusterResourceID env cfg)) (\<lambda>r. case r of
          Inl err \<Rightarrow> failE (statusf Internal (''failed to determine QAD owner resource for disk '' @ diskURI @ '': '' @ emsg err))
        | Inr ownerResource \<Rightarrow> bindE (tryE (unclaimDiskResource env cfg diskURI ownerResource)) (\<lambda>r. case r of
            Inl err \<Rightarrow> failE (statusf Internal (''failed to unclaim QAD disk '' @ diskURI @ '': '' @ emsg err))
          | Inr _ \<Rightarrow> okE ()))))"

text \<open>A disk that the cluster still claims is unclaimed, so that a retry of the delete can succeed.\<close>

definition unclaimAfterFailure :: "'w driver_env \<Rightarrow> driver_config \<Rightarrow> string \<Rightarrow> goerror \<Rightarrow> ('w dst, unit) io" where
  "unclaimAfterFailure env cfg diskURI err = (case asDiskManaged (ekind err # ewraps err) of
     None \<Rightarrow> okE ()
   | Some managedBy \<Rightarrow> bindE (tryE (getAKSClusterResourceID env cfg)) (\<lambda>r. case r of
       Inl _ \<Rightarrow> okE ()
     | Inr ownerResource \<Rightarrow>
         if EqualFold managedBy ownerResource
         then bindE (tryE (unclaimDiskResource env cfg diskURI ownerResource)) (\<lambda>_. okE ())
         else okE ()))"

definition DeleteVolume :: "'w driver_env \<Rightarrow> driver_config \<Rightarrow> string \<Rightarrow> ('w dst, unit) io" where
  "DeleteVolume env cfg volumeID =
     (if volumeID = [] then failE (statusf InvalidArgument ''Volume ID missing in the request'')
      else if ValidateControllerServiceRequest (cfg_csi cfg) RPC_CREATE_DELETE_VOLUME \<noteq> None
      then failE (statusf Internal ''invalid delete volume req'')
      else if \<not> IsARMResourceID volumeID then okE ()
      else withVolumeLock volumeID (
        bindE (unclaimBeforeDelete env cfg volumeID) (\<lambda>_.
        bindE (tryE (DeleteManagedDisk (dv_env env) (dv_disk env) volumeID)) (\<lambda>r. case r of
          Inr _ \<Rightarrow> okE ()
        | Inl err \<Rightarrow> bindE (unclaimAfterFailure env cfg volumeID err) (\<lambda>_. failE err)))))"

subsection \<open>ControllerModifyVolume\<close>

text \<open>The handlers that refuse a node-driven volume.\<close>

definition refuseNodeDriven :: "'w driver_env \<Rightarrow> driver_config \<Rightarrow> string \<Rightarrow> string \<Rightarrow> ('w dst, unit) io" where
  "refuseNodeDriven env cfg handler diskURI =
     (if \<not> cfg_nodeDrivenAttachDetachEnabled cfg then okE ()
      else bindE (lookupPV env cfg diskURI) (\<lambda>pv.
        if hasQADInfo pv then failE (statusf Unimplemented (handler @ '' is not supported for QAD-enabled volume '' @ diskURI))
        else okE ()))"

text \<open>Whether a modification is a migration to PremiumV2 that has to be watched, and the SKU it starts from.\<close>

definition monitoredMigration :: "driver_config \<Rightarrow> Disk option \<Rightarrow> string \<Rightarrow> bool \<times> string" where
  "monitoredMigration cfg currentDisk skuName = (case (currentDisk, Option.bind currentDisk d_Properties, cfg_migrationMonitor cfg) of
     (Some disk, Some p, True) \<Rightarrow>
       let fromSKU = (case d_SKU disk of Some (Some name) \<Rightarrow> name | _ \<Rightarrow> []);
           starts = (case d_SKU disk of Some (Some name) \<Rightarrow> skuName = ''PremiumV2_LRS'' \<and> name = ''Premium_LRS'' | _ \<Rightarrow> False);
           running = (case (p_DiskSizeGB p, p_CompletionPercent p) of (Some _, Some cp) \<Rightarrow> cp < 100 | _ \<Rightarrow> False)
       in (if \<not> starts \<and> running then fromSKU = ''PremiumV2_LRS'' else starts, fromSKU)
   | _ \<Rightarrow> (False, []))"

definition emptyOptions :: ManagedDiskOptions where
  "emptyOptions = \<lparr>mo_StorageAccountType = [], mo_DiskName = [], mo_PVCName = [], mo_ResourceGroup = [], mo_AvailabilityZone = [],
     mo_Tags = [], mo_DiskIOPSReadWrite = [], mo_DiskMBpsReadWrite = [], mo_SourceResourceID = [], mo_SourceType = [],
     mo_DiskEncryptionSetID = [], mo_DiskEncryptionType = [], mo_SizeGB = 0, mo_MaxShares = 0, mo_LogicalSectorSize = 0,
     mo_SkipGetDiskOperation = False, mo_PublicNetworkAccess = [], mo_NetworkAccessPolicy = [], mo_DiskAccessID = None,
     mo_BurstingEnabled = None, mo_SubscriptionID = [], mo_Location = [], mo_PerformancePlus = None\<rparr>"

definition ControllerModifyVolume :: "'w driver_env \<Rightarrow> driver_config \<Rightarrow> string \<Rightarrow> smap \<Rightarrow> ('w dst, unit) io" where
  "ControllerModifyVolume env cfg volumeID mutableParameters =
     (if volumeID = [] then failE (statusf InvalidArgument ''Volume ID missing in the request'')
      else if ValidateControllerServiceRequest (cfg_csi cfg) RPC_MODIFY_VOLUME \<noteq> None
      then failE (statusf Internal ''invalid modify volume req'')
      else case normalizeMutableDiskParameters mutableParameters of
        Inl err \<Rightarrow> failE (statusf InvalidArgument (''Invalid mutable disk parameters: '' @ emsg err))
      | Inr mutableParams \<Rightarrow> (case ParseDiskParameters mutableParams of
        Inl err \<Rightarrow> failE (statusf InvalidArgument (''Failed parsing disk parameters: '' @ emsg err))
      | Inr diskParams \<Rightarrow>
        bindE (refuseNodeDriven env cfg ''ControllerModifyVolume'' volumeID) (\<lambda>_.
        bindE (tryE (checkDiskExists env volumeID)) (\<lambda>r. case r of
          Inl err \<Rightarrow> failE (statusf NotFoundCode (''Volume not found, failed with error: '' @ emsg err))
        | Inr currentDisk \<Rightarrow>
          (case NormalizeStorageAccountType (dp_AccountType diskParams) (cfg_Cloud (cfg_cloud cfg)) (cfg_DisableAzureStackCloud (cfg_cloud cfg)) of
            Inl err \<Rightarrow> failE (statusf InvalidArgument (emsg err))
          | Inr normalizedSku \<Rightarrow>
            let skuName = (if dp_AccountType diskParams = [] then [] else normalizedSku);
                (monitor, fromSKU) = monitoredMigration cfg currentDisk skuName;
                options = emptyOptions\<lparr>mo_DiskIOPSReadWrite := dp_DiskIOPSReadWrite diskParams,
                  mo_DiskMBpsReadWrite := dp_DiskMBPSReadWrite diskParams, mo_ResourceGroup := dp_ResourceGroup diskParams,
                  mo_SubscriptionID := dp_SubscriptionID diskParams, mo_StorageAccountType := skuName,
                  mo_SourceResourceID := volumeID, mo_SourceType := SourceVolume\<rparr>
            in bindE (tryE (ModifyDisk (dv_env env) (dv_disk env) options)) (\<lambda>r. case r of
                Inl err \<Rightarrow> failE (statusf (if Contains (emsg err) NotFoundMsg then NotFoundCode else Internal) (emsg err))
              | Inr _ \<Rightarrow>
                if \<not> monitor then okE ()
                else (case Option.bind (Option.bind currentDisk d_Properties) p_DiskSizeGB of
                    None \<Rightarrow> failE (panicf ''nil pointer dereference'')
                  | Some sizeGB \<Rightarrow> startSKUMigrationMonitor env cfg False fromSKU skuName volumeID [] (GiBToBytes sizeGB))))))))"

subsection \<open>LUNs in use and volume attachments\<close>

fun attachmentLuns :: "string \<Rightarrow> string \<Rightarrow> VolumeAttachment list \<Rightarrow> int list" where
  "attachmentLuns driverName nodeName [] = []"
| "attachmentLuns driverName nodeName (va # vas) =
     (if va_Attacher va = driverName \<and> EqualFold (va_NodeName va) nodeName \<and> va_Attached va
      then (case gget (va_AttachmentMetadata va) LUN of
          Some k \<Rightarrow> (case Atoi k of Inr lun \<Rightarrow> lun # attachmentLuns driverName nodeName vas | Inl _ \<Rightarrow> attachmentLuns driverName nodeName vas)
        | None \<Rightarrow> attachmentLuns driverName nodeName vas)
      else attachmentLuns driverName nodeName vas)"

definition noVolumeAttachmentClient :: goerror where
  "noVolumeAttachmentClient = errorf ''kubeClient or kubeClient.StorageV1() or kubeClient.StorageV1().VolumeAttachments() is nil''"

definition getUsedLunsFromVolumeAttachments :: "'w driver_env \<Rightarrow> driver_config \<Rightarrow> string \<Rightarrow> ('w dst, int list) io" where
  "getUsedLunsFromVolumeAttachments env cfg nodeName =
     (if \<not> kube_present (dv_env env) then failE noVolumeAttachmentClient
      else bindE (dv_VAList env) (\<lambda>vas. okE (attachmentLuns (cd_Name (cfg_csi cfg)) nodeName vas)))"

fun nodeLuns :: "DataDisk list \<Rightarrow> int list result" where
  "nodeLuns [] = Inr []"
| "nodeLuns (disk # disks) = (case dd_Lun disk of
     None \<Rightarrow> if dd_Name disk = None then Inl (panicf ''nil pointer dereference'') else nodeLuns disks
   | Some lun \<Rightarrow> bindR (nodeLuns disks) (\<lambda>luns. Inr (lun # luns)))"

definition getUsedLunsFromNode :: "'w driver_env \<Rightarrow> string \<Rightarrow> ('w dst, int list) io" where
  "getUsedLunsFromNode env nodeName = doE (GetNodeDataDisks (dv_env env) nodeName) (\<lambda>(r, _). case r of
     Inl err \<Rightarrow> failE err | Inr disks \<Rightarrow> liftE (nodeLuns disks))"

text \<open>The check of one node: LUNs that volume attachments claim and the node does not have. Any failure means none.\<close>

definition occupiedLuns :: "'w driver_env \<Rightarrow> driver_config \<Rightarrow> string \<Rightarrow> ('w dst, int list) io" where
  "occupiedLuns env cfg nodeName =
     bindE (tryE (getUsedLunsFromVolumeAttachments env cfg nodeName)) (\<lambda>r. case r of
       Inl _ \<Rightarrow> okE []
     | Inr fromVA \<Rightarrow> if fromVA = [] then okE []
         else bindE (tryE (getUsedLunsFromNode env nodeName)) (\<lambda>r. case r of
           Inl _ \<Rightarrow> okE []
         | Inr fromNode \<Rightarrow> okE (GetElementsInArray1NotInArray2 fromVA fromNode)))"

text \<open>When the check took longer than ten seconds the timer has set the throttling flag.\<close>

definition getOccupiedLunsFromNode :: "'w driver_env \<Rightarrow> driver_config \<Rightarrow> string \<Rightarrow> ('w dst, int list) io" where
  "getOccupiedLunsFromNode env cfg nodeName =
     (if \<not> cfg_checkDiskLUNCollision cfg then okE []
      else bindE (checkDiskLunThrottled env) (\<lambda>throttled.
        if throttled then okE []
        else bindE (occupiedLuns env cfg nodeName) (\<lambda>luns.
          doE (dv_lunCheckSlow env) (\<lambda>slow.
          if slow then doE (sys_Now (dv_env env)) (\<lambda>now. modifyE (\<lambda>c. c\<lparr>cc_world := (cc_world c)\<lparr>dr_checkDiskLunThrottlingCache :=
              cacheSet now CheckDiskLunThrottlingKey [] (dr_checkDiskLunThrottlingCache (cc_world c))\<rparr>\<rparr>) (okE luns))
          else okE luns))))"

definition inlineVolumeSpecMatchesDisk :: "string \<Rightarrow> string \<Rightarrow> VolumeAttachment \<Rightarrow> bool" where
  "inlineVolumeSpecMatchesDisk driverName diskURI va = (case va_InlineCSI va of
     None \<Rightarrow> False
   | Some csi \<Rightarrow> EqualFold (csi_VolumeHandle csi) diskURI \<and> EqualFold (csi_Driver csi) driverName)"

fun attachmentLoop :: "'w driver_env \<Rightarrow> driver_config \<Rightarrow> string \<Rightarrow> string \<Rightarrow> VolumeAttachment list \<Rightarrow> ('w dst, bool) io" where
  "attachmentLoop env cfg nodeName diskURI [] = okE False"
| "attachmentLoop env cfg nodeName diskURI (va # vas) =
     (if va_Attacher va \<noteq> cd_Name (cfg_csi cfg) \<or> va_NodeName va \<noteq> nodeName then attachmentLoop env cfg nodeName diskURI vas
      else bindE (case va_PersistentVolumeName va of
          None \<Rightarrow> okE False
        | Some pvName \<Rightarrow> bindE (dv_PVGet env pvName) (\<lambda>pv. okE (ownVolume cfg diskURI pv))) (\<lambda>found.
        if found \<or> inlineVolumeSpecMatchesDisk (cd_Name (cfg_csi cfg)) diskURI va then okE True
        else attachmentLoop env cfg nodeName diskURI vas))"

definition hasVolumeAttachmentForDiskOnNode :: "'w driver_env \<Rightarrow> driver_config \<Rightarrow> string \<Rightarrow> string \<Rightarrow> ('w dst, bool) io" where
  "hasVolumeAttachmentForDiskOnNode env cfg nodeName diskURI =
     (if \<not> kube_present (dv_env env) then failE noVolumeAttachmentClient
      else bindE (dv_VAList env) (attachmentLoop env cfg nodeName diskURI))"

subsection \<open>ControllerPublishVolume\<close>

record PublishRequest =
  pr_VolumeId :: string
  pr_NodeId :: string
  pr_VolumeCapability :: "VolumeCapability option"
  pr_VolumeContext :: smap

definition validatePublish :: "PublishRequest \<Rightarrow> unit result" where
  "validatePublish req =
     (if pr_VolumeId req = [] then Inl (statusf InvalidArgument ''Volume ID not provided'')
      else case pr_VolumeCapability req of
        None \<Rightarrow> Inl (statusf InvalidArgument ''Volume capability not provided'')
      | Some volCap \<Rightarrow> (case GetMaxShares (pr_VolumeContext req) of
          Inl _ \<Rightarrow> Inl (statusf InvalidArgument ''MaxShares value not supported'')
        | Inr maxShares \<Rightarrow> (case IsValidVolumeCapabilities [volCap] maxShares of
            Some err \<Rightarrow> Inl (statusf InvalidArgument (emsg err))
          | None \<Rightarrow> Inr ())))"

text \<open>The read of the disk; a read that ran into a deadline is treated as no information.\<close>

definition diskForPublish :: "'w driver_env \<Rightarrow> string \<Rightarrow> ('w dst, Disk option) io" where
  "diskForPublish env diskURI = bindE (tryE (checkDiskExists env diskURI)) (\<lambda>r. case r of
     Inr disk \<Rightarrow> okE disk
   | Inl err \<Rightarrow> if Contains (emsg err) ''context deadline'' then okE None
       else failE (statusf NotFoundCode (''Volume not found, failed with error: '' @ emsg err)))"

text \<open>The size that decides about caching: the disk's, otherwise the requested one.\<close>

definition nodeDrivenSize :: "Disk option \<Rightarrow> smap \<Rightarrow> int option result" where
  "nodeDrivenSize disk volumeContext = (case Option.bind (Option.bind disk d_Properties) p_DiskSizeGB of
     Some s \<Rightarrow> Inr (Some s)
   | None \<Rightarrow>
       let requested = gstr volumeContext RequestedSizeGib in
       if requested = [] then Inr None
       else (case ParseInt 32 requested of
           Inl _ \<Rightarrow> Inl (statusf InvalidArgument (''invalid QAD requested disk size \"'' @ requested @ ''\"''))
         | Inr n \<Rightarrow> if n \<le> 0 then Inl (statusf InvalidArgument (''invalid QAD requested disk size \"'' @ requested @ ''\"''))
             else Inr (Some n)))"

definition publishNodeDriven :: "'w driver_env \<Rightarrow> driver_config \<Rightarrow> string \<Rightarrow> smap \<Rightarrow> Disk option \<Rightarrow> ('w dst, unit) io" where
  "publishNodeDriven env cfg diskURI volumeContext disk =
     (if \<not> cfg_nodeDrivenAttachDetachEnabled cfg
      then failE (statusf FailedPrecondition (AttachModeField @ ''='' @ AttachModeNodeDriven @ '' requires the Alpha NodeDrivenAttachDetach feature gate''))
      else bindE (tryE (getPVFromDiskURI env cfg diskURI)) (\<lambda>r. case r of
        Inl err \<Rightarrow> failE (statusf Internal (''failed to get PV from disk URI '' @ diskURI @ '': '' @ emsg err))
      | Inr pv \<Rightarrow> (case pv_CSI pv of
        None \<Rightarrow> failE (panicf ''nil pointer dereference'')
      | Some csi \<Rightarrow> (case GetCachingMode (csi_VolumeAttributes csi) of
        Inl err \<Rightarrow> failE (statusf InvalidArgument (''failed to determine PV cache policy: '' @ emsg err))
      | Inr cachePolicy \<Rightarrow> bindE (liftE (nodeDrivenSize disk volumeContext)) (\<lambda>diskSizeGB.
          if cachePolicy \<noteq> ''None'' \<and> diskSizeGB = None
          then failE (statusf Unavailable (''cannot determine disk size for QAD cache policy on volume '' @ diskURI))
          else bindE (tryE (ensureQADPVAnnotations env (pv_Name pv) (gstr volumeContext BlobURLAnnotation)
                 (gstr volumeContext ClaimIdentifierAnnotation) (effectiveCachingModeForDisk cachePolicy diskSizeGB))) (\<lambda>r. case r of
            Inl err \<Rightarrow> failE (statusf Internal (''failed to update PV '' @ pv_Name pv @ '' with QAD metadata: '' @ emsg err))
          | Inr _ \<Rightarrow> okE ()))))))"

definition publishCachingMode :: "driver_config \<Rightarrow> smap \<Rightarrow> string result" where
  "publishCachingMode cfg volumeContext = (case GetCachingMode volumeContext of
     Inl err \<Rightarrow> Inl (statusf Internal (emsg err))
   | Inr cachingMode \<Rightarrow> Inr (if cfg_convertRWCachingModeForIntreePV cfg \<and> cachingMode = ''ReadWrite''
         \<and> EqualFold (gstr volumeContext KindField) ''Managed'' then ''ReadOnly'' else cachingMode))"

definition attachFailed :: "string \<Rightarrow> string \<Rightarrow> goerror \<Rightarrow> goerror" where
  "attachFailed diskName nodeName err =
     statusf Internal (truncateErrMsg (''Attach volume '' @ diskName @ '' to instance '' @ nodeName @ '' failed with '' @ emsg err))"

text \<open>A dangling attachment is detached from its node first, unless it is this node or a volume attachment names that node.\<close>

definition resolveDangling :: "'w driver_env \<Rightarrow> driver_config \<Rightarrow> string \<Rightarrow> string \<Rightarrow> string \<Rightarrow> string \<Rightarrow> ('w dst, unit) io" where
  "resolveDangling env cfg diskName diskURI nodeName currentNode =
     (if EqualFold nodeName currentNode
      then failE (statusf Internal (''volume '' @ diskURI @ '' is actually attached to current node '' @ nodeName @ '', return error''))
      else bindE (tryE (hasVolumeAttachmentForDiskOnNode env cfg currentNode diskURI)) (\<lambda>r. case r of
        Inl err \<Rightarrow> failE (statusf Internal (''failed to check VolumeAttachments for volume '' @ diskURI @ '' on node '' @ currentNode @ '': '' @ emsg err))
      | Inr True \<Rightarrow> failE (statusf FailedPrecondition (''volume '' @ diskURI @ '' still has VolumeAttachments on node '' @ currentNode @ '', refusing dangling detach''))
      | Inr False \<Rightarrow> bindE (tryE (DetachDisk (dv_env env) diskName diskURI currentNode)) (\<lambda>r. case r of
          Inl err \<Rightarrow> failE (statusf Internal (''Could not detach volume '' @ diskURI @ '' from node '' @ currentNode @ '': '' @ emsg err))
        | Inr _ \<Rightarrow> okE ())))"

definition attachVolume :: "'w driver_env \<Rightarrow> driver_config \<Rightarrow> string \<Rightarrow> string \<Rightarrow> string \<Rightarrow> smap \<Rightarrow> disk_ptr \<Rightarrow> ('w dst, int) io" where
  "attachVolume env cfg diskName diskURI nodeName volumeContext disk =
     bindE (liftE (publishCachingMode cfg volumeContext)) (\<lambda>cachingMode.
     bindE (getOccupiedLunsFromNode env cfg nodeName) (\<lambda>occupied.
     let delay = GetAttachDiskInitialDelay volumeContext;
         attach = AttachDisk (dv_env env) diskName diskURI nodeName cachingMode disk occupied;
         failed = (\<lambda>err. failE (attachFailed diskName nodeName err))
     in modifyE (\<lambda>c. if delay > 0 then c\<lparr>cc_AttachDetachInitialDelayInMs := delay\<rparr> else c)
       (bindE (tryE attach) (\<lambda>r. case r of
          Inr lun \<Rightarrow> okE lun
        | Inl err \<Rightarrow> (case ekind err of
            DanglingAttach currentNode \<Rightarrow>
              bindE (resolveDangling env cfg diskName diskURI nodeName currentNode) (\<lambda>_.
              bindE (tryE attach) (\<lambda>r. case r of Inr lun \<Rightarrow> okE lun | Inl err \<Rightarrow> failed err))
          | _ \<Rightarrow> failed err)))))"

text \<open>The LUN of the volume on the node: found there, in which case a failed VM is updated first, or attached.\<close>

definition lunForPublish :: "'w driver_env \<Rightarrow> driver_config \<Rightarrow> string \<Rightarrow> string \<Rightarrow> string \<Rightarrow> smap \<Rightarrow> disk_ptr \<Rightarrow> ('w dst, int) io" where
  "lunForPublish env cfg diskName diskURI nodeName volumeContext disk =
     doE (GetDiskLun (dv_env env) diskName diskURI nodeName) (\<lambda>(r, vmState). case r of
       Inl err \<Rightarrow>
         if ekind err = Panicked then failE err
         else if ekind err = InstanceNotFound
         then failE (statusf NotFoundCode (''failed to get azure instance id for node \"'' @ nodeName @ ''\" ('' @ emsg err @ '')''))
         else if \<not> Contains (emsg err) CannotFindDiskLUN
         then failE (statusf Internal (''could not get disk lun for volume '' @ diskURI @ '': '' @ emsg err))
         else attachVolume env cfg diskName diskURI nodeName volumeContext disk
     | Inr lun \<Rightarrow>
         if map_option ToLower vmState = Some ''failed''
         then bindE (tryE (UpdateVM (dv_env env) nodeName)) (\<lambda>r. case r of
             Inl err \<Rightarrow> failE (statusf Internal (''update instance \"'' @ nodeName @ ''\" failed with '' @ emsg err))
           | Inr _ \<Rightarrow> okE lun)
         else okE lun)"

definition publishContext :: "Disk option \<Rightarrow> smap \<Rightarrow> int \<Rightarrow> smap result" where
  "publishContext disk volumeContext lun =
     (let ctx = [(LUN, Itoa lun)]
      in if disk \<noteq> None \<and> gget volumeContext RequestedSizeGib = None
         then bindR (InsertDiskProperties disk (Some ctx)) (\<lambda>r. Inr (case r of Some m \<Rightarrow> m | None \<Rightarrow> ctx))
         else Inr ctx)"

definition ControllerPublishVolume :: "'w driver_env \<Rightarrow> driver_config \<Rightarrow> PublishRequest \<Rightarrow> ('w dst, smap) io" where
  "ControllerPublishVolume env cfg req =
     (let diskURI = pr_VolumeId req; nodeName = pr_NodeId req; volumeContext = pr_VolumeContext req in
     bindE (liftE (validatePublish req)) (\<lambda>_.
     bindE (diskForPublish env diskURI) (\<lambda>disk.
     if nodeName = [] then failE (statusf InvalidArgument ''Node ID not provided'')
     else case GetInfoFromURI diskURI of
       Inl err \<Rightarrow> failE (statusf Internal (emsg err))
     | Inr (_, _, diskName) \<Rightarrow> (case getAttachMode volumeContext of
         Inl err \<Rightarrow> failE (statusf InvalidArgument (''failed to determine attachment mode: '' @ emsg err))
       | Inr attachMode \<Rightarrow>
           if attachMode = AttachModeNodeDriven
           then bindE (publishNodeDriven env cfg diskURI volumeContext disk) (\<lambda>_. okE [])
           else doE (dv_diskAddress env) (\<lambda>addr.
             bindE (lunForPublish env cfg diskName diskURI nodeName volumeContext (map_option (Pair addr) disk)) (\<lambda>lun.
             liftE (publishContext disk volumeContext lun)))))))"

subsection \<open>ControllerUnpublishVolume, ValidateVolumeCapabilities, ControllerExpandVolume\<close>

definition ControllerUnpublishVolume :: "'w driver_env \<Rightarrow> driver_config \<Rightarrow> string \<Rightarrow> string \<Rightarrow> ('w dst, unit) io" where
  "ControllerUnpublishVolume env cfg diskURI nodeID =
     (if diskURI = [] then failE (statusf InvalidArgument ''Volume ID not provided'')
      else if nodeID = [] then failE (statusf InvalidArgument ''Node ID not provided'')
      else bindE (if cfg_nodeDrivenAttachDetachEnabled cfg then bindE (lookupPV env cfg diskURI) (\<lambda>pv. okE (hasQADInfo pv))
                  else okE False) (\<lambda>nodeDriven.
        if nodeDriven then okE ()
        else case GetInfoFromURI diskURI of
          Inl err \<Rightarrow> failE (statusf Internal (emsg err))
        | Inr (_, _, diskName) \<Rightarrow>
            bindE (tryE (DetachDisk (dv_env env) diskName diskURI nodeID)) (\<lambda>r. case r of
              Inr _ \<Rightarrow> okE ()
            | Inl err \<Rightarrow> if Contains (emsg err) ErrDiskNotFound then okE ()
                else failE (statusf Internal (truncateErrMsg (''Could not detach volume '' @ diskURI @ '' from node '' @ nodeID @ '': '' @ emsg err))))))"

text \<open>The capabilities that are confirmed, or the message why they are not. \<open>None\<close> is a missing list.\<close>

definition ValidateVolumeCapabilities :: "'w driver_env \<Rightarrow> string \<Rightarrow> VolumeCapability list option \<Rightarrow> smap \<Rightarrow> ('w dst, string + VolumeCapability list) io" where
  "ValidateVolumeCapabilities env diskURI volumeCapabilities params =
     (if diskURI = [] then failE (statusf InvalidArgument ''Volume ID missing in the request'')
      else case volumeCapabilities of
        None \<Rightarrow> failE (statusf InvalidArgument ''VolumeCapabilities missing in the request'')
      | Some caps \<Rightarrow> (case GetMaxShares params of
          Inl _ \<Rightarrow> failE (statusf InvalidArgument ''MaxShares value not supported'')
        | Inr maxShares \<Rightarrow> (case IsValidVolumeCapabilities caps maxShares of
            Some err \<Rightarrow> okE (Inl (emsg err))
          | None \<Rightarrow> bindE (tryE (checkDiskExists env diskURI)) (\<lambda>r. case r of
              Inl err \<Rightarrow> failE (statusf NotFoundCode (''Volume not found, failed with error: '' @ emsg err))
            | Inr _ \<Rightarrow> okE (Inr caps)))))"

definition ControllerExpandVolume :: "'w driver_env \<Rightarrow> driver_config \<Rightarrow> string \<Rightarrow> int \<Rightarrow> ('w dst, int) io" where
  "ControllerExpandVolume env cfg diskURI capacityBytes =
     (if diskURI = [] then failE (statusf InvalidArgument ''Volume ID missing in the request'')
      else if ValidateControllerServiceRequest (cfg_csi cfg) RPC_EXPAND_VOLUME \<noteq> None
      then failE (statusf InvalidArgument ''invalid expand volume request'')
      else if capacityBytes = 0 then failE (statusf InvalidArgument ''volume capacity range missing in request'')
      else bindE (refuseNodeDriven env cfg ''ControllerExpandVolume'' diskURI) (\<lambda>_.
        bindE (tryE (GetDiskByURI (dv_env env) diskURI)) (\<lambda>r. case r of
          Inl err \<Rightarrow> failE (statusf Internal (''GetDiskByURI('' @ diskURI @ '') failed with error('' @ emsg err @ '')''))
        | Inr disk \<Rightarrow>
            if Option.bind (d_Properties disk) p_DiskSizeGB = None
            then failE (statusf Internal (''could not get size of the disk('' @ diskURI @ '')''))
            else bindE (tryE (ResizeDisk (dv_env env) (dv_disk env) diskURI capacityBytes (cfg_enableDiskOnlineResize cfg))) (\<lambda>r. case r of
              Inl err \<Rightarrow> failE (statusf Internal (''failed to resize disk('' @ diskURI @ '') with error('' @ emsg err @ '')''))
            | Inr currentSize \<Rightarrow>
                bindE (case d_ManagedBy disk of
                    None \<Rightarrow> okE ()
                  | Some managedBy \<Rightarrow>
                      bindE (tryE (vm_GetNodeNameByProviderID (dv_env env) (cloud_VMSet (dv_env env)) managedBy)) (\<lambda>r. case r of
                        Inl _ \<Rightarrow> okE ()
                      | Inr attachedNode \<Rightarrow> doE (vm_DeleteCacheForNode (dv_env env) (cloud_VMSet (dv_env env)) attachedNode) (\<lambda>_. okE ())))
                  (\<lambda>_. okE currentSize)))))"

end
