(* ===== verification/SnapshotServer.thy ===== *)
theory SnapshotServer
  imports Driver
begin

text \<open>
  The snapshot handlers of the controller service (\<open>controllerserver.go\<close>) and the wait for a snapshot
  (\<open>azuredisk.go\<close>). A snapshot for another region is made in two steps: a local one, and a copy started from it. The
  wait polls every five seconds for ten minutes; \<open>dv_SnapshotTick\<close> tells whether a tick or the timeout came next, and
  there are at most 120 ticks.
\<close>

subsection \<open>Reading and waiting\<close>

definition getSnapshotByID :: "'w driver_env \<Rightarrow> string \<Rightarrow> string \<Rightarrow> string \<Rightarrow> string \<Rightarrow> ('w dst, CSISnapshot) io" where
  "getSnapshotByID env subsID resourceGroup snapshotID sourceVolumeID =
     (case (if IsARMResourceID snapshotID then GetInfoFromURI snapshotID else Inr (subsID, resourceGroup, snapshotID)) of
        Inl err \<Rightarrow> failE (statusf InvalidArgument (emsg err))
      | Inr (sub, rg, snapshotName) \<Rightarrow>
          bindE (tryE (dv_GetSnapshotClientForSub env sub)) (\<lambda>r. case r of
            Inl err \<Rightarrow> failE (statusf Internal (''could not get snapshot client for subscription('' @ sub @ '') with error('' @ emsg err @ '')''))
          | Inr snapshotClient \<Rightarrow> bindE (tryE (dv_SnapshotGet env snapshotClient rg snapshotName)) (\<lambda>r. case r of
              Inl err \<Rightarrow> failE (statusf Internal (''get snapshot '' @ snapshotName @ '' from rg('' @ rg @ '') error: '' @ emsg err))
            | Inr snapshot \<Rightarrow> liftE (GenerateCSISnapshot sourceVolumeID (Some snapshot)))))"

definition getSnapshotCompletionPercent :: "'w driver_env \<Rightarrow> string \<Rightarrow> string \<Rightarrow> string \<Rightarrow> ('w dst, rat) io" where
  "getSnapshotCompletionPercent env subsID resourceGroup snapshotName =
     bindE (dv_GetSnapshotClientForSub env subsID) (\<lambda>snapshotClient.
     bindE (dv_SnapshotGet env snapshotClient resourceGroup snapshotName) (\<lambda>copySnapshot.
     okE (case Option.bind (s_Properties copySnapshot) sp_CompletionPercent of None \<Rightarrow> 100 | Some p \<Rightarrow> p)))"

fun snapshotWaitLoop :: "'w driver_env \<Rightarrow> nat \<Rightarrow> string \<Rightarrow> string \<Rightarrow> string \<Rightarrow> ('w dst, unit) io" where
  "snapshotWaitLoop env 0 subsID resourceGroup snapshotName =
     failE (errorf (''timeout waiting for snapshot('' @ snapshotName @ '') under rg('' @ resourceGroup @ '')''))"
| "snapshotWaitLoop env (Suc ticks) subsID resourceGroup snapshotName = doE (dv_SnapshotTick env ticks) (\<lambda>tick.
     if \<not> tick then snapshotWaitLoop env 0 subsID resourceGroup snapshotName
     else bindE (getSnapshotCompletionPercent env subsID resourceGroup snapshotName) (\<lambda>completionPercent.
       if completionPercent \<ge> 100 then okE () else snapshotWaitLoop env ticks subsID resourceGroup snapshotName))"

definition snapshotTicks :: nat where
  "snapshotTicks = 600 div 5"

definition waitForSnapshotReady :: "'w driver_env \<Rightarrow> string \<Rightarrow> string \<Rightarrow> string \<Rightarrow> ('w dst, unit) io" where
  "waitForSnapshotReady env subsID resourceGroup snapshotName =
     bindE (getSnapshotCompletionPercent env subsID resourceGroup snapshotName) (\<lambda>completionPercent.
     if completionPercent \<ge> 100 then okE () else snapshotWaitLoop env snapshotTicks subsID resourceGroup snapshotName)"

subsection \<open>The parameters of a snapshot class\<close>

record CreateSnapshotRequest =
  sr_SourceVolumeId :: string
  sr_Name :: string
  sr_Parameters :: smap

record snapshot_params =
  sq_customTags :: string
  sq_incremental :: bool
  sq_subsID :: string
  sq_resourceGroup :: string
  sq_location :: string
  sq_dataAccessAuthMode :: string
  sq_networkAccessPolicy :: string
  sq_publicNetworkAccess :: string
  sq_tagValueDelimiter :: string
  sq_instantAccess :: "int option"
  sq_cloud :: cloud_config
  sq_tags :: "(string, string option) gomap"

definition initSnapshotParams :: "cloud_config \<Rightarrow> snapshot_params" where
  "initSnapshotParams cloud = \<lparr>sq_customTags = [], sq_incremental = True, sq_subsID = [], sq_resourceGroup = [], sq_location = cfg_Location cloud,
     sq_dataAccessAuthMode = [], sq_networkAccessPolicy = [], sq_publicNetworkAccess = [], sq_tagValueDelimiter = [], sq_instantAccess = None,
     sq_cloud = cloud, sq_tags = []\<rparr>"

definition instantAccessMinutes :: "string \<Rightarrow> int result" where
  "instantAccessMinutes v = (case ParseInt 64 v of
     Inl err \<Rightarrow> Inl (statusf InvalidArgument (''invalid value('' @ v @ '') for '' @ InstantAccessDurationMinutes @ '': '' @ emsg err))
   | Inr temp \<Rightarrow> if temp < 60 \<or> temp > 300
       then Inl (statusf InvalidArgument (''invalid value('' @ Itoa temp @ '') for '' @ InstantAccessDurationMinutes @ '': must be between 60 and 300 minutes''))
       else Inr temp)"

definition snapshotParam :: "'w driver_env \<Rightarrow> string \<Rightarrow> string \<Rightarrow> snapshot_params \<Rightarrow> ('w dst, snapshot_params) io" where
  "snapshotParam env k v q = (let key = ToLower k in
     if key = TagsField then okE (q\<lparr>sq_customTags := v\<rparr>)
     else if key = IncrementalField then okE (if v = ''false'' then q\<lparr>sq_incremental := False\<rparr> else q)
     else if key = ResourceGroupField then okE (q\<lparr>sq_resourceGroup := v\<rparr>)
     else if key = LocationField then okE (q\<lparr>sq_location := v\<rparr>)
     else if key = UserAgentField then bindE (tryE (dv_GetCloudProviderFromClient env v)) (\<lambda>r. case r of
         Inl err \<Rightarrow> failE (statusf Internal (''create cloud with UserAgent('' @ v @ '') failed with: ('' @ emsg err @ '')''))
       | Inr (cloud, _, _) \<Rightarrow> okE (q\<lparr>sq_cloud := cloud\<rparr>))
     else if key = SubscriptionIDField then okE (q\<lparr>sq_subsID := v\<rparr>)
     else if key = DataAccessAuthModeField then okE (q\<lparr>sq_dataAccessAuthMode := v\<rparr>)
     else if key = NetworkAccessPolicyField then okE (q\<lparr>sq_networkAccessPolicy := v\<rparr>)
     else if key = PublicNetworkAccessField then okE (q\<lparr>sq_publicNetworkAccess := v\<rparr>)
     else if key = TagValueDelimiterField then okE (q\<lparr>sq_tagValueDelimiter := v\<rparr>)
     else if key = VolumeSnapshotNameKey then okE (q\<lparr>sq_tags := gset SnapshotNameTag (Some v) (sq_tags q)\<rparr>)
     else if key = VolumeSnapshotNamespaceKey then okE (q\<lparr>sq_tags := gset SnapshotNamespaceTag (Some v) (sq_tags q)\<rparr>)
     else if key = VolumeSnapshotContentNameKey then okE q
     else if key = InstantAccessDurationMinutes then bindE (liftE (instantAccessMinutes v)) (\<lambda>n. okE (q\<lparr>sq_instantAccess := Some n\<rparr>))
     else failE (statusf Internal (''AzureDisk - invalid option '' @ k @ '' in VolumeSnapshotClass'')))"

fun snapshotParams :: "'w driver_env \<Rightarrow> smap \<Rightarrow> snapshot_params \<Rightarrow> ('w dst, snapshot_params) io" where
  "snapshotParams env [] q = okE q"
| "snapshotParams env ((k, v) # parameters) q = bindE (snapshotParam env k v q) (snapshotParams env parameters)"

subsection \<open>The snapshot to create\<close>

definition badArgument :: "'a result \<Rightarrow> 'a result" where
  "badArgument r = (case r of Inl err \<Rightarrow> Inl (if ekind err = Panicked then err else statusf InvalidArgument (emsg err)) | Inr x \<Rightarrow> Inr x)"

definition snapshotTags :: "string \<Rightarrow> smap \<Rightarrow> (string, string option) gomap \<Rightarrow> (string, string option) gomap" where
  "snapshotTags sourceVolumeID customTags tags =
     putTags customTags (gset ''source_volume_id'' (Some sourceVolumeID) (gset CreatedByTag (Some AzureDiskDriverTag) tags))"

definition optionalField :: "string \<Rightarrow> string result \<Rightarrow> string option result" where
  "optionalField v normalized = (if v = [] then Inr None else bindR (badArgument normalized) (\<lambda>x. Inr (Some x)))"

definition incrementalFor :: "snapshot_params \<Rightarrow> bool" where
  "incrementalFor q = (if IsAzureStackCloud (cfg_Cloud (sq_cloud q)) (cfg_DisableAzureStackCloud (sq_cloud q)) then False else sq_incremental q)"

definition snapshotModel :: "cloud_config \<Rightarrow> string \<Rightarrow> snapshot_params \<Rightarrow> smap \<Rightarrow> Snapshot result" where
  "snapshotModel cloud sourceVolumeID q customTags =
     bindR (if sq_dataAccessAuthMode q = [] then Inr None
            else case ValidateDataAccessAuthMode (sq_dataAccessAuthMode q) of
              Some err \<Rightarrow> Inl (statusf InvalidArgument (emsg err)) | None \<Rightarrow> Inr (Some (sq_dataAccessAuthMode q))) (\<lambda>mode.
     bindR (optionalField (sq_networkAccessPolicy q) (NormalizeNetworkAccessPolicy (sq_networkAccessPolicy q))) (\<lambda>policy.
     bindR (optionalField (sq_publicNetworkAccess q) (NormalizePublicNetworkAccess (sq_publicNetworkAccess q))) (\<lambda>pna.
     Inr \<lparr>s_ID = None, s_Name = None, s_Location = Some (cfg_Location cloud), s_Tags = snapshotTags sourceVolumeID customTags (sq_tags q),
       s_SKU = None,
       s_Properties = Some \<lparr>sp_CreationData = Some (emptyCreationData\<lparr>cd_CreateOption := Some ''Copy'', cd_SourceResourceID := Some sourceVolumeID,
           cd_InstantAccessDurationMinutes := sq_instantAccess q\<rparr>),
         sp_Incremental = Some (incrementalFor q), sp_TimeCreated = None, sp_DiskSizeGB = None, sp_DiskSizeBytes = None,
         sp_ProvisioningState = None, sp_CompletionPercent = None, sp_DataAccessAuthMode = mode, sp_NetworkAccessPolicy = policy,
         sp_PublicNetworkAccess = pna\<rparr>,
       s_ExtendedLocation = (if HasExtendedLocation cloud then Some (cfg_ExtendedLocationName cloud, cfg_ExtendedLocationType cloud) else None)\<rparr>)))"

text \<open>The copy in the other region starts from the local snapshot.\<close>

definition copyModel :: "string \<Rightarrow> string \<Rightarrow> Snapshot \<Rightarrow> Snapshot" where
  "copyModel snapshotID location snapshot = snapshot\<lparr>s_Location := Some location, s_Properties := map_option (\<lambda>p. p\<lparr>sp_CreationData :=
     map_option (\<lambda>cd. cd\<lparr>cd_SourceResourceID := Some snapshotID, cd_CreateOption := Some ''CopyStart''\<rparr>) (sp_CreationData p)\<rparr>) (s_Properties snapshot)\<rparr>"

subsection \<open>CreateSnapshot\<close>

text \<open>The milliseconds of \<open>SleepIfThrottled\<close> after a failed call.\<close>

definition snapshotSleepMs :: "goerror \<Rightarrow> int" where
  "snapshotSleepMs err = 1000 * SleepIfThrottled (Some err) SnapshotOpThrottlingSleepSec"

definition putSnapshot :: "'w driver_env \<Rightarrow> nat \<Rightarrow> string \<Rightarrow> string \<Rightarrow> Snapshot \<Rightarrow> ('w dst, unit) io" where
  "putSnapshot env snapshotClient resourceGroup snapshotName snapshot =
     bindE (tryE (dv_SnapshotCreateOrUpdate env snapshotClient resourceGroup snapshotName snapshot)) (\<lambda>r. case r of
       Inr _ \<Rightarrow> okE ()
     | Inl err \<Rightarrow> if Contains (emsg err) ''existing disk''
         then failE (statusf AlreadyExists (''request snapshot('' @ snapshotName @ '') under rg('' @ resourceGroup
           @ '') already exists, but the SourceVolumeId is different, error details: '' @ emsg err))
         else doE (sys_Sleep (dv_env env) (snapshotSleepMs err)) (\<lambda>_. failE (statusf Internal (''create snapshot error: '' @ emsg err))))"

definition waitIfAsked :: "'w driver_env \<Rightarrow> driver_config \<Rightarrow> string \<Rightarrow> string \<Rightarrow> string \<Rightarrow> ('w dst, unit) io" where
  "waitIfAsked env cfg subsID resourceGroup snapshotName =
     (if \<not> cfg_shouldWaitForSnapshotReady cfg then okE ()
      else bindE (tryE (waitForSnapshotReady env subsID resourceGroup snapshotName)) (\<lambda>r. case r of
        Inr _ \<Rightarrow> okE ()
      | Inl err \<Rightarrow> failE (statusf Internal (''waitForSnapshotReady('' @ subsID @ '', '' @ resourceGroup @ '', '' @ snapshotName @ '') failed with '' @ emsg err))))"

text \<open>The second step, once the local snapshot is ready; the local one is deleted when the copy is ready.\<close>

definition crossRegion :: "'w driver_env \<Rightarrow> driver_config \<Rightarrow> nat \<Rightarrow> string \<Rightarrow> string \<Rightarrow> string \<Rightarrow> string \<Rightarrow> string \<Rightarrow> Snapshot \<Rightarrow> string
    \<Rightarrow> CSISnapshot \<Rightarrow> ('w dst, CSISnapshot) io" where
  "crossRegion env cfg snapshotClient subsID resourceGroup sourceVolumeID localName crossName snapshot location csiSnapshot =
     bindE (tryE (getSnapshotByID env subsID resourceGroup crossName sourceVolumeID)) (\<lambda>r.
     bindE (case r of
         Inr _ \<Rightarrow> okE ()
       | Inl _ \<Rightarrow> putSnapshot env snapshotClient resourceGroup crossName (copyModel (cs_SnapshotId csiSnapshot) location snapshot)) (\<lambda>_.
     bindE (waitIfAsked env cfg subsID resourceGroup crossName) (\<lambda>_.
     bindE (tryE (getSnapshotByID env subsID resourceGroup crossName sourceVolumeID)) (\<lambda>r. case r of
       Inl err \<Rightarrow> failE (statusf Internal (emsg err))
     | Inr copied \<Rightarrow>
         if \<not> cs_ReadyToUse copied then okE copied
         else bindE (tryE (dv_SnapshotDelete env snapshotClient resourceGroup localName)) (\<lambda>r. case r of
           Inr _ \<Rightarrow> okE copied
         | Inl err \<Rightarrow> doE (sys_Sleep (dv_env env) (snapshotSleepMs err)) (\<lambda>_. okE copied))))))"

text \<open>Under the lock: \<open>crossName\<close> is empty for a snapshot in the region of the cluster.\<close>

definition takeSnapshot :: "'w driver_env \<Rightarrow> driver_config \<Rightarrow> string \<Rightarrow> string \<Rightarrow> string \<Rightarrow> string \<Rightarrow> string \<Rightarrow> string \<Rightarrow> Snapshot
    \<Rightarrow> ('w dst, CSISnapshot) io" where
  "takeSnapshot env cfg subsID resourceGroup sourceVolumeID snapshotName crossName location snapshot =
     bindE (tryE (dv_GetSnapshotClientForSub env subsID)) (\<lambda>r. case r of
       Inl err \<Rightarrow> failE (statusf Internal (''could not get snapshot client for subscription('' @ subsID @ '') with error('' @ emsg err @ '')''))
     | Inr snapshotClient \<Rightarrow>
     bindE (tryE (getSnapshotByID env subsID resourceGroup snapshotName [])) (\<lambda>r.
     bindE (if (case r of Inl _ \<Rightarrow> True | Inr csi \<Rightarrow> sourceVolumeID \<noteq> cs_SourceVolumeId csi)
            then putSnapshot env snapshotClient resourceGroup snapshotName snapshot else okE ()) (\<lambda>_.
     bindE (waitIfAsked env cfg subsID resourceGroup snapshotName) (\<lambda>_.
     bindE (getSnapshotByID env subsID resourceGroup snapshotName sourceVolumeID) (\<lambda>csiSnapshot.
     if cs_ReadyToUse csiSnapshot \<and> crossName \<noteq> []
     then crossRegion env cfg snapshotClient subsID resourceGroup sourceVolumeID snapshotName crossName snapshot location csiSnapshot
     else if crossName \<noteq> []
     then okE (csiSnapshot\<lparr>cs_SnapshotId := TrimSuffix (cs_SnapshotId csiSnapshot) snapshotName @ crossName\<rparr>)
     else okE csiSnapshot)))))"

definition CreateSnapshot :: "'w driver_env \<Rightarrow> driver_config \<Rightarrow> CreateSnapshotRequest \<Rightarrow> ('w dst, CSISnapshot) io" where
  "CreateSnapshot env cfg req =
     (let sourceVolumeID = sr_SourceVolumeId req; own = cfg_cloud cfg in
     if sourceVolumeID = [] then failE (statusf InvalidArgument ''CreateSnapshot Source Volume ID must be provided'')
     else if sr_Name req = [] then failE (statusf InvalidArgument ''snapshot name must be provided'')
     else doE (dv_NewUUID env) (\<lambda>uuid.
     bindE (liftE (CreateValidDiskName uuid (sr_Name req))) (\<lambda>snapshotName.
     bindE (snapshotParams env (sr_Parameters req) (initSnapshotParams own)) (\<lambda>q.
     bindE (if sq_resourceGroup q \<noteq> [] then okE (sq_resourceGroup q)
            else case GetInfoFromURI sourceVolumeID of
              Inl err \<Rightarrow> failE (statusf InvalidArgument (''could not get resource group from diskURI('' @ sourceVolumeID @ '') with error('' @ emsg err @ '')''))
            | Inr (_, rg, _) \<Rightarrow> okE rg) (\<lambda>resourceGroup.
     bindE (liftE (badArgument (ConvertTagsToMap (sq_customTags q) (sq_tagValueDelimiter q)))) (\<lambda>customTags.
     bindE (liftE (snapshotModel own sourceVolumeID q customTags)) (\<lambda>snapshot.
     withVolumeLock snapshotName (
       if sq_location q \<noteq> [] \<and> sq_location q \<noteq> cfg_Location own
       then if \<not> incrementalFor q then failE (statusf InvalidArgument ''could not create snapshot cross region with incremental is false'')
         else doE (dv_NewUUID env) (\<lambda>uuid'.
           bindE (liftE (CreateValidDiskName uuid' (''local_'' @ snapshotName))) (\<lambda>localName.
           takeSnapshot env cfg (sq_subsID q) resourceGroup sourceVolumeID localName snapshotName (sq_location q) snapshot))
       else takeSnapshot env cfg (sq_subsID q) resourceGroup sourceVolumeID snapshotName [] (sq_location q) snapshot))))))))"

subsection \<open>DeleteSnapshot and ListSnapshots\<close>

definition DeleteSnapshot :: "'w driver_env \<Rightarrow> driver_config \<Rightarrow> string \<Rightarrow> ('w dst, unit) io" where
  "DeleteSnapshot env cfg snapshotID =
     (if snapshotID = [] then failE (statusf InvalidArgument ''Snapshot ID must be provided'')
      else case (if IsARMResourceID snapshotID then GetInfoFromURI snapshotID else Inr ([], cfg_ResourceGroup (cfg_cloud cfg), snapshotID)) of
        Inl err \<Rightarrow> failE (statusf InvalidArgument (emsg err))
      | Inr (subsID, resourceGroup, snapshotName) \<Rightarrow>
          bindE (tryE (dv_GetSnapshotClientForSub env subsID)) (\<lambda>r. case r of
            Inl err \<Rightarrow> failE (statusf Internal (''could not get snapshot client for subscription('' @ subsID @ '') with error('' @ emsg err @ '')''))
          | Inr snapshotClient \<Rightarrow> bindE (tryE (dv_SnapshotDelete env snapshotClient resourceGroup snapshotName)) (\<lambda>r. case r of
              Inr _ \<Rightarrow> okE ()
            | Inl err \<Rightarrow> doE (sys_Sleep (dv_env env) (snapshotSleepMs err)) (\<lambda>_. failE (statusf Internal (''delete snapshot error: '' @ emsg err))))))"

definition ListSnapshots :: "'w driver_env \<Rightarrow> driver_config \<Rightarrow> ListSnapshotsRequest \<Rightarrow> ('w dst, ListSnapshotsResponse) io" where
  "ListSnapshots env cfg req =
     (if ls_SnapshotId req \<noteq> []
      then bindE (tryE (getSnapshotByID env [] (cfg_ResourceGroup (cfg_cloud cfg)) (ls_SnapshotId req) (ls_SourceVolumeId req))) (\<lambda>r. case r of
          Inl err \<Rightarrow> if Contains (emsg err) ResourceNotFound then okE \<lparr>lr_Entries = [], lr_NextToken = []\<rparr> else failE err
        | Inr snapshot \<Rightarrow> okE \<lparr>lr_Entries = [snapshot], lr_NextToken = []\<rparr>)
      else bindE (tryE (dv_SnapshotList env (cfg_ResourceGroup (cfg_cloud cfg)))) (\<lambda>r. case r of
          Inl err \<Rightarrow> failE (statusf Internal (''Unknown list snapshot error: '' @ emsg err))
        | Inr snapshots \<Rightarrow> liftE (GetEntriesAndNextToken (Some req) snapshots)))"

end
