(* ===== verification/DriverLocks.thy ===== *)
theory DriverLocks
  imports ControllerServer SnapshotServer
begin

text \<open>
  What the handlers of the controller service keep of the state. A preorder on states that the environment keeps, that
  the sections under a volume lock, a node's mutex and a disk's mark keep, and that does not see the caches is kept
  by every handler. One instance says that no handler leaves anything locked, another that the configuration is fixed.
\<close>

subsection \<open>The contract of the environment\<close>

definition calm_api :: "('w controllerCommon \<Rightarrow> 'w controllerCommon \<Rightarrow> bool) \<Rightarrow> 'w disk_api \<Rightarrow> bool" where
  "calm_api R api \<longleftrightarrow> (\<forall>k g n d. stays R (da_CreateOrUpdate api k g n d)) \<and> (\<forall>k g n. stays R (da_Delete api k g n))
     \<and> (\<forall>k g n u. stays R (da_Patch api k g n u))"

definition calm_clouds :: "('w dst \<Rightarrow> 'w dst \<Rightarrow> bool) \<Rightarrow> 'w driver_env \<Rightarrow> bool" where
  "calm_clouds R env \<longleftrightarrow> (\<forall>u c lc lenv lapi c'.
     run_state (dv_GetCloudProviderFromClient env u) c = (Inr (lc, lenv, lapi), c') \<longrightarrow> calm R lenv \<and> calm_api R lapi)"

definition calm_driver :: "('w dst \<Rightarrow> 'w dst \<Rightarrow> bool) \<Rightarrow> 'w driver_env \<Rightarrow> bool" where
  "calm_driver R env \<longleftrightarrow> calm R (dv_env env) \<and> calm_api R (dv_disk env)
     \<and> (\<forall>u. stays R (dv_GetCloudProviderFromClient env u))
     \<and> calm_clouds R env
     \<and> (\<forall>s. stays R (dv_GetSnapshotClientForSub env s)) \<and> (\<forall>k g n. stays R (dv_SnapshotGet env k g n))
     \<and> (\<forall>f k. dv_pvIndexer env = Some f \<longrightarrow> stays R (f k)) \<and> (\<forall>n. stays R (dv_PVGet env n))
     \<and> stays R (dv_PVList env) \<and> stays R (dv_VAList env) \<and> (\<forall>g. stays R (dv_ResourceGroupTags env g))
     \<and> stays R (dv_GetToken env) \<and> (\<forall>q. stays R (dv_HTTPDo env q)) \<and> (\<forall>p. stays R (dv_PVUpdate env p))
     \<and> (\<forall>k g n s. stays R (dv_SnapshotCreateOrUpdate env k g n s)) \<and> (\<forall>k g n. stays R (dv_SnapshotDelete env k g n))
     \<and> (\<forall>g. stays R (dv_SnapshotList env g)) \<and> (\<forall>k. stays R (dv_SnapshotTick env k))
     \<and> (\<forall>b u p f t s. stays R (dv_StartMigrationMonitoring env b u p f t s)) \<and> stays R (dv_diskAddress env)
     \<and> stays R (dv_NewUUID env) \<and> stays R (dv_lunCheckSlow env)"

text \<open>The sections of a volume: taken, worked on, released.\<close>

definition withLocks :: "(VolumeLocks \<Rightarrow> VolumeLocks) \<Rightarrow> 'w dst \<Rightarrow> 'w dst" where
  "withLocks f c = c\<lparr>cc_world := (cc_world c)\<lparr>dr_volumeLocks := f (dr_volumeLocks (cc_world c))\<rparr>\<rparr>"

lemma run_withVolumeLock:
  "run_state (withVolumeLock v m) c =
     (if v \<in> locks (dr_volumeLocks (cc_world c)) then (Inl (statusf Aborted (volumeOperationAlreadyExists v)), c)
      else case run_state m (withLocks (\<lambda>vl. snd (TryAcquire v vl)) c) of (r, c') \<Rightarrow> (r, withLocks (Release v) c'))"
  by (simp add: withVolumeLock_def TryAcquire_def releaseVolume_def withLocks_def Let_def split: prod.split)

locale driver_preorder = controller_preorder R
  for R :: "'w dst \<Rightarrow> 'w dst \<Rightarrow> bool" +
  assumes R_delay: "R c (c\<lparr>cc_AttachDetachInitialDelayInMs := n\<rparr>)"
    and R_throttling: "R c (c\<lparr>cc_world := (cc_world c)\<lparr>dr_throttlingCache := tc\<rparr>\<rparr>)"
    and R_lunThrottling: "R c (c\<lparr>cc_world := (cc_world c)\<lparr>dr_checkDiskLunThrottlingCache := tc\<rparr>\<rparr>)"
    and R_cluster: "R c (c\<lparr>cc_world := (cc_world c)\<lparr>dr_clusterResourceID := i\<rparr>\<rparr>)"
    and R_volume: "v \<notin> locks (dr_volumeLocks (cc_world c)) \<Longrightarrow> R (withLocks (\<lambda>vl. snd (TryAcquire v vl)) c) c' \<Longrightarrow>
      R c (withLocks (Release v) c')"
begin

lemma calm_env: "calm_driver R env \<Longrightarrow> calm R (dv_env env)"
  and calm_disk: "calm_driver R env \<Longrightarrow> calm_api R (dv_disk env)"
  by (simp_all add: calm_driver_def)

lemma api_stays:
  "calm_api R api \<Longrightarrow> stays R (da_CreateOrUpdate api k g n d)" "calm_api R api \<Longrightarrow> stays R (da_Delete api k g n)"
  "calm_api R api \<Longrightarrow> stays R (da_Patch api k g n u)"
  by (simp_all add: calm_api_def)

lemma driver_stays:
  assumes "calm_driver R env"
  shows "stays R (dv_GetCloudProviderFromClient env n)" "stays R (dv_GetSnapshotClientForSub env n)" "stays R (dv_SnapshotGet env k g n)"
    "stays R (dv_PVGet env n)" "stays R (dv_PVList env)" "stays R (dv_VAList env)" "stays R (dv_ResourceGroupTags env n)"
    "stays R (dv_GetToken env)" "stays R (dv_HTTPDo env q)" "stays R (dv_PVUpdate env p)"
    "stays R (dv_SnapshotCreateOrUpdate env k g n sn)" "stays R (dv_SnapshotDelete env k g n)" "stays R (dv_SnapshotList env n)"
    "stays R (dv_SnapshotTick env k)" "stays R (dv_StartMigrationMonitoring env b u n f t sz)" "stays R (dv_diskAddress env)"
    "stays R (dv_NewUUID env)" "stays R (dv_lunCheckSlow env)"
  using assms by (simp_all add: calm_driver_def)

lemma pvIndexer_stays: "calm_driver R env \<Longrightarrow> dv_pvIndexer env = Some f \<Longrightarrow> stays R (f k)"
  by (simp add: calm_driver_def)

lemma calm_local:
  "calm_driver R env \<Longrightarrow> run_state (dv_GetCloudProviderFromClient env u) c = (Inr (lc, lenv, lapi), c') \<Longrightarrow> calm R lenv \<and> calm_api R lapi"
proof -
  assume "calm_driver R env"
  then have "calm_clouds R env" by (simp add: calm_driver_def)
  then show "run_state (dv_GetCloudProviderFromClient env u) c = (Inr (lc, lenv, lapi), c') \<Longrightarrow> calm R lenv \<and> calm_api R lapi"
    unfolding calm_clouds_def by metis
qed

lemma stays_cases:
  "(\<And>e. stays R (f e)) \<Longrightarrow> (\<And>x. stays R (g x)) \<Longrightarrow> stays R (case r of Inl e \<Rightarrow> f e | Inr x \<Rightarrow> g x)"
  "stays R m \<Longrightarrow> (\<And>y. stays R (h y)) \<Longrightarrow> stays R (case opt of None \<Rightarrow> m | Some y \<Rightarrow> h y)"
  "(\<And>a b. stays R (k a b)) \<Longrightarrow> stays R (case pr of (a, b) \<Rightarrow> k a b)"
  by (auto split: sum.split option.split prod.split)

lemmas drv = basic api_stays driver_stays calm_env calm_disk R_delay R_throttling R_lunThrottling R_cluster R_refl

lemma stays_withVolumeLock: "stays R m \<Longrightarrow> stays R (withVolumeLock v m)"
  unfolding stays_def run_withVolumeLock by (auto simp: R_refl intro!: R_volume split: prod.split) (metis snd_conv)

subsection \<open>Disks\<close>

lemma stays_getDiskThrottled: "calm_driver R env \<Longrightarrow> stays R (getDiskThrottled env)"
  and stays_checkDiskLunThrottled: "calm_driver R env \<Longrightarrow> stays R (checkDiskLunThrottled env)"
  unfolding getDiskThrottled_def checkDiskLunThrottled_def Let_def by (auto intro!: drv split: prod.split)

lemma stays_GetDisk: "calm R env \<Longrightarrow> stays R (GetDisk env s g n)"
  unfolding GetDisk_def by (auto intro!: drv)

lemma stays_GetDiskByURI: "calm R env \<Longrightarrow> stays R (GetDiskByURI env u)"
  unfolding GetDiskByURI_def by (auto intro!: drv stays_GetDisk split: prod.split)

lemma stays_waitProvisioned: "calm R env \<Longrightarrow> stays R (waitProvisioned env k g n b st d i)"
  by (induction st arbitrary: d) (auto intro!: drv simp: Let_def split: sum.split)

lemma stays_CreateManagedDisk: "calm R env \<Longrightarrow> calm_api R api \<Longrightarrow> stays R (CreateManagedDisk env api cfg opts)"
  unfolding CreateManagedDisk_def by (auto intro!: drv stays_waitProvisioned split: prod.split)

lemma stays_DeleteManagedDisk: "calm R env \<Longrightarrow> calm_api R api \<Longrightarrow> stays R (DeleteManagedDisk env api u)"
  unfolding DeleteManagedDisk_def by (auto intro!: drv split: prod.split option.split sum.split)

lemma stays_ResizeDisk: "calm R env \<Longrightarrow> calm_api R api \<Longrightarrow> stays R (ResizeDisk env api u s b)"
  unfolding ResizeDisk_def Let_def by (auto intro!: drv split: prod.split option.split)

lemma stays_ModifyDisk: "calm R env \<Longrightarrow> calm_api R api \<Longrightarrow> stays R (ModifyDisk env api opts)"
  unfolding ModifyDisk_def by (auto intro!: drv split: prod.split option.split)

lemma stays_checkDiskExists: "calm_driver R env \<Longrightarrow> stays R (checkDiskExists env u)"
  unfolding checkDiskExists_def by (auto intro!: drv stays_getDiskThrottled stays_GetDiskByURI)

lemma stays_checkDiskCapacity: "calm_driver R env \<Longrightarrow> stays R (checkDiskCapacity env s g n z)"
  unfolding checkDiskCapacity_def by (auto intro!: drv stays_getDiskThrottled stays_GetDisk split: sum.split option.split)

lemma stays_GetSourceDiskSize: "calm R env \<Longrightarrow> stays R (GetSourceDiskSize env s g n d m)"
proof (induction env s g n d m rule: GetSourceDiskSize.induct)
  case (1 env s g n d m)
  show ?case
    by (subst GetSourceDiskSize.simps) (use 1 in \<open>auto intro!: drv stays_GetDisk split: option.split sum.split prod.split\<close>)
qed

subsection \<open>Persistent volumes and claims\<close>

lemma stays_refreshCandidate: "calm_driver R env \<Longrightarrow> stays R (refreshCandidate env cfg u objs)"
  by (induction objs) (auto intro!: drv split: option.split sum.split)

lemma stays_getPVFromDiskURI: "calm_driver R env \<Longrightarrow> stays R (getPVFromDiskURI env cfg u)"
  unfolding getPVFromDiskURI_def
  by (auto intro!: drv stays_refreshCandidate pvIndexer_stays split: option.split sum.split)

lemma stays_lookupPV: "calm_driver R env \<Longrightarrow> stays R (lookupPV env cfg u)"
  unfolding lookupPV_def by (auto intro!: drv stays_getPVFromDiskURI split: sum.split)

lemma stays_getAKSClusterResourceID: "calm_driver R env \<Longrightarrow> stays R (getAKSClusterResourceID env cfg)"
  unfolding getAKSClusterResourceID_def Let_def by (auto intro!: drv split: prod.split sum.split)

lemma stays_pollOnce: "calm_driver R env \<Longrightarrow> stays R (pollOnce env u)"
  unfolding pollOnce_def by (auto intro!: drv split: sum.split)

lemma stays_pollLoop: "calm_driver R env \<Longrightarrow> stays R (pollLoop env k u)"
  by (induction k) (auto intro!: drv stays_pollOnce split: option.split)

lemma stays_postOwner: "calm_driver R env \<Longrightarrow> stays R (postOwner env cfg op u ow)"
  unfolding postOwner_def by (auto intro!: drv split: sum.split)

lemma stays_claim:
  "calm_driver R env \<Longrightarrow> stays R (claimDiskResource env cfg u ow)" "calm_driver R env \<Longrightarrow> stays R (unclaimDiskResource env cfg u ow)"
  unfolding claimDiskResource_def unclaimDiskResource_def pollAsyncOperation_def
  by (auto intro!: drv stays_postOwner stays_pollLoop split: prod.split sum.split option.split)

lemma stays_annotateOnce: "calm_driver R env \<Longrightarrow> stays R (annotateOnce env n b ci cp)"
  unfolding annotateOnce_def Let_def by (auto intro!: drv split: sum.split option.split)

lemma stays_ensureQADPVAnnotations: "calm_driver R env \<Longrightarrow> stays R (ensureQADPVAnnotations env n b ci cp)"
proof -
  assume calm: "calm_driver R env"
  have "stays R (retryAnnotate env k n b ci cp e)" for k b ci e
    by (induction k arbitrary: b ci e) (auto intro!: drv calm stays_annotateOnce split: prod.split sum.split)
  then show ?thesis unfolding ensureQADPVAnnotations_def by (auto intro!: drv)
qed

subsection \<open>Handlers\<close>

lemma stays_getSnapshot: "calm_driver R env \<Longrightarrow> stays R (getSnapshot env u)"
  unfolding getSnapshot_def by (auto intro!: drv split: prod.split)

lemma stays_source:
  "calm_driver R env \<Longrightarrow> stays R (snapshotSource env cfg sk gb si z cx)" "calm_driver R env \<Longrightarrow> stays R (volumeSource env cfg lo gb si z cx)"
  unfolding snapshotSource_def volumeSource_def Let_def
  by (auto intro!: drv stays_getSnapshot stays_GetSourceDiskSize split: sum.split option.split prod.split)

lemma stays_claimNodeDriven: "calm_driver R env \<Longrightarrow> stays R (claimNodeDriven env cfg u s cx)"
  unfolding claimNodeDriven_def Let_def
  by (auto intro!: drv stays_getAKSClusterResourceID stays_claim split: sum.split prod.split)

lemma stays_startSKUMigrationMonitor: "calm_driver R env \<Longrightarrow> stays R (startSKUMigrationMonitor env cfg b f t u p s)"
  unfolding startSKUMigrationMonitor_def by (auto intro!: drv split: sum.split)

lemma stays_provision:
  assumes "calm_driver R env" "calm R lenv" "calm_api R lapi"
  shows "stays R (provision env cfg lc lenv lapi req am nz src g)"
  using assms unfolding provision_def Let_def
  by (auto intro!: drv stays_getDiskThrottled stays_CreateManagedDisk stays_claimNodeDriven stays_startSKUMigrationMonitor
      split: prod.split sum.split)

text \<open>A continuation that is only run on values the first call returns.\<close>

lemma stays_bindE_value:
  assumes "stays R m" "\<And>c x c'. run_state m c = (Inr x, c') \<Longrightarrow> stays R (f x)"
  shows "stays R (bindE m f)"
  unfolding stays_def
proof
  fix c
  obtain r c1 where m: "run_state m c = (r, c1)" by (cases "run_state m c")
  with assms(1) have "R c c1" unfolding stays_def by (metis snd_conv)
  moreover have "r = Inr x \<Longrightarrow> R c1 (snd (run_state (f x) c1))" for x using assms(2) m unfolding stays_def by blast
  ultimately show "R c (snd (run_state (bindE m f) c))" using m by (auto intro: R_trans split: sum.split)
qed

lemma stays_cloudFor: "calm_driver R env \<Longrightarrow> stays R (cloudFor env cfg ua)"
  unfolding cloudFor_def by (auto intro!: drv split: sum.split)

lemma cloudFor_calm:
  "calm_driver R env \<Longrightarrow> run_state (cloudFor env cfg ua) c = (Inr (lc, lenv, lapi), c') \<Longrightarrow> calm R lenv \<and> calm_api R lapi"
  using calm_local [of env] calm_env [of env] calm_disk [of env]
  by (auto simp: cloudFor_def split: if_splits prod.splits sum.splits)

lemma stays_createNormalized:
  assumes "calm_driver R env" "calm R lenv \<and> calm_api R lapi"
  shows "stays R (createNormalized env cfg lc lenv lapi req am g nz)"
  using assms unfolding createNormalized_def contentSource_def Let_def
  by (auto intro!: drv stays_checkDiskCapacity stays_source stays_provision split: option.split ContentSource.split)

lemma stays_CreateVolume: assumes "calm_driver R env" shows "stays R (CreateVolume env cfg req)"
proof -
  have rest: "stays R (bindE (cloudFor env cfg ua) (\<lambda>(lc, lenv, lapi). doE (dv_NewUUID env) (\<lambda>uuid.
      bindE (liftE (normalizeCreate cfg lc uuid req p)) (createNormalized env cfg lc lenv lapi req am g))))" for ua p am g
    by (rule stays_bindE_value [OF stays_cloudFor [OF assms]])
      (auto intro!: drv assms stays_createNormalized dest: cloudFor_calm [OF assms] split: prod.split)
  show ?thesis
    unfolding CreateVolume_def
    by (rule stays_bindE [OF stays_return(3) stays_cases(3) [OF stays_withVolumeLock [OF stays_bindE [OF stays_return(3) rest]]]])
qed

lemma stays_DeleteVolume: "calm_driver R env \<Longrightarrow> stays R (DeleteVolume env cfg u)"
  unfolding DeleteVolume_def unclaimBeforeDelete_def unclaimAfterFailure_def
  by (auto intro!: drv stays_withVolumeLock stays_lookupPV stays_getAKSClusterResourceID stays_claim stays_DeleteManagedDisk
      split: sum.split option.split)

lemma stays_refuseNodeDriven: "calm_driver R env \<Longrightarrow> stays R (refuseNodeDriven env cfg h u)"
  unfolding refuseNodeDriven_def by (auto intro!: drv stays_lookupPV)

lemma stays_ControllerModifyVolume: "calm_driver R env \<Longrightarrow> stays R (ControllerModifyVolume env cfg u ps)"
  unfolding ControllerModifyVolume_def Let_def
  by (auto intro!: drv stays_refuseNodeDriven stays_checkDiskExists stays_ModifyDisk stays_startSKUMigrationMonitor
      split: sum.split option.split prod.split)

lemma stays_getOccupiedLunsFromNode: "calm_driver R env \<Longrightarrow> stays R (getOccupiedLunsFromNode env cfg n)"
  unfolding getOccupiedLunsFromNode_def occupiedLuns_def getUsedLunsFromVolumeAttachments_def getUsedLunsFromNode_def
  by (auto intro!: drv stays_checkDiskLunThrottled stays_GetNodeDataDisks split: sum.split prod.split)

lemma stays_hasVolumeAttachment: "calm_driver R env \<Longrightarrow> stays R (hasVolumeAttachmentForDiskOnNode env cfg n u)"
proof -
  assume calm: "calm_driver R env"
  have "stays R (attachmentLoop env cfg n u vas)" for vas
    by (induction vas) (auto intro!: drv calm split: option.split)
  with calm show ?thesis unfolding hasVolumeAttachmentForDiskOnNode_def by (auto intro!: drv)
qed

lemma stays_resolveDangling: "calm_driver R env \<Longrightarrow> stays R (resolveDangling env cfg a u n k)"
  unfolding resolveDangling_def
  by (auto intro!: drv stays_hasVolumeAttachment stays_DetachDisk split: sum.split bool.split)

lemma stays_attachVolume: "calm_driver R env \<Longrightarrow> stays R (attachVolume env cfg a u n cx d)"
  unfolding attachVolume_def Let_def
  by (auto intro!: drv stays_getOccupiedLunsFromNode stays_AttachDisk stays_resolveDangling split: sum.split err_kind.split)

lemma stays_lunForPublish: "calm_driver R env \<Longrightarrow> stays R (lunForPublish env cfg a u n cx d)"
  unfolding lunForPublish_def
  by (auto intro!: drv stays_GetDiskLun stays_attachVolume stays_UpdateVM split: sum.split prod.split)

lemma stays_publishNodeDriven: "calm_driver R env \<Longrightarrow> stays R (publishNodeDriven env cfg u cx d)"
  unfolding publishNodeDriven_def
  by (intro drv stays_cases stays_getPVFromDiskURI stays_ensureQADPVAnnotations)

lemma stays_ControllerPublishVolume: "calm_driver R env \<Longrightarrow> stays R (ControllerPublishVolume env cfg req)"
  unfolding ControllerPublishVolume_def diskForPublish_def Let_def
  by (auto intro!: drv stays_checkDiskExists stays_publishNodeDriven stays_lunForPublish split: sum.split prod.split)

lemma stays_ControllerUnpublishVolume: "calm_driver R env \<Longrightarrow> stays R (ControllerUnpublishVolume env cfg u n)"
  unfolding ControllerUnpublishVolume_def
  by (auto intro!: drv stays_lookupPV stays_DetachDisk split: sum.split prod.split)

lemma stays_ValidateVolumeCapabilities: "calm_driver R env \<Longrightarrow> stays R (ValidateVolumeCapabilities env u caps ps)"
  unfolding ValidateVolumeCapabilities_def by (auto intro!: drv stays_checkDiskExists split: sum.split option.split)

lemma stays_ControllerExpandVolume: "calm_driver R env \<Longrightarrow> stays R (ControllerExpandVolume env cfg u s)"
  unfolding ControllerExpandVolume_def
  by (auto intro!: drv stays_refuseNodeDriven stays_GetDiskByURI stays_ResizeDisk split: sum.split option.split)

subsection \<open>Snapshots\<close>

lemma stays_getSnapshotByID: "calm_driver R env \<Longrightarrow> stays R (getSnapshotByID env s g n v)"
  unfolding getSnapshotByID_def by (auto intro!: drv split: sum.split prod.split)

lemma stays_completion: "calm_driver R env \<Longrightarrow> stays R (getSnapshotCompletionPercent env s g n)"
  unfolding getSnapshotCompletionPercent_def by (auto intro!: drv)

lemma stays_waitForSnapshotReady: "calm_driver R env \<Longrightarrow> stays R (waitForSnapshotReady env s g n)"
proof -
  assume calm: "calm_driver R env"
  have "stays R (snapshotWaitLoop env k s g n)" for k
    by (induction k) (auto intro!: drv calm stays_completion)
  with calm show ?thesis unfolding waitForSnapshotReady_def by (auto intro!: drv stays_completion)
qed

lemma stays_snapshotParams: "calm_driver R env \<Longrightarrow> stays R (snapshotParams env ps q)"
proof (induction ps arbitrary: q)
  case (Cons p ps)
  have "stays R (snapshotParam env k v q)" for k v
    unfolding snapshotParam_def Let_def by (intro stays_if stays_return stays_bindE stays_tryE stays_cases driver_stays Cons.prems)
  with Cons show ?case by (cases p) (auto intro!: drv)
qed (simp add: stays_return)

lemma stays_putSnapshot: "calm_driver R env \<Longrightarrow> stays R (putSnapshot env k g n sn)"
  unfolding putSnapshot_def by (auto intro!: drv split: sum.split)

lemma stays_waitIfAsked: "calm_driver R env \<Longrightarrow> stays R (waitIfAsked env cfg s g n)"
  unfolding waitIfAsked_def by (auto intro!: drv stays_waitForSnapshotReady split: sum.split)

lemma stays_takeSnapshot: "calm_driver R env \<Longrightarrow> stays R (takeSnapshot env cfg s g v n x l sn)"
  unfolding takeSnapshot_def crossRegion_def
  by (auto intro!: drv stays_getSnapshotByID stays_putSnapshot stays_waitIfAsked split: sum.split)

lemma stays_CreateSnapshot: "calm_driver R env \<Longrightarrow> stays R (CreateSnapshot env cfg req)"
  unfolding CreateSnapshot_def Let_def
  by (auto intro!: drv stays_snapshotParams stays_withVolumeLock stays_takeSnapshot split: sum.split prod.split)

lemma stays_DeleteSnapshot: "calm_driver R env \<Longrightarrow> stays R (DeleteSnapshot env cfg i)"
  unfolding DeleteSnapshot_def by (auto intro!: drv split: sum.split prod.split)

lemma stays_ListSnapshots: "calm_driver R env \<Longrightarrow> stays R (ListSnapshots env cfg r)"
  unfolding ListSnapshots_def by (auto intro!: drv stays_getSnapshotByID split: sum.split)

end

subsection \<open>Two preorders on the driver\<close>

definition noLeakDriver :: "'w dst \<Rightarrow> 'w dst \<Rightarrow> bool" where
  "noLeakDriver c c' \<longleftrightarrow> noLeak c c' \<and> locks (dr_volumeLocks (cc_world c')) \<subseteq> locks (dr_volumeLocks (cc_world c))"

interpretation dnl: driver_preorder noLeakDriver
  by unfold_locales (auto simp: noLeakDriver_def noLeak_def held_LockEntry held_unlocked withLocks_def Release_def TryAcquire_def)

interpretation dsc: driver_preorder sameConfig
  by unfold_locales (auto simp: sameConfig_def withLocks_def)

end
