(* ===== verification/ControllerProps.thy ===== *)
theory ControllerProps
  imports DriverLocks
begin

text \<open>
  Properties of the handlers of the controller service, by composition of what is known of attach, detach, the managed
  disk controller, the LUN tables and the volume locks.
\<close>

subsection \<open>Publishing\<close>

lemma post_modifyE: "(\<And>c. sameConfig c (u c)) \<Longrightarrow> post P m \<Longrightarrow> post P (modifyE u m)"
  unfolding post_def valid_def lunCheck_def sameConfig_def by simp

lemma post_tryE_value: "post P m \<Longrightarrow> post (\<lambda>r c. \<forall>x. r = Inr x \<longrightarrow> P x c) (tryE m)"
  by (rule postI) (auto dest: postD split: prod.splits sum.splits if_splits)

text \<open>A value that a call guarantees is returned, and otherwise the error is handled by a call that guarantees it too.\<close>

lemma post_attempt:
  assumes "stays sameConfig m" "post P m" "\<And>e. post P (h e)"
  shows "post P (bindE (tryE m) (\<lambda>r. case r of Inr x \<Rightarrow> okE x | Inl e \<Rightarrow> h e))"
proof (rule post_bindE_value [OF sc.stays_tryE [OF assms(1)] post_tryE_value [OF assms(2)]])
  fix c r x c'
  assume M: "\<forall>x. r = Inr x \<longrightarrow> P x c" and c: "lunCheck c"
    and run: "run_state (case r of Inl e \<Rightarrow> h e | Inr x \<Rightarrow> okE x) c = (Inr x, c')"
  show "P x c'"
  proof (cases r)
    case (Inl e)
    with run have "run_state (h e) c = (Inr x, c')" by simp
    then show ?thesis by (rule postD [OF assms(3) c])
  qed (use M run in auto)
qed

lemma post_attachVolume:
  assumes "truthful disksOf (dv_env env)" "calm_driver sameConfig env"
  shows "post (\<lambda>lun c. attachedAt disksOf diskName diskURI node lun (cc_world c))
    (attachVolume env cfg diskName diskURI node vctx disk)"
proof -
  note calm = dsc.calm_env [OF assms(2)]
  let ?P = "\<lambda>lun c. attachedAt disksOf diskName diskURI node lun (cc_world c)"
  let ?attach = "\<lambda>cm oc. AttachDisk (dv_env env) diskName diskURI node cm disk oc"
  have attach: "post ?P (?attach cm oc)" for cm oc by (rule post_AttachDisk [OF assms(1) calm])
  have again: "post ?P (bindE (resolveDangling env cfg diskName diskURI node k) (\<lambda>_. bindE (tryE (?attach cm oc))
      (\<lambda>r. case r of Inr lun \<Rightarrow> okE lun | Inl err \<Rightarrow> failE (attachFailed diskName node err))))" for k cm oc
    by (rule post_bindE [OF dsc.stays_resolveDangling [OF assms(2)] post_attempt [OF sc.stays_AttachDisk [OF calm] attach post_return(1)]])
  have handled: "post ?P (case ekind e of DanglingAttach k \<Rightarrow> bindE (resolveDangling env cfg diskName diskURI node k) (\<lambda>_. bindE (tryE (?attach cm oc))
        (\<lambda>r. case r of Inr lun \<Rightarrow> okE lun | Inl err \<Rightarrow> failE (attachFailed diskName node err)))
      | _ \<Rightarrow> failE (attachFailed diskName node e))" for e cm oc
    using again by (auto intro: post_return split: err_kind.split)
  show ?thesis
    unfolding attachVolume_def Let_def
    by (rule post_bindE [OF sc.stays_return(3) post_bindE [OF dsc.stays_getOccupiedLunsFromNode [OF assms(2)]
          post_modifyE [OF _ post_attempt [OF sc.stays_AttachDisk [OF calm] attach handled]]]]) (simp add: sameConfig_def)
qed

lemma post_lunForPublish:
  assumes "truthful disksOf (dv_env env)" "calm_driver sameConfig env"
    and quiet: "stays (\<lambda>c c'. disksOf (cc_world c') node = disksOf (cc_world c) node) (UpdateVM (dv_env env) node)"
  shows "post (\<lambda>lun c. attachedAt disksOf diskName diskURI node lun (cc_world c))
    (lunForPublish env cfg diskName diskURI node vctx disk)"
proof (rule postI)
  fix c lun c'
  assume c: "lunCheck c" and run: "run_state (lunForPublish env cfg diskName diskURI node vctx disk) c = (Inr lun, c')"
  obtain r st c1 where g: "run_state (GetDiskLun (dv_env env) diskName diskURI node) c = ((r, st), c1)"
    by (metis prod.exhaust)
  have c1: "lunCheck c1" by (rule stays_checking [OF sc.stays_GetDiskLun [OF dsc.calm_env [OF assms(2)]] c g])
  show "attachedAt disksOf diskName diskURI node lun (cc_world c')"
  proof (cases r)
    case (Inl e)
    with run g have "run_state (attachVolume env cfg diskName diskURI node vctx disk) c1 = (Inr lun, c')"
      by (auto simp: lunForPublish_def split: if_splits)
    then show ?thesis by (rule postD [OF post_attachVolume [OF assms(1,2)] c1])
  next
    case (Inr l)
    from GetDiskLun_truth [OF assms(1) g] Inr have at: "attachedAt disksOf diskName diskURI node l (cc_world c1)"
      unfolding attachedAt_def using findDiskLun_Inr by fastforce
    from run g Inr have "lun = l \<and> (c' = c1 \<or> c' = snd (run_state (UpdateVM (dv_env env) node) c1))"
      by (auto simp: lunForPublish_def split: if_splits prod.splits sum.splits)
    with at quiet show ?thesis unfolding attachedAt_def stays_def by metis
  qed
qed

lemma gget_putOpt_other: "k \<noteq> k' \<Longrightarrow> gget (putOpt k' v m) k = gget m k"
  by (auto simp: putOpt_def split: option.split)

lemma publishContext_LUN: "publishContext disk vctx lun = Inr ctx \<Longrightarrow> gget ctx LUN = Some (Itoa lun)"
  by (auto simp: publishContext_def Let_def InsertDiskProperties_def bindR_Inr_iff gget_putOpt_other const_defs
      split: if_splits option.splits sum.splits) (simp_all add: gget_def)

subsection \<open>A concrete driver\<close>

text \<open>One VM whose data disks are the innermost world; the cluster has no persistent volume and one volume attachment.\<close>

definition exampleDrvEnv :: "DataDisk list drv env" where
  "exampleDrvEnv = \<lparr>cloud_GetNodeVMSet = (\<lambda>_. okE 0), cloud_InstanceID = (\<lambda>_. okE ''vm''), cloud_VMSet = 0,
     vm_GetNodeNameByProviderID = (\<lambda>_ _. okE ''node''),
     vm_GetDataDisks = (\<lambda>_ _. State (\<lambda>c. let w = cc_world c; ds = filter completeDisk (dr_world w)
        in ((Inr ds, None), c\<lparr>cc_world := w\<lparr>dr_world := ds\<rparr>\<rparr>))),
     vm_AttachDisk = (\<lambda>_ _ b. modifyE (\<lambda>c. c\<lparr>cc_world := (cc_world c)\<lparr>dr_world := dr_world (cc_world c) @ map toDataDisk b\<rparr>\<rparr>) (okE ())),
     vm_DetachDisk = (\<lambda>_ _ _ b _. modifyE (\<lambda>c. c\<lparr>cc_world := (cc_world c)\<lparr>dr_world :=
        filter (\<lambda>d. dd_ManagedDiskID d \<notin> Some ` Some ` fst ` set b) (dr_world (cc_world c))\<rparr>\<rparr>) (okE ())),
     vm_UpdateVM = (\<lambda>_ _. okE ()), vm_DeleteCacheForNode = (\<lambda>_ _. State_Monad.return ()),
     cf_GetDiskClientForSub = (\<lambda>_. okE 0), dc_Get = (\<lambda>_ _ _. okE exampleDisk),
     lister_Get = (\<lambda>_. okE OtherObject), kube_GetNodeLabels = (\<lambda>_. okE [(InstanceTypeKey, ''Standard_D2s_v3'')]), kube_present = True,
     sys_Now = State_Monad.return 0, sys_Sleep = (\<lambda>_. State_Monad.return ()), sys_AwaitMutex = (\<lambda>_. State_Monad.return ()),
     sys_PollTick = State_Monad.return False, ctx_Remaining = (\<lambda>_. State_Monad.return None),
     ctx_Err = (\<lambda>_. State_Monad.return None), ctx_Wait = (\<lambda>_ _. State_Monad.return None),
     tbl_maxDataDiskCountMap = [(''STANDARD_D2S_V3'', 4)]\<rparr>"

definition exampleDrvApi :: "DataDisk list drv disk_api" where
  "exampleDrvApi = \<lparr>da_CreateOrUpdate = (\<lambda>_ _ _ d. okE (Some d)), da_Delete = (\<lambda>_ _ _. okE ()), da_Patch = (\<lambda>_ _ _ _. okE ())\<rparr>"

definition exampleAttachment :: VolumeAttachment where
  "exampleAttachment = \<lparr>va_Name = ''va'', va_Attacher = ''disk.csi.azure.com'', va_NodeName = ''n2'', va_PersistentVolumeName = Some ''pv'',
     va_InlineCSI = None, va_Attached = True, va_AttachmentMetadata = [(LUN, ''3'')]\<rparr>"

definition examplePV :: PersistentVolume where
  "examplePV = \<lparr>pv_Name = ''pv'', pv_CSI = Some \<lparr>csi_Driver = ''disk.csi.azure.com'', csi_VolumeHandle = exampleURI, csi_VolumeAttributes = []\<rparr>,
     pv_Annotations = []\<rparr>"

definition exampleDriver :: "DataDisk list driver_env" where
  "exampleDriver = \<lparr>dv_env = exampleDrvEnv, dv_disk = exampleDrvApi,
     dv_GetCloudProviderFromClient = (\<lambda>_. okE (exampleConfig, exampleDrvEnv, exampleDrvApi)),
     dv_GetSnapshotClientForSub = (\<lambda>_. okE 0), dv_SnapshotGet = (\<lambda>_ _ _. failE (errorf ''ResourceNotFound'')), dv_kubePresent = True,
     dv_pvIndexer = None, dv_PVGet = (\<lambda>_. okE examplePV), dv_PVList = okE [], dv_VAList = okE [exampleAttachment],
     dv_ResourceGroupTags = (\<lambda>_. okE []), dv_hasCredential = True, dv_GetToken = okE ''t'', dv_NewRequest = Inr,
     dv_HTTPDo = (\<lambda>_. okE \<lparr>hr_StatusCode = 200, hr_Location = [], hr_Body = Inr []\<rparr>), dv_UnmarshalClaim = (\<lambda>_. Inr (Some (''b'', ''c''))),
     dv_UnmarshalStatus = (\<lambda>_. Inr ''succeeded''), dv_pollTicks = 3, dv_PVUpdate = (\<lambda>_. okE ()),
     dv_SnapshotCreateOrUpdate = (\<lambda>_ _ _ _. okE ()), dv_SnapshotDelete = (\<lambda>_ _ _. okE ()), dv_SnapshotList = (\<lambda>_. okE []),
     dv_SnapshotTick = (\<lambda>_. State_Monad.return True), dv_StartMigrationMonitoring = (\<lambda>_ _ _ _ _ _. okE ()),
     dv_diskAddress = State_Monad.return 7, dv_NewUUID = State_Monad.return ''123e4567-e89b-12d3-a456-426614174000'',
     dv_lunCheckSlow = State_Monad.return False\<rparr>"

definition exampleDriverConfig :: driver_config where
  "exampleDriverConfig = \<lparr>cfg_csi = \<lparr>cd_Name = ''disk.csi.azure.com'', cd_NodeID = ''n'', cd_Version = ''v1'',
       cd_Cap = [RPC_CREATE_DELETE_VOLUME, RPC_PUBLISH_UNPUBLISH_VOLUME, RPC_EXPAND_VOLUME, RPC_MODIFY_VOLUME], cd_VC = []\<rparr>,
     cfg_cloud = exampleConfig, cfg_cwd = ''/'', cfg_topologyKey = ''topology.disk.csi.azure.com/zone'', cfg_perfOptimizationEnabled = False,
     cfg_enableDiskCapacityCheck = False, cfg_nodeDrivenAttachDetachEnabled = False, cfg_checkDiskLUNCollision = True,
     cfg_enableDiskOnlineResize = True, cfg_convertRWCachingModeForIntreePV = False, cfg_migrationMonitor = False,
     cfg_shouldWaitForSnapshotReady = False, cfg_ResourceManagerEndpoint = []\<rparr>"

definition exampleDst :: "DataDisk list \<Rightarrow> DataDisk list dst" where
  "exampleDst ds = \<lparr>cc_diskStateMap = [], cc_lockMap = newLockMap, cc_hasNodeLister = False, cc_attachDiskMap = [],
     cc_detachDiskMap = [], cc_DisableDiskLunCheck = False, cc_DetachOperationMinTimeoutInSeconds = 240,
     cc_AttachDetachInitialDelayInMs = 1000, cc_VMSSDetachTimeoutInSeconds = 200, cc_ForceDetachBackoff = True,
     cc_WaitForDetach = True, cc_CheckDiskCountForBatching = True, cc_WaitForDetachDiskComplete = True,
     cc_hitMaxDataDiskCountCache = \<lparr>tc_TTL = 300, tc_Store = []\<rparr>,
     cc_world = \<lparr>dr_volumeLocks = NewVolumeLocks, dr_throttlingCache = \<lparr>tc_TTL = 300, tc_Store = []\<rparr>,
       dr_checkDiskLunThrottlingCache = \<lparr>tc_TTL = 300, tc_Store = []\<rparr>, dr_clusterResourceID = [], dr_world = ds\<rparr>\<rparr>"

definition exampleDisksOf :: "DataDisk list drv \<Rightarrow> string \<Rightarrow> DataDisk list" where
  "exampleDisksOf w node = filter completeDisk (dr_world w)"

lemma exampleDrv_truthful: "truthful exampleDisksOf exampleDrvEnv"
  by (auto simp: truthful_def exampleDrvEnv_def exampleDisksOf_def Let_def)

lemma exampleDriver_calm: "calm_driver sameConfig exampleDriver" "calm_driver noLeakDriver exampleDriver"
  by (simp_all add: calm_driver_def calm_clouds_def calm_def calm_api_def exampleDriver_def exampleDrvEnv_def exampleDrvApi_def
      stays_def sameConfig_def noLeakDriver_def noLeak_def Let_def)

lemma exampleDriver_quiet:
  "stays (\<lambda>c c'. exampleDisksOf (cc_world c') n = exampleDisksOf (cc_world c) n) (UpdateVM (dv_env exampleDriver) n)"
  by (simp add: stays_def UpdateVM_def lockNode_def run_locking exampleDriver_def exampleDrvEnv_def split: prod.split)

definition examplePublish :: PublishRequest where
  "examplePublish = \<lparr>pr_VolumeId = exampleURI, pr_NodeId = ''n1'',
     pr_VolumeCapability = Some \<lparr>vc_Block = False, vc_Mount = True, vc_AccessMode = Some SINGLE_NODE_WRITER\<rparr>, pr_VolumeContext = []\<rparr>"

subsection \<open>Properties\<close>

text \<open>(C9) No path through a handler of the controller service, panics included, leaves a volume locked, a node's mutex held or a
  disk marked as attaching or detaching, provided the calls to the outside (other requests in the meantime included) leave
  none.\<close>

theorem handlers_leave_nothing_locked:
  assumes "calm_driver noLeakDriver env"
  shows "noLeakDriver c (snd (run_state (CreateVolume env cfg createReq) c))
    \<and> noLeakDriver c (snd (run_state (DeleteVolume env cfg volumeID) c))
    \<and> noLeakDriver c (snd (run_state (ControllerModifyVolume env cfg volumeID params) c))
    \<and> noLeakDriver c (snd (run_state (ControllerPublishVolume env cfg publishReq) c))
    \<and> noLeakDriver c (snd (run_state (ControllerUnpublishVolume env cfg volumeID nodeID) c))
    \<and> noLeakDriver c (snd (run_state (ControllerExpandVolume env cfg volumeID bytes) c))
    \<and> noLeakDriver c (snd (run_state (CreateSnapshot env cfg snapshotReq) c))
    \<and> noLeakDriver c (snd (run_state (DeleteSnapshot env cfg snapshotID) c))"
  using dnl.stays_CreateVolume [OF assms] dnl.stays_DeleteVolume [OF assms] dnl.stays_ControllerModifyVolume [OF assms]
    dnl.stays_ControllerPublishVolume [OF assms] dnl.stays_ControllerUnpublishVolume [OF assms]
    dnl.stays_ControllerExpandVolume [OF assms] dnl.stays_CreateSnapshot [OF assms] dnl.stays_DeleteSnapshot [OF assms]
  by (simp add: stays_def)

theorem handlers_leave_nothing_locked_witness:
  "noLeakDriver (exampleDst []) (snd (run_state (DeleteVolume exampleDriver exampleDriverConfig exampleURI) (exampleDst [])))"
  using handlers_leave_nothing_locked [OF exampleDriver_calm(2)] by blast

text \<open>(C6) A successful \<open>ControllerPublishVolume\<close> of a volume in controller-driven mode returns a publish context whose LUN is
  where the VM has the disk at that moment, not being detached: on every path, be the disk already there, attached by
  this call, or attached after a dangling attachment was removed. This rests on the LUN check being enabled, and on an
  update of the VM not moving its disks.\<close>

theorem ControllerPublishVolume_success:
  assumes "truthful disksOf (dv_env env)" "calm_driver sameConfig env" "\<not> cc_DisableDiskLunCheck c"
    and "stays (\<lambda>c c'. disksOf (cc_world c') (pr_NodeId req) = disksOf (cc_world c) (pr_NodeId req)) (UpdateVM (dv_env env) (pr_NodeId req))"
    and "getAttachMode (pr_VolumeContext req) \<noteq> Inr AttachModeNodeDriven"
    and "run_state (ControllerPublishVolume env cfg req) c = (Inr ctx, c')"
  shows "\<exists>sub rg diskName lun. GetInfoFromURI (pr_VolumeId req) = Inr (sub, rg, diskName) \<and> gget ctx LUN = Some (Itoa lun)
    \<and> attachedAt disksOf diskName (pr_VolumeId req) (pr_NodeId req) lun (cc_world c')"
proof -
  obtain disk c1 where d: "run_state (diskForPublish env (pr_VolumeId req)) c = (Inr disk, c1)"
    and rest: "run_state (if pr_NodeId req = [] then failE (statusf InvalidArgument ''Node ID not provided'')
     else case GetInfoFromURI (pr_VolumeId req) of
       Inl err \<Rightarrow> failE (statusf Internal (emsg err))
     | Inr (_, _, diskName) \<Rightarrow> (case getAttachMode (pr_VolumeContext req) of
         Inl err \<Rightarrow> failE (statusf InvalidArgument (''failed to determine attachment mode: '' @ emsg err))
       | Inr attachMode \<Rightarrow>
           if attachMode = AttachModeNodeDriven
           then bindE (publishNodeDriven env cfg (pr_VolumeId req) (pr_VolumeContext req) disk) (\<lambda>_. okE [])
           else doE (dv_diskAddress env) (\<lambda>addr.
             bindE (lunForPublish env cfg diskName (pr_VolumeId req) (pr_NodeId req) (pr_VolumeContext req) (map_option (Pair addr) disk)) (\<lambda>lun.
             liftE (publishContext disk (pr_VolumeContext req) lun))))) c1 = (Inr ctx, c')"
    using assms(6) by (auto simp: ControllerPublishVolume_def Let_def split: prod.splits sum.splits)
  have "stays sameConfig (diskForPublish env (pr_VolumeId req))"
    unfolding diskForPublish_def by (auto intro!: dsc.drv assms(2) dsc.stays_checkDiskExists split: sum.split)
  with d assms(3) have c1: "lunCheck c1" using stays_checking [OF _ _ d] by (simp add: lunCheck_def)
  from rest assms(5) obtain sub rg diskName addr c2 lun where info: "GetInfoFromURI (pr_VolumeId req) = Inr (sub, rg, diskName)"
    and a: "run_state (dv_diskAddress env) c1 = (addr, c2)"
    and l: "run_state (lunForPublish env cfg diskName (pr_VolumeId req) (pr_NodeId req) (pr_VolumeContext req) (map_option (Pair addr) disk)) c2 = (Inr lun, c')"
    and ctx: "publishContext disk (pr_VolumeContext req) lun = Inr ctx"
    by (auto split: if_splits prod.splits sum.splits)
  have "lunCheck c2" by (rule stays_checking [OF dsc.driver_stays(16) [OF assms(2)] c1 a])
  from postD [OF post_lunForPublish [OF assms(1,2,4)] this l] publishContext_LUN [OF ctx] info show ?thesis by blast
qed

theorem ControllerPublishVolume_success_witness:
  "\<exists>c' diskName lun. attachedAt exampleDisksOf diskName exampleURI ''n1'' lun (cc_world c')
     \<and> run_state (ControllerPublishVolume exampleDriver exampleDriverConfig examplePublish) (exampleDst []) = (Inr [(LUN, Itoa lun)], c')"
proof -
  have "fst (run_state (ControllerPublishVolume exampleDriver exampleDriverConfig examplePublish) (exampleDst [])) = Inr [(LUN, ''0'')]"
    by code_simp
  then obtain c' where r: "run_state (ControllerPublishVolume exampleDriver exampleDriverConfig examplePublish) (exampleDst []) = (Inr [(LUN, ''0'')], c')"
    by (metis prod.collapse)
  have l: "\<not> cc_DisableDiskLunCheck (exampleDst [])" by (simp add: exampleDst_def)
  have m: "getAttachMode (pr_VolumeContext examplePublish) \<noteq> Inr AttachModeNodeDriven" by code_simp
  have t: "truthful exampleDisksOf (dv_env exampleDriver)" using exampleDrv_truthful by (simp add: exampleDriver_def)
  from ControllerPublishVolume_success [OF t exampleDriver_calm(1) l exampleDriver_quiet m r] r show ?thesis
    by (fastforce simp: examplePublish_def gget_def)
qed

text \<open>(C7) What a successful \<open>ControllerUnpublishVolume\<close> means. Either node-driven attach and detach is enabled and the persistent volume that is found
  for the disk is a node-driven one: then nothing is detached here. Or the VM does not have the disk any more, or the detach failed with an error that says that
  something was not found, which the handler takes for success. The hypotheses are those of \<open>DetachDisk\<close>: the LUN check is enabled, and
  no call reports that the VM does not exist.\<close>

theorem ControllerUnpublishVolume_success:
  assumes "truthful disksOf (dv_env env)" "calm_driver sameConfig env" "\<not> cc_DisableDiskLunCheck c"
    and "\<not> Contains (toBeDetachedMsg diskURI node) CannotFindDiskLUN"
    and "\<And>c e c'. run_state (cloud_InstanceID (dv_env env) node) c = (Inl e, c') \<Longrightarrow> \<not> errorsIs e InstanceNotFound"
    and "\<And>v x b f c e c'. run_state (vm_DetachDisk (dv_env env) v x node b f) c = (Inl e, c') \<Longrightarrow> \<not> isInstanceNotFoundError e"
    and "run_state (ControllerUnpublishVolume env cfg diskURI node) c = (Inr (), c')"
  shows "(cfg_nodeDrivenAttachDetachEnabled cfg \<and> (\<exists>pv. run_state (lookupPV env cfg diskURI) c = (Inr (Some pv), c') \<and> hasQADInfo (Some pv)))
    \<or> (\<exists>sub rg diskName. GetInfoFromURI diskURI = Inr (sub, rg, diskName) \<and>
      (absentFrom disksOf diskName diskURI node (cc_world c')
       \<or> (\<exists>c1 e. (\<not> cfg_nodeDrivenAttachDetachEnabled cfg \<longrightarrow> c1 = c)
            \<and> run_state (DetachDisk (dv_env env) diskName diskURI node) c1 = (Inl e, c') \<and> Contains (emsg e) ErrDiskNotFound)))"
proof -
  let ?mode = "if cfg_nodeDrivenAttachDetachEnabled cfg then bindE (lookupPV env cfg diskURI) (\<lambda>pv. okE (hasQADInfo pv)) else okE False"
  have names: "diskURI \<noteq> []" "node \<noteq> []" using assms(7) by (auto simp: ControllerUnpublishVolume_def split: if_splits)
  obtain m c1 where mode: "run_state ?mode c = (m, c1)" by fastforce
  with assms(7) names obtain nodeDriven where nd: "m = Inr nodeDriven" by (cases m) (auto simp: ControllerUnpublishVolume_def)
  have off: "\<not> cfg_nodeDrivenAttachDetachEnabled cfg \<longrightarrow> c1 = c" using mode by auto
  have "stays sameConfig ?mode" by (intro sc.stays_if sc.stays_bindE sc.stays_return dsc.stays_lookupPV [OF assms(2)])
  then have c1: "lunCheck c1" using mode assms(3) unfolding lunCheck_def [symmetric] by (blast intro: stays_checking)
  show ?thesis
  proof (cases nodeDriven)
    case True
    with assms(7) names mode nd have "c' = c1" by (simp add: ControllerUnpublishVolume_def)
    with True mode nd show ?thesis by (auto simp: hasQADInfo_def split: if_splits prod.splits sum.splits option.splits)
  next
    case False
    obtain sub rg diskName where info: "GetInfoFromURI diskURI = Inr (sub, rg, diskName)"
      using assms(7) names mode nd False by (auto simp: ControllerUnpublishVolume_def split: sum.splits)
    obtain r where d: "run_state (DetachDisk (dv_env env) diskName diskURI node) c1 = (r, c')"
      and e: "\<And>e. r = Inl e \<Longrightarrow> Contains (emsg e) ErrDiskNotFound"
      using assms(7) names mode nd False info by (auto simp: ControllerUnpublishVolume_def split: if_splits sum.splits prod.splits)
    show ?thesis
    proof (cases r)
      case (Inr u)
      with d have "run_state (DetachDisk (dv_env env) diskName diskURI node) c1 = (Inr u, c')" by simp
      moreover have "post (\<lambda>_ c. absentFrom disksOf diskName diskURI node (cc_world c)) (DetachDisk (dv_env env) diskName diskURI node)"
        by (rule post_DetachDisk [OF assms(1) dsc.calm_env [OF assms(2)] assms(4)]) (fact assms(5), fact assms(6))
      ultimately show ?thesis using c1 info by (blast dest: postD)
    qed (use d e info off in blast)
  qed
qed

theorem ControllerUnpublishVolume_success_witness:
  "\<exists>c' diskName. run_state (ControllerUnpublishVolume exampleDriver exampleDriverConfig exampleURI ''n1'') (exampleDst [exampleDataDisk 0]) = (Inr (), c')
     \<and> absentFrom exampleDisksOf diskName exampleURI ''n1'' (cc_world c')"
proof -
  let ?run = "run_state (ControllerUnpublishVolume exampleDriver exampleDriverConfig exampleURI ''n1'') (exampleDst [exampleDataDisk 0])"
  have "fst ?run = Inr ()" by code_simp
  then obtain c' where r: "?run = (Inr (), c')" by (metis prod.collapse)
  have l: "\<not> cc_DisableDiskLunCheck (exampleDst [exampleDataDisk 0])" "\<not> cfg_nodeDrivenAttachDetachEnabled exampleDriverConfig"
    by (simp_all add: exampleDst_def exampleDriverConfig_def)
  have m: "\<not> Contains (toBeDetachedMsg exampleURI ''n1'') CannotFindDiskLUN" by code_simp
  have t: "truthful exampleDisksOf (dv_env exampleDriver)" using exampleDrv_truthful by (simp add: exampleDriver_def)
  have n: "(case GetInfoFromURI exampleURI of Inr (_, _, n) \<Rightarrow> n = ''d'' | Inl _ \<Rightarrow> False)
     \<and> (case run_state (DetachDisk (dv_env exampleDriver) ''d'' exampleURI ''n1'') (exampleDst [exampleDataDisk 0]) of (Inl _, _) \<Rightarrow> False | (Inr _, _) \<Rightarrow> True)"
    by code_simp
  from ControllerUnpublishVolume_success [OF t exampleDriver_calm(1) l(1) m _ _ r] l(2) r n show ?thesis
    by (auto simp: exampleDriver_def exampleDrvEnv_def split: sum.splits)
qed

text \<open>(C19) A disk is never taken from a node that still has a volume attachment for it: when an attach reports that the disk hangs
  on another node and a volume attachment of this driver names that node and the disk, the handler refuses with
  \<open>FailedPrecondition\<close> and nothing is detached.\<close>

theorem dangling_detach_refused:
  assumes "kube_present (dv_env env)" "\<And>c. run_state (dv_VAList env) c = (Inr vas, c)"
    and "\<And>n c. run_state (dv_PVGet env n) c = (Inr (pvOf n), c)"
    and "\<not> EqualFold nodeName currentNode"
    and "\<exists>va \<in> set vas. va_Attacher va = cd_Name (cfg_csi cfg) \<and> va_NodeName va = currentNode
      \<and> ((\<exists>n. va_PersistentVolumeName va = Some n \<and> ownVolume cfg diskURI (pvOf n))
         \<or> inlineVolumeSpecMatchesDisk (cd_Name (cfg_csi cfg)) diskURI va)"
  shows "\<exists>m. run_state (resolveDangling env cfg diskName diskURI nodeName currentNode) c = (Inl (statusf FailedPrecondition m), c)"
proof -
  have "run_state (attachmentLoop env cfg currentNode diskURI vas) c = (Inr True, c)" for c
    using assms(5) by (induction vas) (auto simp: assms(3) split: option.split)
  then show ?thesis using assms(1,2,4) by (simp add: resolveDangling_def hasVolumeAttachmentForDiskOnNode_def)
qed

theorem dangling_detach_refused_witness:
  "\<exists>m. run_state (resolveDangling exampleDriver exampleDriverConfig ''d'' exampleURI ''n1'' ''n2'') (exampleDst []) = (Inl (statusf FailedPrecondition m), exampleDst [])"
proof (rule dangling_detach_refused [where vas = "[exampleAttachment]" and pvOf = "\<lambda>_. examplePV"])
  show "\<not> EqualFold ''n1'' ''n2''" by code_simp
  have "ownVolume exampleDriverConfig exampleURI examplePV" by code_simp
  then show "\<exists>va \<in> set [exampleAttachment]. va_Attacher va = cd_Name (cfg_csi exampleDriverConfig) \<and> va_NodeName va = ''n2''
      \<and> ((\<exists>n. va_PersistentVolumeName va = Some n \<and> ownVolume exampleDriverConfig exampleURI examplePV)
         \<or> inlineVolumeSpecMatchesDisk (cd_Name (cfg_csi exampleDriverConfig)) exampleURI va)"
    by (simp add: exampleAttachment_def exampleDriverConfig_def)
qed (simp_all add: exampleDriver_def exampleDrvEnv_def)

text \<open>The search for the origin of a copied disk ends: whatever chain of copies Azure reports, cyclic ones included, it reads
  at most \<open>maxDepth - curDepth + 1\<close> disks.\<close>

theorem GetSourceDiskSize_reads:
  assumes "\<And>s g n c. reads (snd (run_state (GetDisk env s g n) c)) \<le> reads c + 1"
  shows "reads (snd (run_state (GetSourceDiskSize env subsID rg name curDepth maxDepth) c)) \<le> reads c + nat (maxDepth + 1 - curDepth)"
  using assms
proof (induction env subsID rg name curDepth maxDepth arbitrary: c rule: GetSourceDiskSize.induct)
  case (1 env subsID rg name curDepth maxDepth)
  show ?case
  proof (cases "curDepth > maxDepth")
    case False
    obtain r c1 where g: "run_state (GetDisk env subsID rg name) c = (r, c1)" by (cases "run_state (GetDisk env subsID rg name) c")
    have c1: "reads c1 \<le> reads c + 1" using "1.prems" [of subsID rg name c] g by simp
    have deeper: "reads (snd (run_state (GetSourceDiskSize env s' g' n' (curDepth + 1) maxDepth) c1)) \<le> reads c1 + nat (maxDepth - curDepth)"
      if "r = Inr d" "d_Properties d = Some p" "Option.bind (p_CreationData p) cd_CreateOption = Some ''Copy''"
        "Option.bind (p_CreationData p) cd_SourceResourceID = Some u" "GetInfoFromURI u = Inr (s', g', n')" for d p u s' g' n'
      using "1.IH" [OF False that(2-5) refl refl] "1.prems" by simp
    from c1 g False deeper show ?thesis
      by (subst GetSourceDiskSize.simps) (fastforce split: sum.split option.split prod.split)
  qed (simp add: GetSourceDiskSize.simps)
qed

text \<open>A disk that is reported to be a copy of itself.\<close>

definition cyclicDisk :: Disk where
  "cyclicDisk = emptyDisk\<lparr>d_Properties := Some (emptyDiskProperties\<lparr>p_CreationData :=
     Some (emptyCreationData\<lparr>cd_CreateOption := Some ''Copy'', cd_SourceResourceID := Some exampleURI\<rparr>)\<rparr>)\<rparr>"

definition countingEnv :: "nat env" where
  "countingEnv = \<lparr>cloud_GetNodeVMSet = (\<lambda>_. okE 0), cloud_InstanceID = (\<lambda>_. okE ''vm''), cloud_VMSet = 0,
     vm_GetNodeNameByProviderID = (\<lambda>_ _. okE ''node''), vm_GetDataDisks = (\<lambda>_ _. State_Monad.return (Inr [], None)),
     vm_AttachDisk = (\<lambda>_ _ b. okE ()), vm_DetachDisk = (\<lambda>_ _ _ b _. okE ()),
     vm_UpdateVM = (\<lambda>_ _. okE ()), vm_DeleteCacheForNode = (\<lambda>_ _. State_Monad.return ()), cf_GetDiskClientForSub = (\<lambda>_. okE 0),
     dc_Get = (\<lambda>_ _ _. modifyE (\<lambda>c. c\<lparr>cc_world := cc_world c + 1\<rparr>) (okE cyclicDisk)),
     lister_Get = (\<lambda>_. okE OtherObject), kube_GetNodeLabels = (\<lambda>_. okE []), kube_present = True,
     sys_Now = State_Monad.return 0, sys_Sleep = (\<lambda>_. State_Monad.return ()), sys_AwaitMutex = (\<lambda>_. State_Monad.return ()),
     sys_PollTick = State_Monad.return False, ctx_Remaining = (\<lambda>_. State_Monad.return None),
     ctx_Err = (\<lambda>_. State_Monad.return None), ctx_Wait = (\<lambda>_ _. State_Monad.return None), tbl_maxDataDiskCountMap = []\<rparr>"

theorem GetSourceDiskSize_reads_witness:
  "\<forall>c. cc_world (snd (run_state (GetSourceDiskSize countingEnv ''s'' ''g'' ''d'' 0 SourceDiskSearchMaxDepth) c)) \<le> cc_world c + 11"
proof
  fix c :: "nat controllerCommon"
  have "cc_world (snd (run_state (GetSourceDiskSize countingEnv ''s'' ''g'' ''d'' 0 SourceDiskSearchMaxDepth) c))
      \<le> cc_world c + nat (SourceDiskSearchMaxDepth + 1 - 0)"
    by (rule GetSourceDiskSize_reads) (simp add: GetDisk_def countingEnv_def)
  then show "cc_world (snd (run_state (GetSourceDiskSize countingEnv ''s'' ''g'' ''d'' 0 SourceDiskSearchMaxDepth) c)) \<le> cc_world c + 11"
    by (simp add: const_defs)
qed

text \<open>Error messages for kube-events never exceed 990 characters; a short one is unchanged, a long one keeps its first
  197 characters and its last 788, where Azure puts the details.\<close>

theorem truncateErrMsg_bounds:
  "length (truncateErrMsg m) \<le> 990
   \<and> (if length m \<le> 990 then truncateErrMsg m = m
      else prefix (take 197 m) (truncateErrMsg m) \<and> suffix (drop (length m - 788) m) (truncateErrMsg m) \<and> length (truncateErrMsg m) = 990)"
  by (auto simp: truncateErrMsg_def maxErrMsgLength_def Let_def suffix_def)

text \<open>The size of a new disk: at least what is asked for, at least 1 GiB, at least 513 GiB with performance plus, less than one
  GiB above the larger of these, and within the limit when the limit is rounded up to whole GiB.\<close>

theorem requestSize_bounds:
  assumes "requestSize pp required limit = Inr g" "0 \<le> required" "required < 2 ^ 63" "0 \<le> limit" "limit < 2 ^ 63"
  shows "required \<le> g * GiB \<and> 1 \<le> g \<and> (pp = Some True \<longrightarrow> 513 \<le> g)
    \<and> g * GiB < max required (if pp = Some True then 513 * GiB else 1) + GiB
    \<and> (0 < limit \<longrightarrow> g * GiB < limit + GiB)"
proof -
  have b: "required \<le> RoundUpGiB required * GiB" "RoundUpGiB required * GiB < required + GiB" "0 \<le> RoundUpGiB required"
    and l: "limit \<le> RoundUpGiB limit * GiB" "RoundUpGiB limit * GiB < limit + GiB" "0 \<le> RoundUpGiB limit"
    using RoundUpGiB_bounds assms(2-5) by blast+
  have G: "0 < GiB" by simp
  define g0 where "g0 = RoundUpGiB required"
  have g: "g = (let g1 = (if pp = Some True \<and> g0 < 513 then 513 else g0) in if g1 < 1 then 1 else g1)"
    and lim: "RoundUpGiB limit \<le> 0 \<or> g \<le> RoundUpGiB limit"
    using assms(1) by (auto simp: requestSize_def g0_def Let_def const_defs split: if_splits)
  have "0 < limit \<Longrightarrow> 0 < RoundUpGiB limit" using l(1) G by (metis less_le_trans mult_eq_0_iff not_less order.order_iff_strict l(3))
  then have "0 < limit \<Longrightarrow> g * GiB < limit + GiB" using lim l(2) G by (smt (verit) mult_right_mono)
  moreover have "required \<le> g * GiB \<and> 1 \<le> g \<and> (pp = Some True \<longrightarrow> 513 \<le> g)
     \<and> g * GiB < max required (if pp = Some True then 513 * GiB else 1) + GiB"
    using b G unfolding g g0_def [symmetric] Let_def by (auto simp: GiB_def)
  ultimately show ?thesis by blast
qed

theorem requestSize_bounds_witness:
  "requestSize (Some True) (10 * GiB) (600 * GiB) = Inr 513 \<and> 513 * GiB < 600 * GiB + GiB"
proof -
  have "requestSize (Some True) (10 * GiB) (600 * GiB) = Inr 513" by code_simp
  from this requestSize_bounds [OF this] show ?thesis by (simp add: GiB_def)
qed

text \<open>The limit of a request is compared after it was rounded up too, so that a volume can exceed it: a request for 1.25 GiB
  limited to 1.5 GiB gets 2 GiB.\<close>

theorem requestSize_exceeds_limit:
  "requestSize None (5 * (GiB div 4)) (3 * (GiB div 2)) = Inr 2 \<and> 3 * (GiB div 2) < 2 * GiB"
  by code_simp

end
