(* ===== verification/ProvisioningProps.thy ===== *)
theory ProvisioningProps
  imports ControllerProps
begin

text \<open>
  Properties of volume and snapshot creation: what a successful \<open>CreateVolume\<close> returns, the annotations of a node-driven
  volume, and the snapshots that are requested from Azure.
\<close>

lemma claimNodeDriven_ok:
  assumes "run_state (claimNodeDriven env cfg uri gib ctx) c = (Inr ctx', c')"
  shows "gget ctx' RequestedSizeGib = gget ctx RequestedSizeGib"
    "\<exists>b i. gget ctx' BlobURLAnnotation = Some b \<and> b \<noteq> [] \<and> gget ctx' ClaimIdentifierAnnotation = Some i \<and> i \<noteq> []"
  using assms by (auto simp: claimNodeDriven_def Let_def const_defs split: sum.splits prod.splits if_splits)

lemma provision_ok:
  assumes "run_state (provision env cfg lc lenv lapi req am nz src g) c = (Inr vol, c')"
  shows "(v_CapacityBytes vol = GiBToBytes g \<or> v_CapacityBytes vol = 0 \<and> \<not> si_supplySize src \<and> si_sourceType src = SourceSnapshot)
    \<and> gget (v_VolumeContext vol) RequestedSizeGib = Some (Itoa g) \<and> v_ContentSource vol = cr_VolumeContentSource req
    \<and> (am = AttachModeNodeDriven \<longrightarrow> (\<exists>b i. gget (v_VolumeContext vol) BlobURLAnnotation = Some b \<and> b \<noteq> []
         \<and> gget (v_VolumeContext vol) ClaimIdentifierAnnotation = Some i \<and> i \<noteq> []))"
proof -
  define sizeGB where "sizeGB = (if \<not> si_supplySize src \<and> si_sourceType src = SourceSnapshot then 0 else g)"
  let ?ctx = "gset RequestedSizeGib (Itoa g) (si_context src)"
  obtain uri c1 c2 ctx' where
    claim: "run_state (if am = AttachModeNodeDriven then claimNodeDriven env cfg uri g ?ctx else okE ?ctx) c1 = (Inr ctx', c2)"
    and vol: "v_CapacityBytes vol = GiBToBytes sizeGB" "v_VolumeContext vol = ctx'" "v_ContentSource vol = cr_VolumeContentSource req"
    using assms by (auto simp: provision_def Let_def sizeGB_def split: sum.splits prod.splits)
  have cap: "v_CapacityBytes vol = GiBToBytes g \<or> v_CapacityBytes vol = 0 \<and> \<not> si_supplySize src \<and> si_sourceType src = SourceSnapshot"
    using vol(1) by (auto simp: sizeGB_def GiBToBytes_def int64_def)
  show ?thesis
  proof (cases "am = AttachModeNodeDriven")
    case True
    with claim have "run_state (claimNodeDriven env cfg uri g ?ctx) c1 = (Inr ctx', c2)" by simp
    from claimNodeDriven_ok [OF this] cap vol show ?thesis by simp
  next
    case False
    with claim vol(2) have "v_VolumeContext vol = ?ctx" by simp
    with cap vol(3) False show ?thesis by simp
  qed
qed

lemma source_ok:
  "run_state (volumeSource env cfg loc g s z ctx) c = (Inr src, c') \<Longrightarrow> si_supplySize src"
  by (auto simp: volumeSource_def noSource_def Let_def split: sum.splits prod.splits option.splits list.splits if_splits)

lemma createNormalized_ok:
  assumes "run_state (createNormalized env cfg lc lenv lapi req am g nz) c = (Inr vol, c')"
  shows "(v_CapacityBytes vol = GiBToBytes g \<or> v_CapacityBytes vol = 0 \<and> (\<exists>s. cr_VolumeContentSource req = Some (FromSnapshot s)))
    \<and> gget (v_VolumeContext vol) RequestedSizeGib = Some (Itoa g) \<and> v_ContentSource vol = cr_VolumeContentSource req
    \<and> (am = AttachModeNodeDriven \<longrightarrow> (\<exists>b i. gget (v_VolumeContext vol) BlobURLAnnotation = Some b \<and> b \<noteq> []
         \<and> gget (v_VolumeContext vol) ClaimIdentifierAnnotation = Some i \<and> i \<noteq> []))"
proof -
  obtain src c1 c2 where src: "run_state (contentSource env cfg req g (accelerated nz)) c1 = (Inr src, c2)"
    and p: "run_state (provision env cfg lc lenv lapi req am (accelerated nz) src g) c2 = (Inr vol, c')"
    using assms by (auto simp: createNormalized_def Let_def split: sum.splits prod.splits)
  have "\<not> si_supplySize src \<Longrightarrow> \<exists>s. cr_VolumeContentSource req = Some (FromSnapshot s)"
    using src by (auto simp: contentSource_def Let_def noSource_def dest: source_ok split: option.splits ContentSource.splits)
  with provision_ok [OF p] show ?thesis by blast
qed

text \<open>(C15) A successful \<open>CreateVolume\<close>: the request was valid, no other operation worked on a volume of that name, and the volume that
  is returned has the requested size, rounded up, in its context and as its capacity, unless it comes from a snapshot whose own
  size Azure is to use (the capacity is 0 then, which CSI reads as unknown). It names the content source of the request,
  and a node-driven volume carries a claim.\<close>

theorem CreateVolume_success:
  assumes "run_state (CreateVolume env cfg req) c = (Inr vol, c')"
  shows "\<exists>params am g. validateCreate cfg req = Inr (params, am) \<and> cr_Name req \<notin> locks (dr_volumeLocks (cc_world c))
    \<and> requestSize (dp_PerformancePlus params) (cr_RequiredBytes req) (cr_LimitBytes req) = Inr g
    \<and> (v_CapacityBytes vol = GiBToBytes g \<or> v_CapacityBytes vol = 0 \<and> (\<exists>s. cr_VolumeContentSource req = Some (FromSnapshot s)))
    \<and> gget (v_VolumeContext vol) RequestedSizeGib = Some (Itoa g) \<and> v_ContentSource vol = cr_VolumeContentSource req
    \<and> (am = AttachModeNodeDriven \<longrightarrow> (\<exists>b i. gget (v_VolumeContext vol) BlobURLAnnotation = Some b \<and> b \<noteq> []
         \<and> gget (v_VolumeContext vol) ClaimIdentifierAnnotation = Some i \<and> i \<noteq> []))"
proof -
  obtain params am where v: "validateCreate cfg req = Inr (params, am)"
    using assms by (auto simp: CreateVolume_def split: sum.splits prod.splits)
  obtain g where lock: "cr_Name req \<notin> locks (dr_volumeLocks (cc_world c))"
    and g: "requestSize (dp_PerformancePlus params) (cr_RequiredBytes req) (cr_LimitBytes req) = Inr g"
    using assms v by (auto simp: CreateVolume_def run_withVolumeLock split: if_splits sum.splits prod.splits)
  obtain lc lenv lapi nz c1 c2 where "run_state (createNormalized env cfg lc lenv lapi req am g nz) c1 = (Inr vol, c2)"
    using assms v lock g by (auto simp: CreateVolume_def run_withVolumeLock split: if_splits sum.splits prod.splits)
  from createNormalized_ok [OF this] v lock g show ?thesis by blast
qed

definition exampleCreate :: CreateVolumeRequest where
  "exampleCreate = \<lparr>cr_Name = ''pvc-1'', cr_Parameters = [(''skuName'', ''Premium_LRS'')], cr_MutableParameters = [],
     cr_VolumeCapabilities = [\<lparr>vc_Block = False, vc_Mount = True, vc_AccessMode = Some SINGLE_NODE_WRITER\<rparr>],
     cr_RequiredBytes = 3 * GiB - 1, cr_LimitBytes = 0, cr_AccessibilityRequirements = None, cr_VolumeContentSource = None\<rparr>"

theorem CreateVolume_success_witness:
  "\<exists>vol c'. run_state (CreateVolume exampleDriver exampleDriverConfig exampleCreate) (exampleDst []) = (Inr vol, c')
     \<and> v_CapacityBytes vol = 3 * GiB \<and> (\<exists>g. gget (v_VolumeContext vol) RequestedSizeGib = Some (Itoa g))"
proof -
  let ?run = "run_state (CreateVolume exampleDriver exampleDriverConfig exampleCreate) (exampleDst [])"
  have "case fst ?run of Inr vol \<Rightarrow> v_CapacityBytes vol = 3 * GiB | Inl _ \<Rightarrow> False" by code_simp
  then obtain vol c' where r: "?run = (Inr vol, c')" "v_CapacityBytes vol = 3 * GiB"
    by (cases ?run) (auto split: sum.splits)
  from CreateVolume_success [OF r(1)] r show ?thesis by blast
qed

lemma annotations_differ:
  "BlobURLAnnotation \<noteq> ClaimIdentifierAnnotation" "BlobURLAnnotation \<noteq> QADCachePolicyAnnotation" "BlobURLAnnotation \<noteq> AttachSequenceAnnotation"
  "ClaimIdentifierAnnotation \<noteq> BlobURLAnnotation" "ClaimIdentifierAnnotation \<noteq> QADCachePolicyAnnotation" "ClaimIdentifierAnnotation \<noteq> AttachSequenceAnnotation"
  "QADCachePolicyAnnotation \<noteq> BlobURLAnnotation" "QADCachePolicyAnnotation \<noteq> ClaimIdentifierAnnotation" "QADCachePolicyAnnotation \<noteq> AttachSequenceAnnotation"
  "AttachSequenceAnnotation \<noteq> BlobURLAnnotation" "AttachSequenceAnnotation \<noteq> ClaimIdentifierAnnotation" "AttachSequenceAnnotation \<noteq> QADCachePolicyAnnotation"
  by code_simp+

text \<open>Whatever the volume has, the annotations that are written for a node-driven disk are complete, all other annotations are
  kept, and an attach sequence that is there is never changed: only a volume without one starts at 0.\<close>

theorem qadAnnotations_complete:
  assumes "qadAnnotations pvName blobURL claimIdentifier cachePolicy ann = Inr r"
  shows "let final = (case r of None \<Rightarrow> ann | Some ann' \<Rightarrow> ann') in
    blobURL \<noteq> [] \<and> claimIdentifier \<noteq> []
    \<and> gget final BlobURLAnnotation = Some blobURL \<and> gget final ClaimIdentifierAnnotation = Some claimIdentifier
    \<and> gstr final QADCachePolicyAnnotation = cachePolicy
    \<and> gget final AttachSequenceAnnotation = Some (case gget ann AttachSequenceAnnotation of None \<Rightarrow> ''0'' | Some q \<Rightarrow> q)
    \<and> (\<forall>k. k \<notin> {BlobURLAnnotation, ClaimIdentifierAnnotation, QADCachePolicyAnnotation, AttachSequenceAnnotation} \<longrightarrow> gget final k = gget ann k)"
  using assms
  by (auto simp: qadAnnotations_def Let_def gstr_def annotations_differ split: if_splits option.splits)

theorem qadAnnotations_complete_witness:
  "\<exists>r. qadAnnotations ''pv'' ''b'' ''c'' ''None'' [(AttachSequenceAnnotation, ''7'')] = Inr (Some r) \<and> gget r AttachSequenceAnnotation = Some ''7''"
proof -
  have "case qadAnnotations ''pv'' ''b'' ''c'' ''None'' [(AttachSequenceAnnotation, ''7'')] of Inr (Some _) \<Rightarrow> True | _ \<Rightarrow> False" by code_simp
  then obtain r where r: "qadAnnotations ''pv'' ''b'' ''c'' ''None'' [(AttachSequenceAnnotation, ''7'')] = Inr (Some r)"
    by (auto split: sum.splits option.splits)
  from qadAnnotations_complete [OF r] r show ?thesis by (simp add: gget_def)
qed

end
