(* ===== verification/Migration.thy ===== *)
theory Migration
  imports ManagedDisk ListVolumes
begin

text \<open>
  The monitor of SKU migrations (\<open>migration_monitor.go\<close>): its table of timeouts, its tasks, the condition that is polled for
  each task, the end of a poll with its extension, \<open>Stop\<close>, and the recovery from labels.

  Every task has a goroutine of its own, which polls the condition every minute. \<open>wake\<close> is what a goroutine does when it is
  scheduled: \<open>loopConditionUntilContext\<close> (vendored \<open>wait/loop.go\<close>) once around. A task is threaded through by value, since only its
  own goroutine and \<open>Stop\<close> write it. The Kubernetes client, the event recorder and the clock are a \<open>mig_env\<close>, and the
  disk is read with the modelled \<open>GetDiskByURI\<close>. The text of an event is its format with its arguments. Only the
  set-up of the driver makes a monitor, and only with a client, so a nil client is seen by \<open>emitMigrationEvent\<close> alone.
\<close>

subsection \<open>Timeouts\<close>

definition hour :: int where
  "hour = 3600 * second"

definition TiB :: int where
  "TiB = 1024 * GiB"

definition migrationTimeoutBelowSixteenTB :: int where
  "migrationTimeoutBelowSixteenTB = 25 * hour"

definition migrationCheckInterval :: int where
  "migrationCheckInterval = 60 * second"

text \<open>The package variables that the environment can override.\<close>

record mig_globals =
  mg_migrationTimeouts :: "(int, int) gomap"
  mg_sortedMigrationSlabArray :: "int list"
  mg_maxMigrationTimeout :: int

definition defaultGlobals :: mig_globals where
  "defaultGlobals = \<lparr>mg_migrationTimeouts = [(2 * TiB, 13 * hour), (4 * TiB, 17 * hour), (16 * TiB, migrationTimeoutBelowSixteenTB), (64 * TiB, 66 * hour)],
     mg_sortedMigrationSlabArray = [2 * TiB, 4 * TiB, 16 * TiB, 64 * TiB], mg_maxMigrationTimeout = 72 * hour\<rparr>"

fun slabTimeout :: "(int, int) gomap \<Rightarrow> int \<Rightarrow> int list \<Rightarrow> int option" where
  "slabTimeout timeouts volumeSize [] = None"
| "slabTimeout timeouts volumeSize (slab # slabs) =
     (if volumeSize < slab \<or> slabs = [] \<and> volumeSize = slab then gget timeouts slab
      else slabTimeout timeouts volumeSize slabs)"

definition getMigrationTimeout :: "mig_globals \<Rightarrow> int \<Rightarrow> int" where
  "getMigrationTimeout g volumeSize =
     (case slabTimeout (mg_migrationTimeouts g) volumeSize (mg_sortedMigrationSlabArray g) of
       Some timeout \<Rightarrow> timeout | None \<Rightarrow> migrationTimeoutBelowSixteenTB)"

text \<open>
  \<open>MIGRATION_TIMEOUTS\<close> and \<open>MAX_MIGRATION_TIMEOUT\<close> override the table. \<open>parseQuantity\<close> (Kubernetes) and \<open>parseDuration\<close> give
  \<open>None\<close> for an error.
\<close>

fun overrideTimeouts :: "(string \<Rightarrow> int option) \<Rightarrow> (string \<Rightarrow> int option) \<Rightarrow> string list \<Rightarrow> mig_globals \<Rightarrow> mig_globals" where
  "overrideTimeouts parseQuantity parseDuration [] g = g"
| "overrideTimeouts parseQuantity parseDuration (pair # pairs) g =
     overrideTimeouts parseQuantity parseDuration pairs (case Split pair ''='' of
         [sizeStr, timeoutStr] \<Rightarrow> (case parseQuantity sizeStr of
             None \<Rightarrow> g
           | Some size_ \<Rightarrow> (case parseDuration timeoutStr of
               None \<Rightarrow> g
             | Some timeout \<Rightarrow> g\<lparr>mg_migrationTimeouts := gset size_ timeout (mg_migrationTimeouts g),
                 mg_sortedMigrationSlabArray := mg_sortedMigrationSlabArray g @ [size_]\<rparr>))
       | _ \<Rightarrow> g)"

definition initializeTimeouts :: "(string \<Rightarrow> int option) \<Rightarrow> (string \<Rightarrow> int option) \<Rightarrow> (string \<Rightarrow> string) \<Rightarrow> mig_globals \<Rightarrow> mig_globals" where
  "initializeTimeouts parseQuantity parseDuration getenv g =
     (let timeoutsEnv = getenv ''MIGRATION_TIMEOUTS'';
          g1 = (if timeoutsEnv = [] then g
            else let g' = overrideTimeouts parseQuantity parseDuration (Split timeoutsEnv '','') g
              in g'\<lparr>mg_sortedMigrationSlabArray := sort (mg_sortedMigrationSlabArray g')\<rparr>);
          maxEnv = getenv ''MAX_MIGRATION_TIMEOUT''
      in if maxEnv = [] then g1
         else (case parseDuration maxEnv of None \<Rightarrow> g1 | Some duration \<Rightarrow> g1\<lparr>mg_maxMigrationTimeout := duration\<rparr>))"

subsection \<open>Tasks\<close>

text \<open>A context with a deadline: the error, once there, stays.\<close>

datatype context_error = Canceled | DeadlinePassed

record Context =
  cx_Deadline :: int
  cx_Err :: "context_error option"

definition contextWithTimeout :: "int \<Rightarrow> int \<Rightarrow> Context" where
  "contextWithTimeout now timeout = \<lparr>cx_Deadline = now + timeout, cx_Err = (if timeout \<le> 0 then Some DeadlinePassed else None)\<rparr>"

definition cancelContext :: "Context \<Rightarrow> Context" where
  "cancelContext x = (if cx_Err x = None then x\<lparr>cx_Err := Some Canceled\<rparr> else x)"

record MigrationTask =
  mt_DiskURI :: string
  mt_PVName :: string
  mt_PVCName :: string
  mt_PVCNamespace :: string
  mt_FromSKU :: string
  mt_ToSKU :: string
  mt_StartTime :: int
  mt_LastReportedProgress :: rat
  mt_Context :: Context
  mt_VolumeSize :: int
  mt_MigrationTimeout :: int
  mt_Timedout :: bool
  mt_Cancelled :: bool
  mt_PVLabeled :: bool

text \<open>A persistent volume with what the monitor reads besides: labels (nil is empty), the claim reference and the capacity.\<close>

record MigrationPV = PersistentVolume +
  pv_Labels :: smap
  pv_ClaimRef :: "(string \<times> string) option"
  pv_StorageBytes :: int

datatype event_message =
    StartedMsg string string string int
  | ProgressMsg rat string int
  | CompletedMsg string string string int
  | TakingTooLongMsg int string
  | StoppingMsg string int

record mig_event =
  ev_Object :: "string \<times> string"
  ev_Warning :: bool
  ev_Reason :: string
  ev_Message :: event_message

record 'w mig_env =
  me_env :: "'w env"
  me_recorderAndClient :: bool
  me_Now :: "'w controllerCommon \<Rightarrow> int"
  me_PVGet :: "Context \<Rightarrow> string \<Rightarrow> ('w controllerCommon, MigrationPV) io"
  me_PVUpdate :: "Context \<Rightarrow> MigrationPV \<Rightarrow> ('w controllerCommon, unit) io"
  me_PVCGet :: "Context \<Rightarrow> string \<Rightarrow> string \<Rightarrow> ('w controllerCommon, string \<times> string) io"
  me_PVList :: "string \<Rightarrow> ('w controllerCommon, MigrationPV list) io"
  me_Event :: "mig_event \<Rightarrow> ('w controllerCommon, unit) state"

definition LabelMigrationInProgress :: string where
  "LabelMigrationInProgress = ''disk.csi.azure.com/migration-in-progress''"

definition ReasonSKUMigrationStarted :: string where
  "ReasonSKUMigrationStarted = ''SKUMigrationStarted''"

definition ReasonSKUMigrationProgress :: string where
  "ReasonSKUMigrationProgress = ''SKUMigrationProgress''"

definition ReasonSKUMigrationCompleted :: string where
  "ReasonSKUMigrationCompleted = ''SKUMigrationCompleted''"

definition ReasonSKUMigrationTimeout :: string where
  "ReasonSKUMigrationTimeout = ''SKUMigrationTimeout''"

definition timeNow :: "'w mig_env \<Rightarrow> (int \<Rightarrow> ('w controllerCommon, 'a) io) \<Rightarrow> ('w controllerCommon, 'a) io" where
  "timeNow env f = getE (\<lambda>w. f (me_Now env w))"

subsection \<open>Events and labels\<close>

definition emitMigrationEvent :: "'w mig_env \<Rightarrow> MigrationTask \<Rightarrow> bool \<Rightarrow> string \<Rightarrow> event_message \<Rightarrow> ('w controllerCommon, unit) io" where
  "emitMigrationEvent env task warning reason message =
     (if \<not> me_recorderAndClient env then failE (errorf ''event recorder or kube client not available'')
      else bindE (tryE (me_PVCGet env (mt_Context task) (mt_PVCNamespace task) (mt_PVCName task))) (\<lambda>r. case r of
          Inl err \<Rightarrow> if ekind err = APINotFound then failE err else okE ()
        | Inr pvc \<Rightarrow> doE (me_Event env \<lparr>ev_Object = pvc, ev_Warning = warning, ev_Reason = reason, ev_Message = message\<rparr>) (\<lambda>_. okE ())))"

text \<open>\<open>_ = m.emitMigrationEvent(...)\<close>.\<close>

definition emitIgnored :: "'w mig_env \<Rightarrow> MigrationTask \<Rightarrow> bool \<Rightarrow> string \<Rightarrow> event_message \<Rightarrow> ('w controllerCommon, 'a) io \<Rightarrow> ('w controllerCommon, 'a) io" where
  "emitIgnored env task warning reason message m = bindE (tryE (emitMigrationEvent env task warning reason message)) (\<lambda>_. m)"

definition addMigrationLabelIfNotExists :: "'w mig_env \<Rightarrow> Context \<Rightarrow> string \<Rightarrow> ('w controllerCommon, bool) io" where
  "addMigrationLabelIfNotExists env x pvName = bindE (me_PVGet env x pvName) (\<lambda>pv.
     if gget (pv_Labels pv) LabelMigrationInProgress = Some ''true'' then okE True
     else bindE (me_PVUpdate env x (pv\<lparr>pv_Labels := gset LabelMigrationInProgress ''true'' (pv_Labels pv)\<rparr>)) (\<lambda>_. okE False))"

definition removeMigrationLabel :: "'w mig_env \<Rightarrow> Context \<Rightarrow> string \<Rightarrow> ('w controllerCommon, unit) io" where
  "removeMigrationLabel env x pvName = bindE (me_PVGet env x pvName) (\<lambda>pv.
     me_PVUpdate env x (pv\<lparr>pv_Labels := gdel LabelMigrationInProgress (pv_Labels pv)\<rparr>))"

subsection \<open>Progress\<close>

definition progressReportingThreshold :: int where
  "progressReportingThreshold = 20"

text \<open>Go's conversion of a float to an integer truncates. A \<open>float32\<close> is its value.\<close>

definition truncRat :: "rat \<Rightarrow> int" where
  "truncRat q = (if 0 \<le> q then \<lfloor>q\<rfloor> else \<lceil>q\<rceil>)"

definition milestone :: "rat \<Rightarrow> int" where
  "milestone q = truncRat (q / of_int progressReportingThreshold) * progressReportingThreshold"

definition shouldReportProgress :: "rat \<Rightarrow> rat \<Rightarrow> bool" where
  "shouldReportProgress current reported \<longleftrightarrow> current < 100 \<and> milestone current > milestone reported \<and> milestone current > 0"

text \<open>A disk without a completion percentage has no copy in the background: it counts as complete.\<close>

definition completionPercent :: "Disk \<Rightarrow> rat" where
  "completionPercent disk = (case d_Properties disk of None \<Rightarrow> 0
     | Some p \<Rightarrow> (case p_CompletionPercent p of Some q \<Rightarrow> q | None \<Rightarrow> 100))"

definition checkMigrationProgress :: "'w mig_env \<Rightarrow> MigrationTask \<Rightarrow> ('w controllerCommon, bool \<times> MigrationTask) io" where
  "checkMigrationProgress env task = bindE (tryE (GetDiskByURI (me_env env) (mt_DiskURI task))) (\<lambda>r. case r of
       Inl err \<Rightarrow> failE (errorf (''failed to get disk '' @ mt_DiskURI task @ '': '' @ emsg err))
     | Inr disk \<Rightarrow>
         let percent = completionPercent disk
         in if shouldReportProgress percent (mt_LastReportedProgress task)
            then timeNow env (\<lambda>now. emitIgnored env task False ReasonSKUMigrationProgress (ProgressMsg percent (mt_PVName task) (now - mt_StartTime task))
              (okE (percent \<ge> 100, task\<lparr>mt_LastReportedProgress := percent\<rparr>)))
            else okE (percent \<ge> 100, task))"

subsection \<open>Polling\<close>

text \<open>What the condition returns: \<open>(false, nil)\<close>, \<open>(true, nil)\<close> or \<open>(true, err)\<close>.\<close>

datatype poll_result = KeepPolling | StopPolling | StopWithError goerror

definition labelPV :: "'w mig_env \<Rightarrow> MigrationTask \<Rightarrow> ('w controllerCommon, MigrationTask) io" where
  "labelPV env task =
     (if mt_PVLabeled task then okE task
      else bindE (tryE (addMigrationLabelIfNotExists env (mt_Context task) (mt_PVName task))) (\<lambda>r. case r of
          Inl _ \<Rightarrow> okE task
        | Inr _ \<Rightarrow> okE (task\<lparr>mt_PVLabeled := True\<rparr>)))"

definition startedMsg :: "MigrationTask \<Rightarrow> event_message" where
  "startedMsg task = StartedMsg (mt_FromSKU task) (mt_ToSKU task) (mt_PVName task) (mt_MigrationTimeout task)"

definition findPVC :: "'w mig_env \<Rightarrow> MigrationTask \<Rightarrow> ('w controllerCommon, MigrationTask) io" where
  "findPVC env task =
     (if mt_PVLabeled task \<and> (mt_PVCName task = [] \<or> mt_PVCNamespace task = [])
      then bindE (tryE (me_PVGet env (mt_Context task) (mt_PVName task))) (\<lambda>r. case r of
          Inl _ \<Rightarrow> okE task
        | Inr pv \<Rightarrow> (case pv_ClaimRef pv of
            None \<Rightarrow> okE task
          | Some (ns, name) \<Rightarrow>
              let task' = task\<lparr>mt_PVCName := name, mt_PVCNamespace := ns\<rparr>
              in emitIgnored env task' False ReasonSKUMigrationStarted (startedMsg task') (okE task')))
      else okE task)"

definition finishIfCompleted :: "'w mig_env \<Rightarrow> MigrationTask \<Rightarrow> ('w controllerCommon, poll_result \<times> MigrationTask) io" where
  "finishIfCompleted env task0 = bindE (tryE (checkMigrationProgress env task0)) (\<lambda>r. case r of
       Inl _ \<Rightarrow> okE (KeepPolling, task0)
     | Inr (completed, task) \<Rightarrow>
         if \<not> completed then okE (KeepPolling, task)
         else timeNow env (\<lambda>now. emitIgnored env task False ReasonSKUMigrationCompleted
           (CompletedMsg (mt_FromSKU task) (mt_ToSKU task) (mt_PVName task) (now - mt_StartTime task))
           (bindE (tryE (removeMigrationLabel env (mt_Context task) (mt_PVName task))) (\<lambda>_. okE (StopPolling, task)))))"

definition pollCondition :: "'w mig_env \<Rightarrow> mig_globals \<Rightarrow> MigrationTask \<Rightarrow> ('w controllerCommon, poll_result \<times> MigrationTask) io" where
  "pollCondition env g task =
     (if mt_Cancelled task then okE (StopPolling, task)
      else timeNow env (\<lambda>now.
        if now - mt_StartTime task \<ge> mg_maxMigrationTimeout g
        then emitIgnored env task True ReasonSKUMigrationTimeout (StoppingMsg (mt_DiskURI task) (mg_maxMigrationTimeout g))
          (okE (StopWithError (errorf ''maximum migration timeout exceeded''), task))
        else bindE (labelPV env task) (\<lambda>task. bindE (findPVC env task) (finishIfCompleted env))))"

datatype poll_error = ContextError context_error | ConditionError goerror

text \<open>
  After the first poll has ended with an error: \<open>Some\<close> task that is polled on, until the maximum and five intervals more,
  or \<open>None\<close> when monitoring ends.
\<close>

definition extendPolling :: "'w mig_env \<Rightarrow> mig_globals \<Rightarrow> poll_error \<Rightarrow> MigrationTask \<Rightarrow> ('w controllerCommon, MigrationTask option) io" where
  "extendPolling env g pollErr task =
     (if (pollErr = ContextError DeadlinePassed \<or> cx_Err (mt_Context task) = Some DeadlinePassed) \<and> \<not> mt_Timedout task
      then emitIgnored env task True ReasonSKUMigrationTimeout (TakingTooLongMsg (mt_MigrationTimeout task) (mt_PVName task))
        (timeNow env (\<lambda>now.
          let remaining = int64 (int64 (mg_maxMigrationTimeout g - (now - mt_StartTime task)) + migrationCheckInterval * 5)
          in if remaining > migrationCheckInterval * 5
             then okE (Some (task\<lparr>mt_Timedout := True, mt_Context := contextWithTimeout now remaining\<rparr>))
             else okE None))
      else okE None)"

subsection \<open>The monitor\<close>

text \<open>
  Where the goroutine of a task is: in the first or in the extended poll, before its immediate run of the condition or in the
  loop. The fields of the monitor are those of \<open>MigrationProgressMonitor\<close>, the goroutines, and the state of the disk controller.
\<close>

datatype goroutine = FirstPoll bool | ExtendedPoll bool

fun immediate :: "goroutine \<Rightarrow> bool" where
  "immediate (FirstPoll b) = b"
| "immediate (ExtendedPoll b) = b"

fun inLoop :: "goroutine \<Rightarrow> goroutine" where
  "inLoop (FirstPoll _) = FirstPoll False"
| "inLoop (ExtendedPoll _) = ExtendedPoll False"

record 'w MigrationProgressMonitor =
  mm_activeTasks :: "(string, MigrationTask) gomap"
  mm_goroutines :: "(string, goroutine) gomap"
  mm_controller :: "'w controllerCommon"

definition onController :: "('w controllerCommon, 'a) state \<Rightarrow> ('w MigrationProgressMonitor, 'a) state" where
  "onController m = State (\<lambda>s. case run_state m (mm_controller s) of (r, w) \<Rightarrow> (r, s\<lparr>mm_controller := w\<rparr>))"

definition putTask :: "string \<Rightarrow> MigrationTask \<Rightarrow> goroutine \<Rightarrow> 'w MigrationProgressMonitor \<Rightarrow> 'w MigrationProgressMonitor" where
  "putTask diskURI task pc s = s\<lparr>mm_activeTasks := gset diskURI task (mm_activeTasks s), mm_goroutines := gset diskURI pc (mm_goroutines s)\<rparr>"

definition removeTask :: "string \<Rightarrow> 'w MigrationProgressMonitor \<Rightarrow> 'w MigrationProgressMonitor" where
  "removeTask diskURI s = s\<lparr>mm_activeTasks := gdel diskURI (mm_activeTasks s), mm_goroutines := gdel diskURI (mm_goroutines s)\<rparr>"

definition NewMigrationProgressMonitor :: "'w controllerCommon \<Rightarrow> 'w MigrationProgressMonitor" where
  "NewMigrationProgressMonitor c = \<lparr>mm_activeTasks = [], mm_goroutines = [], mm_controller = c\<rparr>"

definition IsMigrationActive :: "'w MigrationProgressMonitor \<Rightarrow> string \<Rightarrow> bool" where
  "IsMigrationActive s diskURI \<longleftrightarrow> gget (mm_activeTasks s) diskURI \<noteq> None"

text \<open>The claim of the volume: \<open>None\<close> when monitoring is to be skipped.\<close>

definition claimOf :: "'w mig_env \<Rightarrow> Context \<Rightarrow> bool \<Rightarrow> string \<Rightarrow> ('w controllerCommon, (string \<times> string) option) io" where
  "claimOf env x isProvisioningFlow pvName =
     (if \<not> isProvisioningFlow \<and> pvName \<noteq> []
      then bindE (tryE (me_PVGet env x pvName)) (\<lambda>r. case r of
          Inl err \<Rightarrow> failE (errorf (''failed to get PV '' @ pvName @ '': '' @ emsg err))
        | Inr pv \<Rightarrow> okE (pv_ClaimRef pv))
      else okE (Some ([], [])))"

text \<open>The task is in the map before its label is written, its goroutine starts afterwards. \<open>x\<close> is the context of the caller.\<close>

definition newTask :: "mig_globals \<Rightarrow> int \<Rightarrow> string \<Rightarrow> string \<Rightarrow> string \<times> string \<Rightarrow> string \<Rightarrow> string \<Rightarrow> int \<Rightarrow> MigrationTask" where
  "newTask g now diskURI pvName claim fromSKU toSKU volumeSize =
     \<lparr>mt_DiskURI = diskURI, mt_PVName = pvName, mt_PVCName = snd claim, mt_PVCNamespace = fst claim, mt_FromSKU = fromSKU,
      mt_ToSKU = toSKU, mt_StartTime = now, mt_LastReportedProgress = 0,
      mt_Context = contextWithTimeout now (getMigrationTimeout g volumeSize), mt_VolumeSize = volumeSize,
      mt_MigrationTimeout = getMigrationTimeout g volumeSize, mt_Timedout = False, mt_Cancelled = False, mt_PVLabeled = False\<rparr>"

definition StartMigrationMonitoring :: "'w mig_env \<Rightarrow> mig_globals \<Rightarrow> Context \<Rightarrow> bool \<Rightarrow> string \<Rightarrow> string \<Rightarrow> string \<Rightarrow> string \<Rightarrow> int
    \<Rightarrow> ('w MigrationProgressMonitor, unit) io" where
  "StartMigrationMonitoring env g x isProvisioningFlow diskURI pvName fromSKU toSKU volumeSize = getE (\<lambda>s.
     if IsMigrationActive s diskURI then okE ()
     else bindE (onController (claimOf env x isProvisioningFlow pvName)) (\<lambda>ref. case ref of
         None \<Rightarrow> okE ()
       | Some claim \<Rightarrow> getE (\<lambda>s.
           let task = newTask g (me_Now env (mm_controller s)) diskURI pvName claim fromSKU toSKU volumeSize
           in modifyE (\<lambda>s. s\<lparr>mm_activeTasks := gset diskURI task (mm_activeTasks s)\<rparr>)
             (bindE (onController (tryE (addMigrationLabelIfNotExists env x pvName))) (\<lambda>r.
               let task' = (case r of Inl _ \<Rightarrow> task | Inr _ \<Rightarrow> task\<lparr>mt_PVLabeled := True\<rparr>)
               in modifyE (putTask diskURI task' (FirstPoll True))
                 (if \<not> isProvisioningFlow \<and> r \<noteq> Inr True
                  then onController (emitIgnored env task' False ReasonSKUMigrationStarted (startedMsg task') (okE ()))
                  else okE ()))))))"

definition endPoll :: "'w mig_env \<Rightarrow> mig_globals \<Rightarrow> string \<Rightarrow> goroutine \<Rightarrow> MigrationTask \<Rightarrow> poll_error option \<Rightarrow> ('w MigrationProgressMonitor, unit) io" where
  "endPoll env g diskURI pc task pollErr = (case (pc, pollErr) of
       (FirstPoll _, Some err) \<Rightarrow> bindE (onController (extendPolling env g err task)) (\<lambda>r. case r of
           Some task' \<Rightarrow> modifyE (putTask diskURI task' (ExtendedPoll True)) (okE ())
         | None \<Rightarrow> modifyE (removeTask diskURI) (okE ()))
     | _ \<Rightarrow> modifyE (removeTask diskURI) (okE ()))"

text \<open>\<open>monitorMigrationProgress\<close>, once around: a done context ends the poll, except before the immediate run of the condition.\<close>

definition wake :: "'w mig_env \<Rightarrow> mig_globals \<Rightarrow> string \<Rightarrow> ('w MigrationProgressMonitor, unit) io" where
  "wake env g diskURI = getE (\<lambda>s. case (gget (mm_activeTasks s) diskURI, gget (mm_goroutines s) diskURI) of
       (Some task, Some pc) \<Rightarrow>
         if \<not> immediate pc \<and> cx_Err (mt_Context task) \<noteq> None
         then endPoll env g diskURI pc task (map_option ContextError (cx_Err (mt_Context task)))
         else bindE (onController (pollCondition env g task)) (\<lambda>(result, task'). case result of
             KeepPolling \<Rightarrow> modifyE (putTask diskURI task' (inLoop pc)) (okE ())
           | StopPolling \<Rightarrow> endPoll env g diskURI pc task' None
           | StopWithError err \<Rightarrow> endPoll env g diskURI pc task' (Some (ConditionError err)))
     | _ \<Rightarrow> okE ())"

text \<open>The timer of a context.\<close>

definition expire :: "'w mig_env \<Rightarrow> string \<Rightarrow> 'w MigrationProgressMonitor \<Rightarrow> 'w MigrationProgressMonitor" where
  "expire env diskURI s = (case gget (mm_activeTasks s) diskURI of
       None \<Rightarrow> s
     | Some task \<Rightarrow>
         let x = mt_Context task
         in if cx_Err x = None \<and> cx_Deadline x \<le> me_Now env (mm_controller s)
            then s\<lparr>mm_activeTasks := gset diskURI (task\<lparr>mt_Context := x\<lparr>cx_Err := Some DeadlinePassed\<rparr>\<rparr>) (mm_activeTasks s)\<rparr>
            else s)"

text \<open>\<open>Stop\<close> cancels every task; it then only waits, for two minutes at most, until the goroutines have removed them.\<close>

definition cancelTask :: "MigrationTask \<Rightarrow> MigrationTask" where
  "cancelTask task = (if mt_Cancelled task then task else task\<lparr>mt_Cancelled := True, mt_Context := cancelContext (mt_Context task)\<rparr>)"

definition Stop :: "'w MigrationProgressMonitor \<Rightarrow> 'w MigrationProgressMonitor" where
  "Stop s = s\<lparr>mm_activeTasks := map (\<lambda>(k, task). (k, cancelTask task)) (mm_activeTasks s)\<rparr>"

definition GetActiveMigrations :: "'w MigrationProgressMonitor \<Rightarrow> (string, MigrationTask) gomap" where
  "GetActiveMigrations s = map (\<lambda>(k, task). (k, task\<lparr>mt_PVLabeled := False\<rparr>)) (mm_activeTasks s)"

subsection \<open>Recovery from labels\<close>

text \<open>Both SKU parameters, where they are given, must name one of the two SKUs of a migration.\<close>

definition skuMatches :: "smap \<Rightarrow> string \<Rightarrow> bool" where
  "skuMatches attributes key = (case ParseDiskParametersForKey attributes key of
       None \<Rightarrow> True
     | Some sku \<Rightarrow> EqualFold sku ''Premium_LRS'' \<or> EqualFold sku ''PremiumV2_LRS'')"

definition recoverable :: "string \<Rightarrow> MigrationPV \<Rightarrow> string option" where
  "recoverable driverName pv = (case (pv_ClaimRef pv, pv_CSI pv) of
       (Some _, Some csi) \<Rightarrow>
         if csi_Driver csi = driverName \<and> skuMatches (csi_VolumeAttributes csi) ''storageAccountType'' \<and> skuMatches (csi_VolumeAttributes csi) ''skuName''
         then Some (csi_VolumeHandle csi) else None
     | _ \<Rightarrow> None)"

fun recoverMonitors :: "'w mig_env \<Rightarrow> mig_globals \<Rightarrow> Context \<Rightarrow> string \<Rightarrow> MigrationPV list \<Rightarrow> ('w MigrationProgressMonitor, unit) io" where
  "recoverMonitors env g x driverName [] = okE ()"
| "recoverMonitors env g x driverName (pv # pvs) = (case recoverable driverName pv of
       None \<Rightarrow> recoverMonitors env g x driverName pvs
     | Some diskURI \<Rightarrow> bindE (tryE (StartMigrationMonitoring env g x False diskURI (pv_Name pv) ''Premium_LRS'' ''PremiumV2_LRS'' (pv_StorageBytes pv)))
         (\<lambda>_. recoverMonitors env g x driverName pvs))"

definition recoverMigrationMonitorsFromLabels :: "'w mig_env \<Rightarrow> mig_globals \<Rightarrow> Context \<Rightarrow> string \<Rightarrow> ('w MigrationProgressMonitor, unit) io" where
  "recoverMigrationMonitorsFromLabels env g x driverName =
     bindE (onController (me_PVList env (LabelMigrationInProgress @ ''=true''))) (recoverMonitors env g x driverName)"

subsection \<open>The system\<close>

text \<open>
  The monitor with everything that happens to it. A panic ends the process, so a step is a call that does not
  panic. \<open>other\<close> is what the rest of the world does.
\<close>

definition unpanicked :: "'a result \<Rightarrow> bool" where
  "unpanicked r = (case r of Inl err \<Rightarrow> ekind err \<noteq> Panicked | Inr _ \<Rightarrow> True)"

inductive mig_step :: "'w mig_env \<Rightarrow> mig_globals \<Rightarrow> 'w MigrationProgressMonitor \<Rightarrow> 'w MigrationProgressMonitor \<Rightarrow> bool" for env g where
  start: "run_state (StartMigrationMonitoring env g x isProvisioningFlow diskURI pvName fromSKU toSKU volumeSize) s = (r, s')
    \<Longrightarrow> unpanicked r \<Longrightarrow> mig_step env g s s'"
| recover: "run_state (recoverMigrationMonitorsFromLabels env g x driverName) s = (r, s') \<Longrightarrow> unpanicked r \<Longrightarrow> mig_step env g s s'"
| wake: "run_state (wake env g diskURI) s = (r, s') \<Longrightarrow> unpanicked r \<Longrightarrow> mig_step env g s s'"
| expire: "mig_step env g s (expire env diskURI s)"
| stop: "mig_step env g s (Stop s)"
| other: "mig_step env g s (s\<lparr>mm_controller := w\<rparr>)"

inductive mig_reach :: "'w mig_env \<Rightarrow> mig_globals \<Rightarrow> 'w MigrationProgressMonitor \<Rightarrow> bool" for env g where
  init: "mig_reach env g (NewMigrationProgressMonitor c)"
| step: "mig_reach env g s \<Longrightarrow> mig_step env g s s' \<Longrightarrow> mig_reach env g s'"

end
