(* ===== verification/MigrationProps.thy ===== *)
theory MigrationProps
  imports Migration
begin

text \<open>
  Properties of the migration monitor: the table of timeouts, the invariant of its reachable states, that monitoring ends, what
  \<open>Stop\<close> achieves, and the recovery from labels.
\<close>

subsection \<open>The table of timeouts\<close>

definition slabsOK :: "mig_globals \<Rightarrow> bool" where
  "slabsOK g \<longleftrightarrow> mg_sortedMigrationSlabArray g \<noteq> [] \<and> (\<forall>s \<in> set (mg_sortedMigrationSlabArray g). gget (mg_migrationTimeouts g) s \<noteq> None)"

lemma overrideTimeouts_ok: "slabsOK g \<Longrightarrow> slabsOK (overrideTimeouts q d pairs g)"
proof (induction q d pairs g rule: overrideTimeouts.induct)
  case (2 q d pair pairs g)
  then show ?case by (auto simp: slabsOK_def split: list.splits option.splits)
qed simp

lemma defaultGlobals_ok: "slabsOK defaultGlobals" "sorted (mg_sortedMigrationSlabArray defaultGlobals)"
  by (simp_all add: slabsOK_def defaultGlobals_def TiB_def GiB_def gget_def)

lemma sort_eq_Nil [simp]: "sort xs = [] \<longleftrightarrow> xs = []"
  by (metis set_sort set_empty)

lemma initializeTimeouts_ok:
  "slabsOK (initializeTimeouts q d e defaultGlobals)" "sorted (mg_sortedMigrationSlabArray (initializeTimeouts q d e defaultGlobals))"
  using defaultGlobals_ok overrideTimeouts_ok [OF defaultGlobals_ok(1), of q d]
  by (auto simp: initializeTimeouts_def Let_def slabsOK_def split: option.splits)

text \<open>The slab of a volume is the smallest one above its size; the largest slab includes its bound.\<close>

definition slabOf :: "int list \<Rightarrow> int \<Rightarrow> int" where
  "slabOf slabs volumeSize = Min {s \<in> set slabs. volumeSize < s \<or> s = volumeSize \<and> s = Max (set slabs)}"

lemma slabTimeout_least:
  "sorted slabs \<Longrightarrow> slabs \<noteq> [] \<Longrightarrow>
   slabTimeout m v slabs = (if v \<le> Max (set slabs) then gget m (slabOf slabs v) else None)"
proof (induction m v slabs rule: slabTimeout.induct)
  case (2 m v slab slabs)
  show ?case
  proof (cases "slabs = []")
    case True
    have "slabOf [slab] v = slab" if "v \<le> slab"
      unfolding slabOf_def using that by (intro Min_eqI) auto
    with True show ?thesis by auto
  next
    case False
    have le: "slab \<le> s" if "s \<in> set slabs" for s using 2(2) that by simp
    have mx: "Max (set (slab # slabs)) = Max (set slabs)"
      using False le Max_ge [of "set slabs"] by (simp add: max_def)
    show ?thesis
    proof (cases "v < slab")
      case True
      then have "slabOf (slab # slabs) v = slab"
        unfolding slabOf_def by (intro Min_eqI) (auto dest: le)
      moreover have "slab \<le> Max (set (slab # slabs))" by (rule Max_ge) simp_all
      then have "v \<le> Max (set (slab # slabs))" using True by linarith
      ultimately show ?thesis using True by simp
    next
      case nlt: False
      have "{s \<in> set (slab # slabs). v < s \<or> s = v \<and> s = Max (set (slab # slabs))}
        = {s \<in> set slabs. v < s \<or> s = v \<and> s = Max (set slabs)}"
        using nlt False mx by (auto simp del: Max_insert)
      then have "slabOf (slab # slabs) v = slabOf slabs v" by (simp add: slabOf_def)
      then show ?thesis using 2 nlt False mx by (simp del: Max_insert)
    qed
  qed
qed simp

text \<open>(C25) For every setting of the environment variables, invalid ones included, the timeout of a migration is that of the smallest slab
  above the size of the volume, the largest slab with its bound included, and 25 hours only above all slabs.\<close>

theorem getMigrationTimeout_slab:
  "let g = initializeTimeouts parseQuantity parseDuration getenv defaultGlobals; slabs = mg_sortedMigrationSlabArray g
   in Some (getMigrationTimeout g volumeSize) =
     (if volumeSize \<le> Max (set slabs) then gget (mg_migrationTimeouts g) (slabOf slabs volumeSize) else Some (25 * hour))"
proof -
  define g where "g = initializeTimeouts parseQuantity parseDuration getenv defaultGlobals"
  let ?slabs = "mg_sortedMigrationSlabArray g"
  note ok = initializeTimeouts_ok [of parseQuantity parseDuration getenv, folded g_def]
  have sl: "slabTimeout (mg_migrationTimeouts g) volumeSize ?slabs
      = (if volumeSize \<le> Max (set ?slabs) then gget (mg_migrationTimeouts g) (slabOf ?slabs volumeSize) else None)"
    using ok by (intro slabTimeout_least) (auto simp: slabsOK_def)
  have "gget (mg_migrationTimeouts g) (slabOf ?slabs volumeSize) \<noteq> None" if "volumeSize \<le> Max (set ?slabs)"
  proof -
    have "Max (set ?slabs) \<in> set ?slabs" using ok by (simp add: slabsOK_def)
    then have ne: "{s \<in> set ?slabs. volumeSize < s \<or> s = volumeSize \<and> s = Max (set ?slabs)} \<noteq> {}" using that by force
    from Min_in [OF _ ne] have "slabOf ?slabs volumeSize \<in> set ?slabs" by (simp add: slabOf_def)
    with ok show ?thesis by (simp add: slabsOK_def)
  qed
  with sl show ?thesis unfolding g_def [symmetric] Let_def
    by (auto simp: getMigrationTimeout_def migrationTimeoutBelowSixteenTB_def split: option.splits)
qed

subsection \<open>What the calls of a goroutine do to its task\<close>

lemma run_onController [simp]:
  "run_state (onController m) s = (case run_state m (mm_controller s) of (r, w) \<Rightarrow> (r, s\<lparr>mm_controller := w\<rparr>))"
  by (simp add: onController_def)

lemma run_timeNow [simp]: "run_state (timeNow env f) w = run_state (f (me_Now env w)) w"
  by (simp add: timeNow_def)

text \<open>\<open>progressed\<close>: what a run of the condition keeps of a task, and how its progress may change.\<close>

definition progressed :: "MigrationTask \<Rightarrow> MigrationTask \<Rightarrow> bool" where
  "progressed t t' \<longleftrightarrow> mt_DiskURI t' = mt_DiskURI t \<and> mt_StartTime t' = mt_StartTime t \<and> mt_Context t' = mt_Context t
     \<and> mt_VolumeSize t' = mt_VolumeSize t \<and> mt_MigrationTimeout t' = mt_MigrationTimeout t \<and> mt_Timedout t' = mt_Timedout t
     \<and> mt_Cancelled t' = mt_Cancelled t \<and> mt_FromSKU t' = mt_FromSKU t \<and> mt_ToSKU t' = mt_ToSKU t \<and> mt_PVName t' = mt_PVName t
     \<and> (mt_LastReportedProgress t' = mt_LastReportedProgress t
        \<or> milestone (mt_LastReportedProgress t) < milestone (mt_LastReportedProgress t') \<and> 0 < milestone (mt_LastReportedProgress t')
          \<and> mt_LastReportedProgress t' < 100)"

lemma progressed_refl [simp]: "progressed t t"
  by (simp add: progressed_def)

lemma bindE_ok: "run_state (bindE m f) c = (Inr y, c') \<Longrightarrow> \<exists>x c1. run_state m c = (Inr x, c1) \<and> run_state (f x) c1 = (Inr y, c')"
  by (auto split: prod.splits sum.splits)

text \<open>A call whose only errors are panics: it hands every other error to code that goes on.\<close>

definition onlyPanics :: "('s, 'a) io \<Rightarrow> bool" where
  "onlyPanics m \<longleftrightarrow> (\<forall>c e c'. run_state m c = (Inl e, c') \<longrightarrow> ekind e = Panicked)"

lemma onlyPanics_okE: "onlyPanics (okE x)" and onlyPanics_tryE: "onlyPanics (tryE m)"
  by (auto simp: onlyPanics_def split: prod.splits sum.splits if_splits)

lemma onlyPanics_bindE: "onlyPanics m \<Longrightarrow> (\<And>x. onlyPanics (f x)) \<Longrightarrow> onlyPanics (bindE m f)"
  by (fastforce simp: onlyPanics_def split: prod.splits sum.splits)

lemma onlyPanics_timeNow: "(\<And>now. onlyPanics (f now)) \<Longrightarrow> onlyPanics (timeNow env f)"
  by (simp add: onlyPanics_def)

lemmas onlyPanics_intros = onlyPanics_okE onlyPanics_tryE onlyPanics_bindE onlyPanics_timeNow

lemma onlyPanics_pollCondition: "onlyPanics (pollCondition env g t)"
  unfolding pollCondition_def emitIgnored_def labelPV_def findPVC_def finishIfCompleted_def Let_def
  by (auto intro!: onlyPanics_intros split: sum.split option.split)

lemma emitIgnored_ok:
  "run_state (emitIgnored env t w r m f) c = (Inr y, c') \<Longrightarrow> \<exists>c1. run_state f c1 = (Inr y, c')"
  by (auto simp: emitIgnored_def split: prod.splits sum.splits if_splits)

lemma labelPV_progressed: "run_state (labelPV env t) c = (Inr t', c') \<Longrightarrow> progressed t t'"
  by (auto simp: labelPV_def progressed_def split: prod.splits sum.splits if_splits)

lemma findPVC_progressed: "run_state (findPVC env t) c = (Inr t', c') \<Longrightarrow> progressed t t'"
  by (auto simp: findPVC_def Let_def progressed_def dest!: emitIgnored_ok split: prod.splits sum.splits if_splits option.splits)

lemma checkMigrationProgress_progressed:
  "run_state (checkMigrationProgress env t) c = (Inr (b, t'), c') \<Longrightarrow> progressed t t'"
  by (auto simp: checkMigrationProgress_def Let_def progressed_def shouldReportProgress_def dest!: emitIgnored_ok
      split: prod.splits sum.splits if_splits)

lemma finishIfCompleted_progressed:
  "run_state (finishIfCompleted env t) c = (Inr (out, t'), c') \<Longrightarrow> progressed t t'"
  by (auto simp: finishIfCompleted_def dest!: emitIgnored_ok checkMigrationProgress_progressed split: prod.splits sum.splits if_splits)

lemma progressed_trans [trans]: "progressed t t' \<Longrightarrow> progressed t' u \<Longrightarrow> progressed t u"
  unfolding progressed_def by (elim conjE disjE; simp)

lemma pollCondition_progressed:
  assumes "run_state (pollCondition env g t) c = (Inr (out, t'), c')"
  shows "progressed t t'"
proof (cases "mt_Cancelled t \<or> me_Now env c - mt_StartTime t \<ge> mg_maxMigrationTimeout g")
  case True
  with assms show ?thesis by (auto simp: pollCondition_def dest!: emitIgnored_ok split: if_splits)
next
  case False
  with assms have "run_state (bindE (labelPV env t) (\<lambda>t. bindE (findPVC env t) (finishIfCompleted env))) c = (Inr (out, t'), c')"
    by (simp add: pollCondition_def del: run_bindE)
  from bindE_ok [OF this] obtain t1 c1 where l: "run_state (labelPV env t) c = (Inr t1, c1)"
    and "run_state (bindE (findPVC env t1) (finishIfCompleted env)) c1 = (Inr (out, t'), c')" by blast
  from bindE_ok [OF this(2)] obtain t2 c2 where p: "run_state (findPVC env t1) c1 = (Inr t2, c2)"
    and f: "run_state (finishIfCompleted env t2) c2 = (Inr (out, t'), c')" by blast
  from progressed_trans [OF progressed_trans [OF labelPV_progressed [OF l] findPVC_progressed [OF p]] finishIfCompleted_progressed [OF f]]
  show ?thesis .
qed

subsection \<open>The invariant\<close>

text \<open>The clock shows Unix times in nanoseconds of the next ninety years, and the maximum is at most half of that.\<close>

definition sane :: "'w mig_env \<Rightarrow> mig_globals \<Rightarrow> bool" where
  "sane env g \<longleftrightarrow> (\<forall>w. 0 \<le> me_Now env w \<and> me_Now env w < 2 ^ 62) \<and> 0 \<le> mg_maxMigrationTimeout g \<and> mg_maxMigrationTimeout g \<le> 2 ^ 61"

definition extended :: "goroutine \<Rightarrow> bool" where
  "extended pc = (case pc of FirstPoll _ \<Rightarrow> False | ExtendedPoll _ \<Rightarrow> True)"

definition task_ok :: "mig_globals \<Rightarrow> string \<Rightarrow> MigrationTask \<Rightarrow> goroutine \<Rightarrow> bool" where
  "task_ok g diskURI t pc \<longleftrightarrow> mt_DiskURI t = diskURI \<and> mt_MigrationTimeout t = getMigrationTimeout g (mt_VolumeSize t)
     \<and> mt_LastReportedProgress t < 100 \<and> 0 \<le> mt_StartTime t \<and> mt_StartTime t < 2 ^ 62
     \<and> (mt_Timedout t \<longleftrightarrow> extended pc)
     \<and> cx_Deadline (mt_Context t) = mt_StartTime t
         + (if extended pc then mg_maxMigrationTimeout g + 5 * migrationCheckInterval else mt_MigrationTimeout t)"

definition monitor_ok :: "mig_globals \<Rightarrow> 'w MigrationProgressMonitor \<Rightarrow> bool" where
  "monitor_ok g s \<longleftrightarrow> (\<forall>u. gget (mm_activeTasks s) u = None \<longleftrightarrow> gget (mm_goroutines s) u = None)
     \<and> (\<forall>u t pc. gget (mm_activeTasks s) u = Some t \<longrightarrow> gget (mm_goroutines s) u = Some pc \<longrightarrow> task_ok g u t pc)"

lemma monitor_okD:
  assumes "monitor_ok g s" "gget (mm_activeTasks s) u = Some t"
  obtains pc where "gget (mm_goroutines s) u = Some pc" "task_ok g u t pc"
  using assms unfolding monitor_ok_def by (metis option.exhaust option.distinct(1))

lemma monitor_ok_controller [simp]: "monitor_ok g (s\<lparr>mm_controller := w\<rparr>) = monitor_ok g s"
  by (simp add: monitor_ok_def)

lemma monitor_ok_put: "monitor_ok g s \<Longrightarrow> task_ok g u t pc \<Longrightarrow> monitor_ok g (putTask u t pc s)"
  by (simp add: monitor_ok_def putTask_def)

lemma monitor_ok_remove: "monitor_ok g s \<Longrightarrow> monitor_ok g (removeTask u s)"
  by (simp add: monitor_ok_def removeTask_def)

lemma task_ok_progressed: "task_ok g u t pc \<Longrightarrow> progressed t t' \<Longrightarrow> extended pc' = extended pc \<Longrightarrow> task_ok g u t' pc'"
  by (auto simp: task_ok_def progressed_def)

lemma extended_inLoop [simp]: "extended (inLoop pc) = extended pc"
  by (cases pc) (simp_all add: extended_def)

lemma remaining_exact:
  assumes "sane env g" "0 \<le> start" "start < 2 ^ 62"
  shows "int64 (int64 (mg_maxMigrationTimeout g - (me_Now env w - start)) + migrationCheckInterval * 5)
    = mg_maxMigrationTimeout g - (me_Now env w - start) + migrationCheckInterval * 5"
proof -
  have w: "0 \<le> me_Now env w" "me_Now env w < 2 ^ 62" and m: "0 \<le> mg_maxMigrationTimeout g" "mg_maxMigrationTimeout g \<le> 2 ^ 61"
    using assms(1) by (simp_all add: sane_def)
  have "in_int64 (mg_maxMigrationTimeout g - (me_Now env w - start))"
    "in_int64 (mg_maxMigrationTimeout g - (me_Now env w - start) + migrationCheckInterval * 5)"
    using w m assms(2,3) by (simp_all add: in_int64_def migrationCheckInterval_def second_def)
  then show ?thesis by (simp add: int64_id)
qed

lemma extendPolling_ok:
  assumes "run_state (extendPolling env g err t) c = (Inr (Some t'), c')" "sane env g" "task_ok g u t (FirstPoll b)"
  shows "task_ok g u t' (ExtendedPoll True) \<and> mt_Cancelled t' = mt_Cancelled t \<and> mt_LastReportedProgress t' = mt_LastReportedProgress t"
proof -
  have st: "0 \<le> mt_StartTime t" "mt_StartTime t < 2 ^ 62" using assms(3) by (simp_all add: task_ok_def)
  note rem = remaining_exact [OF assms(2) st]
  show ?thesis using assms(1,3)
    by (auto simp: extendPolling_def Let_def rem task_ok_def extended_def contextWithTimeout_def dest!: emitIgnored_ok split: if_splits)
qed

text \<open>\<open>started u s s'\<close>: a new task for \<open>u\<close> and nothing else, or only the world has moved.\<close>

definition started :: "mig_globals \<Rightarrow> string \<Rightarrow> 'w MigrationProgressMonitor \<Rightarrow> 'w MigrationProgressMonitor \<Rightarrow> bool" where
  "started g u s s' \<longleftrightarrow> mm_activeTasks s' = mm_activeTasks s \<and> mm_goroutines s' = mm_goroutines s
     \<or> gget (mm_activeTasks s) u = None \<and> (\<exists>t. task_ok g u t (FirstPoll True) \<and> \<not> mt_Cancelled t
       \<and> gget (mm_activeTasks s') = (gget (mm_activeTasks s))(u \<mapsto> t)
       \<and> gget (mm_goroutines s') = (gget (mm_goroutines s))(u \<mapsto> FirstPoll True))"

lemma newTask_ok: "sane env g \<Longrightarrow> task_ok g u (newTask g (me_Now env w) u pv claim f t v) (FirstPoll True)"
  by (simp add: task_ok_def newTask_def extended_def contextWithTimeout_def sane_def)

lemma StartMigrationMonitoring_started:
  assumes "run_state (StartMigrationMonitoring env g x prov u pv f t v) s = (r, s')" "unpanicked r" "sane env g"
  shows "started g u s s'"
proof (cases "IsMigrationActive s u")
  case True
  with assms show ?thesis by (simp add: StartMigrationMonitoring_def started_def)
next
  case inactive: False
  obtain c c1 where c: "run_state (claimOf env x prov pv) (mm_controller s) = (c, c1)" by fastforce
  show ?thesis
  proof (cases "\<exists>claim. c = Inr (Some claim)")
    case False
    with assms c inactive show ?thesis
      by (auto simp: StartMigrationMonitoring_def started_def split: sum.splits option.splits)
  next
    case True
    then obtain claim where claim: "c = Inr (Some claim)" by blast
    define task where "task = newTask g (me_Now env c1) u pv claim f t v"
    obtain l c2 where l: "run_state (tryE (addMigrationLabelIfNotExists env x pv)) c1 = (l, c2)" by fastforce
    show ?thesis
    proof (cases l)
      case (Inl err)
      then have "ekind err = Panicked" using l by (auto split: prod.splits sum.splits if_splits)
      moreover have "r = Inl err" using assms(1) c claim l Inl inactive
        by (simp add: StartMigrationMonitoring_def Let_def task_def del: run_tryE)
      ultimately show ?thesis using assms(2) by (simp add: unpanicked_def)
    next
      case (Inr lab)
      define task' where "task' = (case lab of Inl _ \<Rightarrow> task | Inr _ \<Rightarrow> task\<lparr>mt_PVLabeled := True\<rparr>)"
      have tok: "task_ok g u task' (FirstPoll True)" "\<not> mt_Cancelled task'"
        using newTask_ok [OF assms(3), of u c1 pv claim f t v]
        by (auto simp: task'_def task_def task_ok_def newTask_def split: sum.split)
      have "mm_activeTasks s' = gset u task' (gset u task (mm_activeTasks s)) \<and> mm_goroutines s' = gset u (FirstPoll True) (mm_goroutines s)"
        using assms(1) c claim l Inr inactive
        by (auto simp: StartMigrationMonitoring_def Let_def task_def task'_def putTask_def fun_eq_iff simp del: run_tryE
            split: sum.splits if_splits prod.splits)
      with tok inactive show ?thesis
        by (auto simp: started_def fun_eq_iff IsMigrationActive_def intro!: exI [of _ task'])
    qed
  qed
qed

lemma started_ok: "started g u s s' \<Longrightarrow> monitor_ok g s \<Longrightarrow> monitor_ok g s'"
  by (auto simp: started_def monitor_ok_def split: if_splits)

lemma started_keeps: "started g u s s' \<Longrightarrow> gget (mm_activeTasks s) k = Some t \<Longrightarrow>
    gget (mm_activeTasks s') k = Some t \<and> gget (mm_goroutines s') k = gget (mm_goroutines s) k"
  by (auto simp: started_def)

lemma recoverMonitors_keeps:
  assumes "run_state (recoverMonitors env g x d pvs) s = (r, s')" "unpanicked r" "sane env g"
  shows "(monitor_ok g s \<longrightarrow> monitor_ok g s') \<and> (\<forall>k t. gget (mm_activeTasks s) k = Some t \<longrightarrow>
    gget (mm_activeTasks s') k = Some t \<and> gget (mm_goroutines s') k = gget (mm_goroutines s) k)"
  using assms
proof (induction pvs arbitrary: s)
  case (Cons pv pvs)
  show ?case
  proof (cases "recoverable d pv")
    case None
    with Cons show ?thesis by simp
  next
    case (Some u)
    let ?start = "StartMigrationMonitoring env g x False u (pv_Name pv) ''Premium_LRS'' ''PremiumV2_LRS'' (pv_StorageBytes pv)"
    obtain q s1 where q: "run_state ?start s = (q, s1)" by fastforce
    show ?thesis
    proof (cases "unpanicked q")
      case True
      from StartMigrationMonitoring_started [OF q True Cons.prems(3)] have st: "started g u s s1" .
      have "run_state (recoverMonitors env g x d pvs) s1 = (r, s')"
        using Cons.prems(1) Some q True by (auto simp: unpanicked_def split: sum.splits if_splits)
      from Cons.IH [OF this Cons.prems(2,3)] st show ?thesis
        using started_ok [OF st] started_keeps [OF st] by metis
    next
      case False
      then have "\<not> unpanicked r" using Cons.prems(1) Some q by (auto simp: unpanicked_def split: sum.splits if_splits)
      with Cons.prems(2) show ?thesis by blast
    qed
  qed
qed simp

text \<open>\<open>awakened u s s'\<close>: what a goroutine that is scheduled may do: continue, change to the extended poll, or end.\<close>

definition awakened :: "mig_globals \<Rightarrow> string \<Rightarrow> MigrationTask \<Rightarrow> goroutine \<Rightarrow> 'w MigrationProgressMonitor \<Rightarrow> 'w MigrationProgressMonitor \<Rightarrow> bool" where
  "awakened g u t pc s s' \<longleftrightarrow> (\<exists>w.
     (\<exists>t'. progressed t t' \<and> \<not> mt_Cancelled t \<and> s' = putTask u t' (inLoop pc) (s\<lparr>mm_controller := w\<rparr>))
     \<or> (\<exists>t'. task_ok g u t' (ExtendedPoll True) \<and> mt_Cancelled t' = mt_Cancelled t \<and> \<not> extended pc
          \<and> mt_LastReportedProgress t' = mt_LastReportedProgress t \<and> s' = putTask u t' (ExtendedPoll True) (s\<lparr>mm_controller := w\<rparr>))
     \<or> s' = removeTask u (s\<lparr>mm_controller := w\<rparr>))"

lemma awakened_extended:
  "task_ok g u t' (ExtendedPoll True) \<Longrightarrow> mt_Cancelled t' = mt_Cancelled t \<Longrightarrow> \<not> extended pc
   \<Longrightarrow> mt_LastReportedProgress t' = mt_LastReportedProgress t
   \<Longrightarrow> awakened g u t pc s (putTask u t' (ExtendedPoll True) (s\<lparr>mm_controller := w\<rparr>))"
  unfolding awakened_def by blast

lemma awakened_removed: "awakened g u t pc s (removeTask u (s\<lparr>mm_controller := w\<rparr>))"
  unfolding awakened_def by blast

lemma endPoll_awakened:
  assumes "run_state (endPoll env g u pc t err) (s\<lparr>mm_controller := w\<rparr>) = (r, s')" "unpanicked r" "sane env g"
    "task_ok g u t pc" "mt_Cancelled t = mt_Cancelled t0" "mt_LastReportedProgress t = mt_LastReportedProgress t0"
  shows "awakened g u t0 pc s s'"
proof (cases "\<exists>b e. pc = FirstPoll b \<and> err = Some e")
  case False
  then have "s' = removeTask u (s\<lparr>mm_controller := w\<rparr>)" using assms(1)
    by (cases pc) (auto simp: endPoll_def split: option.splits)
  then show ?thesis by (simp add: awakened_removed)
next
  case True
  then obtain b e where pc: "pc = FirstPoll b" "err = Some e" by blast
  obtain x w' where x: "run_state (extendPolling env g e t) w = (x, w')" by fastforce
  consider (panic) y where "x = Inl y" | (ext) t' where "x = Inr (Some t')" | (gone) "x = Inr None"
    by (metis old.sum.exhaust option.exhaust)
  then show ?thesis
  proof cases
    case panic
    then have "ekind y = Panicked" using x
      by (auto simp: extendPolling_def emitIgnored_def Let_def split: if_splits prod.splits sum.splits)
    with assms(1,2) x panic pc show ?thesis by (auto simp: endPoll_def unpanicked_def)
  next
    case ext
    with extendPolling_ok [OF x [unfolded ext] assms(3), of u b] assms pc x show ?thesis
      by (auto simp: endPoll_def extended_def intro!: awakened_extended)
  next
    case gone
    with assms(1) pc x have "s' = removeTask u (s\<lparr>mm_controller := w'\<rparr>)" by (simp add: endPoll_def)
    then show ?thesis by (simp add: awakened_removed)
  qed
qed

lemma pollCondition_cases:
  assumes "run_state (pollCondition env g t) w = (x, w')"
  obtains (panic) y where "x = Inl y" "ekind y = Panicked"
  | (stop) e t' where "x = Inr (e, t')" "e \<noteq> KeepPolling" "progressed t t'" "mt_Cancelled t \<longrightarrow> t' = t"
      "(\<exists>err. e = StopWithError err) \<longrightarrow> t' = t"
  | (keep) t' where "x = Inr (KeepPolling, t')" "progressed t t'" "\<not> mt_Cancelled t"
proof (cases x)
  case (Inl y)
  then have "ekind y = Panicked" using assms onlyPanics_pollCondition [of env g t] unfolding onlyPanics_def by blast
  with Inl panic show ?thesis by blast
next
  case (Inr p)
  obtain e t' where p: "p = (e, t')" by fastforce
  have pr: "progressed t t'" using pollCondition_progressed assms Inr p by blast
  show ?thesis
  proof (cases "mt_Cancelled t")
    case True
    with assms Inr p have "e = StopPolling" "t' = t" by (auto simp: pollCondition_def)
    with Inr p pr stop show ?thesis by blast
  next
    case False
    have "t' = t" if "e = StopWithError err" for err
      using assms Inr p False that
      by (auto simp: pollCondition_def finishIfCompleted_def dest!: emitIgnored_ok split: if_splits prod.splits sum.splits)
    with Inr p pr False show ?thesis using stop keep by (cases e) blast+
  qed
qed

lemma wake_awakened:
  assumes "run_state (wake env g u) s = (r, s')" "unpanicked r" "sane env g"
    "gget (mm_activeTasks s) u = Some t" "gget (mm_goroutines s) u = Some pc" "task_ok g u t pc"
  shows "awakened g u t pc s s'"
proof (cases "\<not> immediate pc \<and> cx_Err (mt_Context t) \<noteq> None")
  case True
  with assms have "run_state (endPoll env g u pc t (map_option ContextError (cx_Err (mt_Context t)))) (s\<lparr>mm_controller := mm_controller s\<rparr>) = (r, s')"
    by (simp add: wake_def)
  then show ?thesis by (rule endPoll_awakened) (use assms in simp_all)
next
  case False
  obtain x w' where x: "run_state (pollCondition env g t) (mm_controller s) = (x, w')" by fastforce
  from x show ?thesis
  proof (cases rule: pollCondition_cases)
    case (panic y)
    with assms False x show ?thesis by (auto simp: wake_def unpanicked_def)
  next
    case (stop e t')
    show ?thesis
    proof (cases e)
      case KeepPolling
      with stop show ?thesis by simp
    next
      case StopPolling
      with assms False x stop have "run_state (endPoll env g u pc t' None) (s\<lparr>mm_controller := w'\<rparr>) = (r, s')"
        by (auto simp: wake_def split: if_splits)
      then have "s' = removeTask u (s\<lparr>mm_controller := w'\<rparr>)" by (cases pc) (simp_all add: endPoll_def)
      then show ?thesis by (simp add: awakened_removed)
    next
      case (StopWithError err)
      with assms False x stop have "run_state (endPoll env g u pc t (Some (ConditionError err))) (s\<lparr>mm_controller := w'\<rparr>) = (r, s')"
        by (auto simp: wake_def split: if_splits)
      then show ?thesis by (rule endPoll_awakened) (use assms in simp_all)
    qed
  next
    case (keep t')
    with assms False x have "s' = putTask u t' (inLoop pc) (s\<lparr>mm_controller := w'\<rparr>)" by (auto simp: wake_def split: if_splits)
    with keep show ?thesis unfolding awakened_def by blast
  qed
qed

lemma awakened_ok: "awakened g u t pc s s' \<Longrightarrow> task_ok g u t pc \<Longrightarrow> monitor_ok g s \<Longrightarrow> monitor_ok g s'"
  by (auto simp: awakened_def intro!: monitor_ok_put monitor_ok_remove intro: task_ok_progressed)

lemma wake_inactive: "gget (mm_activeTasks s) u = None \<Longrightarrow> run_state (wake env g u) s = (Inr (), s)"
  by (simp add: wake_def)

lemma gget_Stop: "gget (mm_activeTasks (Stop s)) u = map_option cancelTask (gget (mm_activeTasks s) u)"
  by (simp add: Stop_def gget_def map_of_map)

lemma Stop_goroutines [simp]: "mm_goroutines (Stop s) = mm_goroutines s"
  by (simp add: Stop_def)

lemma cancelTask_Cancelled [simp]: "mt_Cancelled (cancelTask t)"
  by (simp add: cancelTask_def)

lemma task_ok_cancel: "task_ok g u (cancelTask t) pc = task_ok g u t pc"
  by (simp add: cancelTask_def cancelContext_def task_ok_def)

lemma task_ok_expire: "task_ok g u (t\<lparr>mt_Context := mt_Context t\<lparr>cx_Err := e\<rparr>\<rparr>) pc = task_ok g u t pc"
  by (simp add: task_ok_def)

lemma recover_keeps:
  assumes "run_state (recoverMigrationMonitorsFromLabels env g x d) s = (r, s')" "unpanicked r" "sane env g"
  shows "(monitor_ok g s \<longrightarrow> monitor_ok g s') \<and> (\<forall>k t. gget (mm_activeTasks s) k = Some t \<longrightarrow>
    gget (mm_activeTasks s') k = Some t \<and> gget (mm_goroutines s') k = gget (mm_goroutines s) k)"
proof -
  obtain l w where l: "run_state (me_PVList env (LabelMigrationInProgress @ ''=true'')) (mm_controller s) = (l, w)" by fastforce
  show ?thesis
  proof (cases l)
    case (Inl err)
    with assms l show ?thesis by (auto simp: recoverMigrationMonitorsFromLabels_def)
  next
    case (Inr pvs)
    with assms l have "run_state (recoverMonitors env g x d pvs) (s\<lparr>mm_controller := w\<rparr>) = (r, s')"
      by (simp add: recoverMigrationMonitorsFromLabels_def)
    from recoverMonitors_keeps [OF this assms(2,3)] show ?thesis by simp
  qed
qed

lemma mig_step_ok: "mig_step env g s s' \<Longrightarrow> sane env g \<Longrightarrow> monitor_ok g s \<Longrightarrow> monitor_ok g s'"
proof (induction rule: mig_step.induct)
  case (start x prov u pv f t v s r s')
  then show ?case by (blast intro: started_ok StartMigrationMonitoring_started)
next
  case (recover x d s r s')
  then show ?case by (blast dest: recover_keeps)
next
  case (wake u s r s')
  show ?case
  proof (cases "gget (mm_activeTasks s) u")
    case None
    with wake show ?thesis by (simp add: wake_inactive)
  next
    case (Some t)
    with wake.prems(2) obtain pc where pc: "gget (mm_goroutines s) u = Some pc" "task_ok g u t pc" by (rule monitor_okD)
    from wake_awakened [OF wake.hyps wake.prems(1) Some pc] pc(2) wake.prems(2) show ?thesis by (rule awakened_ok)
  qed
next
  case (expire s u)
  show ?case
  proof (cases "gget (mm_activeTasks s) u")
    case None
    with expire show ?thesis by (simp add: expire_def)
  next
    case (Some t)
    with expire(2) obtain pc where pc: "gget (mm_goroutines s) u = Some pc" "task_ok g u t pc" by (rule monitor_okD)
    then show ?thesis using Some expire(2)
      by (auto simp: expire_def Let_def monitor_ok_def task_ok_expire split: if_splits)
  qed
next
  case (stop s)
  then show ?case by (auto simp: monitor_ok_def gget_Stop task_ok_cancel)
qed simp

lemma mig_reach_ok: "mig_reach env g s \<Longrightarrow> sane env g \<Longrightarrow> monitor_ok g s"
proof (induction rule: mig_reach.induct)
  case (init c)
  show ?case by (simp add: NewMigrationProgressMonitor_def monitor_ok_def)
next
  case (step s s')
  then show ?case by (blast intro: mig_step_ok)
qed

text \<open>(C11) In every reachable state of the monitor, whatever is started, recovered, stopped, expired or scheduled in whatever order and
  whatever Kubernetes and Azure answer: a task is active exactly when its goroutine exists. It is filed under its own disk, has the timeout of its
  volume, and its reported progress is below 100. Its context ends with that timeout, or, once it has timed out, five intervals
  after the maximum.\<close>

theorem monitor_invariant:
  assumes "mig_reach env g s" "sane env g"
  shows "case gget (mm_activeTasks s) u of
      None \<Rightarrow> gget (mm_goroutines s) u = None
    | Some t \<Rightarrow> (\<exists>pc. gget (mm_goroutines s) u = Some pc \<and> mt_DiskURI t = u \<and> mt_MigrationTimeout t = getMigrationTimeout g (mt_VolumeSize t)
        \<and> mt_LastReportedProgress t < 100 \<and> (mt_Timedout t \<longleftrightarrow> extended pc)
        \<and> cx_Deadline (mt_Context t) = mt_StartTime t
            + (if mt_Timedout t then mg_maxMigrationTimeout g + 5 * migrationCheckInterval else mt_MigrationTimeout t))"
proof (cases "gget (mm_activeTasks s) u")
  case None
  moreover have "gget (mm_goroutines s) u = None" using None mig_reach_ok [OF assms] unfolding monitor_ok_def by blast
  ultimately show ?thesis by simp
next
  case (Some t)
  with mig_reach_ok [OF assms] obtain pc where pc: "gget (mm_goroutines s) u = Some pc" "task_ok g u t pc" by (rule monitor_okD)
  then show ?thesis using Some by (simp add: task_ok_def)
qed

subsection \<open>Monitoring ends\<close>

text \<open>The calls that emit an event do not turn the clock back.\<close>

definition clockLe :: "'w mig_env \<Rightarrow> 'w controllerCommon \<Rightarrow> 'w controllerCommon \<Rightarrow> bool" where
  "clockLe env w w' \<longleftrightarrow> me_Now env w \<le> me_Now env w'"

definition steady :: "'w mig_env \<Rightarrow> bool" where
  "steady env \<longleftrightarrow> (\<forall>x ns n. stays (clockLe env) (me_PVCGet env x ns n)) \<and> (\<forall>e. stays (clockLe env) (me_Event env e))"

interpretation clk: preorder_on_states "clockLe env" for env
  by unfold_locales (auto simp: clockLe_def)

lemma stays_emit: "steady env \<Longrightarrow> stays (clockLe env) (emitMigrationEvent env t w r m)"
  unfolding emitMigrationEvent_def steady_def by (auto intro!: clk.stays_bindE clk.stays_tryE clk.stays_doE clk.stays_return split: sum.split)

lemma emitIgnored_later:
  assumes "steady env" "run_state (emitIgnored env t w r m f) c = (x, c')"
  obtains (panic) y where "x = Inl y" "ekind y = Panicked" | (later) c1 where "me_Now env c \<le> me_Now env c1" "run_state f c1 = (x, c')"
proof -
  obtain q c1 where q: "run_state (emitMigrationEvent env t w r m) c = (q, c1)" by fastforce
  have le: "me_Now env c \<le> me_Now env c1"
    using stays_emit [OF assms(1), of t w r m] q unfolding stays_def clockLe_def by (metis snd_conv)
  show ?thesis
  proof (cases "\<exists>y. q = Inl y \<and> ekind y = Panicked")
    case True
    with assms(2) q panic show ?thesis by (auto simp: emitIgnored_def)
  next
    case False
    with assms(2) q le later show ?thesis by (auto simp: emitIgnored_def split: sum.splits if_splits)
  qed
qed

lemma extendPolling_after_maximum:
  assumes "run_state (extendPolling env g err t) c = (Inr x, c')" "steady env" "sane env g" "task_ok g u t pc"
    "mt_StartTime t + mg_maxMigrationTimeout g \<le> me_Now env c"
  shows "x = None"
proof -
  have st: "0 \<le> mt_StartTime t" "mt_StartTime t < 2 ^ 62" using assms(4) by (simp_all add: task_ok_def)
  show ?thesis
    using assms(1,5)
    by (auto simp: extendPolling_def Let_def remaining_exact [OF assms(3) st] elim!: emitIgnored_later [OF assms(2)] split: if_splits)
qed

lemma endPoll_after_maximum:
  assumes "run_state (endPoll env g u pc t err) s = (r, s')" "unpanicked r" "steady env" "sane env g" "task_ok g u t pc"
    "mt_StartTime t + mg_maxMigrationTimeout g \<le> me_Now env (mm_controller s)"
  shows "\<not> IsMigrationActive s' u"
proof (cases "\<exists>b e. pc = FirstPoll b \<and> err = Some e")
  case False
  then have "s' = removeTask u s" using assms(1) by (cases pc) (auto simp: endPoll_def split: option.splits)
  then show ?thesis by (simp add: IsMigrationActive_def removeTask_def)
next
  case True
  then obtain b e where pc: "pc = FirstPoll b" "err = Some e" by blast
  obtain x w where x: "run_state (extendPolling env g e t) (mm_controller s) = (x, w)" by fastforce
  show ?thesis
  proof (cases x)
    case (Inl y)
    then have "ekind y = Panicked" using x
      by (auto simp: extendPolling_def emitIgnored_def Let_def split: if_splits prod.splits sum.splits)
    with assms(1,2) x Inl pc show ?thesis by (auto simp: endPoll_def unpanicked_def)
  next
    case (Inr o)
    from extendPolling_after_maximum [OF x [unfolded Inr] assms(3,4,5,6)] assms(1) pc x Inr
    show ?thesis by (auto simp: endPoll_def IsMigrationActive_def removeTask_def)
  qed
qed

text \<open>(C12) Monitoring ends: once the maximum has passed since a migration was started, the next time the goroutine of its task is scheduled is
  its last, whatever state the disk, the claim and the context are in.\<close>

theorem monitoring_ends:
  assumes "mig_reach env g s" "sane env g" "steady env" "gget (mm_activeTasks s) u = Some t"
    "mt_StartTime t + mg_maxMigrationTimeout g \<le> me_Now env (mm_controller s)"
    "run_state (wake env g u) s = (r, s')" "unpanicked r"
  shows "\<not> IsMigrationActive s' u"
proof -
  obtain pc where pc: "gget (mm_goroutines s) u = Some pc" "task_ok g u t pc"
    using mig_reach_ok [OF assms(1,2)] assms(4) by (rule monitor_okD)
  show ?thesis
  proof (cases "\<not> immediate pc \<and> cx_Err (mt_Context t) \<noteq> None")
    case True
    with assms(4,6) pc have "run_state (endPoll env g u pc t (map_option ContextError (cx_Err (mt_Context t)))) s = (r, s')"
      by (simp add: wake_def)
    then show ?thesis by (rule endPoll_after_maximum) (use assms pc in simp_all)
  next
    case False
    obtain x w where x: "run_state (pollCondition env g t) (mm_controller s) = (x, w)" by fastforce
    show ?thesis
    proof (cases "mt_Cancelled t")
      case True
      with False x assms(4,6) pc have "s' = removeTask u (s\<lparr>mm_controller := w\<rparr>)"
        by (cases pc) (auto simp: wake_def pollCondition_def endPoll_def split: if_splits)
      then show ?thesis by (simp add: IsMigrationActive_def removeTask_def)
    next
      case nc: False
      have "run_state (emitIgnored env t True ReasonSKUMigrationTimeout (StoppingMsg (mt_DiskURI t) (mg_maxMigrationTimeout g))
          (okE (StopWithError (errorf ''maximum migration timeout exceeded''), t))) (mm_controller s) = (x, w)"
        using x nc assms(5) by (simp add: pollCondition_def)
      then show ?thesis
      proof (cases rule: emitIgnored_later [OF assms(3), consumes 1, case_names panic later])
        case (panic y)
        with assms(4,6,7) pc False x show ?thesis by (auto simp: wake_def unpanicked_def split: if_splits)
      next
        case (later c1)
        then have "run_state (endPoll env g u pc t (Some (ConditionError (errorf ''maximum migration timeout exceeded'')))) (s\<lparr>mm_controller := w\<rparr>) = (r, s')"
          using assms(4,6) pc False x by (auto simp: wake_def split: if_splits)
        then show ?thesis by (rule endPoll_after_maximum) (use assms pc later in simp_all)
      qed
    qed
  qed
qed

subsection \<open>Stop\<close>

definition cancelled :: "'w MigrationProgressMonitor \<Rightarrow> string \<Rightarrow> bool" where
  "cancelled s u \<longleftrightarrow> (\<exists>t. gget (mm_activeTasks s) u = Some t \<and> mt_Cancelled t)"

definition pollsLeft :: "'w MigrationProgressMonitor \<Rightarrow> string \<Rightarrow> nat" where
  "pollsLeft s u = (case gget (mm_goroutines s) u of None \<Rightarrow> 0 | Some (ExtendedPoll _) \<Rightarrow> 1 | Some (FirstPoll _) \<Rightarrow> 2)"

text \<open>A run in which \<open>u\<close> stays active, with the number of times its goroutine is scheduled.\<close>

inductive active_run :: "'w mig_env \<Rightarrow> mig_globals \<Rightarrow> string \<Rightarrow> 'w MigrationProgressMonitor \<Rightarrow> nat \<Rightarrow> 'w MigrationProgressMonitor \<Rightarrow> bool"
    for env g u s0 where
  refl: "active_run env g u s0 0 s0"
| woken: "active_run env g u s0 n s \<Longrightarrow> run_state (wake env g u) s = (r, s') \<Longrightarrow> unpanicked r \<Longrightarrow> IsMigrationActive s' u
    \<Longrightarrow> active_run env g u s0 (Suc n) s'"
| step: "active_run env g u s0 n s \<Longrightarrow> mig_step env g s s' \<Longrightarrow> IsMigrationActive s' u \<Longrightarrow> active_run env g u s0 n s'"

lemma wake_cancelled:
  assumes "run_state (wake env g u) s = (r, s')" "unpanicked r" "sane env g" "monitor_ok g s" "cancelled s u" "IsMigrationActive s' u"
  shows "cancelled s' u \<and> pollsLeft s' u < pollsLeft s u"
proof -
  obtain t where t: "gget (mm_activeTasks s) u = Some t" "mt_Cancelled t" using assms(5) by (auto simp: cancelled_def)
  obtain pc where pc: "gget (mm_goroutines s) u = Some pc" "task_ok g u t pc" using assms(4) t(1) by (rule monitor_okD)
  from wake_awakened [OF assms(1-3) t(1) pc] t pc(1) assms(6) show ?thesis
    by (cases pc) (auto simp: awakened_def cancelled_def pollsLeft_def IsMigrationActive_def putTask_def removeTask_def extended_def)
qed

lemma wake_other:
  assumes "run_state (wake env g v) s = (r, s')" "unpanicked r" "sane env g" "monitor_ok g s" "u \<noteq> v"
  shows "gget (mm_activeTasks s') u = gget (mm_activeTasks s) u \<and> gget (mm_goroutines s') u = gget (mm_goroutines s) u"
proof (cases "gget (mm_activeTasks s) v")
  case None
  with assms show ?thesis by (simp add: wake_inactive)
next
  case (Some t)
  with assms(4) obtain pc where pc: "gget (mm_goroutines s) v = Some pc" "task_ok g v t pc" by (rule monitor_okD)
  from wake_awakened [OF assms(1-3) Some pc] assms(5) show ?thesis
    by (auto simp: awakened_def putTask_def removeTask_def)
qed

lemma step_cancelled:
  "mig_step env g s s' \<Longrightarrow> sane env g \<Longrightarrow> monitor_ok g s \<Longrightarrow> cancelled s u \<Longrightarrow> IsMigrationActive s' u
   \<Longrightarrow> cancelled s' u \<and> pollsLeft s' u \<le> pollsLeft s u"
proof (induction rule: mig_step.induct)
  case (start x prov v pv f t sz s r s')
  from StartMigrationMonitoring_started [OF start.hyps start.prems(1)] start.prems(3) show ?case
    by (auto simp: cancelled_def pollsLeft_def dest!: started_keeps)
next
  case (recover x d s r s')
  from recover_keeps [OF recover.hyps recover.prems(1)] recover.prems(3) show ?case
    by (auto simp: cancelled_def pollsLeft_def)
next
  case (wake v s r s')
  show ?case
  proof (cases "u = v")
    case True
    with wake_cancelled [OF wake.hyps wake.prems(1,2)] wake.prems(3,4) show ?thesis by (simp add: less_imp_le)
  next
    case False
    from wake_other [OF wake.hyps wake.prems(1,2) False] wake.prems(3) show ?thesis by (simp add: cancelled_def pollsLeft_def)
  qed
next
  case (expire s v)
  then show ?case by (auto simp: expire_def Let_def cancelled_def pollsLeft_def split: option.splits)
next
  case (stop s)
  then show ?case by (auto simp: cancelled_def gget_Stop pollsLeft_def)
next
  case (other s w)
  then show ?case by (simp add: cancelled_def pollsLeft_def)
qed

lemma cancelled_run:
  assumes "active_run env g u s0 n s" "sane env g" "monitor_ok g s0" "cancelled s0 u"
  shows "monitor_ok g s \<and> cancelled s u \<and> pollsLeft s u + n \<le> 2"
  using assms
proof (induction rule: active_run.induct)
  case refl
  then show ?case by (simp add: pollsLeft_def split: option.split goroutine.split)
next
  case (woken n s r s')
  then have "monitor_ok g s'" by (blast intro: mig_step_ok mig_step.wake)
  with woken wake_cancelled [OF woken.hyps(2,3) assms(2) _ _ woken.hyps(4)] show ?case by fastforce
next
  case (step n s s')
  then have "monitor_ok g s'" by (blast intro: mig_step_ok)
  with step step_cancelled [OF step.hyps(2) assms(2) _ _ step.hyps(3)] show ?case by fastforce
qed

lemma Stop_cancelled: "IsMigrationActive (Stop s) u \<Longrightarrow> cancelled (Stop s) u"
  by (auto simp: IsMigrationActive_def cancelled_def gget_Stop)

lemma stopped_outlives_one:
  assumes "mig_reach env g s" "sane env g" "active_run env g u (Stop s) n s'" "IsMigrationActive (Stop s) u"
  shows "n \<le> 1"
proof -
  have ok: "monitor_ok g (Stop s)" using mig_reach_ok [OF mig_reach.step [OF assms(1) mig_step.stop] assms(2)] .
  from cancelled_run [OF assms(3,2) ok Stop_cancelled [OF assms(4)]]
  obtain t where "monitor_ok g s'" "gget (mm_activeTasks s') u = Some t" "pollsLeft s' u + n \<le> 2" by (auto simp: cancelled_def)
  then obtain pc where "gget (mm_goroutines s') u = Some pc" by (auto elim: monitor_okD)
  with \<open>pollsLeft s' u + n \<le> 2\<close> show ?thesis by (cases pc) (simp_all add: pollsLeft_def)
qed

text \<open>(C23) After \<open>Stop\<close>, a task takes at most two turns of its goroutine, whatever else happens in between: it outlives at most one, which it does
  when its context had already passed its deadline, so that polling is extended once; and the second turn ends it, by the run of the condition that
  follows the extension at once.\<close>

theorem stop_ends_monitoring:
  assumes "mig_reach env g s" "sane env g" "active_run env g u (Stop s) n s'" "IsMigrationActive (Stop s) u"
  shows "n \<le> 1 \<and> (\<forall>r s''. n = 1 \<and> run_state (wake env g u) s' = (r, s'') \<and> unpanicked r \<longrightarrow> \<not> IsMigrationActive s'' u)"
proof (intro conjI allI impI notI)
  show "n \<le> 1" by (rule stopped_outlives_one [OF assms])
  fix r s'' assume w: "n = 1 \<and> run_state (wake env g u) s' = (r, s'') \<and> unpanicked r" and active: "IsMigrationActive s'' u"
  with assms(3) have "active_run env g u (Stop s) (Suc n) s''" by (blast intro: active_run.woken)
  from stopped_outlives_one [OF assms(1,2) this assms(4)] w show False by simp
qed

subsection \<open>Recovery\<close>

lemma start_activates:
  assumes "run_state (StartMigrationMonitoring env g x prov u pv f t v) s = (r, s')" "unpanicked r" "sane env g"
    "\<And>w. \<exists>p w'. run_state (me_PVGet env x pv) w = (Inr p, w') \<and> pv_ClaimRef p \<noteq> None"
  shows "IsMigrationActive s' u"
proof (cases "IsMigrationActive s u")
  case True
  with assms(1) show ?thesis by (simp add: StartMigrationMonitoring_def)
next
  case inactive: False
  obtain claim c1 where c: "run_state (claimOf env x prov pv) (mm_controller s) = (Inr (Some claim), c1)"
    using assms(4) [of "mm_controller s"] by (cases "prov \<or> pv = []") (auto simp: claimOf_def)
  obtain l c2 where l: "run_state (tryE (addMigrationLabelIfNotExists env x pv)) c1 = (l, c2)" by fastforce
  show ?thesis
  proof (cases l)
    case (Inl err)
    then have "ekind err = Panicked" using l by (auto split: prod.splits sum.splits if_splits)
    moreover have "r = Inl err" using assms(1) c l Inl inactive
      by (simp add: StartMigrationMonitoring_def Let_def del: run_tryE)
    ultimately show ?thesis using assms(2) by (simp add: unpanicked_def)
  next
    case (Inr lab)
    with assms(1) c l inactive show ?thesis
      by (auto simp: StartMigrationMonitoring_def Let_def putTask_def IsMigrationActive_def simp del: run_tryE
          split: sum.splits if_splits prod.splits)
  qed
qed

lemma recoverMonitors_activates:
  assumes "run_state (recoverMonitors env g x d pvs) s = (r, s')" "unpanicked r" "sane env g"
    "\<And>n w. \<exists>p w'. run_state (me_PVGet env x n) w = (Inr p, w') \<and> pv_ClaimRef p \<noteq> None"
    "pv \<in> set pvs" "recoverable d pv = Some u"
  shows "IsMigrationActive s' u"
  using assms(1,5)
proof (induction pvs arbitrary: s)
  case (Cons q pvs)
  show ?case
  proof (cases "recoverable d q")
    case None
    with Cons assms(6) show ?thesis by auto
  next
    case (Some v)
    let ?start = "StartMigrationMonitoring env g x False v (pv_Name q) ''Premium_LRS'' ''PremiumV2_LRS'' (pv_StorageBytes q)"
    obtain e s1 where e: "run_state ?start s = (e, s1)" by fastforce
    show ?thesis
    proof (cases "unpanicked e")
      case True
      then have rest: "run_state (recoverMonitors env g x d pvs) s1 = (r, s')"
        using Cons.prems(1) Some e by (auto simp: unpanicked_def split: sum.splits if_splits)
      show ?thesis
      proof (cases "pv = q")
        case True
        with assms(6) Some have "IsMigrationActive s1 u"
          using start_activates [OF e \<open>unpanicked e\<close> assms(3) assms(4)] by simp
        then show ?thesis using recoverMonitors_keeps [OF rest assms(2,3)] by (auto simp: IsMigrationActive_def)
      next
        case False
        with Cons.prems(2) Cons.IH [OF rest] show ?thesis by simp
      qed
    next
      case False
      then have "\<not> unpanicked r" using Cons.prems(1) Some e by (auto simp: unpanicked_def split: sum.splits if_splits)
      with assms(2) show ?thesis by blast
    qed
  qed
qed simp

text \<open>(C24) Recovery after a restart, when listing the labelled volumes succeeds and every read of a persistent volume succeeds and shows a claim: every
  labelled volume of the driver with a claim, and with no parameter that names an SKU foreign to the migration, is monitored afterwards.
  (A volume whose \<open>storageAccountType\<close> or \<open>skuName\<close> is neither of the two SKUs is skipped.)\<close>

theorem recovery_complete:
  assumes "run_state (recoverMigrationMonitorsFromLabels env g x driverName) s = (r, s')" "unpanicked r" "sane env g"
    "run_state (me_PVList env (LabelMigrationInProgress @ ''=true'')) (mm_controller s) = (Inr pvs, w)"
    "\<And>n w. \<exists>p w'. run_state (me_PVGet env x n) w = (Inr p, w') \<and> pv_ClaimRef p \<noteq> None"
    "pv \<in> set pvs" "pv_ClaimRef pv \<noteq> None" "pv_CSI pv = Some csi" "csi_Driver csi = driverName"
    "\<And>key sku. key \<in> {''storageAccountType'', ''skuName''} \<Longrightarrow> ParseDiskParametersForKey (csi_VolumeAttributes csi) key = Some sku
       \<Longrightarrow> EqualFold sku ''Premium_LRS'' \<or> EqualFold sku ''PremiumV2_LRS''"
  shows "IsMigrationActive s' (csi_VolumeHandle csi)"
proof -
  have "recoverable driverName pv = Some (csi_VolumeHandle csi)"
    using assms(7-9) assms(10) by (auto simp: recoverable_def skuMatches_def split: option.splits)
  note handle = this
  have "run_state (recoverMonitors env g x driverName pvs) (s\<lparr>mm_controller := w\<rparr>) = (r, s')"
    using assms(1,4) by (simp add: recoverMigrationMonitorsFromLabels_def)
  from recoverMonitors_activates [OF this assms(2,3,5,6) handle] show ?thesis .
qed

subsection \<open>A concrete cluster\<close>

text \<open>One volume, a cluster that answers every call, and a clock that shows as many days as the world has data disks.\<close>

definition migPV :: MigrationPV where
  "migPV = \<lparr>pv_Name = ''pv'', pv_CSI = Some \<lparr>csi_Driver = ''disk.csi.azure.com'', csi_VolumeHandle = exampleURI,
     csi_VolumeAttributes = [(''skuname'', ''PremiumV2_LRS'')]\<rparr>, pv_Annotations = [], pv_Labels = [], pv_ClaimRef = Some (''ns'', ''claim''), pv_StorageBytes = TiB\<rparr>"

definition exampleMig :: "DataDisk list mig_env" where
  "exampleMig = \<lparr>me_env = exampleEnv, me_recorderAndClient = True, me_Now = (\<lambda>c. min (2 ^ 61) (24 * hour * int (length (cc_world c)))),
     me_PVGet = (\<lambda>_ _. okE migPV), me_PVUpdate = (\<lambda>_ _. okE ()), me_PVCGet = (\<lambda>_ ns n. okE (ns, n)), me_PVList = (\<lambda>_. okE [migPV]),
     me_Event = (\<lambda>_. State_Monad.return ())\<rparr>"

lemma exampleMig_sane: "sane exampleMig defaultGlobals"
  by (simp add: sane_def exampleMig_def defaultGlobals_def hour_def second_def min_def)

lemma exampleMig_steady: "steady exampleMig"
  by (simp add: steady_def exampleMig_def stays_def clockLe_def)

definition migStarted :: "DataDisk list MigrationProgressMonitor" where
  "migStarted = snd (run_state (StartMigrationMonitoring exampleMig defaultGlobals (contextWithTimeout 0 1) False exampleURI ''pv''
     ''Premium_LRS'' ''PremiumV2_LRS'' TiB) (NewMigrationProgressMonitor (exampleState [])))"

lemma migStarted_run:
  "run_state (StartMigrationMonitoring exampleMig defaultGlobals (contextWithTimeout 0 1) False exampleURI ''pv''
     ''Premium_LRS'' ''PremiumV2_LRS'' TiB) (NewMigrationProgressMonitor (exampleState [])) = (Inr (), migStarted)"
proof -
  let ?run = "run_state (StartMigrationMonitoring exampleMig defaultGlobals (contextWithTimeout 0 1) False exampleURI ''pv''
     ''Premium_LRS'' ''PremiumV2_LRS'' TiB) (NewMigrationProgressMonitor (exampleState []))"
  have "fst ?run = Inr ()" by code_simp
  then show ?thesis unfolding migStarted_def by (metis prod.collapse)
qed

lemma migStarted_reach: "mig_reach exampleMig defaultGlobals migStarted"
  using mig_reach.step [OF mig_reach.init mig_step.start [OF migStarted_run]] by (simp add: unpanicked_def)

definition migTask :: MigrationTask where
  "migTask = the (gget (mm_activeTasks migStarted) exampleURI)"

lemma migStarted_task: "gget (mm_activeTasks migStarted) exampleURI = Some migTask" "mt_StartTime migTask = 0" "mt_MigrationTimeout migTask = 13 * hour" "\<not> mt_Timedout migTask"
  by code_simp+

theorem monitor_invariant_witness: "cx_Deadline (mt_Context migTask) = 13 * hour \<and> mt_DiskURI migTask = exampleURI"
  using monitor_invariant [OF migStarted_reach exampleMig_sane, of exampleURI] migStarted_task by auto

text \<open>The same monitor after as many days as \<open>h\<close>.\<close>

definition migLater :: "nat \<Rightarrow> DataDisk list MigrationProgressMonitor" where
  "migLater h = migStarted\<lparr>mm_controller := exampleState (replicate h (exampleDataDisk 0))\<rparr>"

lemma migLater_reach: "mig_reach exampleMig defaultGlobals (migLater h)"
  unfolding migLater_def using mig_reach.step [OF migStarted_reach mig_step.other] .

lemma migLater_task: "gget (mm_activeTasks (migLater h)) exampleURI = Some migTask"
  using migStarted_task by (simp add: migLater_def)

lemma wake_result:
  assumes "fst (run_state (wake env g u) s) = Inr ()"
  shows "run_state (wake env g u) s = (Inr (), snd (run_state (wake env g u) s))"
  by (metis assms prod.collapse)

theorem monitoring_ends_witness:
  "\<exists>s'. run_state (wake exampleMig defaultGlobals exampleURI) (migLater 3) = (Inr (), s')
     \<and> IsMigrationActive (migLater 3) exampleURI \<and> \<not> IsMigrationActive s' exampleURI"
proof -
  have "fst (run_state (wake exampleMig defaultGlobals exampleURI) (migLater 3)) = Inr ()" by code_simp
  note r = wake_result [OF this]
  have "mt_StartTime migTask + mg_maxMigrationTimeout defaultGlobals \<le> me_Now exampleMig (mm_controller (migLater 3))" by code_simp
  from monitoring_ends [OF migLater_reach exampleMig_sane exampleMig_steady migLater_task this r] r migLater_task [of 3]
  show ?thesis by (auto simp: unpanicked_def IsMigrationActive_def)
qed

text \<open>The monitor in the loop of its first poll when the deadline passes.\<close>

definition migExpired :: "DataDisk list MigrationProgressMonitor" where
  "migExpired = expire exampleMig exampleURI
     ((snd (run_state (wake exampleMig defaultGlobals exampleURI) migStarted))\<lparr>mm_controller := exampleState (replicate 1 (exampleDataDisk 0))\<rparr>)"

lemma migExpired_reach: "mig_reach exampleMig defaultGlobals migExpired"
proof -
  have "fst (run_state (wake exampleMig defaultGlobals exampleURI) migStarted) = Inr ()" by code_simp
  from mig_step.wake [OF wake_result [OF this]]
  have "mig_step exampleMig defaultGlobals migStarted (snd (run_state (wake exampleMig defaultGlobals exampleURI) migStarted))"
    by (simp add: unpanicked_def)
  note woken = mig_reach.step [OF migStarted_reach this]
  show ?thesis unfolding migExpired_def using mig_reach.step [OF mig_reach.step [OF woken mig_step.other] mig_step.expire] .
qed

theorem stop_ends_monitoring_witness:
  "\<exists>s1 s2. active_run exampleMig defaultGlobals exampleURI (Stop migExpired) 1 s1
     \<and> run_state (wake exampleMig defaultGlobals exampleURI) s1 = (Inr (), s2) \<and> \<not> IsMigrationActive s2 exampleURI"
proof -
  let ?s = migExpired
  let ?run = "run_state (wake exampleMig defaultGlobals exampleURI) (Stop ?s)"
  let ?again = "run_state (wake exampleMig defaultGlobals exampleURI) (snd ?run)"
  have "fst ?run = Inr ()" "fst ?again = Inr ()" by code_simp+
  note r = wake_result [OF this(1)] wake_result [OF this(2)]
  have act: "IsMigrationActive (snd ?run) exampleURI" "IsMigrationActive (Stop ?s) exampleURI" by code_simp+
  have run: "active_run exampleMig defaultGlobals exampleURI (Stop ?s) 1 (snd ?run)"
    using active_run.woken [OF active_run.refl r(1) _ act(1)] by (simp add: unpanicked_def)
  have "1 = (1 :: nat) \<and> run_state (wake exampleMig defaultGlobals exampleURI) (snd ?run) = (Inr (), snd ?again) \<and> unpanicked (Inr () :: unit result)"
    using r(2) by (simp add: unpanicked_def)
  with stop_ends_monitoring [OF migExpired_reach exampleMig_sane run act(2)] have "\<not> IsMigrationActive (snd ?again) exampleURI"
    by blast
  with run r(2) show ?thesis by blast
qed

theorem recovery_complete_witness:
  "\<exists>s'. run_state (recoverMigrationMonitorsFromLabels exampleMig defaultGlobals (contextWithTimeout 0 1) ''disk.csi.azure.com'')
       (NewMigrationProgressMonitor (exampleState [])) = (Inr (), s') \<and> IsMigrationActive s' exampleURI"
proof -
  let ?run = "run_state (recoverMigrationMonitorsFromLabels exampleMig defaultGlobals (contextWithTimeout 0 1) ''disk.csi.azure.com'')
       (NewMigrationProgressMonitor (exampleState []))"
  have "fst ?run = Inr ()" by code_simp
  then have r: "?run = (Inr (), snd ?run)" by (metis prod.collapse)
  have l: "run_state (me_PVList exampleMig (LabelMigrationInProgress @ ''=true'')) (mm_controller (NewMigrationProgressMonitor (exampleState [])))
      = (Inr [migPV], exampleState [])"
    by (simp add: exampleMig_def NewMigrationProgressMonitor_def)
  have p: "\<exists>p w'. run_state (me_PVGet exampleMig (contextWithTimeout 0 1) n) w = (Inr p, w') \<and> pv_ClaimRef p \<noteq> None" for n w
    by (simp add: exampleMig_def migPV_def)
  let ?attributes = "[(''skuname'', ''PremiumV2_LRS'')]"
  have keys: "case ParseDiskParametersForKey ?attributes ''storageAccountType'' of None \<Rightarrow> True | Some sku \<Rightarrow> False"
    "case ParseDiskParametersForKey ?attributes ''skuName'' of None \<Rightarrow> True | Some sku \<Rightarrow> EqualFold sku ''PremiumV2_LRS''" by code_simp+
  have "IsMigrationActive (snd ?run) (csi_VolumeHandle (the (pv_CSI migPV)))"
    by (rule recovery_complete [OF r _ exampleMig_sane l p, where pv = migPV])
      (use keys in \<open>auto simp: unpanicked_def migPV_def split: option.splits\<close>)
  with r show ?thesis by (auto simp: migPV_def)
qed

end
