(* ===== verification/NodeDevices.thy ===== *)
theory NodeDevices
  imports Driver
begin

text \<open>
  Devices and file systems of a Linux node (\<open>azure_common_linux.go\<close>, and the part of \<open>nodeserver.go\<close> that calls them alone): finding
  the device of a LUN, formatting and mounting, the checks by \<open>fsck\<close> and \<open>wipefs\<close>, resizing, rescanning, statistics, and unmounting
  with the invalidation of caches.

  The kernel, the external commands, \<open>mount-utils\<close> and the clock are a \<open>node_env\<close> over an arbitrary state \<open>'s\<close>. \<open>CombinedOutput\<close>
  gives the output of a command beside its error. Windows has its own file, which is not modelled.
\<close>

subsection \<open>The environment\<close>

datatype exec_error = ExecutableNotFound | ExitError int | ExecFailed string

record 's node_env =
  io_ReadDir :: "string \<Rightarrow> ('s, string list) io"
  io_Readlink :: "string \<Rightarrow> ('s, string) io"
  io_ReadFile :: "string \<Rightarrow> ('s, string) io"
  io_WriteFile :: "string \<Rightarrow> string \<Rightarrow> ('s, unit) io"
  os_Stat :: "string \<Rightarrow> ('s, unit) io"
  os_Remove :: "string \<Rightarrow> ('s, unit) io"
  os_OpenAndReadDir1 :: "string \<Rightarrow> ('s, unit) io"
  os_MakeDir :: "string \<Rightarrow> ('s, unit) io"
  os_MakeFile :: "string \<Rightarrow> ('s, unit) io"
  os_EvalSymlinks :: "string \<Rightarrow> ('s, string) io"
  os_IsCorruptedDir :: "string \<Rightarrow> ('s, bool) state"
  os_Cwd :: string
  ux_OpenDirectory :: "string \<Rightarrow> ('s, nat) io"
  ux_Open :: "string \<Rightarrow> ('s, nat) io"
  ux_Close :: "nat \<Rightarrow> ('s, unit) state"
  ux_FstatDev :: "nat \<Rightarrow> ('s, int) io"
  ux_FstatParentDev :: "nat \<Rightarrow> ('s, int) io"
  ux_Ioctl :: "nat \<Rightarrow> string \<Rightarrow> ('s, int option) state"
  ex_CombinedOutput :: "string \<Rightarrow> string list \<Rightarrow> ('s, string \<times> exec_error option) io"
  ex_Output :: "string \<Rightarrow> string list \<Rightarrow> ('s, string \<times> exec_error option) io"
  sem_Acquire :: "('s, unit) state"
  sem_Release :: "('s, unit) state"
  mn_Mount :: "string \<Rightarrow> string \<Rightarrow> string \<Rightarrow> string list \<Rightarrow> ('s, unit) io"
  mn_Unmount :: "string \<Rightarrow> ('s, unit) io"
  mn_IsLikelyNotMountPoint :: "string \<Rightarrow> ('s, bool \<times> goerror option) io"
  mn_IsMountPoint :: "string \<Rightarrow> ('s, bool) io"
  mn_List :: "('s, string list) io"
  mn_GetDiskFormat :: "string \<Rightarrow> ('s, string) io"
  mn_GetDeviceNameFromMount :: "string \<Rightarrow> ('s, string) io"
  mn_CleanupMountPoint :: "string \<Rightarrow> bool \<Rightarrow> ('s, unit) io"
  mn_Resize :: "string \<Rightarrow> string \<Rightarrow> ('s, unit) io"
  mn_NeedResize :: "string \<Rightarrow> string \<Rightarrow> ('s, bool) io"
  mn_PathIsDevice :: "string \<Rightarrow> ('s, bool) io"
  mn_StatFS :: "string \<Rightarrow> ('s, int option list) io"
  ne_Wait :: "nat \<Rightarrow> ('s, goerror option) state"

text \<open>Errors of commands, as \<open>%v\<close> prints them.\<close>

definition execErrorString :: "exec_error \<Rightarrow> string" where
  "execErrorString e = (case e of ExecutableNotFound \<Rightarrow> ''executable file not found in $PATH''
     | ExitError n \<Rightarrow> ''exit status '' @ Itoa n | ExecFailed m \<Rightarrow> m)"

subsection \<open>Paths\<close>

definition afterSlash :: "string \<Rightarrow> string" where
  "afterSlash link = rev (takeWhile (\<lambda>c. c \<noteq> CHR ''/'') (rev link))"

definition pathBase :: "string \<Rightarrow> string" where
  "pathBase p = (if p = [] then ''.''
     else let q = rev (dropWhile (\<lambda>c. c = CHR ''/'') (rev p)) in if q = [] then ''/'' else afterSlash q)"

definition pathDir :: "string \<Rightarrow> string" where
  "pathDir p = pathClean (rev (dropWhile (\<lambda>c. c \<noteq> CHR ''/'') (rev p)))"

text \<open>\<open>wholeDiskNameRegexp.FindString\<close>: \<open>^sd[a-z]+|^nvme[0-9]+n[0-9]+\<close>.\<close>

definition isLower :: "char \<Rightarrow> bool" where
  "isLower c \<longleftrightarrow> CHR ''a'' \<le> c \<and> c \<le> CHR ''z''"

definition wholeDiskName :: "string \<Rightarrow> string" where
  "wholeDiskName s =
     (if HasPrefix s ''sd'' then let l = takeWhile isLower (drop 2 s) in if l = [] then [] else ''sd'' @ l
      else if HasPrefix s ''nvme'' then
        let d1 = takeWhile isDigit (drop 4 s); r1 = drop (4 + length d1) s; d2 = takeWhile isDigit (drop 1 r1)
        in if d1 \<noteq> [] \<and> HasPrefix r1 ''n'' \<and> d2 \<noteq> [] then ''nvme'' @ d1 @ ''n'' @ d2 else []
      else [])"

definition sysClassBlockPath :: string where
  "sysClassBlockPath = ''/sys/class/block/''"

subsection \<open>Polling\<close>

text \<open>
  \<open>PollUntilContextTimeout\<close> with an immediate first run: the condition runs once per interval that begins before the deadline.
  \<open>Some x\<close> is success with what the condition has assigned.
\<close>

fun pollUntil :: "'s node_env \<Rightarrow> nat \<Rightarrow> ('s, 'a option) io \<Rightarrow> ('s, 'a) io" where
  "pollUntil env 0 cond = failE (GoErr DeadlineExceeded ''context deadline exceeded'' [])"
| "pollUntil env (Suc ticks) cond = bindE cond (\<lambda>r. case r of
       Some x \<Rightarrow> okE x
     | None \<Rightarrow> doE (ne_Wait env ticks) (\<lambda>done. case done of
         Some err \<Rightarrow> failE err | None \<Rightarrow> pollUntil env ticks cond))"

subsection \<open>Finding the device of a LUN\<close>

fun linkTargets :: "'s node_env \<Rightarrow> string \<Rightarrow> string list \<Rightarrow> ('s, string list) io" where
  "linkTargets env dir [] = okE []"
| "linkTargets env dir (name # names) = bindE (tryE (io_Readlink env (pathJoin2 dir name))) (\<lambda>r.
     bindE (linkTargets env dir names) (\<lambda>rest. okE (case r of Inl _ \<Rightarrow> rest | Inr link \<Rightarrow> afterSlash link # rest)))"

definition linksOf :: "'s node_env \<Rightarrow> string \<Rightarrow> ('s, string list) io" where
  "linksOf env dir = bindE (tryE (io_ReadDir env dir)) (\<lambda>r. case r of
     Inl _ \<Rightarrow> okE [] | Inr names \<Rightarrow> linkTargets env dir names)"

definition listAzureDiskPath :: "'s node_env \<Rightarrow> ('s, string list) io" where
  "listAzureDiskPath env = bindE (linksOf env ''/dev/disk/azure/'') (\<lambda>a. bindE (linksOf env ''/dev/disk/azure/scsi0/'') (\<lambda>b. okE (a @ b)))"

fun linkNamed :: "'s node_env \<Rightarrow> string \<Rightarrow> string \<Rightarrow> string list \<Rightarrow> ('s, string) io" where
  "linkNamed env devLinkPath devName [] = failE (errorf (''device name('' @ devName @ '') is not found under '' @ devLinkPath))"
| "linkNamed env devLinkPath devName (name # names) = bindE (tryE (io_Readlink env (devLinkPath @ name))) (\<lambda>r. case r of
       Inl _ \<Rightarrow> linkNamed env devLinkPath devName names
     | Inr link \<Rightarrow> if HasSuffix link devName then okE (devLinkPath @ name) else linkNamed env devLinkPath devName names)"

definition getDiskLinkByDevName :: "'s node_env \<Rightarrow> string \<Rightarrow> string \<Rightarrow> ('s, string) io" where
  "getDiskLinkByDevName env devLinkPath devName = bindE (tryE (io_ReadDir env devLinkPath)) (\<lambda>r. case r of
     Inl err \<Rightarrow> failE (errorf (''read '' @ devLinkPath @ '' error: '' @ emsg err))
   | Inr names \<Rightarrow> linkNamed env devLinkPath devName names)"

fun writeAll :: "'s node_env \<Rightarrow> string \<Rightarrow> string list \<Rightarrow> ('s, unit) io" where
  "writeAll env content [] = okE ()"
| "writeAll env content (path # paths) = bindE (tryE (io_WriteFile env path content)) (\<lambda>_. writeAll env content paths)"

definition scsiHostRescan :: "'s node_env \<Rightarrow> ('s, unit) io" where
  "scsiHostRescan env = bindE (tryE (io_ReadDir env ''/sys/class/scsi_host/'')) (\<lambda>r. case r of
     Inl _ \<Rightarrow> okE ()
   | Inr names \<Rightarrow> writeAll env ''- - -'' (map (\<lambda>name. ''/sys/class/scsi_host/'' @ name @ ''/scan'') names))"

text \<open>Whether an entry \<open>host:channel:target:lun\<close> is that of the LUN; without links under \<open>/dev/disk/azure\<close> hosts 0 to 3 are skipped.\<close>

definition scsiMatches :: "int \<Rightarrow> string list \<Rightarrow> string \<Rightarrow> bool" where
  "scsiMatches lun azureDisks name =
     (let arr = Split name '':''
      in length arr \<ge> 4
         \<and> (azureDisks = [] \<longrightarrow> (case Atoi (arr ! 0) of Inl _ \<Rightarrow> False | Inr target \<Rightarrow> target > 3))
         \<and> Atoi (arr ! 3) = Inr lun)"

definition scsiPath :: string where
  "scsiPath = ''/sys/bus/scsi/devices''"

definition scsiProperty :: "'s node_env \<Rightarrow> string \<Rightarrow> string \<Rightarrow> string \<Rightarrow> ('s, bool) io" where
  "scsiProperty env name property expected = bindE (tryE (io_ReadFile env (pathJoin2 (pathJoin2 scsiPath name) property))) (\<lambda>r.
     okE (case r of Inl _ \<Rightarrow> False | Inr content \<Rightarrow> ToUpper (TrimSpace content) = expected))"

definition devicePathOf :: "'s node_env \<Rightarrow> string \<Rightarrow> ('s, string) io" where
  "devicePathOf env devName = bindE (tryE (getDiskLinkByDevName env ''/dev/disk/azure/scsi1/'' devName)) (\<lambda>r. case r of
       Inr diskPath \<Rightarrow> okE diskPath
     | Inl _ \<Rightarrow> bindE (tryE (getDiskLinkByDevName env ''/dev/disk/by-id/'' devName)) (\<lambda>r. case r of
         Inr diskPath \<Rightarrow> okE diskPath
       | Inl _ \<Rightarrow> okE (''/dev/'' @ devName)))"

text \<open>The empty string is \<open>not found\<close>. A block directory without entries is an index out of range.\<close>

fun scanScsi :: "'s node_env \<Rightarrow> int \<Rightarrow> string list \<Rightarrow> string list \<Rightarrow> ('s, string) io" where
  "scanScsi env lun azureDisks [] = okE []"
| "scanScsi env lun azureDisks (name # names) =
     (if \<not> scsiMatches lun azureDisks name then scanScsi env lun azureDisks names
      else bindE (scsiProperty env name ''vendor'' ''MSFT'') (\<lambda>isVendor.
        if \<not> isVendor then scanScsi env lun azureDisks names
        else bindE (scsiProperty env name ''model'' ''VIRTUAL DISK'') (\<lambda>isModel.
          if \<not> isModel then scanScsi env lun azureDisks names
          else bindE (tryE (io_ReadDir env (pathJoin2 (pathJoin2 scsiPath name) ''block''))) (\<lambda>r. case r of
              Inl _ \<Rightarrow> scanScsi env lun azureDisks names
            | Inr [] \<Rightarrow> failE (panicf ''index out of range'')
            | Inr (devName # _) \<Rightarrow>
                if devName \<in> set azureDisks then scanScsi env lun azureDisks names else devicePathOf env devName))))"

text \<open>The error of \<open>ReadDir\<close> is shadowed: a failure to read reports no disk and no error.\<close>

definition findDiskByLunWithConstraint :: "'s node_env \<Rightarrow> int \<Rightarrow> string list \<Rightarrow> ('s, string) io" where
  "findDiskByLunWithConstraint env lun azureDisks = bindE (tryE (io_ReadDir env scsiPath)) (\<lambda>r. case r of
     Inl _ \<Rightarrow> okE [] | Inr names \<Rightarrow> scanScsi env lun azureDisks names)"

fun firstLink :: "'s node_env \<Rightarrow> int \<Rightarrow> string list \<Rightarrow> ('s, string) io" where
  "firstLink env lun [] = failE (errorf (''failed to find disk by lun '' @ Itoa lun))"
| "firstLink env lun (devPath # devPaths) = bindE (tryE (os_Stat env devPath)) (\<lambda>r. case r of
       Inl _ \<Rightarrow> firstLink env lun devPaths
     | Inr _ \<Rightarrow> bindE (tryE (io_Readlink env devPath)) (\<lambda>r. case r of
         Inl _ \<Rightarrow> firstLink env lun devPaths | Inr _ \<Rightarrow> okE devPath))"

definition findDiskByLun :: "'s node_env \<Rightarrow> int \<Rightarrow> ('s, string) io" where
  "findDiskByLun env lun = bindE (listAzureDiskPath env) (\<lambda>azureDisks.
     bindE (tryE (findDiskByLunWithConstraint env lun azureDisks)) (\<lambda>r.
       let device = (case r of Inl _ \<Rightarrow> [] | Inr d \<Rightarrow> d)
       in if device \<noteq> [] then okE device
          else firstLink env lun [''/dev/disk/azure/scsi1/lun'' @ Itoa lun, ''/dev/disk/azure/data/by-lun/'' @ Itoa lun]))"

definition deviceTicks :: nat where
  "deviceTicks = 120"

definition lookForDevice :: "'s node_env \<Rightarrow> int \<Rightarrow> ('s, string option) io" where
  "lookForDevice env lun = bindE (tryE (findDiskByLun env lun)) (\<lambda>r. case r of
       Inl err \<Rightarrow> failE (errorf (''azureDisk - findDiskByLun('' @ Itoa lun @ '') failed with error('' @ emsg err @ '')''))
     | Inr path \<Rightarrow> okE (if path \<noteq> [] then Some path else None))"

definition getDevicePathWithLUN :: "'s node_env \<Rightarrow> string \<Rightarrow> ('s, string) io" where
  "getDevicePathWithLUN env lunStr = bindE (liftE (GetDiskLUN lunStr)) (\<lambda>lun.
     bindE (scsiHostRescan env) (\<lambda>_.
     bindE (tryE (pollUntil env deviceTicks (lookForDevice env lun))) (\<lambda>r. case r of
       Inr path \<Rightarrow> okE path
     | Inl err \<Rightarrow> if errorsIs err DeadlineExceeded
         then failE (errorf (''azureDisk - findDiskByLun('' @ Itoa lun @ '') failed within timeout'')) else failE err)))"

subsection \<open>File systems\<close>

definition mountWithMetrics :: "'s node_env \<Rightarrow> string \<Rightarrow> string \<Rightarrow> string \<Rightarrow> string list \<Rightarrow> ('s, unit) io" where
  "mountWithMetrics env source target fstype options = bindE (tryE (mn_Mount env source target fstype options)) (\<lambda>r. case r of
       Inl err \<Rightarrow> failE (errorf (''failed to mount disk '' @ source @ '' at '' @ target @ '' with options ['' @ Join options '' '' @ ''] and error: '' @ emsg err))
     | Inr _ \<Rightarrow> okE ())"

definition quoted :: "string \<Rightarrow> string" where
  "quoted s = CHR 0x27 # s @ [CHR 0x27]"

text \<open>The bits of an exit status; a status of a process that was killed is negative.\<close>

definition exitHas :: "int \<Rightarrow> int \<Rightarrow> bool" where
  "exitHas n flag \<longleftrightarrow> 0 \<le> n \<and> (n div flag) mod 2 = 1"

text \<open>Whether there is a file system, beside the error: \<open>detectOrRepairFilesystem\<close> never answers \<open>(false, nil)\<close>.\<close>

definition detectOrRepairFilesystem :: "'s node_env \<Rightarrow> string \<Rightarrow> string list \<Rightarrow> ('s, bool \<times> goerror option) io" where
  "detectOrRepairFilesystem env source fsckOptions =
     bindE (ex_CombinedOutput env ''fsck'' (fsckOptions @ [source])) (\<lambda>(out, err). okE (
       let opts = '' with options ['' @ Join fsckOptions '' '' @ '']'' in
       case err of
         None \<Rightarrow> (True, None)
       | Some e \<Rightarrow> (case e of
           ExecutableNotFound \<Rightarrow> (False, Some (errorf (quoted ''fsck'' @ '' not found to detect filesystem on device '' @ source @ opts @ '': '' @ execErrorString e)))
         | ExecFailed _ \<Rightarrow> (True, None)
         | ExitError n \<Rightarrow>
             if exitHas n 8 then (False, Some (errorf (''Unable to run fsck on device '' @ source @ opts @ '', fsck error: '' @ execErrorString e @ '' output: '' @ out)))
             else if exitHas n 4 then (True, Some (errorf (quoted ''fsck'' @ '' found errors on device '' @ source @ opts @ '' but could not correct them output: '' @ out
               @ '' (exit status '' @ Itoa n @ '')'')))
             else if exitHas n 1 then (True, None)
             else if n > 4 then (False, Some (errorf (quoted ''fsck'' @ '' failed on device '' @ source @ opts @ '': '' @ execErrorString e)))
             else (True, None))))"

definition detectFilesystemExistence :: "'s node_env \<Rightarrow> string \<Rightarrow> ('s, bool) io" where
  "detectFilesystemExistence env source =
     bindE (detectOrRepairFilesystem env source [''-n'']) (\<lambda>(isFSExist, err).
       let fatal = (case err of None \<Rightarrow> False
         | Some e \<Rightarrow> \<not> Contains (ToLower (emsg e)) ''superblock could not be read or does not describe a valid ext2/ext3/ext4'')
       in if fatal then failE (errorf (''detectFilesystemExistence - failed to check existence of filesystem on disk '' @ source
              @ '' through '' @ quoted ''fsck'' @ '' with error('' @ (case err of None \<Rightarrow> [] | Some e \<Rightarrow> emsg e) @ '')''))
          else if isFSExist then okE True
          else bindE (ex_CombinedOutput env ''wipefs'' [''--no-act'', ''--output'', ''TYPE'', ''--noheadings'', source]) (\<lambda>(out, werr). case werr of
              Some e \<Rightarrow> failE (errorf (''detectFilesystemExistence - failed to check existence of filesystem on disk '' @ source
                @ '' through '' @ quoted ''wipefs'' @ '' with error('' @ execErrorString e @ '')''))
            | None \<Rightarrow> okE (TrimSpace out \<noteq> [])))"

definition repairFilesystem :: "'s node_env \<Rightarrow> string \<Rightarrow> string list \<Rightarrow> ('s, unit) io" where
  "repairFilesystem env source options = bindE (detectOrRepairFilesystem env source options) (\<lambda>(filesystemExists, err). case err of
       None \<Rightarrow> okE ()
     | Some e \<Rightarrow> if filesystemExists then failE e else okE ())"

text \<open>The token of the semaphore is given back when \<open>mkfs\<close> ends, or at the timeout, by another goroutine.\<close>

definition mkfsWithConcurrencyLimit :: "'s node_env \<Rightarrow> bool \<Rightarrow> string \<Rightarrow> string list \<Rightarrow> ('s, string \<times> exec_error option) io" where
  "mkfsWithConcurrencyLimit env formatSem fstype args =
     (let mkfs = ex_CombinedOutput env (''mkfs.'' @ fstype) args
      in if formatSem then doE (sem_Acquire env) (\<lambda>_. deferE mkfs (sem_Release env)) else mkfs)"

definition mkfsArgs :: "string \<Rightarrow> string \<Rightarrow> string list" where
  "mkfsArgs fstype source =
     (if fstype = ''ext4'' \<or> fstype = ''ext3'' then [''-F'', ''-m0'', source]
      else if fstype = ''xfs'' then [''-f'', source] else [source])"

text \<open>
  The file system that is on the disk after this, and whether it is new. A disk that \<open>fsck\<close> or \<open>wipefs\<close> finds one on is read again,
  one without a signature is formatted.
\<close>

definition formatUnlessPresent :: "'s node_env \<Rightarrow> bool \<Rightarrow> bool \<Rightarrow> string \<Rightarrow> string \<Rightarrow> bool \<Rightarrow> ('s, string \<times> bool) io" where
  "formatUnlessPresent env formatSem readOnly source fstype present =
     (if present then bindE (tryE (mn_GetDiskFormat env source)) (\<lambda>r. case r of
         Inl err \<Rightarrow> failE (errorf (''failed to re-read filesystem signature on disk '' @ source @ '' with error: '' @ emsg err))
       | Inr reReadFormat \<Rightarrow> okE (reReadFormat, False))
      else if readOnly then failE (errorf (''formatAndMount - disk '' @ source @ '' is not formatted, but mount options specify read-only''))
      else bindE (mkfsWithConcurrencyLimit env formatSem fstype (mkfsArgs fstype source)) (\<lambda>(output, err). case err of
           Some e \<Rightarrow> failE (errorf (''failed to format disk '' @ source @ '' as type '' @ fstype @ '' with options ['' @ Join (mkfsArgs fstype source) '' ''
             @ '']: '' @ output @ '' error: '' @ execErrorString e))
         | None \<Rightarrow> okE (fstype, True)))"

definition formatIfNeeded :: "'s node_env \<Rightarrow> bool \<Rightarrow> bool \<Rightarrow> string \<Rightarrow> string \<Rightarrow> ('s, string \<times> bool) io" where
  "formatIfNeeded env formatSem readOnly source fstype =
     bindE (tryE (detectFilesystemExistence env source)) (\<lambda>r. case r of
       Inl err \<Rightarrow> failE (errorf (''formatAndMount - failed to check existence of filesystem on disk '' @ source @ '' with error('' @ emsg err @ '')''))
     | Inr present \<Rightarrow> formatUnlessPresent env formatSem readOnly source fstype present)"

definition mountFormatted :: "'s node_env \<Rightarrow> bool \<Rightarrow> string \<Rightarrow> string \<Rightarrow> string \<Rightarrow> string list \<Rightarrow> string \<Rightarrow> bool \<Rightarrow> ('s, unit) io" where
  "mountFormatted env readOnly source target fstype options diskFSFormat newlyFormatted =
     (if \<not> EqualFold fstype diskFSFormat
      then failE (errorf (''configured to mount disk '' @ source @ '' as '' @ fstype @ '' but current format is '' @ diskFSFormat @ '', things might break''))
      else bindE (if newlyFormatted \<or> readOnly then okE (Inr ()) else tryE (repairFilesystem env source [''-a''])) (\<lambda>r. case r of
          Inl err \<Rightarrow> failE (errorf (''failed to run fsck on disk '' @ source @ '' with error: '' @ emsg err))
        | Inr _ \<Rightarrow> mountWithMetrics env source target fstype (options @ [''defaults''])))"

definition formatAndMount :: "'s node_env \<Rightarrow> bool \<Rightarrow> string \<Rightarrow> string \<Rightarrow> string \<Rightarrow> string list \<Rightarrow> ('s, unit) io" where
  "formatAndMount env formatSem source target fstype options =
     (let (newOptions, exists) = RemoveOptionIfExists options ''directmount''; readOnly = (''ro'' \<in> set options)
      in if exists then mountWithMetrics env source target fstype newOptions
         else bindE (tryE (mn_GetDiskFormat env source)) (\<lambda>r. case r of
           Inl err \<Rightarrow> failE (errorf (''failed to get disk format for '' @ source @ '' with error('' @ emsg err @ '')''))
         | Inr blkid \<Rightarrow> bindE (if blkid = [] then formatIfNeeded env formatSem readOnly source fstype else okE (blkid, False))
             (\<lambda>(diskFSFormat, newlyFormatted).
               mountFormatted env readOnly source target fstype options diskFSFormat newlyFormatted)))"

subsection \<open>Sizes and rescanning\<close>

definition getDevicePathWithMountPath :: "'s node_env \<Rightarrow> string \<Rightarrow> ('s, string) io" where
  "getDevicePathWithMountPath env mountPath =
     bindE (ex_Output env ''findmnt'' [''-o'', ''source'', ''--noheadings'', ''--mountpoint'', mountPath]) (\<lambda>(output, err). case err of
       Some e \<Rightarrow> failE (errorf (''could not determine device path('' @ mountPath @ ''), error: '' @ execErrorString e))
     | None \<Rightarrow> if TrimSpace output = [] then failE (errorf (''could not get valid device for mount path: '' @ mountPath))
         else okE (TrimSpace output))"

definition getBlockSizeBytes :: "'s node_env \<Rightarrow> string \<Rightarrow> ('s, int) io" where
  "getBlockSizeBytes env devicePath =
     bindE (ex_Output env ''blockdev'' [''--getsize64'', devicePath]) (\<lambda>(output, err). case err of
       Some e \<Rightarrow> failE (errorf (''error when getting size of block volume at path '' @ devicePath @ '': output: '' @ output @ '', err: '' @ execErrorString e))
     | None \<Rightarrow> (case ParseInt 64 (TrimSpace output) of
         Inl _ \<Rightarrow> failE (errorf (''failed to parse size '' @ TrimSpace output @ '' into int a size''))
       | Inr n \<Rightarrow> okE n))"

definition rescanVolume :: "'s node_env \<Rightarrow> string \<Rightarrow> ('s, unit) io" where
  "rescanVolume env devicePath = io_WriteFile env (pathJoin2 (pathJoin2 sysClassBlockPath (pathBase devicePath)) ''device/rescan'') ''1''"

fun rescanEach :: "'s node_env \<Rightarrow> string list \<Rightarrow> ('s, unit) io" where
  "rescanEach env [] = okE ()"
| "rescanEach env (deviceName # names) =
     (if HasPrefix deviceName ''sd'' \<and> ''sdc'' \<le> deviceName
      then bindE (tryE (rescanVolume env (pathJoin2 sysClassBlockPath deviceName))) (\<lambda>_. rescanEach env names)
      else rescanEach env names)"

definition rescanAllVolumes :: "'s node_env \<Rightarrow> ('s, unit) io" where
  "rescanAllVolumes env = bindE (io_ReadDir env sysClassBlockPath) (rescanEach env)"

definition validateBlockDeviceSize :: "'s node_env \<Rightarrow> string \<Rightarrow> int \<Rightarrow> ('s, int) io" where
  "validateBlockDeviceSize env devicePath requestGiB = bindE (tryE (getBlockSizeBytes env devicePath)) (\<lambda>r. case r of
       Inl err \<Rightarrow> failE (statusf Internal (''could not get size of block volume at path '' @ devicePath @ '': '' @ emsg err))
     | Inr blockSizeBytes \<Rightarrow>
         if RoundUpGiB blockSizeBytes < requestGiB
         then failE (statusf Internal (''block volume at path '' @ devicePath @ '' size check failed: current '' @ Itoa (RoundUpGiB blockSizeBytes)
           @ '' GiB < requested '' @ Itoa requestGiB @ '' GiB''))
         else okE blockSizeBytes)"

subsection \<open>Statistics\<close>

record VolumeUsage =
  vu_Bytes :: bool
  vu_Available :: int
  vu_Total :: int
  vu_Used :: int

text \<open>A quantity of \<open>statfs\<close> that is not an \<open>int64\<close> is \<open>None\<close>; the message ends before the quantity.\<close>

definition transformed :: "string \<Rightarrow> int option \<Rightarrow> int result" where
  "transformed what q = (case q of Some n \<Rightarrow> Inr n | None \<Rightarrow> Inl (statusf Internal (''failed to transform '' @ what)))"

text \<open>In this order: available, capacity, used, free inodes, inodes, used inodes.\<close>

fun statUsages :: "int option list \<Rightarrow> VolumeUsage list result" where
  "statUsages [availableQ, capacityQ, usedQ, inodesFreeQ, inodesQ, inodesUsedQ] =
     bindR (transformed ''volume available size'' availableQ) (\<lambda>available.
     bindR (transformed ''volume capacity size'' capacityQ) (\<lambda>capacity.
     bindR (transformed ''volume used size'' usedQ) (\<lambda>used.
     bindR (transformed ''disk inodes free'' inodesFreeQ) (\<lambda>inodesFree.
     bindR (transformed ''disk inodes'' inodesQ) (\<lambda>inodes.
     bindR (transformed ''disk inodes used'' inodesUsedQ) (\<lambda>inodesUsed.
       Inr [\<lparr>vu_Bytes = True, vu_Available = available, vu_Total = capacity, vu_Used = used\<rparr>,
            \<lparr>vu_Bytes = False, vu_Available = inodesFree, vu_Total = inodes, vu_Used = inodesUsed\<rparr>]))))))"
| "statUsages _ = Inl (panicf ''six quantities'')"

definition GetVolumeStats :: "'s node_env \<Rightarrow> string \<Rightarrow> ('s, VolumeUsage list) io" where
  "GetVolumeStats env target = bindE (tryE (os_Stat env target)) (\<lambda>r. case r of
       Inl err \<Rightarrow> if errorsIs err FileNotExist then failE (statusf NotFoundCode (''path '' @ target @ '' does not exist''))
         else failE (statusf Internal (''failed to stat file '' @ target @ '': '' @ emsg err))
     | Inr _ \<Rightarrow> bindE (tryE (mn_PathIsDevice env target)) (\<lambda>r. case r of
         Inl err \<Rightarrow> failE (statusf NotFoundCode (''failed to determine whether '' @ target @ '' is block device: '' @ emsg err))
       | Inr True \<Rightarrow> bindE (tryE (getBlockSizeBytes env target)) (\<lambda>r. case r of
           Inl err \<Rightarrow> failE (statusf Internal (''failed to get block capacity on path '' @ target @ '': '' @ emsg err))
         | Inr bcap \<Rightarrow> okE [\<lparr>vu_Bytes = True, vu_Available = 0, vu_Total = bcap, vu_Used = 0\<rparr>])
       | Inr False \<Rightarrow> bindE (mn_StatFS env target) (\<lambda>m. liftE (statUsages m))))"

subsection \<open>Unmounting\<close>

definition flushAndInvalidateBlockDevice :: "'s node_env \<Rightarrow> string \<Rightarrow> ('s, unit) io" where
  "flushAndInvalidateBlockDevice env devicePath = bindE (tryE (ux_Open env devicePath)) (\<lambda>r. case r of
       Inl err \<Rightarrow> failE (wrapf (''failed to open device '' @ devicePath @ '': '' @ emsg err) err)
     | Inr fd \<Rightarrow> deferE (doE (ux_Ioctl env fd ''BLKFLSBUF'') (\<lambda>errno. case errno of
         Some _ \<Rightarrow> failE (errorf (''failed to flush buffers on device '' @ devicePath)) | None \<Rightarrow> okE ())) (ux_Close env fd))"

text \<open>\<open>FS_IOC_SHUTDOWN\<close>, only on a mount boundary; ENOTTY, EINVAL and EOPNOTSUPP are file systems that cannot be shut down.\<close>

definition shutdownFilesystem :: "'s node_env \<Rightarrow> string \<Rightarrow> ('s, unit) io" where
  "shutdownFilesystem env stagingTargetPath = bindE (tryE (ux_OpenDirectory env stagingTargetPath)) (\<lambda>r. case r of
       Inl err \<Rightarrow> failE (wrapf (''failed to open mount '' @ stagingTargetPath @ '': '' @ emsg err) err)
     | Inr fd \<Rightarrow> deferE (bindE (tryE (ux_FstatDev env fd)) (\<lambda>r. case r of
         Inl err \<Rightarrow> failE (wrapf (''failed to stat '' @ stagingTargetPath @ '': '' @ emsg err) err)
       | Inr self \<Rightarrow> bindE (tryE (ux_FstatParentDev env fd)) (\<lambda>r. case r of
           Inl err \<Rightarrow> failE (wrapf (''failed to stat parent of '' @ stagingTargetPath @ '': '' @ emsg err) err)
         | Inr parent \<Rightarrow>
             if self = parent
             then failE (GoErr Plain (''skipping shutdown of '' @ stagingTargetPath @ '': not a mountpoint (file does not exist)'') [FileNotExist])
             else doE (ux_Ioctl env fd ''FS_IOC_SHUTDOWN'') (\<lambda>errno. case errno of
                 None \<Rightarrow> okE ()
               | Some n \<Rightarrow> if n = 25 \<or> n = 22 \<or> n = 95 then okE ()
                   else failE (errorf (''failed to shut down filesystem at '' @ stagingTargetPath)))))) (ux_Close env fd))"

fun flushAll :: "'s node_env \<Rightarrow> string list \<Rightarrow> ('s, unit) io" where
  "flushAll env [] = okE ()"
| "flushAll env (target # targets) = bindE (tryE (flushAndInvalidateBlockDevice env target)) (\<lambda>_. flushAll env targets)"

definition resolveDevice :: "'s node_env \<Rightarrow> string \<Rightarrow> ('s, string) io" where
  "resolveDevice env stagingTargetPath = bindE (tryE (mn_GetDeviceNameFromMount env stagingTargetPath)) (\<lambda>r. case r of
       Inl _ \<Rightarrow> okE []
     | Inr devicePath \<Rightarrow> if devicePath = [] then okE []
         else bindE (tryE (os_EvalSymlinks env devicePath)) (\<lambda>r. okE (case r of Inl _ \<Rightarrow> devicePath | Inr resolved \<Rightarrow> resolved)))"

definition flushTargets :: "string \<Rightarrow> string list" where
  "flushTargets devicePath =
     (let disk = wholeDiskName (pathBase devicePath)
      in if disk \<noteq> [] \<and> ''/dev/'' @ disk \<noteq> devicePath then [devicePath, ''/dev/'' @ disk] else [devicePath])"

definition unmountAndInvalidateDevice :: "'s node_env \<Rightarrow> bool \<Rightarrow> string \<Rightarrow> ('s, unit) io" where
  "unmountAndInvalidateDevice env enableSCSIDeviceDeletion stagingTargetPath =
     bindE (resolveDevice env stagingTargetPath) (\<lambda>devicePath.
     bindE (tryE (shutdownFilesystem env stagingTargetPath)) (\<lambda>_.
     bindE (mn_CleanupMountPoint env stagingTargetPath True) (\<lambda>_.
     if devicePath = [] then okE ()
     else bindE (flushAll env (flushTargets devicePath)) (\<lambda>_.
       let disk = wholeDiskName (pathBase devicePath)
       in if enableSCSIDeviceDeletion \<and> HasPrefix disk ''sd''
          then bindE (tryE (io_WriteFile env (pathJoin2 (pathJoin2 sysClassBlockPath disk) ''device/delete'') ''1'')) (\<lambda>_. okE ())
          else okE ()))))"

subsection \<open>Mount points and block targets\<close>

text \<open>\<open>true\<close> when the target is already mounted and its link is valid.\<close>

definition ensureMountPoint :: "'s node_env \<Rightarrow> string \<Rightarrow> ('s, bool) io" where
  "ensureMountPoint env target =
     bindE (mn_IsLikelyNotMountPoint env target) (\<lambda>(notMnt0, err).
     bindE (case err of
         None \<Rightarrow> okE notMnt0
       | Some e \<Rightarrow> if errorsIs e FileNotExist then okE notMnt0
           else doE (os_IsCorruptedDir env target) (\<lambda>corrupted. if corrupted then okE False else failE e)) (\<lambda>notMnt1.
     bindE (mn_List env) (\<lambda>mountList.
       if notMnt1 \<and> pathAbs (os_Cwd env) target \<notin> set mountList
       then bindE (os_MakeDir env target) (\<lambda>_. okE False)
       else bindE (tryE (os_OpenAndReadDir1 env target)) (\<lambda>r. case r of
           Inr _ \<Rightarrow> okE True
         | Inl _ \<Rightarrow> bindE (mn_Unmount env target) (\<lambda>_. okE False)))))"

definition ensureBlockTargetFile :: "'s node_env \<Rightarrow> string \<Rightarrow> ('s, unit) io" where
  "ensureBlockTargetFile env target = bindE (tryE (ensureMountPoint env (pathDir target))) (\<lambda>r. case r of
       Inl err \<Rightarrow> failE (statusf Internal (''could not mount target '' @ pathDir target @ '': '' @ emsg err))
     | Inr _ \<Rightarrow> bindE (tryE (os_MakeFile env target)) (\<lambda>r. case r of
         Inr _ \<Rightarrow> okE ()
       | Inl err \<Rightarrow> bindE (tryE (os_Remove env target)) (\<lambda>r. case r of
           Inl removeErr \<Rightarrow> failE (statusf Internal (''could not remove mount target '' @ target @ '': '' @ emsg removeErr))
         | Inr _ \<Rightarrow> failE (statusf Internal (''could not create file '' @ target @ '': '' @ emsg err)))))"

end
