(* ===== verification/Optimization.thy ===== *)
theory Optimization
  imports NodeDevices
begin

text \<open>
  Device tuning (\<open>pkg/optimization\<close>): the performance attributes of a volume, the table of disk SKUs, the smallest SKU that meets a
  request, the queue settings for it, and writing them under the device. The table of node SKUs is an argument, the
  \<open>NodeInfo\<close> of a node a value.

  A \<open>float64\<close> is a rational, an infinity or NaN. Every operation is the exact one followed by the rounding \<open>fl\<close>, a parameter, so
  that what is proved holds for the rounding of IEEE 754. Signed zeros and overflow are left out: no value here is near them.
\<close>

subsection \<open>Floating-point numbers\<close>

datatype gofloat = Fin rat | PosInf | NegInf | NaN

type_synonym rounding = "rat \<Rightarrow> rat"

fun sgnF :: "gofloat \<Rightarrow> rat" where
  "sgnF (Fin q) = sgn q"
| "sgnF PosInf = 1"
| "sgnF NegInf = -1"
| "sgnF NaN = 0"

definition infinityOf :: "rat \<Rightarrow> gofloat" where
  "infinityOf s = (if s > 0 then PosInf else if s < 0 then NegInf else NaN)"

fun fmul :: "rounding \<Rightarrow> gofloat \<Rightarrow> gofloat \<Rightarrow> gofloat" where
  "fmul fl (Fin a) (Fin b) = Fin (fl (a * b))"
| "fmul fl x y = infinityOf (sgnF x * sgnF y)"

fun fdiv :: "rounding \<Rightarrow> gofloat \<Rightarrow> gofloat \<Rightarrow> gofloat" where
  "fdiv fl (Fin a) (Fin b) = (if b = 0 then infinityOf (sgn a) else Fin (fl (a / b)))"
| "fdiv fl NaN y = NaN"
| "fdiv fl x NaN = NaN"
| "fdiv fl (Fin a) y = Fin 0"
| "fdiv fl x (Fin b) = infinityOf (sgnF x * (if b < 0 then -1 else 1))"
| "fdiv fl x y = NaN"

fun fadd :: "rounding \<Rightarrow> gofloat \<Rightarrow> gofloat \<Rightarrow> gofloat" where
  "fadd fl (Fin a) (Fin b) = Fin (fl (a + b))"
| "fadd fl NaN y = NaN"
| "fadd fl x NaN = NaN"
| "fadd fl PosInf y = (if y = NegInf then NaN else PosInf)"
| "fadd fl NegInf y = (if y = PosInf then NaN else NegInf)"
| "fadd fl x y = y"

text \<open>\<open>math.Min\<close>, \<open>math.Max\<close> and \<open>math.Ceil\<close>.\<close>

fun fmin :: "gofloat \<Rightarrow> gofloat \<Rightarrow> gofloat" where
  "fmin (Fin a) (Fin b) = Fin (min a b)"
| "fmin x y = (if x = NegInf \<or> y = NegInf then NegInf else if x = NaN \<or> y = NaN then NaN else if x = PosInf then y else x)"

fun fmax :: "gofloat \<Rightarrow> gofloat \<Rightarrow> gofloat" where
  "fmax (Fin a) (Fin b) = Fin (max a b)"
| "fmax x y = (if x = PosInf \<or> y = PosInf then PosInf else if x = NaN \<or> y = NaN then NaN else if x = NegInf then y else x)"

fun fceil :: "gofloat \<Rightarrow> gofloat" where
  "fceil (Fin q) = Fin (of_int \<lceil>q\<rceil>)"
| "fceil x = x"

fun nonpositive :: "gofloat \<Rightarrow> bool" where
  "nonpositive (Fin q) = (q \<le> 0)"
| "nonpositive x = (x = NegInf)"

text \<open>\<open>%g\<close> of an integral value: an exponent from a million on.\<close>

definition expForm :: "string \<Rightarrow> string" where
  "expForm digits =
     (let m = rev (dropWhile (\<lambda>c. c = CHR ''0'') (rev digits)); e = Itoa (int (length digits) - 1)
      in take 1 m @ (if length m > 1 then ''.'' @ drop 1 m else []) @ ''e+'' @ (if length e < 2 then ''0'' @ e else e))"

fun formatG :: "gofloat \<Rightarrow> string" where
  "formatG (Fin q) = (let n = \<lfloor>q\<rfloor> in if \<bar>n\<bar> < 1000000 then Itoa n else (if n < 0 then ''-'' else []) @ expForm (Itoa \<bar>n\<bar>))"
| "formatG PosInf = ''+Inf''"
| "formatG NegInf = ''-Inf''"
| "formatG NaN = ''NaN''"

subsection \<open>SKUs\<close>

record NodeInfo =
  ni_SkuName :: string
  ni_MaxDataDiskCount :: int
  ni_VCpus :: int
  ni_MaxBurstIops :: int
  ni_MaxIops :: int
  ni_MaxBwMbps :: int
  ni_MaxBurstBwMbps :: int

record DiskSkuInfo =
  sk_StorageAccountType :: string
  sk_StorageTier :: string
  sk_DiskSize :: string
  sk_MaxAllowedShares :: int
  sk_MaxBurstIops :: int
  sk_MaxIops :: int
  sk_MaxBwMbps :: int
  sk_MaxBurstBwMbps :: int
  sk_MaxSizeGiB :: int

definition skuInfo :: "string \<Rightarrow> string \<Rightarrow> string \<Rightarrow> int \<Rightarrow> int \<Rightarrow> int \<Rightarrow> int \<Rightarrow> int \<Rightarrow> int \<Rightarrow> DiskSkuInfo" where
  "skuInfo account tier disk shares burstIops iops bw burstBw sizeGiB =
     \<lparr>sk_StorageAccountType = account, sk_StorageTier = tier, sk_DiskSize = disk, sk_MaxAllowedShares = shares, sk_MaxBurstIops = burstIops,
      sk_MaxIops = iops, sk_MaxBwMbps = bw, sk_MaxBurstBwMbps = burstBw, sk_MaxSizeGiB = sizeGiB\<rparr>"

definition skus_standardssd_zrs :: "(string, DiskSkuInfo) gomap" where
  "skus_standardssd_zrs = [(''e1'', skuInfo ''StandardSSD_ZRS'' ''Standard'' ''E1'' 3 600 500 100 150 4),
    (''e20'', skuInfo ''StandardSSD_ZRS'' ''Standard'' ''E20'' 3 600 500 100 150 512),
    (''e30'', skuInfo ''StandardSSD_ZRS'' ''Standard'' ''E30'' 5 1000 500 100 250 1024),
    (''e6'', skuInfo ''StandardSSD_ZRS'' ''Standard'' ''E6'' 3 600 500 100 150 64),
    (''e50'', skuInfo ''StandardSSD_ZRS'' ''Standard'' ''E50'' 5 500 500 100 100 4096),
    (''e60'', skuInfo ''StandardSSD_ZRS'' ''Standard'' ''E60'' 10 2000 2000 400 400 8192),
    (''e10'', skuInfo ''StandardSSD_ZRS'' ''Standard'' ''E10'' 3 600 500 100 150 128),
    (''e15'', skuInfo ''StandardSSD_ZRS'' ''Standard'' ''E15'' 3 600 500 100 150 256),
    (''e3'', skuInfo ''StandardSSD_ZRS'' ''Standard'' ''E3'' 3 600 500 100 150 16),
    (''e70'', skuInfo ''StandardSSD_ZRS'' ''Standard'' ''E70'' 10 4000 4000 600 600 16384),
    (''e2'', skuInfo ''StandardSSD_ZRS'' ''Standard'' ''E2'' 3 600 500 100 150 8),
    (''e4'', skuInfo ''StandardSSD_ZRS'' ''Standard'' ''E4'' 3 600 500 100 150 32),
    (''e40'', skuInfo ''StandardSSD_ZRS'' ''Standard'' ''E40'' 5 500 500 100 100 2048),
    (''e80'', skuInfo ''StandardSSD_ZRS'' ''Standard'' ''E80'' 10 6000 6000 750 750 32767)]"

definition skus_standard_lrs :: "(string, DiskSkuInfo) gomap" where
  "skus_standard_lrs = [(''s60'', skuInfo ''Standard_LRS'' ''Standard'' ''S60'' 5 1300 1300 300 300 8192),
    (''s70'', skuInfo ''Standard_LRS'' ''Standard'' ''S70'' 5 2000 2000 500 500 16384),
    (''s10'', skuInfo ''Standard_LRS'' ''Standard'' ''S10'' 1 500 500 60 60 128),
    (''s15'', skuInfo ''Standard_LRS'' ''Standard'' ''S15'' 1 500 500 60 60 256),
    (''s20'', skuInfo ''Standard_LRS'' ''Standard'' ''S20'' 2 500 500 60 60 512),
    (''s4'', skuInfo ''Standard_LRS'' ''Standard'' ''S4'' 1 500 500 60 60 32),
    (''s40'', skuInfo ''Standard_LRS'' ''Standard'' ''S40'' 5 500 500 60 60 2048),
    (''s6'', skuInfo ''Standard_LRS'' ''Standard'' ''S6'' 1 500 500 60 60 64),
    (''s30'', skuInfo ''Standard_LRS'' ''Standard'' ''S30'' 5 500 500 60 60 1024),
    (''s50'', skuInfo ''Standard_LRS'' ''Standard'' ''S50'' 5 500 500 60 60 4096),
    (''s80'', skuInfo ''Standard_LRS'' ''Standard'' ''S80'' 5 2000 2000 500 500 32767)]"

definition skus_ultrassd_lrs :: "(string, DiskSkuInfo) gomap" where
  "skus_ultrassd_lrs = [(''u'', skuInfo ''UltraSSD_LRS'' ''Ultra'' ''U'' 15 0 0 0 0 65536)]"

definition skus_premiumv2_lrs :: "(string, DiskSkuInfo) gomap" where
  "skus_premiumv2_lrs = [(''p'', skuInfo ''PremiumV2_LRS'' ''Premium'' ''P'' 15 0 0 0 0 65536)]"

definition skus_premium_lrs :: "(string, DiskSkuInfo) gomap" where
  "skus_premium_lrs = [(''p15'', skuInfo ''Premium_LRS'' ''Premium'' ''P15'' 3 3500 1100 125 170 256),
    (''p70'', skuInfo ''Premium_LRS'' ''Premium'' ''P70'' 10 18000 18000 750 750 16384),
    (''p80'', skuInfo ''Premium_LRS'' ''Premium'' ''P80'' 10 20000 20000 900 900 32767),
    (''p2'', skuInfo ''Premium_LRS'' ''Premium'' ''P2'' 3 3500 120 25 170 8),
    (''p20'', skuInfo ''Premium_LRS'' ''Premium'' ''P20'' 3 3500 2300 150 170 512),
    (''p3'', skuInfo ''Premium_LRS'' ''Premium'' ''P3'' 3 3500 120 25 170 16),
    (''p1'', skuInfo ''Premium_LRS'' ''Premium'' ''P1'' 3 3500 120 25 170 4),
    (''p10'', skuInfo ''Premium_LRS'' ''Premium'' ''P10'' 3 3500 500 100 170 128),
    (''p4'', skuInfo ''Premium_LRS'' ''Premium'' ''P4'' 3 3500 120 25 170 32),
    (''p50'', skuInfo ''Premium_LRS'' ''Premium'' ''P50'' 5 7500 7500 250 250 4096),
    (''p6'', skuInfo ''Premium_LRS'' ''Premium'' ''P6'' 3 3500 240 50 170 64),
    (''p30'', skuInfo ''Premium_LRS'' ''Premium'' ''P30'' 5 5000 5000 200 200 1024),
    (''p40'', skuInfo ''Premium_LRS'' ''Premium'' ''P40'' 5 7500 7500 250 250 2048),
    (''p60'', skuInfo ''Premium_LRS'' ''Premium'' ''P60'' 10 16000 16000 500 500 8192)]"

definition skus_premium_zrs :: "(string, DiskSkuInfo) gomap" where
  "skus_premium_zrs = [(''p1'', skuInfo ''Premium_ZRS'' ''Premium'' ''P1'' 3 3500 120 25 170 4),
    (''p50'', skuInfo ''Premium_ZRS'' ''Premium'' ''P50'' 5 7500 7500 250 250 4096),
    (''p6'', skuInfo ''Premium_ZRS'' ''Premium'' ''P6'' 3 3500 240 50 170 64),
    (''p60'', skuInfo ''Premium_ZRS'' ''Premium'' ''P60'' 10 16000 16000 500 500 8192),
    (''p10'', skuInfo ''Premium_ZRS'' ''Premium'' ''P10'' 3 3500 500 100 170 128),
    (''p15'', skuInfo ''Premium_ZRS'' ''Premium'' ''P15'' 3 3500 1100 125 170 256),
    (''p2'', skuInfo ''Premium_ZRS'' ''Premium'' ''P2'' 3 3500 120 25 170 8),
    (''p20'', skuInfo ''Premium_ZRS'' ''Premium'' ''P20'' 3 3500 2300 150 170 512),
    (''p80'', skuInfo ''Premium_ZRS'' ''Premium'' ''P80'' 10 20000 20000 900 900 32767),
    (''p3'', skuInfo ''Premium_ZRS'' ''Premium'' ''P3'' 3 3500 120 25 170 16),
    (''p30'', skuInfo ''Premium_ZRS'' ''Premium'' ''P30'' 5 5000 5000 200 200 1024),
    (''p4'', skuInfo ''Premium_ZRS'' ''Premium'' ''P4'' 3 3500 120 25 170 32),
    (''p40'', skuInfo ''Premium_ZRS'' ''Premium'' ''P40'' 5 7500 7500 250 250 2048),
    (''p70'', skuInfo ''Premium_ZRS'' ''Premium'' ''P70'' 10 18000 18000 750 750 16384)]"

definition skus_standardssd_lrs :: "(string, DiskSkuInfo) gomap" where
  "skus_standardssd_lrs = [(''e40'', skuInfo ''StandardSSD_LRS'' ''Standard'' ''E40'' 5 500 500 100 100 2048),
    (''e60'', skuInfo ''StandardSSD_LRS'' ''Standard'' ''E60'' 10 2000 2000 400 400 8192),
    (''e70'', skuInfo ''StandardSSD_LRS'' ''Standard'' ''E70'' 10 4000 4000 600 600 16384),
    (''e3'', skuInfo ''StandardSSD_LRS'' ''Standard'' ''E3'' 3 600 500 100 150 16),
    (''e10'', skuInfo ''StandardSSD_LRS'' ''Standard'' ''E10'' 3 600 500 100 150 128),
    (''e30'', skuInfo ''StandardSSD_LRS'' ''Standard'' ''E30'' 5 1000 500 100 250 1024),
    (''e50'', skuInfo ''StandardSSD_LRS'' ''Standard'' ''E50'' 5 500 500 100 100 4096),
    (''e80'', skuInfo ''StandardSSD_LRS'' ''Standard'' ''E80'' 10 6000 6000 750 750 32767),
    (''e1'', skuInfo ''StandardSSD_LRS'' ''Standard'' ''E1'' 3 600 500 100 150 4),
    (''e6'', skuInfo ''StandardSSD_LRS'' ''Standard'' ''E6'' 3 600 500 100 150 64),
    (''e2'', skuInfo ''StandardSSD_LRS'' ''Standard'' ''E2'' 3 600 500 100 150 8),
    (''e20'', skuInfo ''StandardSSD_LRS'' ''Standard'' ''E20'' 3 600 500 100 150 512),
    (''e4'', skuInfo ''StandardSSD_LRS'' ''Standard'' ''E4'' 3 600 500 100 150 32),
    (''e15'', skuInfo ''StandardSSD_LRS'' ''Standard'' ''E15'' 3 600 500 100 150 256)]"

definition DiskSkuMap :: "(string, (string, DiskSkuInfo) gomap) gomap" where
  "DiskSkuMap = [(''standardssd_zrs'', skus_standardssd_zrs),
    (''standard_lrs'', skus_standard_lrs),
    (''ultrassd_lrs'', skus_ultrassd_lrs),
    (''premiumv2_lrs'', skus_premiumv2_lrs),
    (''premium_lrs'', skus_premium_lrs),
    (''premium_zrs'', skus_premium_zrs),
    (''standardssd_lrs'', skus_standardssd_lrs)]"

text \<open>The literals of the latencies are the nearest floats.\<close>

definition GetRandomIOLatencyInSec :: "rounding \<Rightarrow> DiskSkuInfo \<Rightarrow> gofloat" where
  "GetRandomIOLatencyInSec fl sku =
     Fin (fl (if sk_MaxSizeGiB sku \<le> 4096 then 22 / 10000 else if sk_MaxSizeGiB sku \<le> 8192 then 28 / 10000
       else if sk_MaxSizeGiB sku \<le> 16384 then 34 / 10000 else 4 / 1000))"

definition GetSequentialOLatencyInSec :: "rounding \<Rightarrow> DiskSkuInfo \<Rightarrow> gofloat" where
  "GetSequentialOLatencyInSec fl sku =
     Fin (fl (if sk_MaxSizeGiB sku \<le> 4096 then 33 / 10000 else if sk_MaxSizeGiB sku \<le> 8192 then 41 / 10000
       else if sk_MaxSizeGiB sku \<le> 16384 then 46 / 10000 else 52 / 10000))"

text \<open>The SKU name of a node is looked up in the table of VM sizes; \<open>instanceType\<close> is the answer of the cloud, \<open>None\<close> without instances.\<close>

definition NewNodeInfo :: "(string, NodeInfo) gomap \<Rightarrow> string result option \<Rightarrow> NodeInfo result" where
  "NewNodeInfo nodeInfoMap instanceType = (case instanceType of
     None \<Rightarrow> Inl (statusf Internal ''NewNodeInfo: Failed to get instances from Azure cloud provider'')
   | Some (Inl err) \<Rightarrow> Inl (errorf (''NewNodeInfo: Failed to get instance type from Azure cloud provider, error: '' @ emsg err))
   | Some (Inr sku) \<Rightarrow> (case gget nodeInfoMap (ToLower sku) of
       None \<Rightarrow> Inl (errorf (''NewNodeInfo: Could not find SKU '' @ ToLower sku @ '' in the sku map''))
     | Some vmSku \<Rightarrow> Inr (vmSku\<lparr>ni_SkuName := sku\<rparr>)))"

definition meetsRequest :: "DiskSkuInfo \<Rightarrow> int \<Rightarrow> int \<Rightarrow> int \<Rightarrow> bool" where
  "meetsRequest sku diskSizeGb diskIops diskBwMbps \<longleftrightarrow>
     sk_MaxSizeGiB sku \<ge> diskSizeGb \<and> sk_MaxBwMbps sku \<ge> diskBwMbps \<and> sk_MaxIops sku \<ge> diskIops"

fun smallestSku :: "int \<Rightarrow> int \<Rightarrow> int \<Rightarrow> (string, DiskSkuInfo) gomap \<Rightarrow> DiskSkuInfo option \<Rightarrow> DiskSkuInfo option" where
  "smallestSku gb iops bw [] best = best"
| "smallestSku gb iops bw ((_, sku) # skus) best =
     smallestSku gb iops bw skus
       (if meetsRequest sku gb iops bw \<and> (case best of None \<Rightarrow> True | Some m \<Rightarrow> sk_MaxSizeGiB sku < sk_MaxSizeGiB m)
        then Some sku else best)"

definition intOrZero :: "string \<Rightarrow> int" where
  "intOrZero s = (case Atoi s of Inl _ \<Rightarrow> 0 | Inr n \<Rightarrow> n)"

definition getMatchingDiskSku :: "(string, (string, DiskSkuInfo) gomap) gomap \<Rightarrow> string \<Rightarrow> string \<Rightarrow> string \<Rightarrow> string \<Rightarrow> DiskSkuInfo option result" where
  "getMatchingDiskSku diskSkus accountType diskSizeGibStr diskIopsStr diskBwMbpsStr =
     (case gget diskSkus (ToLower accountType) of
       None \<Rightarrow> Inl (errorf (''could not find sku for account '' @ accountType @ ''. Error: sku not found''))
     | Some skus \<Rightarrow>
         if skus = [] then Inl (errorf (''could not find sku for account '' @ accountType @ ''. Error: sku not found''))
         else (case Atoi diskSizeGibStr of
           Inl _ \<Rightarrow> Inl (errorf (''could not parse disk size '' @ diskSizeGibStr @ ''. Error: incorrect sku size''))
         | Inr gb \<Rightarrow> Inr (smallestSku gb (intOrZero diskIopsStr) (intOrZero diskBwMbpsStr) skus None)))"

subsection \<open>Queue settings\<close>

record device_settings =
  ds_queueDepth :: string
  ds_nrRequests :: string
  ds_scheduler :: string
  ds_maxSectorsKb :: string
  ds_readAheadKb :: string

definition optimalFor :: "rounding \<Rightarrow> NodeInfo \<Rightarrow> DiskSkuInfo \<Rightarrow> device_settings" where
  "optimalFor fl node sku =
     (let f = (\<lambda>n. Fin (fl (of_int n)));
          iopsHeadRoom = Fin (fl (1 / 4)); maxHwSectorsKb = Fin (fl 512);
          diskIops = f (sk_MaxBurstIops sku); iops0 = fmin diskIops (f (ni_MaxBurstIops node));
          maxBurstIops = (if nonpositive iops0 then diskIops else iops0);
          diskBw = f (sk_MaxBurstBwMbps sku); bw0 = fmul fl (fmin diskBw (f (ni_MaxBurstBwMbps node))) (Fin (fl 1000));
          maxBurstBw = (if nonpositive bw0 then diskBw else bw0);
          iopsSeqIo = fmul fl maxBurstIops (Fin (fl (1 - fl (1 / 4))));
          rsMinSeqIo = fceil (fmin maxHwSectorsKb (fdiv fl maxBurstBw iopsSeqIo));
          qdMaxSeqBw = fceil (fdiv fl (fmul fl maxBurstBw (GetSequentialOLatencyInSec fl sku)) rsMinSeqIo);
          qdMaxRandomIops = fceil (fmul fl maxBurstIops (GetRandomIOLatencyInSec fl sku));
          qdTotal = formatG (fceil (fmax (fadd fl (fmul fl qdMaxRandomIops iopsHeadRoom) qdMaxSeqBw) qdMaxRandomIops))
      in \<lparr>ds_queueDepth = qdTotal, ds_nrRequests = qdTotal, ds_scheduler = ''mq-deadline'', ds_maxSectorsKb = formatG rsMinSeqIo,
          ds_readAheadKb = formatG (fceil (fmul fl qdMaxSeqBw rsMinSeqIo))\<rparr>)"

definition getOptimalDeviceSettings :: "rounding \<Rightarrow> NodeInfo \<Rightarrow> (string, (string, DiskSkuInfo) gomap) gomap \<Rightarrow> string \<Rightarrow> string \<Rightarrow> string \<Rightarrow> string
    \<Rightarrow> device_settings result" where
  "getOptimalDeviceSettings fl node diskSkus accountType diskSizeGibStr diskIopsStr diskBwMbpsStr =
     (case getMatchingDiskSku diskSkus accountType diskSizeGibStr diskIopsStr diskBwMbpsStr of
       Inr (Some sku) \<Rightarrow> Inr (optimalFor fl node sku)
     | _ \<Rightarrow> Inl (errorf (''could not find sku for account '' @ accountType @ '' size '' @ diskSizeGibStr @ ''. Error: sku not found'')))"

subsection \<open>Tuning a device\<close>

definition DiskSupportsPerfOptimization :: "string \<Rightarrow> string \<Rightarrow> bool" where
  "DiskSupportsPerfOptimization diskPerfProfile diskAccountType \<longleftrightarrow>
     isPerfTuningEnabled diskPerfProfile \<and> accountSupportsPerfOptimization diskAccountType"

record perf_attributes =
  pa_present :: bool
  pa_profile :: string
  pa_accountType :: string
  pa_diskSizeGibStr :: string
  pa_diskIopsStr :: string
  pa_diskBwMbpsStr :: string
  pa_deviceSettings :: smap

fun perfAttribute :: "string \<times> string \<Rightarrow> perf_attributes \<Rightarrow> perf_attributes" where
  "perfAttribute (k, v) a =
     (let key = ToLower k
      in if key = PerfProfileField then a\<lparr>pa_present := True, pa_profile := v\<rparr>
         else if key = SkuNameField then a\<lparr>pa_accountType := v\<rparr>
         else if key = RequestedSizeGib then a\<lparr>pa_diskSizeGibStr := v\<rparr>
         else if key = DiskIOPSReadWriteField then a\<lparr>pa_diskIopsStr := v\<rparr>
         else if key = DiskMBPSReadWriteField then a\<lparr>pa_diskBwMbpsStr := v\<rparr>
         else (case GetDeviceSettingFromAttribute key of
           Inl _ \<Rightarrow> a | Inr setting \<Rightarrow> a\<lparr>pa_deviceSettings := gset setting v (pa_deviceSettings a)\<rparr>))"

definition GetDiskPerfAttributes :: "smap \<Rightarrow> perf_attributes result" where
  "GetDiskPerfAttributes attributes =
     (let a = fold perfAttribute attributes \<lparr>pa_present = False, pa_profile = [], pa_accountType = [], pa_diskSizeGibStr = [],
            pa_diskIopsStr = [], pa_diskBwMbpsStr = [], pa_deviceSettings = []\<rparr>
      in if pa_present a
         then (if IsValidPerfProfile (pa_profile a) then Inr a
               else Inl (errorf (''Perf profile '' @ pa_profile a @ '' is invalid'')))
         else Inr (a\<lparr>pa_profile := PerfProfileNone\<rparr>))"

definition getDeviceSettingsForBasicProfile :: "rounding \<Rightarrow> NodeInfo \<Rightarrow> (string, (string, DiskSkuInfo) gomap) gomap \<Rightarrow> string \<Rightarrow> perf_attributes \<Rightarrow> smap result" where
  "getDeviceSettingsForBasicProfile fl node diskSkus deviceRoot a =
     (case getOptimalDeviceSettings fl node diskSkus (pa_accountType a) (pa_diskSizeGibStr a) (pa_diskIopsStr a) (pa_diskBwMbpsStr a) of
       Inl err \<Rightarrow> Inl (errorf (''getDeviceSettingsForBasicProfile: Failed to get optimal settings for profile '' @ pa_profile a
         @ '' accountType '' @ pa_accountType a @ ''. Error: '' @ emsg err))
     | Inr s \<Rightarrow> Inr (
         gset (pathJoin2 deviceRoot ''queue/read_ahead_kb'') ''8'' (
         gset (pathJoin2 deviceRoot ''queue/nr_requests'') (ds_nrRequests s) (
         gset (pathJoin2 deviceRoot ''device/queue_depth'') (ds_queueDepth s) (
         gset (pathJoin2 deviceRoot ''queue/scheduler'') (ds_scheduler s) (
         gset (pathJoin2 deviceRoot ''queue/max_sectors_kb'') (ds_maxSectorsKb s) []))))))"

definition getDeviceSettingsForAdvancedProfile :: "string \<Rightarrow> smap \<Rightarrow> smap" where
  "getDeviceSettingsForAdvancedProfile deviceRoot deviceSettingsFromCtx =
     fold (\<lambda>(setting, value). gset (pathJoin2 deviceRoot setting) value) deviceSettingsFromCtx []"

text \<open>\<open>echo\<close> creates the file at a path and writes the content with the command \<open>echo\<close>.\<close>

type_synonym 's echo = "string \<Rightarrow> string \<Rightarrow> ('s, unit) io"

fun echoEach :: "'s echo \<Rightarrow> smap \<Rightarrow> ('s, unit) io" where
  "echoEach echo [] = okE ()"
| "echoEach echo ((setting, value) # settings) = bindE (tryE (echo value setting)) (\<lambda>r. case r of
     Inl err \<Rightarrow> failE (errorf (''applyDeviceSettings: Could not set '' @ setting @ '' with value '' @ value @ ''. Error: '' @ emsg err))
   | Inr _ \<Rightarrow> echoEach echo settings)"

definition applyDeviceSettings :: "'s node_env \<Rightarrow> 's echo \<Rightarrow> string \<Rightarrow> smap \<Rightarrow> ('s, unit) io" where
  "applyDeviceSettings env echo deviceRoot deviceSettings =
     (case AreDeviceSettingsValid (os_Cwd env) deviceRoot deviceSettings of
       Some err \<Rightarrow> failE err | None \<Rightarrow> echoEach echo deviceSettings)"

definition OptimizeDiskPerformance :: "'s node_env \<Rightarrow> 's echo \<Rightarrow> rounding \<Rightarrow> (string, (string, DiskSkuInfo) gomap) gomap \<Rightarrow> NodeInfo option \<Rightarrow> string
    \<Rightarrow> perf_attributes \<Rightarrow> ('s, unit) io" where
  "OptimizeDiskPerformance env echo fl diskSkus nodeInfo devicePath a = (case nodeInfo of
       None \<Rightarrow> failE (errorf ''OptimizeDiskPerformance: Node info is not provided. Error: invalid parameter'')
     | Some node \<Rightarrow> bindE (tryE (os_EvalSymlinks env devicePath)) (\<lambda>r. case r of
         Inl err \<Rightarrow> failE (errorf (''OptimizeDiskPerformance: Could not get deviceName for '' @ devicePath @ ''. Error: path '' @ devicePath
           @ '' is not a symlink. Error: '' @ emsg err))
       | Inr resolved \<Rightarrow>
           let deviceRoot = pathJoin2 BlockDeviceRootPathLinux (pathBase resolved); profile = ToLower (pa_profile a);
               settings = (if profile = PerfProfileBasic then getDeviceSettingsForBasicProfile fl node diskSkus deviceRoot a
                 else if profile = PerfProfileAdvanced then Inr (getDeviceSettingsForAdvancedProfile deviceRoot (pa_deviceSettings a))
                 else Inl (errorf (''OptimizeDiskPerformance: Invalid perfProfile '' @ pa_profile a)))
           in (case settings of
               Inl err \<Rightarrow> failE (errorf (''OptimizeDiskPerformance: Failed to optimize disk for deviceName '' @ pathBase resolved @ '' perfProfile ''
                 @ pa_profile a @ ''. Error: '' @ emsg err))
             | Inr s \<Rightarrow> applyDeviceSettings env echo deviceRoot s)))"

end
