(* ===== verification/OptimizationProps.thy ===== *)
theory OptimizationProps
  imports VmSkus
begin

text \<open>
  Device tuning: the SKU that is matched is the smallest one that meets the request, whatever the order of the table, and what the
  queue settings are for a SKU without published limits.
\<close>

subsection \<open>The smallest matching SKU\<close>

text \<open>The SKUs of a group that meet a request, and the best of two candidates.\<close>

definition meeting :: "int \<Rightarrow> int \<Rightarrow> int \<Rightarrow> (string, DiskSkuInfo) gomap \<Rightarrow> DiskSkuInfo set" where
  "meeting gb iops bw skus = {sku \<in> snd ` set skus. meetsRequest sku gb iops bw}"

definition smallestIn :: "DiskSkuInfo set \<Rightarrow> DiskSkuInfo option \<Rightarrow> bool" where
  "smallestIn S r \<longleftrightarrow> (case r of None \<Rightarrow> S = {} | Some sku \<Rightarrow> sku \<in> S \<and> (\<forall>other\<in>S. sk_MaxSizeGiB sku \<le> sk_MaxSizeGiB other))"

lemma meeting_simps [simp]:
  "meeting gb iops bw [] = {}"
  "meeting gb iops bw ((k, sku) # skus) = (if meetsRequest sku gb iops bw then insert sku else id) (meeting gb iops bw skus)"
  by (auto simp: meeting_def)

lemma smallestIn_keep:
  assumes "smallestIn S best" "best = Some m" "sk_MaxSizeGiB m \<le> sk_MaxSizeGiB sku"
  shows "smallestIn (insert sku S) best"
  using assms by (auto simp: smallestIn_def)

lemma smallestIn_take:
  assumes "smallestIn S best" "case best of None \<Rightarrow> True | Some m \<Rightarrow> sk_MaxSizeGiB sku < sk_MaxSizeGiB m"
  shows "smallestIn (insert sku S) (Some sku)"
  using assms by (fastforce simp: smallestIn_def split: option.splits)

text \<open>The loop keeps the smallest of what it has seen.\<close>

lemma smallestSku_smallestIn:
  "smallestIn S best \<Longrightarrow> smallestIn (S \<union> meeting gb iops bw skus) (smallestSku gb iops bw skus best)"
proof (induction skus arbitrary: S best)
  case Nil
  then show ?case by simp
next
  case (Cons entry skus)
  obtain k sku where entry: "entry = (k, sku)" by (cases entry)
  let ?smaller = "case best of None \<Rightarrow> True | Some m \<Rightarrow> sk_MaxSizeGiB sku < sk_MaxSizeGiB m"
  show ?case
  proof (cases "meetsRequest sku gb iops bw")
    case True
    have "smallestIn (insert sku S) (if ?smaller then Some sku else best)"
      using Cons.prems smallestIn_take smallestIn_keep by (cases best) auto
    from Cons.IH [OF this] True show ?thesis by (simp add: entry)
  next
    case False
    with Cons.IH [OF Cons.prems] show ?thesis by (simp add: entry)
  qed
qed

text \<open>(C29) For an account of the SKU table and a readable size, \<open>getMatchingDiskSku\<close> finds a SKU exactly when one of the account has the
  requested size, IOPS and bandwidth, and the SKU it finds is one of those with the least size, whatever the order of the map;
  IOPS and bandwidth that are not numbers are not asked for.
\<close>

theorem getMatchingDiskSku_smallest:
  assumes "gget diskSkus (ToLower account) = Some skus" "skus \<noteq> []" "Atoi gbStr = Inr gb"
  shows "\<exists>r. getMatchingDiskSku diskSkus account gbStr iopsStr bwStr = Inr r
           \<and> smallestIn (meeting gb (intOrZero iopsStr) (intOrZero bwStr) skus) r"
  using assms smallestSku_smallestIn [of "{}" None gb "intOrZero iopsStr" "intOrZero bwStr" skus]
  by (simp add: getMatchingDiskSku_def smallestIn_def)

lemma getMatchingDiskSku_smallest_witness:
  "\<exists>r. getMatchingDiskSku DiskSkuMap ''Premium_LRS'' ''100'' ''400'' [] = Inr r
     \<and> smallestIn (meeting 100 (intOrZero ''400'') (intOrZero []) skus_premium_lrs) r"
  by (rule getMatchingDiskSku_smallest) code_simp+

subsection \<open>The queue settings are numbers\<close>

text \<open>What is used of the rounding of \<open>float64\<close>: it is monotone, and these numbers are floats.\<close>

definition floatRounding :: "rounding \<Rightarrow> bool" where
  "floatRounding fl \<longleftrightarrow> mono fl \<and> fl 0 = 0 \<and> fl (1 / 2 ^ 20) = 1 / 2 ^ 20 \<and> fl (1 / 2 ^ 19) = 1 / 2 ^ 19 \<and> fl (1 / 2 ^ 10) = 1 / 2 ^ 10
     \<and> fl (1 / 4) = 1 / 4 \<and> fl (3 / 4) = 3 / 4 \<and> fl 1 = 1 \<and> fl 512 = 512 \<and> fl (2 ^ 20) = 2 ^ 20"

definition limited :: "DiskSkuInfo \<Rightarrow> bool" where
  "limited sku \<longleftrightarrow> 1 \<le> sk_MaxBurstIops sku \<and> sk_MaxBurstIops sku \<le> 2 ^ 20 \<and> 1 \<le> sk_MaxBurstBwMbps sku"

lemma DiskSkuMap_limited:
  assumes "gget DiskSkuMap k = Some skus" "k \<noteq> ''ultrassd_lrs''" "k \<noteq> ''premiumv2_lrs''" "sku \<in> snd ` set skus"
  shows "limited sku"
proof -
  have "list_all (\<lambda>(k, skus). k \<in> {''ultrassd_lrs'', ''premiumv2_lrs''} \<or> list_all (\<lambda>(_, sku). limited sku) skus) DiskSkuMap" by code_simp
  moreover have "(k, skus) \<in> set DiskSkuMap" using assms(1) by (auto simp: gget_def dest: map_of_SomeD)
  ultimately show ?thesis using assms(2-4) by (fastforce simp: list_all_iff)
qed

lemma floor_of_int_ceiling: "\<lfloor>of_int k :: rat\<rfloor> = k"
  by simp

lemma fl_ge: "floatRounding fl \<Longrightarrow> fl b = b \<Longrightarrow> b \<le> q \<Longrightarrow> b \<le> fl q"
  unfolding floatRounding_def by (metis monoD)

lemma fl_le: "floatRounding fl \<Longrightarrow> fl b = b \<Longrightarrow> q \<le> b \<Longrightarrow> fl q \<le> b"
  unfolding floatRounding_def by (metis monoD)

text \<open>A published limit, cut to that of the VM, unless that is not published.\<close>

lemma cut_limit:
  assumes "floatRounding fl" "1 \<le> (a::int)" "0 \<le> (b::int)"
  shows "fl (of_int a) \<ge> 1" "min (fl (of_int a)) (fl (of_int b)) \<ge> 0"
    "min (fl (of_int a)) (fl (of_int b)) > 0 \<Longrightarrow> min (fl (of_int a)) (fl (of_int b)) \<ge> 1"
proof -
  have fl1: "fl 1 = 1" "fl 0 = 0" using assms(1) by (simp_all add: floatRounding_def)
  show a: "fl (of_int a) \<ge> 1" using fl_ge [OF assms(1) fl1(1)] assms(2) by simp
  have b: "fl (of_int b) \<ge> 0" using fl_ge [OF assms(1) fl1(2)] assms(3) by simp
  with a show "min (fl (of_int a)) (fl (of_int b)) \<ge> 0" by simp
  have "fl (of_int b) \<ge> 1" if "fl (of_int b) > 0"
  proof -
    have "b \<noteq> 0" using that fl1 by auto
    then show ?thesis using fl_ge [OF assms(1) fl1(1)] assms(3) by simp
  qed
  then show "min (fl (of_int a)) (fl (of_int b)) > 0 \<Longrightarrow> min (fl (of_int a)) (fl (of_int b)) \<ge> 1" using a by simp
qed

lemma latencies:
  assumes "floatRounding fl"
  obtains s r where "GetSequentialOLatencyInSec fl sku = Fin s" "1 / 2 ^ 10 \<le> s" "GetRandomIOLatencyInSec fl sku = Fin r" "1 / 2 ^ 10 \<le> r"
proof -
  have e: "fl (1 / 2 ^ 10) = 1 / 2 ^ 10" using assms by (simp add: floatRounding_def)
  have *: "1 / 2 ^ 10 \<le> fl q" if "1 / 2 ^ 10 \<le> q" for q using fl_ge [OF assms e that] .
  show ?thesis
    by (rule that, simp only: GetSequentialOLatencyInSec_def, rule *, simp, simp only: GetRandomIOLatencyInSec_def, rule *, simp)
qed

text \<open>The two limits as rationals.\<close>

lemma effective_iops:
  assumes "floatRounding fl" "limited sku" "0 \<le> ni_MaxBurstIops node"
  obtains i where "(if nonpositive (fmin (Fin (fl (of_int (sk_MaxBurstIops sku)))) (Fin (fl (of_int (ni_MaxBurstIops node)))))
      then Fin (fl (of_int (sk_MaxBurstIops sku)))
      else fmin (Fin (fl (of_int (sk_MaxBurstIops sku)))) (Fin (fl (of_int (ni_MaxBurstIops node))))) = Fin i" "1 \<le> i" "i \<le> 2 ^ 20"
proof -
  let ?m = "min (fl (of_int (sk_MaxBurstIops sku))) (fl (of_int (ni_MaxBurstIops node)))"
  have "sk_MaxBurstIops sku \<le> 2 ^ 20" using assms(2) by (simp add: limited_def)
  then have "(of_int (sk_MaxBurstIops sku) :: rat) \<le> of_int (2 ^ 20)" by (simp only: of_int_le_iff)
  then have cap: "fl (of_int (sk_MaxBurstIops sku)) \<le> 2 ^ 20"
    by (intro fl_le [OF assms(1)]) (use assms(1) in \<open>simp_all add: floatRounding_def\<close>)
  have "1 \<le> sk_MaxBurstIops sku" using assms(2) by (simp add: limited_def)
  note c = cut_limit [OF assms(1) this assms(3)]
  show ?thesis
  proof (cases "?m \<le> 0")
    case True
    then show ?thesis by (intro that [of "fl (of_int (sk_MaxBurstIops sku))"]) (use c cap in simp_all)
  next
    case False
    then show ?thesis by (intro that [of ?m]) (use c cap in auto)
  qed
qed

lemma effective_bandwidth:
  assumes "floatRounding fl" "limited sku" "0 \<le> ni_MaxBurstBwMbps node"
  obtains w where "(if nonpositive (fmul fl (fmin (Fin (fl (of_int (sk_MaxBurstBwMbps sku)))) (Fin (fl (of_int (ni_MaxBurstBwMbps node))))) (Fin (fl 1000)))
      then Fin (fl (of_int (sk_MaxBurstBwMbps sku)))
      else fmul fl (fmin (Fin (fl (of_int (sk_MaxBurstBwMbps sku)))) (Fin (fl (of_int (ni_MaxBurstBwMbps node))))) (Fin (fl 1000))) = Fin w" "1 \<le> w"
proof -
  let ?m = "min (fl (of_int (sk_MaxBurstBwMbps sku))) (fl (of_int (ni_MaxBurstBwMbps node)))"
  have fl1: "fl 1 = 1" "fl 0 = 0" using assms(1) by (simp_all add: floatRounding_def)
  have k: "1 \<le> fl 1000" by (rule fl_ge [OF assms(1) fl1(1)]) simp
  have "1 \<le> sk_MaxBurstBwMbps sku" using assms(2) by (simp add: limited_def)
  note c = cut_limit [OF assms(1) this assms(3)]
  show ?thesis
  proof (cases "fl (?m * fl 1000) \<le> 0")
    case True
    then show ?thesis by (intro that [of "fl (of_int (sk_MaxBurstBwMbps sku))"]) (use c in simp_all)
  next
    case False
    then have "?m \<noteq> 0" using fl1 by auto
    then have "1 \<le> ?m" using c by linarith
    then have "1 * 1 \<le> ?m * fl 1000" using k by (intro mult_mono) simp_all
    then have "1 \<le> fl (?m * fl 1000)" by (intro fl_ge [OF assms(1) fl1(1)]) simp
    with False show ?thesis by (intro that [of "fl (?m * fl 1000)"]) simp_all
  qed
qed

lemma ceiling_ge_1: "0 < (x :: rat) \<Longrightarrow> 1 \<le> \<lceil>x\<rceil>"
  by (simp add: less_ceiling_iff [of 0, simplified] flip: zless_iff_Suc_zadd int_one_le_iff_zero_less)

text \<open>The size of a request: between 1 and 512 kB.\<close>

lemma request_size:
  assumes "floatRounding fl" "1 \<le> i" "i \<le> 2 ^ 20" "1 \<le> w"
  obtains k where "fceil (fmin (Fin (fl 512)) (fdiv fl (Fin w) (fmul fl (Fin i) (Fin (fl (1 - fl (1 / 4))))))) = Fin (of_int k)" "1 \<le> k" "k \<le> 512"
proof -
  have e: "fl (1 / 4) = 1 / 4" "fl (3 / 4) = 3 / 4" "fl 512 = 512" "fl (2 ^ 20) = 2 ^ 20" "fl (1 / 2 ^ 20) = 1 / 2 ^ 20"
    using assms(1) by (simp_all add: floatRounding_def)
  let ?x = "fl (i * (3 / 4))"
  have lo: "3 / 4 \<le> ?x" by (rule fl_ge [OF assms(1) e(2)]) (use assms(2) in simp)
  have hi: "?x \<le> 2 ^ 20" by (rule fl_le [OF assms(1) e(4)]) (use assms(2,3) in simp)
  have "1 / 2 ^ 20 \<le> w / ?x" using assms(4) lo hi by (intro frac_le) simp_all
  then have r: "1 / 2 ^ 20 \<le> fl (w / ?x)" by (rule fl_ge [OF assms(1) e(5)])
  have quarter: "fl (1 - fl (1 / 4)) = 3 / 4" by (simp add: e(1,2))
  have nz: "(?x = 0) = False" using lo by auto
  let ?k = "\<lceil>min 512 (fl (w / ?x))\<rceil>"
  have "0 < min 512 (fl (w / ?x))" using r by (auto simp: min_def intro: less_le_trans [rotated])
  then have "1 \<le> ?k" by (rule ceiling_ge_1)
  moreover have "?k \<le> 512" by (simp add: ceiling_le_iff)
  moreover have "fceil (fmin (Fin (fl 512)) (fdiv fl (Fin w) (fmul fl (Fin i) (Fin (fl (1 - fl (1 / 4))))))) = Fin (of_int ?k)"
    by (simp only: fdiv.simps fmul.simps fmin.simps fceil.simps quarter e(3) nz if_False)
  ultimately show ?thesis using that by blast
qed

text \<open>The two queue depths and their combination.\<close>

lemma queue_depths:
  assumes "floatRounding fl" "1 \<le> i" "1 \<le> w" "1 \<le> k" "k \<le> 512" "1 / 2 ^ 10 \<le> s" "1 / 2 ^ 10 \<le> r"
  obtains q where "fceil (fmax (fadd fl (fmul fl (fceil (fmul fl (Fin i) (Fin r))) (Fin (fl (1 / 4))))
      (fceil (fdiv fl (fmul fl (Fin w) (Fin s)) (Fin (of_int k))))) (fceil (fmul fl (Fin i) (Fin r)))) = Fin (of_int q)" "1 \<le> q"
proof -
  have e: "fl (1 / 2 ^ 10) = 1 / 2 ^ 10" using assms(1) by (simp add: floatRounding_def)
  have "1 * (1 / 2 ^ 10) \<le> i * r" using assms(2,7) by (intro mult_mono) simp_all
  then have b: "1 / 2 ^ 10 \<le> i * r" by simp
  have "(0::rat) < 1 / 2 ^ 10" by simp
  from less_le_trans [OF this fl_ge [OF assms(1) e b]] have rand: "1 \<le> \<lceil>fl (i * r)\<rceil>" by (rule ceiling_ge_1)
  let ?a = "fl (fl (of_int \<lceil>fl (i * r)\<rceil> * fl (1 / 4)) + of_int \<lceil>fl (fl (w * s) / of_int k)\<rceil>)"
  let ?q = "\<lceil>max ?a (of_int \<lceil>fl (i * r)\<rceil>)\<rceil>"
  have "\<lceil>of_int \<lceil>fl (i * r)\<rceil> :: rat\<rceil> \<le> ?q" by (rule ceiling_mono) simp
  then have "\<lceil>fl (i * r)\<rceil> \<le> ?q" by (simp only: ceiling_of_int)
  with rand have "1 \<le> ?q" by (rule order_trans)
  moreover have "fceil (fmax (fadd fl (fmul fl (fceil (fmul fl (Fin i) (Fin r))) (Fin (fl (1 / 4))))
      (fceil (fdiv fl (fmul fl (Fin w) (Fin s)) (Fin (of_int k))))) (fceil (fmul fl (Fin i) (Fin r)))) = Fin (of_int ?q)"
    using assms(4) by simp
  ultimately show ?thesis using that by blast
qed

lemma optimalFor_numbers:
  assumes "floatRounding fl" "limited sku" "0 \<le> ni_MaxBurstIops node" "0 \<le> ni_MaxBurstBwMbps node"
  shows "\<exists>k q. ds_maxSectorsKb (optimalFor fl node sku) = Itoa k \<and> 1 \<le> k \<and> k \<le> 512
    \<and> ds_queueDepth (optimalFor fl node sku) = formatG (Fin (of_int q)) \<and> 1 \<le> q
    \<and> ds_nrRequests (optimalFor fl node sku) = ds_queueDepth (optimalFor fl node sku)"
proof -
  obtain s r where l: "GetSequentialOLatencyInSec fl sku = Fin s" "1 / 2 ^ 10 \<le> s" "GetRandomIOLatencyInSec fl sku = Fin r" "1 / 2 ^ 10 \<le> r"
    using latencies [OF assms(1)] by blast
  obtain i where i: "(if nonpositive (fmin (Fin (fl (of_int (sk_MaxBurstIops sku)))) (Fin (fl (of_int (ni_MaxBurstIops node)))))
      then Fin (fl (of_int (sk_MaxBurstIops sku)))
      else fmin (Fin (fl (of_int (sk_MaxBurstIops sku)))) (Fin (fl (of_int (ni_MaxBurstIops node))))) = Fin i" "1 \<le> i" "i \<le> 2 ^ 20"
    using effective_iops [OF assms(1-3)] by blast
  obtain w where w: "(if nonpositive (fmul fl (fmin (Fin (fl (of_int (sk_MaxBurstBwMbps sku)))) (Fin (fl (of_int (ni_MaxBurstBwMbps node))))) (Fin (fl 1000)))
      then Fin (fl (of_int (sk_MaxBurstBwMbps sku)))
      else fmul fl (fmin (Fin (fl (of_int (sk_MaxBurstBwMbps sku)))) (Fin (fl (of_int (ni_MaxBurstBwMbps node))))) (Fin (fl 1000))) = Fin w" "1 \<le> w"
    using effective_bandwidth [OF assms(1,2,4)] by blast
  obtain k where k: "fceil (fmin (Fin (fl 512)) (fdiv fl (Fin w) (fmul fl (Fin i) (Fin (fl (1 - fl (1 / 4))))))) = Fin (of_int k)" "1 \<le> k" "k \<le> 512"
    using request_size [OF assms(1) i(2,3) w(2)] by blast
  obtain q where q: "fceil (fmax (fadd fl (fmul fl (fceil (fmul fl (Fin i) (Fin r))) (Fin (fl (1 / 4))))
      (fceil (fdiv fl (fmul fl (Fin w) (Fin s)) (Fin (of_int k))))) (fceil (fmul fl (Fin i) (Fin r)))) = Fin (of_int q)" "1 \<le> q"
    using queue_depths [OF assms(1) i(2) w(2) k(2,3) l(2,4)] by blast
  have g: "formatG (Fin (of_int k)) = Itoa k" using k(2,3) by simp
  then show ?thesis unfolding optimalFor_def Let_def i(1) w(1) k(1) l(1,3) q(1) using k(2,3) q(2)
    by (intro exI [of _ k] exI [of _ q]) (simp add: g del: formatG.simps)
qed

text \<open>(C40) The settings that the basic profile writes are numbers. For every VM of the table, every account of the SKU table but Ultra and
  Premium SSD v2, and every request that is matched: \<open>max_sectors_kb\<close> is a number between 1 and 512, and \<open>queue_depth\<close> and \<open>nr_requests\<close> are the
  same positive whole number. Of the rounding of \<open>float64\<close> it is only used that it is monotone and keeps a few small floats.
\<close>

theorem tuned_settings_are_numbers:
  assumes "floatRounding fl" "NewNodeInfo NodeInfoMap instanceType = Inr node"
    and "getOptimalDeviceSettings fl node DiskSkuMap account gb iops bw = Inr ds"
    and "ToLower account \<noteq> ''ultrassd_lrs''" "ToLower account \<noteq> ''premiumv2_lrs''"
  shows "\<exists>k q. ds_maxSectorsKb ds = Itoa k \<and> 1 \<le> k \<and> k \<le> 512
    \<and> ds_queueDepth ds = formatG (Fin (of_int q)) \<and> 1 \<le> q \<and> ds_nrRequests ds = ds_queueDepth ds"
proof -
  obtain vm old name where vm: "gget NodeInfoMap vm = Some old" and n: "node = old\<lparr>ni_SkuName := name\<rparr>"
    using assms(2) by (auto simp: NewNodeInfo_def split: option.splits sum.splits)
  from NodeInfoMap_limits [OF vm] n have node: "0 \<le> ni_MaxBurstIops node" "0 \<le> ni_MaxBurstBwMbps node" by simp_all
  obtain sku where m: "getMatchingDiskSku DiskSkuMap account gb iops bw = Inr (Some sku)" and ds: "ds = optimalFor fl node sku"
    using assms(3) by (auto simp: getOptimalDeviceSettings_def split: sum.splits option.splits)
  from m obtain skus n where t: "gget DiskSkuMap (ToLower account) = Some skus" "skus \<noteq> []" "Atoi gb = Inr n"
    by (auto simp: getMatchingDiskSku_def split: option.splits sum.splits if_splits)
  with m smallestSku_smallestIn [of "{}" None n "intOrZero iops" "intOrZero bw" skus] have "sku \<in> snd ` set skus"
    by (simp add: getMatchingDiskSku_def smallestIn_def meeting_def)
  from DiskSkuMap_limited [OF t(1) assms(4,5) this] show ?thesis
    unfolding ds by (intro optimalFor_numbers [OF assms(1) _ node])
qed

theorem tuned_settings_are_numbers_witness:
  "\<exists>node ds k. NewNodeInfo NodeInfoMap (Some (Inr ''Standard_E2s_v5'')) = Inr node
     \<and> getOptimalDeviceSettings id node DiskSkuMap ''Premium_LRS'' ''100'' [] [] = Inr ds \<and> ds_maxSectorsKb ds = Itoa k \<and> 1 \<le> k \<and> k \<le> 512"
proof -
  have fl: "floatRounding id" by (simp add: floatRounding_def mono_def)
  have "ToLower ''Standard_E2s_v5'' = ''standard_e2s_v5''" by code_simp
  moreover have "gget NodeInfoMap ''standard_e2s_v5'' = Some (nodeSku ''Standard_E2s_v5'' 4 2 3750 3750 81 81)"
    by (simp add: gget_def NodeInfoMap_def map_add_def nodeSkus1_def)
  ultimately obtain node where n: "NewNodeInfo NodeInfoMap (Some (Inr ''Standard_E2s_v5'')) = Inr node"
    by (simp add: NewNodeInfo_def)
  have "case getMatchingDiskSku DiskSkuMap ''Premium_LRS'' ''100'' [] [] of Inr (Some _) \<Rightarrow> True | _ \<Rightarrow> False" by code_simp
  then obtain ds where d: "getOptimalDeviceSettings id node DiskSkuMap ''Premium_LRS'' ''100'' [] [] = Inr ds"
    by (auto simp: getOptimalDeviceSettings_def split: sum.splits option.splits)
  have "ToLower ''Premium_LRS'' \<noteq> ''ultrassd_lrs''" "ToLower ''Premium_LRS'' \<noteq> ''premiumv2_lrs''" by code_simp+
  from tuned_settings_are_numbers [OF fl n d this] n d show ?thesis by blast
qed

subsection \<open>SKUs without limits\<close>

text \<open>
  Premium SSD v2 has no IOPS and no bandwidth in the table. Its size is matched, the request size is zero divided by zero, and the
  settings that are written are not numbers.
\<close>

theorem premiumv2_settings_NaN:
  assumes "fl 0 = 0" "\<And>q. 0 \<le> q \<Longrightarrow> 0 \<le> fl q" "0 \<le> ni_MaxBurstIops node" "0 \<le> ni_MaxBurstBwMbps node"
  shows "getOptimalDeviceSettings fl node DiskSkuMap ''PremiumV2_LRS'' ''100'' [] [] =
    Inr \<lparr>ds_queueDepth = ''NaN'', ds_nrRequests = ''NaN'', ds_scheduler = ''mq-deadline'', ds_maxSectorsKb = ''NaN'', ds_readAheadKb = ''NaN''\<rparr>"
proof -
  let ?sku = "skuInfo ''PremiumV2_LRS'' ''Premium'' ''P'' 15 0 0 0 0 65536"
  have "getMatchingDiskSku DiskSkuMap ''PremiumV2_LRS'' ''100'' [] [] = Inr (Some ?sku)"
    by code_simp
  moreover have "min 0 (fl (of_int (ni_MaxBurstIops node))) = 0" "min 0 (fl (of_int (ni_MaxBurstBwMbps node))) = 0"
    using assms by (simp_all add: min_def)
  ultimately show ?thesis
    using assms(1) by (simp add: getOptimalDeviceSettings_def optimalFor_def skuInfo_def Let_def infinityOf_def GetSequentialOLatencyInSec_def
      GetRandomIOLatencyInSec_def)
qed

end
