(* ===== verification/NodeQAD.thy ===== *)
theory NodeQAD
  imports NodeDriven
begin

text \<open>
  Attaching and detaching by the node (\<open>nodeserver.go\<close>): the requests to the wireserver and their answers, the mapping of its errors to
  status codes, and the attach sequence of a persistent volume.

  HTTP and the decoding of JSON bodies are a \<open>wire_env\<close>; the encoding of the request is modelled. \<open>QAD\<close> is the service that attaches.
\<close>

record DiskError =
  de_DiskErrorType :: int
  de_SeverityHint :: string
  de_Message :: string

record DiskStatus =
  st_Status :: string
  st_StatusMessage :: string
  st_LUN :: int
  st_Error :: "DiskError option"

record DiskOperationRequest =
  or_DiskURI :: string
  or_BlobURL :: string
  or_ClaimIdentifier :: string
  or_AttachSequence :: int
  or_CachePolicy :: string

record QADErrorResponse =
  qe_RequestErrorType :: int
  qe_SeverityHint :: string
  qe_Message :: string

record WireRequest =
  wq_Method :: string
  wq_URL :: string
  wq_Body :: string
  wq_Headers :: smap

record 'w wire_env =
  wr_httpClient :: bool
  wr_Do :: "WireRequest \<Rightarrow> ('w dst, HTTPResponse) io"
  wr_UnmarshalStatuses :: "string \<Rightarrow> (string, DiskStatus option) gomap result"
  wr_UnmarshalError :: "string \<Rightarrow> QADErrorResponse result"

definition attachOperation :: string where
  "attachOperation = ''Attach''"

definition detachOperation :: string where
  "detachOperation = ''Detach''"

definition AttachmentStatusAttached :: string where
  "AttachmentStatusAttached = ''DISK_STATUS_ATTACHED''"

definition AttachmentStatusAttaching :: string where
  "AttachmentStatusAttaching = ''DISK_STATUS_ATTACHING''"

definition AttachmentStatusDetaching :: string where
  "AttachmentStatusDetaching = ''DISK_STATUS_DETACHING''"

definition AttachmentStatusDetached :: string where
  "AttachmentStatusDetached = ''DISK_STATUS_DETACHED''"

definition AttachmentStatusError :: string where
  "AttachmentStatusError = ''DISK_STATUS_ERR''"

definition SeverityHintRetriable :: string where
  "SeverityHintRetriable = ''RETRIABLE''"

subsection \<open>Errors of the wireserver\<close>

definition retriableOr :: "string \<Rightarrow> code \<Rightarrow> code" where
  "retriableOr severity c = (if severity = SeverityHintRetriable then Unavailable else c)"

definition mapDiskErrorToCode :: "int \<Rightarrow> string \<Rightarrow> code" where
  "mapDiskErrorToCode errorType severity =
     (if errorType = 0 then Unknown
      else if errorType = 1 then InvalidArgument
      else if errorType = 2 then retriableOr severity Internal
      else if errorType = 3 then retriableOr severity Unauthenticated
      else if errorType = 4 then Aborted
      else if errorType = 5 then retriableOr severity Internal
      else if errorType = 6 then retriableOr severity Internal
      else if errorType = 7 then NotFoundCode
      else if errorType = 8 then ResourceExhausted
      else Unknown)"

definition mapRequestErrorToCode :: "int \<Rightarrow> string \<Rightarrow> code" where
  "mapRequestErrorToCode errorType severity =
     (if errorType = 0 then Unknown
      else if errorType = 1 then InvalidArgument
      else if errorType \<in> {2, 3, 4, 5, 6, 7} then retriableOr severity Internal
      else if errorType = 8 then retriableOr severity Unauthenticated
      else if errorType = 9 then retriableOr severity Internal
      else Unknown)"

definition mapHTTPStatusToCode :: "int \<Rightarrow> code" where
  "mapHTTPStatusToCode httpStatus =
     (if httpStatus = 400 then InvalidArgument
      else if httpStatus = 401 then Unauthenticated
      else if httpStatus = 403 then Unauthenticated
      else if httpStatus = 404 then NotFoundCode
      else if httpStatus = 405 then InvalidArgument
      else if httpStatus = 410 then Unavailable
      else if httpStatus = 411 then Internal
      else if httpStatus = 413 then Internal
      else if httpStatus = 414 then Internal
      else if httpStatus = 415 then Internal
      else if httpStatus = 429 then ResourceExhausted
      else if httpStatus = 502 then Unavailable
      else if httpStatus = 503 then Unavailable
      else if httpStatus = 504 then DeadlineExceededCode
      else if httpStatus \<ge> 400 \<and> httpStatus < 500 then InvalidArgument
      else Unknown)"

subsection \<open>Requests\<close>

definition wireHeaders :: smap where
  "wireHeaders = [(''Content-Type'', ''application/json''), (''User-Agent'', ''csi-node'')]"

definition makeHTTPRequest :: "'w wire_env \<Rightarrow> string \<Rightarrow> string \<Rightarrow> string \<Rightarrow> smap \<Rightarrow> ('w dst, HTTPResponse) io" where
  "makeHTTPRequest wire method url body headers =
     wr_Do wire \<lparr>wq_Method = method, wq_URL = url, wq_Body = body,
       wq_Headers = fold (\<lambda>(k, v). gset k v) headers [(''Content-Type'', ''application/json'')]\<rparr>"

text \<open>\<open>json.Marshal\<close> of a \<open>WireserverRequest\<close>; an empty claim identifier is omitted.\<close>

definition jsonField :: "string \<Rightarrow> string \<Rightarrow> string" where
  "jsonField name value = jsonString name @ '':'' @ value"

definition jsonObject :: "string list \<Rightarrow> string" where
  "jsonObject parts = ''{'' @ Join parts '','' @ ''}''"

definition wireBody :: "string \<Rightarrow> DiskOperationRequest \<Rightarrow> string \<Rightarrow> string" where
  "wireBody token req operationType = jsonObject [
     jsonField ''vmAccessToken'' (jsonString token),
     jsonField ''diskOps'' (jsonObject [jsonField (or_DiskURI req) (jsonObject (
       [jsonField ''blobUrl'' (jsonString (or_BlobURL req))]
       @ (if or_ClaimIdentifier req = [] then [] else [jsonField ''claimIdentifier'' (jsonString (or_ClaimIdentifier req))])
       @ [jsonField ''attachSequence'' (Itoa (or_AttachSequence req)), jsonField ''action'' (jsonString operationType),
          jsonField ''cachePolicy'' (jsonString (or_CachePolicy req))]))])]"

definition wireError :: "'w wire_env \<Rightarrow> string \<Rightarrow> int \<Rightarrow> string \<Rightarrow> goerror" where
  "wireError wire diskURI httpStatus body =
     (let other = statusf (mapHTTPStatusToCode httpStatus) (''wireserver returned HTTP '' @ Itoa httpStatus @ '': '' @ body)
      in case wr_UnmarshalError wire body of
          Inl _ \<Rightarrow> other
        | Inr e \<Rightarrow> if qe_RequestErrorType e > 0 \<or> qe_SeverityHint e \<noteq> []
            then statusf (mapRequestErrorToCode (qe_RequestErrorType e) (qe_SeverityHint e))
              (''QAD agent error for disk '' @ diskURI @ '': errorType='' @ Itoa (qe_RequestErrorType e) @ '', severity='' @ qe_SeverityHint e
                @ '', message='' @ qe_Message e)
            else other)"

definition attachOrDetachDiskInternal :: "'w driver_env \<Rightarrow> 'w wire_env \<Rightarrow> DiskOperationRequest \<Rightarrow> string
    \<Rightarrow> ('w dst, (string, DiskStatus option) gomap) io" where
  "attachOrDetachDiskInternal env wire req operationType =
     (if or_DiskURI req = [] then failE (statusf InvalidArgument ''disk URI must not be empty'')
      else if \<not> dv_hasCredential env then failE (statusf FailedPrecondition ''Azure credential is required for QAD disk operations'')
      else bindE (tryE (dv_GetToken env)) (\<lambda>r. case r of
        Inl err \<Rightarrow> failE (errorf (''failed to get VM access token: '' @ emsg err))
      | Inr token \<Rightarrow>
        bindE (tryE (makeHTTPRequest wire ''POST'' QADWireserverEndpoint (wireBody token req operationType) wireHeaders)) (\<lambda>r. case r of
        Inl err \<Rightarrow> failE (errorf (''failed to make HTTP request to wireserver: '' @ emsg err))
      | Inr resp \<Rightarrow> (case hr_Body resp of
        Inl err \<Rightarrow> failE (errorf (''failed to read response body: '' @ emsg err))
      | Inr body \<Rightarrow>
          if 200 \<le> hr_StatusCode resp \<and> hr_StatusCode resp < 300
          then (case wr_UnmarshalStatuses wire body of
              Inl err \<Rightarrow> failE (errorf (''failed to unmarshal wireserver response: '' @ emsg err))
            | Inr statuses \<Rightarrow> okE statuses)
          else failE (wireError wire (or_DiskURI req) (hr_StatusCode resp) body)))))"

definition statusOf :: "(string, DiskStatus option) gomap \<Rightarrow> string \<Rightarrow> DiskStatus option option" where
  "statusOf statuses diskURI = map_option snd (find (\<lambda>(uri, _). EqualFold uri diskURI) statuses)"

text \<open>\<open>None\<close> is the nil status of a detach whose disk the answer does not name.\<close>

definition executeQADDiskOperation :: "'w driver_env \<Rightarrow> 'w wire_env \<Rightarrow> DiskOperationRequest \<Rightarrow> string \<Rightarrow> ('w dst, DiskStatus option) io" where
  "executeQADDiskOperation env wire req operationType =
     (if \<not> wr_httpClient wire
      then failE (statusf Internal ''QAD HTTP client is not initialized; node-driven attach/detach is only available on the node service'')
      else bindE (attachOrDetachDiskInternal env wire req operationType) (\<lambda>response.
        case statusOf response (or_DiskURI req) of
          Some (Some s) \<Rightarrow> (case st_Error s of
              Some e \<Rightarrow> failE (statusf (mapDiskErrorToCode (de_DiskErrorType e) (de_SeverityHint e))
                (''wireserver disk operation failed for '' @ or_DiskURI req @ '': errorType='' @ Itoa (de_DiskErrorType e)
                  @ '', severity='' @ de_SeverityHint e @ '', message='' @ de_Message e))
            | None \<Rightarrow> okE (Some s))
        | _ \<Rightarrow> if operationType = detachOperation then okE None
            else failE (statusf Internal (''The response from wireserver doesn'' @ CHR 0x27 # ''t contain a valid status for volume '' @ or_DiskURI req))))"

text \<open>The state of a disk; an entry may be nil.\<close>

definition getDiskState :: "'w wire_env \<Rightarrow> string \<Rightarrow> ('w dst, DiskStatus option) io" where
  "getDiskState wire diskURI = bindE (tryE (makeHTTPRequest wire ''GET'' QADWireserverEndpoint [] wireHeaders)) (\<lambda>r. case r of
       Inl err \<Rightarrow> failE (errorf (''failed to make HTTP request to wireserver: '' @ emsg err))
     | Inr resp \<Rightarrow> (case hr_Body resp of
         Inl err \<Rightarrow> failE (errorf (''failed to read response body: '' @ emsg err))
       | Inr body \<Rightarrow>
           if hr_StatusCode resp < 200 \<or> hr_StatusCode resp \<ge> 300
           then failE (statusf (mapHTTPStatusToCode (hr_StatusCode resp)) (''wireserver returned HTTP '' @ Itoa (hr_StatusCode resp) @ '': '' @ body))
           else (case wr_UnmarshalStatuses wire body of
               Inl err \<Rightarrow> failE (errorf (''failed to unmarshal wireserver response: '' @ emsg err))
             | Inr statuses \<Rightarrow> (case statusOf statuses diskURI of
                 Some s \<Rightarrow> okE s
               | None \<Rightarrow> failE (statusf NotFoundCode (''wireserver response does not contain volume '' @ diskURI))))))"

subsection \<open>The attach sequence\<close>

definition emptyPV :: PersistentVolume where
  "emptyPV = \<lparr>pv_Name = [], pv_CSI = None, pv_Annotations = []\<rparr>"

definition currentSequence :: "PersistentVolume \<Rightarrow> int result" where
  "currentSequence pv = (case gget (pv_Annotations pv) AttachSequenceAnnotation of
       None \<Rightarrow> Inr 0
     | Some v \<Rightarrow> (case Atoi v of
         Inl _ \<Rightarrow> Inl (errorf (''invalid attach-sequence annotation '' @ v @ '' on PersistentVolume '' @ pv_Name pv))
       | Inr n \<Rightarrow> if n < 0 then Inl (errorf (''invalid attach-sequence annotation '' @ v @ '' on PersistentVolume '' @ pv_Name pv))
           else if n = 2 ^ 63 - 1 then Inl (errorf (''attach-sequence annotation on PersistentVolume '' @ pv_Name pv @ '' cannot be incremented''))
           else Inr n))"

text \<open>One attempt: the volume the captured variable has afterwards and the outcome. Later attempts read the volume again.\<close>

definition incrementOnce :: "'w driver_env \<Rightarrow> bool \<Rightarrow> PersistentVolume \<Rightarrow> ('w dst, PersistentVolume \<times> int result) io" where
  "incrementOnce env again pv0 =
     bindE (if again then tryE (dv_PVGet env (pv_Name pv0)) else okE (Inr pv0)) (\<lambda>r. case r of
       Inl err \<Rightarrow> okE (emptyPV, Inl err)
     | Inr pv \<Rightarrow> (case currentSequence pv of
         Inl err \<Rightarrow> okE (pv, Inl err)
       | Inr n \<Rightarrow>
           let pv' = pv\<lparr>pv_Annotations := gset AttachSequenceAnnotation (Itoa (n + 1)) (pv_Annotations pv)\<rparr>
           in bindE (tryE (dv_PVUpdate env pv')) (\<lambda>r. okE (pv', map_sum id (\<lambda>_. n + 1) r))))"

fun retryIncrement :: "'w driver_env \<Rightarrow> nat \<Rightarrow> bool \<Rightarrow> PersistentVolume \<Rightarrow> goerror \<Rightarrow> ('w dst, PersistentVolume \<times> int result) io" where
  "retryIncrement env 0 again pv lastErr = okE (pv, Inl lastErr)"
| "retryIncrement env (Suc steps) again pv lastErr = bindE (incrementOnce env again pv) (\<lambda>(pv', r). case r of
       Inr n \<Rightarrow> okE (pv', Inr n)
     | Inl err \<Rightarrow> if errorsIs err APIConflict
         then doE (if steps = 0 then State_Monad.return () else sys_Sleep (dv_env env) 10) (\<lambda>_. retryIncrement env steps True pv' err)
         else okE (pv', Inl err))"

definition incrementAttachSequenceAnnotation :: "'w driver_env \<Rightarrow> PersistentVolume \<Rightarrow> ('w dst, int) io" where
  "incrementAttachSequenceAnnotation env pv = bindE (retryIncrement env defaultRetrySteps False pv (errorf [])) (\<lambda>(pv', r). case r of
       Inl err \<Rightarrow> failE (errorf (''failed to update PersistentVolume '' @ pv_Name pv' @ '': '' @ emsg err))
     | Inr n \<Rightarrow> okE n)"

definition getQADCachePolicy :: "PersistentVolume \<Rightarrow> string result" where
  "getQADCachePolicy pv =
     (if gstr (pv_Annotations pv) QADCachePolicyAnnotation \<noteq> []
      then GetCachingMode [(CachingModeField, gstr (pv_Annotations pv) QADCachePolicyAnnotation)]
      else case pv_CSI pv of None \<Rightarrow> Inl (errorf ''PV has no CSI volume source'') | Some csi \<Rightarrow> GetCachingMode (csi_VolumeAttributes csi))"

end
