(* ===== verification/Kata.thy ===== *)
theory Kata
  imports NodeDevices
begin

text \<open>
  Volumes that are assigned to Kata guests (\<open>kata.go\<close>): the records of assignments, the check that a volume is published
  already, and the search for the pod whose runtime class asks for direct assignment.

  Kata's \<open>directvolume\<close> package and the Kubernetes reads are a \<open>kata_env\<close>. Records are files whose names are the base64 of their target.
\<close>

record Pod =
  pod_UID :: string
  pod_RuntimeClassName :: "string option"
  pod_FSGroup :: "int option"
  pod_FSGroupChangePolicy :: "string option"

record MountInfo =
  mi_VolumeType :: string
  mi_Device :: string
  mi_FsType :: string
  mi_Metadata :: smap
  mi_Options :: "string list"

record 's kata_env =
  kt_VolumeMountInfo :: "string \<Rightarrow> ('s, MountInfo) io"
  kt_AddMountInfo :: "string \<Rightarrow> MountInfo \<Rightarrow> ('s, unit) io"
  kt_Remove :: "string \<Rightarrow> ('s, unit) io"
  kb_kubeClient :: bool
  kb_PodGet :: "string \<Rightarrow> string \<Rightarrow> ('s, Pod) io"
  kb_RuntimeClassAnnotations :: "string \<Rightarrow> ('s, smap) io"
  kb_NodeAnnotations :: "string \<Rightarrow> ('s, smap) io"

definition podNameField :: string where
  "podNameField = ''csi.storage.k8s.io/pod.name''"

definition podNamespaceField :: string where
  "podNamespaceField = ''csi.storage.k8s.io/pod.namespace''"

definition podUIDField :: string where
  "podUIDField = ''csi.storage.k8s.io/pod.uid''"

definition kataAnnotationKey :: string where
  "kataAnnotationKey = ''azure.csi.disk/kata-mount''"

definition kataAnnotationValue :: string where
  "kataAnnotationValue = ''direct-volume''"

definition kataDirectVolumeType :: string where
  "kataDirectVolumeType = ''directvol''"

definition kataVolumeRoot :: string where
  "kataVolumeRoot = ''/run/kata-containers/shared/direct-volumes''"

definition kataVolumeIDKey :: string where
  "kataVolumeIDKey = ''azure.csi.disk/volume-id''"

subsection \<open>Base64\<close>

text \<open>\<open>base64.URLEncoding.DecodeString\<close>: groups of four characters, the last one padded; line breaks are skipped.\<close>

definition b64Value :: "char \<Rightarrow> nat option" where
  "b64Value c = (let n = of_char c :: nat in
     if 65 \<le> n \<and> n \<le> 90 then Some (n - 65)
     else if 97 \<le> n \<and> n \<le> 122 then Some (n - 71)
     else if 48 \<le> n \<and> n \<le> 57 then Some (n + 4)
     else if c = CHR ''-'' then Some 62 else if c = CHR ''_'' then Some 63 else None)"

definition b64Bytes :: "nat \<Rightarrow> nat \<Rightarrow> nat \<Rightarrow> nat \<Rightarrow> string" where
  "b64Bytes a b c d = map char_of [a * 4 + b div 16, b mod 16 * 16 + c div 4, c mod 4 * 64 + d]"

fun b64Groups :: "string \<Rightarrow> string option" where
  "b64Groups [] = Some []"
| "b64Groups (a # b # c # d # rest) =
     (case (b64Value a, b64Value b, b64Value c, b64Value d) of
       (Some va, Some vb, Some vc, Some vd) \<Rightarrow> map_option (\<lambda>r. b64Bytes va vb vc vd @ r) (b64Groups rest)
     | (Some va, Some vb, Some vc, None) \<Rightarrow> if d = CHR ''='' \<and> rest = [] then Some (take 2 (b64Bytes va vb vc 0)) else None
     | (Some va, Some vb, None, None) \<Rightarrow> if c = CHR ''='' \<and> d = CHR ''='' \<and> rest = [] then Some (take 1 (b64Bytes va vb 0 0)) else None
     | _ \<Rightarrow> None)"
| "b64Groups _ = None"

definition DecodeString :: "string \<Rightarrow> string option" where
  "DecodeString s = b64Groups (filter (\<lambda>c. c \<noteq> CHR 0x0A \<and> c \<noteq> CHR 0x0D) s)"

subsection \<open>Assignments\<close>

definition initKataNode :: "'s kata_env \<Rightarrow> string \<Rightarrow> ('s, bool option) io" where
  "initKataNode kata nodeID =
     (if nodeID = [] then okE None
      else if \<not> kb_kubeClient kata then failE (errorf ''kubeClient is nil'')
      else bindE (tryE (kb_NodeAnnotations kata nodeID)) (\<lambda>r. case r of
          Inl err \<Rightarrow> failE (wrapf (''get node '' @ nodeID @ '': '' @ emsg err) err)
        | Inr annotations \<Rightarrow> okE (Some (gstr annotations kataAnnotationKey = kataAnnotationValue))))"

fun findRecord :: "'s kata_env \<Rightarrow> string \<Rightarrow> string list \<Rightarrow> ('s, string) io" where
  "findRecord kata volumeID [] = okE []"
| "findRecord kata volumeID (name # names) = (case DecodeString name of
       None \<Rightarrow> failE (errorf (''invalid Kata record '' @ name))
     | Some path \<Rightarrow> bindE (tryE (kt_VolumeMountInfo kata path)) (\<lambda>r. case r of
         Inl err \<Rightarrow> if errorsIs err FileNotExist then findRecord kata volumeID names
           else failE (errorf (''unusable Kata record at '' @ path @ '': '' @ emsg err))
       | Inr info \<Rightarrow> if gstr (mi_Metadata info) kataVolumeIDKey = volumeID then okE path else findRecord kata volumeID names))"

definition kataFindMountInfo :: "'s node_env \<Rightarrow> 's kata_env \<Rightarrow> string \<Rightarrow> string \<Rightarrow> ('s, string) io" where
  "kataFindMountInfo env kata volumesDir volumeID = bindE (io_ReadDir env volumesDir) (findRecord kata volumeID)"

definition FindMountInfo :: "'s node_env \<Rightarrow> 's kata_env \<Rightarrow> string \<Rightarrow> ('s, string) io" where
  "FindMountInfo env kata volumeID = kataFindMountInfo env kata kataVolumeRoot volumeID"

definition IsVolumeMountedByID :: "'s node_env \<Rightarrow> 's kata_env \<Rightarrow> string \<Rightarrow> ('s, bool) io" where
  "IsVolumeMountedByID env kata volumeID = bindE (FindMountInfo env kata volumeID) (\<lambda>target. okE (target \<noteq> []))"

definition kataIsMountPoint :: "'s node_env \<Rightarrow> string \<Rightarrow> ('s, bool) io" where
  "kataIsMountPoint env path = bindE (tryE (mn_IsMountPoint env path)) (\<lambda>r. case r of
       Inr mounted \<Rightarrow> okE mounted
     | Inl err \<Rightarrow> if errorsIs err FileNotExist then okE False else failE err)"

definition kataPublished :: "'s node_env \<Rightarrow> 's kata_env \<Rightarrow> string \<Rightarrow> string \<Rightarrow> ('s, bool) io" where
  "kataPublished env kata volumeID targetPath = bindE (tryE (FindMountInfo env kata volumeID)) (\<lambda>r. case r of
       Inl err \<Rightarrow> failE (statusf Internal (''could not check Kata assignment: '' @ emsg err))
     | Inr target \<Rightarrow>
         if target = []
         then bindE (tryE (kataIsMountPoint env targetPath)) (\<lambda>r. case r of
             Inl err \<Rightarrow> failE (statusf Internal (''could not verify target '' @ targetPath @ '': '' @ emsg err))
           | Inr mounted \<Rightarrow> okE mounted)
         else if target \<noteq> targetPath
         then failE (statusf FailedPrecondition (''volume '' @ volumeID @ '' conflicts with the Kata publication at '' @ target))
         else okE True)"

text \<open>The pod of the volume when its runtime class is annotated.\<close>

definition kataGetMountPod :: "'s kata_env \<Rightarrow> smap \<Rightarrow> ('s, Pod option) io" where
  "kataGetMountPod kata volumeContext =
     (if \<not> kb_kubeClient kata then failE (errorf ''kubeClient is nil'')
      else let podName = gstr volumeContext podNameField; podNamespace = gstr volumeContext podNamespaceField in
        if podName = [] \<or> podNamespace = [] then okE None
        else bindE (tryE (kb_PodGet kata podNamespace podName)) (\<lambda>r. case r of
            Inl err \<Rightarrow> failE (wrapf (''get pod '' @ podNamespace @ ''/'' @ podName @ '': '' @ emsg err) err)
          | Inr pod \<Rightarrow>
              if pod_UID pod \<noteq> gstr volumeContext podUIDField then okE None
              else (case pod_RuntimeClassName pod of
                  None \<Rightarrow> okE None
                | Some runtimeClass \<Rightarrow>
                    if runtimeClass = [] then okE None
                    else bindE (tryE (kb_RuntimeClassAnnotations kata runtimeClass)) (\<lambda>r. case r of
                        Inl err \<Rightarrow> failE (wrapf (''get runtime class '' @ runtimeClass @ '': '' @ emsg err) err)
                      | Inr annotations \<Rightarrow> okE (if gstr annotations kataAnnotationKey = kataAnnotationValue then Some pod else None)))))"

definition getPodFSGroup :: "Pod option \<Rightarrow> VolumeCapability \<Rightarrow> bool \<Rightarrow> int option \<times> string option" where
  "getPodFSGroup pod volumeCapability readOnly =
     (if readOnly \<or> \<not> vc_Mount volumeCapability then (None, None)
      else case pod of None \<Rightarrow> (None, None)
        | Some p \<Rightarrow> if pod_FSGroup p = None then (None, None) else (pod_FSGroup p, pod_FSGroupChangePolicy p))"

subsection \<open>Mount options\<close>

definition collectMountOptions :: "string \<Rightarrow> string list \<Rightarrow> string list" where
  "collectMountOptions fsType mntFlags = (if fsType = ''xfs'' then mntFlags @ [''nouuid''] else mntFlags)"

definition kataMountOptions :: "string \<Rightarrow> string list \<Rightarrow> bool \<Rightarrow> string list" where
  "kataMountOptions fsType flags readonly =
     (let options = fst (RemoveOptionIfExists (collectMountOptions fsType flags) ''directmount'')
      in if readonly then options @ [''ro''] else options)"

end
