(* ===== verification/NodeServer.thy ===== *)
theory NodeServer
  imports NodeQAD Kata Optimization
begin

text \<open>
  The node service (\<open>nodeserver.go\<close>, and \<open>kataRestoreStaging\<close> of \<open>kata.go\<close>): staging, publishing, expanding and their inverses on a Linux
  node, statistics, and what the node tells about itself. A handler is the whole handler, in the order of the code; the locks, the volume
  metadata and the caches are the driver's (\<open>Driver\<close>), devices and mounts those of \<open>NodeDevices\<close>, over one state.

  Metrics, logs and spans have no effect on what is returned and are left out.
\<close>

record 'w node_service =
  ns_driver :: "'w driver_env"
  ns_node :: "('w dst) node_env"
  ns_kata :: "('w dst) kata_env"
  ns_wire :: "'w wire_env"
  ns_echo :: "('w dst) echo"
  ns_fl :: rounding
  ns_GetZone :: "('w dst, string \<times> goerror option) io"
  ns_InstanceType :: "(string \<Rightarrow> ('w dst, string \<times> goerror option) io) option"
  ns_ComputeMetadata :: "('w dst, (string \<times> string) option) io"

record node_config =
  nc_NodeID :: string
  nc_enableKataMount :: bool
  nc_isKataNode :: bool
  nc_formatSem :: bool
  nc_enableSCSIDeviceDeletion :: bool
  nc_nodeInfo :: "NodeInfo option"
  nc_supportZone :: bool
  nc_getNodeInfoFromLabels :: bool
  nc_VolumeAttachLimit :: int
  nc_ReservedDataDiskSlotNum :: int
  nc_getNodeIDFromIMDS :: bool
  nc_useMetadata :: bool

text \<open>The access type with its file system and mount flags, which the controller does not read.\<close>

record NodeCapability = VolumeCapability +
  vc_FsType :: string
  vc_MountFlags :: "string list"

record NodeStageRequest =
  nr_VolumeId :: string
  nr_StagingTargetPath :: string
  nr_VolumeCapability :: "NodeCapability option"
  nr_VolumeContext :: smap
  nr_PublishContext :: smap

record NodePublishRequest = NodeStageRequest +
  nr_TargetPath :: string
  nr_Readonly :: bool

record NodeExpandRequest =
  ne_VolumeId :: string
  ne_VolumePath :: string
  ne_RequiredBytes :: int
  ne_VolumeCapability :: "NodeCapability option"

text \<open>\<open>%q\<close> of a string of printable characters without quotes or backslashes.\<close>

definition goQuoted :: "string \<Rightarrow> string" where
  "goQuoted s = CHR 0x22 # s @ [CHR 0x22]"

definition postAttachErrorCode :: "bool \<Rightarrow> code" where
  "postAttachErrorCode qadAttached = (if qadAttached then Unavailable else Internal)"

definition kataSupported :: "node_config \<Rightarrow> bool" where
  "kataSupported nc \<longleftrightarrow> nc_enableKataMount nc \<and> nc_isKataNode nc"

text \<open>The parameter of the operating system is \<open>linux\<close>.\<close>

definition resolveFSType :: "NodeCapability \<Rightarrow> smap \<Rightarrow> (string \<times> string list) result" where
  "resolveFSType cap params =
     (if \<not> vc_Mount cap then Inr ([], [])
      else let fstype0 = (if vc_FsType cap \<noteq> [] then vc_FsType cap else ''ext4'');
               fstype = (if GetFStype params \<noteq> [] then GetFStype params else fstype0)
           in bindR (NormalizeFSType ''linux'' fstype) (\<lambda>normalized. Inr (normalized, vc_MountFlags cap)))"

text \<open>The checks of the capability that staging and publishing share.\<close>

definition checkCapability :: "NodeCapability \<Rightarrow> smap \<Rightarrow> unit result" where
  "checkCapability cap params = (case GetMaxShares params of
       Inl _ \<Rightarrow> Inl (statusf InvalidArgument ''MaxShares value not supported'')
     | Inr maxShares \<Rightarrow> (case IsValidVolumeCapabilities [VolumeCapability.truncate cap] maxShares of
         Some err \<Rightarrow> Inl (statusf InvalidArgument (emsg err)) | None \<Rightarrow> Inr ()))"

definition partitionOf :: "smap \<Rightarrow> string \<Rightarrow> string" where
  "partitionOf params device = (case gget params VolumeAttributePartition of
     Some p \<Rightarrow> device @ ''-part'' @ p | None \<Rightarrow> device)"

subsection \<open>Attaching by the node\<close>

definition attachTicks :: nat where
  "attachTicks = 60"

definition detachTicks :: nat where
  "detachTicks = 30"

definition qadRequest :: "string \<Rightarrow> PersistentVolume \<Rightarrow> int \<Rightarrow> string \<Rightarrow> DiskOperationRequest" where
  "qadRequest volumeID pv seq cachePolicy = \<lparr>or_DiskURI = volumeID, or_BlobURL = gstr (pv_Annotations pv) BlobURLAnnotation,
     or_ClaimIdentifier = gstr (pv_Annotations pv) ClaimIdentifierAnnotation, or_AttachSequence = seq, or_CachePolicy = cachePolicy\<rparr>"

text \<open>One poll of the attach: the LUN once the disk is attached.\<close>

definition attachPoll :: "'w node_service \<Rightarrow> string \<Rightarrow> ('w dst, string option) io" where
  "attachPoll svc volumeID = bindE (tryE (getDiskState (ns_wire svc) volumeID)) (\<lambda>r. case r of
       Inl err \<Rightarrow> if errorsIs err (Status NotFoundCode) then okE None else failE err
     | Inr None \<Rightarrow> okE None
     | Inr (Some s) \<Rightarrow>
         if st_Status s = AttachmentStatusAttached then okE (Some (Itoa (st_LUN s)))
         else if st_Status s = AttachmentStatusError
         then failE (statusf Internal (''NodeStageVolume: QAD attach failed for volume '' @ goQuoted volumeID @ '' with status '' @ goQuoted (st_Status s)))
         else okE None)"

definition qadAttach :: "'w node_service \<Rightarrow> node_config \<Rightarrow> string \<Rightarrow> PersistentVolume \<Rightarrow> ('w dst, string) io" where
  "qadAttach svc nc volumeID pv = (case getQADCachePolicy pv of
       Inl err \<Rightarrow> failE (statusf InvalidArgument (''failed to determine cache policy: '' @ emsg err))
     | Inr cachePolicy \<Rightarrow> bindE (tryE (incrementAttachSequenceAnnotation (ns_driver svc) pv)) (\<lambda>r. case r of
         Inl _ \<Rightarrow> failE (statusf Internal ''failed to increment attach-sequence'')
       | Inr seq \<Rightarrow> bindE (executeQADDiskOperation (ns_driver svc) (ns_wire svc) (qadRequest volumeID pv seq cachePolicy) attachOperation) (\<lambda>st.
         case st of
           None \<Rightarrow> failE (panicf ''nil pointer dereference'')
         | Some s \<Rightarrow>
             if st_Status s = AttachmentStatusAttaching
             then bindE (tryE (pollUntil (ns_node svc) attachTicks (attachPoll svc volumeID))) (\<lambda>r. case r of
                 Inr lun \<Rightarrow> okE lun
               | Inl err \<Rightarrow> if errorsIs err DeadlineExceeded
                   then failE (statusf DeadlineExceededCode (''NodeStageVolume: Timed out waiting for disk: '' @ volumeID
                     @ '' to be attached on node: '' @ nc_NodeID nc))
                   else failE (statusf Internal (''NodeStageVolume: Error occurred while waiting for disk: '' @ volumeID
                     @ '' to be attached on node: '' @ nc_NodeID nc @ '', error: '' @ emsg err)))
             else if st_Status s = AttachmentStatusAttached then okE (Itoa (st_LUN s))
             else failE (statusf Internal (''NodeStageVolume: QAD attach failed for volume '' @ goQuoted volumeID @ '' with status '' @ goQuoted (st_Status s))))))"

text \<open>The LUN to stage from, and whether the node attached the disk.\<close>

definition stageAttach :: "'w node_service \<Rightarrow> driver_config \<Rightarrow> node_config \<Rightarrow> string \<Rightarrow> smap \<Rightarrow> ('w dst, string \<times> bool) io" where
  "stageAttach svc cfg nc volumeID publishContext =
     (let lun = gget publishContext LUN
      in bindE (if lun = None \<and> cfg_nodeDrivenAttachDetachEnabled cfg
                then bindE (tryE (getPVFromDiskURI (ns_driver svc) cfg volumeID)) (\<lambda>r. case r of
                    Inr pv \<Rightarrow> okE (Some pv)
                  | Inl err \<Rightarrow> if errorsIs err PVNotFound then okE None
                      else failE (statusf Internal (''NodeStageVolume: failed to get PV from diskURI '' @ volumeID @ '': '' @ emsg err)))
                else okE None) (\<lambda>pv.
           case (if hasQADInfo pv then pv else None) of
             Some p \<Rightarrow> bindE (qadAttach svc nc volumeID p) (\<lambda>l. okE (l, True))
           | None \<Rightarrow> (case lun of
               None \<Rightarrow> failE (statusf InvalidArgument ''lun not provided'')
             | Some l \<Rightarrow> okE (l, False))))"

text \<open>One poll of the detach: \<open>Some ()\<close> once the disk is gone.\<close>

definition detachPoll :: "'w node_service \<Rightarrow> string \<Rightarrow> ('w dst, unit option) io" where
  "detachPoll svc volumeID = bindE (tryE (getDiskState (ns_wire svc) volumeID)) (\<lambda>r. case r of
       Inl err \<Rightarrow> if errorsIs err (Status NotFoundCode) then okE (Some ()) else failE err
     | Inr None \<Rightarrow> okE (Some ())
     | Inr (Some s) \<Rightarrow>
         if st_Status s = AttachmentStatusDetached then okE (Some ())
         else if st_Status s = AttachmentStatusError
         then failE (statusf Internal (''NodeUnstageVolume: QAD detach failed for volume '' @ goQuoted volumeID @ '' with status '' @ goQuoted (st_Status s)))
         else okE None)"

definition qadDetach :: "'w node_service \<Rightarrow> node_config \<Rightarrow> string \<Rightarrow> PersistentVolume \<Rightarrow> ('w dst, unit) io" where
  "qadDetach svc nc volumeID pv = (case getQADCachePolicy pv of
       Inl err \<Rightarrow> failE (statusf Internal (''failed to determine cache policy for volume '' @ volumeID @ '': '' @ emsg err))
     | Inr cachePolicy \<Rightarrow> bindE (tryE (incrementAttachSequenceAnnotation (ns_driver svc) pv)) (\<lambda>r. case r of
         Inl _ \<Rightarrow> failE (statusf Internal ''failed to increment attach-sequence'')
       | Inr seq \<Rightarrow> bindE (executeQADDiskOperation (ns_driver svc) (ns_wire svc) (qadRequest volumeID pv seq cachePolicy) detachOperation) (\<lambda>st.
         case st of
           None \<Rightarrow> okE ()
         | Some s \<Rightarrow>
             if st_Status s = AttachmentStatusDetached then okE ()
             else if st_Status s = AttachmentStatusDetaching
             then bindE (tryE (pollUntil (ns_node svc) detachTicks (detachPoll svc volumeID))) (\<lambda>r. case r of
                 Inr _ \<Rightarrow> okE ()
               | Inl err \<Rightarrow> if errorsIs err DeadlineExceeded
                   then failE (statusf DeadlineExceededCode (''NodeUnstageVolume: Timed out waiting for disk: '' @ volumeID
                     @ '' to be detached from node: '' @ nc_NodeID nc))
                   else failE (statusf Internal (''NodeUnstageVolume: Error occurred while waiting for disk: '' @ volumeID
                     @ '' to be detached from node: '' @ nc_NodeID nc @ '', error: '' @ emsg err)))
             else failE (statusf Internal (''NodeUnstageVolume: QAD detach failed for volume '' @ goQuoted volumeID @ '' with status '' @ goQuoted (st_Status s))))))"

subsection \<open>Staging\<close>

text \<open>Performance tuning of the device, when the driver is set up for it.\<close>

definition stageTuning :: "'w node_service \<Rightarrow> driver_config \<Rightarrow> node_config \<Rightarrow> bool \<Rightarrow> smap \<Rightarrow> string \<Rightarrow> ('w dst, unit) io" where
  "stageTuning svc cfg nc qadAttached volumeContext source =
     (if \<not> cfg_perfOptimizationEnabled cfg then okE ()
      else case GetDiskPerfAttributes volumeContext of
          Inl err \<Rightarrow> failE (statusf (postAttachErrorCode qadAttached) (''failed to get perf attributes for '' @ source @ ''. Error: '' @ emsg err))
        | Inr a \<Rightarrow>
            if \<not> DiskSupportsPerfOptimization (pa_profile a) (pa_accountType a) then okE ()
            else bindE (tryE (OptimizeDiskPerformance (ns_node svc) (ns_echo svc) (ns_fl svc) DiskSkuMap (nc_nodeInfo nc) source a)) (\<lambda>r. case r of
                Inl err \<Rightarrow> failE (statusf (postAttachErrorCode qadAttached)
                  (''failed to optimize device performance for target('' @ source @ '') error('' @ emsg err @ '')''))
              | Inr _ \<Rightarrow> okE ()))"

text \<open>\<open>NeedResize\<close> returns false beside an error.\<close>

definition stageResize :: "'w node_service \<Rightarrow> bool \<Rightarrow> smap \<Rightarrow> string \<Rightarrow> string \<Rightarrow> ('w dst, unit) io" where
  "stageResize svc qadAttached volumeContext source target =
     bindE (case gget volumeContext ResizeRequired of
         Some required \<Rightarrow> if EqualFold required TrueValue then okE True
           else bindE (tryE (mn_NeedResize (ns_node svc) source target)) (\<lambda>r. okE (r = Inr True))
       | None \<Rightarrow> bindE (tryE (mn_NeedResize (ns_node svc) source target)) (\<lambda>r. okE (r = Inr True))) (\<lambda>needResize.
     if \<not> needResize then okE ()
     else bindE (tryE (mn_Resize (ns_node svc) source target)) (\<lambda>r. case r of
         Inl err \<Rightarrow> failE (statusf (postAttachErrorCode qadAttached) (''NodeStageVolume: could not resize volume '' @ source @ '' ('' @ target @ ''):  '' @ emsg err))
       | Inr _ \<Rightarrow> okE ()))"

definition stageMount :: "'w node_service \<Rightarrow> node_config \<Rightarrow> bool \<Rightarrow> NodeStageRequest \<Rightarrow> string \<Rightarrow> string list \<Rightarrow> string \<Rightarrow> string \<Rightarrow> ('w dst, unit) io" where
  "stageMount svc nc qadAttached req fstype mountFlags lun device =
     (let target = nr_StagingTargetPath req; source = partitionOf (nr_VolumeContext req) device
      in bindE (tryE (ensureMountPoint (ns_node svc) target)) (\<lambda>r. case r of
          Inl err \<Rightarrow> failE (statusf (postAttachErrorCode qadAttached) (''could not mount target '' @ goQuoted target @ '': '' @ emsg err))
        | Inr True \<Rightarrow> okE ()
        | Inr False \<Rightarrow> bindE (tryE (formatAndMount (ns_node svc) (nc_formatSem nc) source target fstype (collectMountOptions fstype mountFlags))) (\<lambda>r. case r of
            Inl err \<Rightarrow> failE (statusf (postAttachErrorCode qadAttached) (''could not format '' @ source @ ''(lun: '' @ lun @ ''), and mount it at ''
              @ target @ '', failed with '' @ emsg err))
          | Inr _ \<Rightarrow> stageResize svc qadAttached (nr_VolumeContext req) source target)))"

text \<open>Everything after the attach; its failures have the code of \<open>postAttachErrorCode\<close>.\<close>

definition stageDevice :: "'w node_service \<Rightarrow> driver_config \<Rightarrow> node_config \<Rightarrow> NodeStageRequest \<Rightarrow> bool \<Rightarrow> string \<Rightarrow> string list \<Rightarrow> string \<Rightarrow> bool
    \<Rightarrow> ('w dst, unit) io" where
  "stageDevice svc cfg nc req isBlock fstype mountFlags lun qadAttached =
     bindE (tryE (getDevicePathWithLUN (ns_node svc) lun)) (\<lambda>r. case r of
       Inl err \<Rightarrow> failE (statusf (postAttachErrorCode qadAttached) (''failed to find disk on lun '' @ lun @ ''. '' @ emsg err))
     | Inr device \<Rightarrow> bindE (stageTuning svc cfg nc qadAttached (nr_VolumeContext req) device) (\<lambda>_.
         if isBlock then okE () else stageMount svc nc qadAttached req fstype mountFlags lun device))"

text \<open>Whether Kata has been assigned the volume; block volumes have no record.\<close>

definition stageKata :: "'w node_service \<Rightarrow> node_config \<Rightarrow> NodeCapability \<Rightarrow> string \<Rightarrow> ('w dst, bool) io" where
  "stageKata svc nc cap volumeID =
     (if kataSupported nc \<and> \<not> vc_Block cap
      then bindE (tryE (IsVolumeMountedByID (ns_node svc) (ns_kata svc) volumeID)) (\<lambda>r. case r of
          Inl err \<Rightarrow> failE (statusf Internal (''could not check Kata assignment for '' @ volumeID @ '': '' @ emsg err))
        | Inr assigned \<Rightarrow> okE assigned)
      else okE False)"

definition NodeStageVolume :: "'w node_service \<Rightarrow> driver_config \<Rightarrow> node_config \<Rightarrow> NodeStageRequest \<Rightarrow> ('w dst, unit) io" where
  "NodeStageVolume svc cfg nc req =
     (let volumeID = nr_VolumeId req in
      if volumeID = [] then failE (statusf InvalidArgument ''Volume ID not provided'')
      else if nr_StagingTargetPath req = [] then failE (statusf InvalidArgument ''Staging target not provided'')
      else case nr_VolumeCapability req of
        None \<Rightarrow> failE (statusf InvalidArgument ''Volume capability not provided'')
      | Some cap \<Rightarrow>
          bindE (liftE (checkCapability cap (nr_VolumeContext req))) (\<lambda>_.
          case resolveFSType cap (nr_VolumeContext req) of
            Inl err \<Rightarrow> failE (statusf InvalidArgument (emsg err))
          | Inr (fstype, mountFlags) \<Rightarrow> withVolumeLock volumeID (
              bindE (stageKata svc nc cap volumeID) (\<lambda>assigned.
              if assigned then okE ()
              else bindE (stageAttach svc cfg nc volumeID (nr_PublishContext req)) (\<lambda>(lun, qadAttached).
                stageDevice svc cfg nc req (vc_Block cap) fstype mountFlags lun qadAttached)))))"

text \<open>The volume of a detach by the node. Without the feature the controller detaches.\<close>

definition unstagePV :: "'w node_service \<Rightarrow> driver_config \<Rightarrow> string \<Rightarrow> ('w dst, PersistentVolume option) io" where
  "unstagePV svc cfg volumeID =
     (if \<not> cfg_nodeDrivenAttachDetachEnabled cfg then okE None
      else bindE (tryE (getPVFromDiskURI (ns_driver svc) cfg volumeID)) (\<lambda>r. case r of
          Inr pv \<Rightarrow> okE (Some pv)
        | Inl err \<Rightarrow>
            if errorsIs err PVMetadataUnavailable then failE (statusf FailedPrecondition ''Kubernetes client is required to read QAD volume metadata'')
            else if errorsIs err PVNotFound
            then failE (statusf Unavailable (''NodeUnstageVolume: PV metadata for volume '' @ volumeID
              @ '' is unavailable; cannot determine whether QAD detach is required''))
            else failE (statusf Internal (''NodeUnstageVolume: failed to get PV from diskURI '' @ volumeID @ '': '' @ emsg err))))"

definition unstageDetach :: "'w node_service \<Rightarrow> driver_config \<Rightarrow> node_config \<Rightarrow> string \<Rightarrow> ('w dst, unit) io" where
  "unstageDetach svc cfg nc volumeID = bindE (unstagePV svc cfg volumeID) (\<lambda>pv.
     if hasQADInfo pv then qadDetach svc nc volumeID (the pv) else okE ())"

definition NodeUnstageVolume :: "'w node_service \<Rightarrow> driver_config \<Rightarrow> node_config \<Rightarrow> string \<Rightarrow> string \<Rightarrow> ('w dst, unit) io" where
  "NodeUnstageVolume svc cfg nc volumeID stagingTargetPath =
     (if volumeID = [] then failE (statusf InvalidArgument ''Volume ID not provided'')
      else if stagingTargetPath = [] then failE (statusf InvalidArgument ''Staging target not provided'')
      else withVolumeLock volumeID (
        bindE (tryE (unmountAndInvalidateDevice (ns_node svc) (nc_enableSCSIDeviceDeletion nc) stagingTargetPath)) (\<lambda>r. case r of
          Inl err \<Rightarrow> failE (statusf Internal (''failed to unmount staging target '' @ goQuoted stagingTargetPath @ '': '' @ emsg err))
        | Inr _ \<Rightarrow> unstageDetach svc cfg nc volumeID)))"

subsection \<open>Publishing\<close>

definition kataRestoreStaging :: "'w node_service \<Rightarrow> NodePublishRequest \<Rightarrow> NodeCapability \<Rightarrow> ('w dst, unit) io" where
  "kataRestoreStaging svc req cap = bindE (kataIsMountPoint (ns_node svc) (nr_StagingTargetPath req)) (\<lambda>mounted.
     if mounted then okE ()
     else bindE (liftE (resolveFSType cap (nr_VolumeContext req))) (\<lambda>(fsType, flags).
       bindE (getDevicePathWithLUN (ns_node svc) (gstr (nr_PublishContext req) LUN)) (\<lambda>device.
       bindE (os_MakeDir (ns_node svc) (nr_StagingTargetPath req)) (\<lambda>_.
         mn_Mount (ns_node svc) (partitionOf (nr_VolumeContext req) device) (nr_StagingTargetPath req) fsType
           (fst (RemoveOptionIfExists (collectMountOptions fsType flags) ''directmount''))))))"

definition kataMetadata :: "string \<Rightarrow> int option \<Rightarrow> string option \<Rightarrow> smap" where
  "kataMetadata volumeID fsGroup fsGroupChangePolicy =
     (let m0 = [(kataVolumeIDKey, volumeID)];
          m1 = (case fsGroup of None \<Rightarrow> m0 | Some g \<Rightarrow> gset ''fsGroup'' (Itoa g) m0)
      in case fsGroupChangePolicy of None \<Rightarrow> m1 | Some p \<Rightarrow> gset ''fsGroupChangePolicy'' p m1)"

text \<open>kubelet changes the group of the target, which has to be a directory then.\<close>

definition kataTarget :: "'w node_service \<Rightarrow> int option \<Rightarrow> string \<Rightarrow> ('w dst, unit) io" where
  "kataTarget svc fsGroup target =
     (if fsGroup = None then okE ()
      else bindE (tryE (ensureMountPoint (ns_node svc) target)) (\<lambda>r. case r of
          Inl err \<Rightarrow> failE (statusf Internal (''failed to create Kata direct volume target '' @ goQuoted target @ '': '' @ emsg err))
        | Inr True \<Rightarrow> failE (statusf FailedPrecondition (''Kata direct volume target '' @ goQuoted target @ '' is already mounted''))
        | Inr False \<Rightarrow> okE ()))"

text \<open>Handing the disk over to a guest: the host gives up its mount before the assignment is recorded.\<close>

definition publishKata :: "'w node_service \<Rightarrow> NodePublishRequest \<Rightarrow> NodeCapability \<Rightarrow> Pod \<Rightarrow> ('w dst, unit) io" where
  "publishKata svc req cap pod =
     (if getMode (VolumeCapability.truncate cap) \<noteq> SINGLE_NODE_SINGLE_WRITER
      then failE (statusf FailedPrecondition ''volume needs ReadWriteOncePod access mode with Kata'')
      else case resolveFSType cap (nr_VolumeContext req) of
        Inl err \<Rightarrow> failE (statusf InvalidArgument (emsg err))
      | Inr (fstype, mountFlags) \<Rightarrow> (case gget (nr_PublishContext req) LUN of
        None \<Rightarrow> failE (statusf InvalidArgument ''lun not provided'')
      | Some lun \<Rightarrow> bindE (tryE (getDevicePathWithLUN (ns_node svc) lun)) (\<lambda>r. case r of
        Inl err \<Rightarrow> failE (statusf Internal (''failed to find device path with lun '' @ lun @ ''. '' @ emsg err))
      | Inr device0 \<Rightarrow>
          let device = partitionOf (nr_VolumeContext req) device0; target = nr_TargetPath req; source = nr_StagingTargetPath req;
              (fsGroup, fsGroupChangePolicy) = getPodFSGroup (Some pod) (VolumeCapability.truncate cap) (nr_Readonly req)
          in bindE (kataTarget svc fsGroup target) (\<lambda>_.
             bindE (tryE (mn_CleanupMountPoint (ns_node svc) source True)) (\<lambda>r. case r of
               Inl err \<Rightarrow> failE (statusf Internal (''failed to unmount staging target '' @ goQuoted source @ '' for direct volume: '' @ emsg err))
             | Inr _ \<Rightarrow> bindE (tryE (kt_AddMountInfo (ns_kata svc) target \<lparr>mi_VolumeType = kataDirectVolumeType, mi_Device = device, mi_FsType = fstype,
                   mi_Metadata = kataMetadata (nr_VolumeId req) fsGroup fsGroupChangePolicy,
                   mi_Options = kataMountOptions fstype mountFlags (nr_Readonly req)\<rparr>)) (\<lambda>r. case r of
                 Inl err \<Rightarrow> failE (statusf Internal (''failed to add direct volume: '' @ emsg err))
               | Inr _ \<Rightarrow> okE ()))))))"

definition bindMount :: "'w node_service \<Rightarrow> bool \<Rightarrow> string \<Rightarrow> string \<Rightarrow> ('w dst, unit) io" where
  "bindMount svc readonly source target =
     bindE (tryE (mn_Mount (ns_node svc) source target [] (if readonly then [''bind'', ''ro''] else [''bind'']))) (\<lambda>r. case r of
       Inl err \<Rightarrow> failE (statusf Internal (''could not mount '' @ goQuoted source @ '' at '' @ goQuoted target @ '': '' @ emsg err))
     | Inr _ \<Rightarrow> okE ())"

definition publishBlock :: "'w node_service \<Rightarrow> NodePublishRequest \<Rightarrow> ('w dst, unit) io" where
  "publishBlock svc req = (case gget (nr_PublishContext req) LUN of
       None \<Rightarrow> failE (statusf InvalidArgument ''lun not provided'')
     | Some lun \<Rightarrow> bindE (tryE (getDevicePathWithLUN (ns_node svc) lun)) (\<lambda>r. case r of
         Inl err \<Rightarrow> failE (statusf Internal (''failed to find device path with lun '' @ lun @ ''. '' @ emsg err))
       | Inr source \<Rightarrow> bindE (tryE (ensureBlockTargetFile (ns_node svc) (nr_TargetPath req))) (\<lambda>r. case r of
           Inl err \<Rightarrow> failE (statusf Internal (emsg err))
         | Inr _ \<Rightarrow> bindMount svc (nr_Readonly req) source (nr_TargetPath req))))"

definition publishFilesystem :: "'w node_service \<Rightarrow> node_config \<Rightarrow> NodePublishRequest \<Rightarrow> NodeCapability \<Rightarrow> ('w dst, unit) io" where
  "publishFilesystem svc nc req cap =
     bindE (if kataSupported nc
            then bindE (tryE (kataRestoreStaging svc req cap)) (\<lambda>r. case r of
                Inl err \<Rightarrow> failE (statusf Internal (''could not restore staging for '' @ nr_VolumeId req @ '': '' @ emsg err))
              | Inr _ \<Rightarrow> okE ())
            else okE ()) (\<lambda>_.
     bindE (tryE (ensureMountPoint (ns_node svc) (nr_TargetPath req))) (\<lambda>r. case r of
       Inl err \<Rightarrow> failE (statusf Internal (''could not mount target '' @ goQuoted (nr_TargetPath req) @ '': '' @ emsg err))
     | Inr True \<Rightarrow> okE ()
     | Inr False \<Rightarrow> bindMount svc (nr_Readonly req) (nr_StagingTargetPath req) (nr_TargetPath req)))"

definition publishRegular :: "'w node_service \<Rightarrow> node_config \<Rightarrow> NodePublishRequest \<Rightarrow> NodeCapability \<Rightarrow> ('w dst, unit) io" where
  "publishRegular svc nc req cap = (if vc_Block cap then publishBlock svc req else publishFilesystem svc nc req cap)"

text \<open>Kata: nothing is done when the volume is published already; a pod that cannot be read is an ordinary one.\<close>

definition publishUnderKata :: "'w node_service \<Rightarrow> node_config \<Rightarrow> NodePublishRequest \<Rightarrow> NodeCapability \<Rightarrow> ('w dst, unit) io" where
  "publishUnderKata svc nc req cap = bindE (kataPublished (ns_node svc) (ns_kata svc) (nr_VolumeId req) (nr_TargetPath req)) (\<lambda>published.
     if published then okE ()
     else bindE (tryE (kataGetMountPod (ns_kata svc) (nr_VolumeContext req))) (\<lambda>r. case r of
         Inr (Some pod) \<Rightarrow> publishKata svc req cap pod
       | _ \<Rightarrow> publishRegular svc nc req cap))"

definition NodePublishVolume :: "'w node_service \<Rightarrow> node_config \<Rightarrow> NodePublishRequest \<Rightarrow> ('w dst, unit) io" where
  "NodePublishVolume svc nc req =
     (if nr_VolumeId req = [] then failE (statusf InvalidArgument ''Volume ID missing in the request'')
      else case nr_VolumeCapability req of
        None \<Rightarrow> failE (statusf InvalidArgument ''Volume capability missing in request'')
      | Some cap \<Rightarrow>
          bindE (liftE (checkCapability cap (nr_VolumeContext req))) (\<lambda>_.
          if nr_StagingTargetPath req = [] then failE (statusf InvalidArgument ''Staging target not provided'')
          else if nr_TargetPath req = [] then failE (statusf InvalidArgument ''Target path not provided'')
          else if kataSupported nc \<and> \<not> vc_Block cap then withVolumeLock (nr_VolumeId req) (publishUnderKata svc nc req cap)
          else publishRegular svc nc req cap))"

definition NodeUnpublishVolume :: "'w node_service \<Rightarrow> node_config \<Rightarrow> string \<Rightarrow> string \<Rightarrow> ('w dst, unit) io" where
  "NodeUnpublishVolume svc nc volumeID targetPath =
     (let cleanup = bindE (tryE (mn_CleanupMountPoint (ns_node svc) targetPath True)) (\<lambda>r. case r of
            Inl err \<Rightarrow> failE (statusf Internal (''failed to unmount target '' @ goQuoted targetPath @ '': '' @ emsg err))
          | Inr _ \<Rightarrow> if \<not> kataSupported nc then okE ()
              else bindE (tryE (kt_Remove (ns_kata svc) targetPath)) (\<lambda>r. case r of
                  Inl err \<Rightarrow> failE (statusf Internal (''failed to remove direct volume '' @ goQuoted targetPath @ '': '' @ emsg err))
                | Inr _ \<Rightarrow> okE ()))
      in if volumeID = [] then failE (statusf InvalidArgument ''Volume ID missing in the request'')
         else if targetPath = [] then failE (statusf InvalidArgument ''Target path missing in request'')
         else if kataSupported nc then withVolumeLock volumeID cleanup else cleanup)"

subsection \<open>What the node is\<close>

fun digits36 :: "nat \<Rightarrow> string" where
  "digits36 n = (let d = (if n mod 36 < 10 then char_of (48 + n mod 36) else char_of (87 + n mod 36))
     in if n < 36 then [d] else digits36 (n div 36) @ [d])"

declare digits36.simps [simp del]

definition FormatInt36 :: "int \<Rightarrow> string" where
  "FormatInt36 n = (if n < 0 then ''-'' @ digits36 (nat (- n)) else digits36 (nat n))"

text \<open>The instance of a scale set: its name, and its number in base 36 padded to six characters.\<close>

definition getVMSSInstanceName :: "string \<Rightarrow> string result" where
  "getVMSSInstanceName computeName =
     (let names = Split computeName ''_''
      in if length names \<noteq> 2 then Inl (errorf (''invalid vmss compute name: '' @ computeName))
         else case Atoi (names ! 1) of
             Inl err \<Rightarrow> Inl (errorf (''parsing vmss compute name('' @ computeName @ '') failed with '' @ emsg err))
           | Inr instanceID \<Rightarrow> let s = FormatInt36 instanceID in Inr (names ! 0 @ replicate (6 - length s) CHR ''0'' @ s))"

text \<open>The failure domain and the instance type of the node's labels; the latter is only known when the labels were read.\<close>

definition nodeZone :: "'w node_service \<Rightarrow> node_config \<Rightarrow> ('w dst, string \<times> string) io" where
  "nodeZone svc nc =
     (let labels = GetNodeInfoFromLabels (dv_env (ns_driver svc)) (nc_NodeID nc);
          fromLabels = (\<lambda>zone. bindE (tryE labels) (\<lambda>r. case r of
              Inl err \<Rightarrow> failE (statusf Internal (''GetNodeInfoFromLabels on node('' @ nc_NodeID nc @ '') failed with '' @ emsg err))
            | Inr (domain, instanceType) \<Rightarrow> okE (if zone = [] then domain else zone, instanceType)))
      in if nc_getNodeInfoFromLabels nc then fromLabels []
         else bindE (ns_GetZone svc) (\<lambda>(zone, err). case err of
             None \<Rightarrow> okE (zone, []) | Some _ \<Rightarrow> fromLabels zone))"

text \<open>The instance type for the volume limit; a failure leaves it empty.\<close>

definition nodeInstanceType :: "'w node_service \<Rightarrow> node_config \<Rightarrow> string \<Rightarrow> ('w dst, string) io" where
  "nodeInstanceType svc nc instanceTypeFromLabels =
     (let labels = bindE (tryE (GetNodeInfoFromLabels (dv_env (ns_driver svc)) (nc_NodeID nc))) (\<lambda>r.
            okE (case r of Inl _ \<Rightarrow> [] | Inr (_, instanceType) \<Rightarrow> instanceType))
      in if nc_getNodeInfoFromLabels nc
         then (if instanceTypeFromLabels = [] then labels else okE instanceTypeFromLabels)
         else bindE (case ns_InstanceType svc of
             None \<Rightarrow> okE []
           | Some instanceType \<Rightarrow> bindE (instanceType (nc_NodeID nc)) (\<lambda>(t, _). okE t)) (\<lambda>t.
           if t \<noteq> [] then okE t
           else if instanceTypeFromLabels = [] then labels else okE instanceTypeFromLabels))"

definition nodeIdentity :: "'w node_service \<Rightarrow> node_config \<Rightarrow> ('w dst, string) io" where
  "nodeIdentity svc nc =
     (let nodeID = nc_NodeID nc
      in if \<not> (nc_getNodeIDFromIMDS nc \<and> nc_useMetadata nc) then okE nodeID
         else bindE (tryE (ns_ComputeMetadata svc)) (\<lambda>r. case r of
             Inr (Some (name, scaleSet)) \<Rightarrow> okE (
               if name = [] then nodeID
               else if scaleSet = [] then name
               else case getVMSSInstanceName name of
                   Inr instanceName \<Rightarrow> instanceName
                 | Inl _ \<Rightarrow> if nodeID = [] then name else nodeID)
           | _ \<Rightarrow> okE nodeID))"

text \<open>The node's name, the number of volumes it takes and its topology.\<close>

definition NodeGetInfo :: "'w node_service \<Rightarrow> driver_config \<Rightarrow> node_config \<Rightarrow> ('w dst, string \<times> int \<times> smap) io" where
  "NodeGetInfo svc cfg nc =
     bindE (if nc_supportZone nc then nodeZone svc nc else okE ([], [])) (\<lambda>(zone, instanceTypeFromLabels).
     bindE (if nc_VolumeAttachLimit nc < 0
            then bindE (nodeInstanceType svc nc instanceTypeFromLabels) (\<lambda>instanceType.
              okE (int64 (fst (GetMaxDataDiskCount (tbl_maxDataDiskCountMap (dv_env (ns_driver svc))) instanceType) - nc_ReservedDataDiskSlotNum nc)))
            else okE (nc_VolumeAttachLimit nc)) (\<lambda>maxDataDiskCount.
     bindE (nodeIdentity svc nc) (\<lambda>nodeID.
       okE (nodeID, maxDataDiskCount,
         if nc_supportZone nc \<and> IsValidAvailabilityZone zone (cfg_Location (cfg_cloud cfg))
         then gset WellKnownTopologyKey zone (gset (cfg_topologyKey cfg) zone [(cfg_topologyKey cfg, [])])
         else [(cfg_topologyKey cfg, [])]))))"

subsection \<open>Statistics and expansion\<close>

definition NodeGetVolumeStats :: "'w node_service \<Rightarrow> node_config \<Rightarrow> string \<Rightarrow> string \<Rightarrow> ('w dst, VolumeUsage list) io" where
  "NodeGetVolumeStats svc nc volumeID volumePath =
     (if volumeID = [] then failE (statusf InvalidArgument ''NodeGetVolumeStats volume ID was empty'')
      else if volumePath = [] then failE (statusf InvalidArgument ''NodeGetVolumeStats volume path was empty'')
      else bindE (if kataSupported nc then tryE (IsVolumeMountedByID (ns_node svc) (ns_kata svc) volumeID) else okE (Inr False)) (\<lambda>r.
        if r = Inr True then failE (statusf Unimplemented ''volume stats are not supported for Kata mounts'')
        else GetVolumeStats (ns_node svc) volumePath))"

text \<open>The file system is resized between two checks of the size of the device; what is returned is the size after it.\<close>

definition verifyResized :: "'w node_service \<Rightarrow> NodeExpandRequest \<Rightarrow> string \<Rightarrow> int \<Rightarrow> unit result \<Rightarrow> ('w dst, int) io" where
  "verifyResized svc req devicePath requestGiB resized =
     bindE (tryE (validateBlockDeviceSize (ns_node svc) devicePath requestGiB)) (\<lambda>r. case r of
       Inl err \<Rightarrow> (case resized of
           Inl e \<Rightarrow> failE (statusf Internal (''could not resize volume '' @ goQuoted (ne_VolumeId req) @ '' ('' @ goQuoted devicePath @ ''):  '' @ emsg e))
         | Inr _ \<Rightarrow> failE (statusf Internal (''NodeExpandVolume: block device size did not match requested size after filesystem resize: '' @ emsg err)))
     | Inr finalBlockSizeBytes \<Rightarrow> okE finalBlockSizeBytes)"

definition resizeChecked :: "'w node_service \<Rightarrow> NodeExpandRequest \<Rightarrow> string \<Rightarrow> int \<Rightarrow> ('w dst, int) io" where
  "resizeChecked svc req devicePath requestGiB =
     bindE (tryE (validateBlockDeviceSize (ns_node svc) devicePath requestGiB)) (\<lambda>r. case r of
       Inl err \<Rightarrow> failE (statusf Unavailable (''NodeExpandVolume: block device size did not match requested size: '' @ emsg err))
     | Inr _ \<Rightarrow> bindE (tryE (mn_Resize (ns_node svc) devicePath (ne_VolumePath req))) (verifyResized svc req devicePath requestGiB))"

definition expandFilesystem :: "'w node_service \<Rightarrow> driver_config \<Rightarrow> NodeExpandRequest \<Rightarrow> ('w dst, int) io" where
  "expandFilesystem svc cfg req = bindE (tryE (getDevicePathWithMountPath (ns_node svc) (ne_VolumePath req))) (\<lambda>r. case r of
       Inl err \<Rightarrow> failE (statusf NotFoundCode (emsg err))
     | Inr devicePath \<Rightarrow>
         bindE (if cfg_enableDiskOnlineResize cfg then tryE (rescanVolume (ns_node svc) devicePath) else okE (Inr ())) (\<lambda>_.
           resizeChecked svc req devicePath (RoundUpGiB (ne_RequiredBytes req))))"

text \<open>A block volume has no file system: its devices are rescanned and no size is returned.\<close>

definition expandVolume :: "'w node_service \<Rightarrow> driver_config \<Rightarrow> NodeExpandRequest \<Rightarrow> ('w dst, int) io \<Rightarrow> ('w dst, int) io" where
  "expandVolume svc cfg req filesystem = bindE (tryE (mn_PathIsDevice (ns_node svc) (ne_VolumePath req))) (\<lambda>r. case r of
       Inl err \<Rightarrow> failE (statusf NotFoundCode (''failed to determine device path for volumePath ['' @ ne_VolumePath req @ '']: '' @ emsg err))
     | Inr isDevice \<Rightarrow>
         if isDevice \<or> (case ne_VolumeCapability req of None \<Rightarrow> False | Some cap \<Rightarrow> vc_Block cap)
         then bindE (if cfg_enableDiskOnlineResize cfg then tryE (rescanAllVolumes (ns_node svc)) else okE (Inr ())) (\<lambda>_. okE 0)
         else filesystem)"

definition NodeExpandVolume :: "'w node_service \<Rightarrow> driver_config \<Rightarrow> node_config \<Rightarrow> NodeExpandRequest \<Rightarrow> ('w dst, int) io" where
  "NodeExpandVolume svc cfg nc req =
     (let volumeID = ne_VolumeId req; filesystem = expandFilesystem svc cfg req in
      if volumeID = [] then failE (statusf InvalidArgument ''Volume ID not provided'')
      else if ne_VolumePath req = [] then failE (statusf InvalidArgument ''volume path must be provided'')
      else if kataSupported nc
      then withVolumeLock volumeID (bindE (tryE (IsVolumeMountedByID (ns_node svc) (ns_kata svc) volumeID)) (\<lambda>r. case r of
          Inl err \<Rightarrow> failE (statusf Internal (''could not check Kata assignment for '' @ volumeID @ '': '' @ emsg err))
        | Inr True \<Rightarrow> failE (statusf Unimplemented ''volume resize is not supported for Kata mounts'')
        | Inr False \<Rightarrow> expandVolume svc cfg req filesystem))
      else expandVolume svc cfg req (withVolumeLock volumeID filesystem))"

end
