(* ===== verification/NodeDeviceProps.thy ===== *)
theory NodeDeviceProps
  imports NodeDevices
begin

text \<open>
  Properties of device discovery and formatting: a disk is formatted only when three tools in turn find nothing on it, the device that
  is found for a LUN is a data disk at that LUN, and the poll for it never runs twice.
\<close>

subsection \<open>The contract of the node\<close>

text \<open>Every call apart from external commands and the resizing of a file system keeps \<open>R\<close>; commands are told apart by name.\<close>

definition calm_files :: "('s \<Rightarrow> 's \<Rightarrow> bool) \<Rightarrow> 's node_env \<Rightarrow> bool" where
  "calm_files R env \<longleftrightarrow> (\<forall>d. stays R (io_ReadDir env d)) \<and> (\<forall>p. stays R (io_Readlink env p)) \<and> (\<forall>p. stays R (io_ReadFile env p))
     \<and> (\<forall>p c. stays R (io_WriteFile env p c)) \<and> (\<forall>p. stays R (os_Stat env p)) \<and> (\<forall>p. stays R (os_Remove env p))
     \<and> (\<forall>p. stays R (os_OpenAndReadDir1 env p)) \<and> (\<forall>p. stays R (os_MakeDir env p)) \<and> (\<forall>p. stays R (os_MakeFile env p))
     \<and> (\<forall>p. stays R (os_EvalSymlinks env p)) \<and> (\<forall>p. stays R (os_IsCorruptedDir env p)) \<and> (\<forall>p. stays R (ux_OpenDirectory env p))
     \<and> (\<forall>p. stays R (ux_Open env p)) \<and> (\<forall>fd. stays R (ux_Close env fd)) \<and> (\<forall>fd. stays R (ux_FstatDev env fd))
     \<and> (\<forall>fd. stays R (ux_FstatParentDev env fd)) \<and> (\<forall>fd op. stays R (ux_Ioctl env fd op))
     \<and> stays R (sem_Acquire env) \<and> stays R (sem_Release env) \<and> (\<forall>k. stays R (ne_Wait env k))"

definition calm_mounts :: "('s \<Rightarrow> 's \<Rightarrow> bool) \<Rightarrow> 's node_env \<Rightarrow> bool" where
  "calm_mounts R env \<longleftrightarrow> (\<forall>s t f os. stays R (mn_Mount env s t f os)) \<and> (\<forall>t. stays R (mn_Unmount env t))
     \<and> (\<forall>t. stays R (mn_IsLikelyNotMountPoint env t)) \<and> (\<forall>t. stays R (mn_IsMountPoint env t)) \<and> stays R (mn_List env)
     \<and> (\<forall>d. stays R (mn_GetDiskFormat env d)) \<and> (\<forall>t. stays R (mn_GetDeviceNameFromMount env t))
     \<and> (\<forall>t b. stays R (mn_CleanupMountPoint env t b)) \<and> (\<forall>d t. stays R (mn_NeedResize env d t))
     \<and> (\<forall>p. stays R (mn_PathIsDevice env p)) \<and> (\<forall>p. stays R (mn_StatFS env p))"

definition calm_commands :: "('s \<Rightarrow> 's \<Rightarrow> bool) \<Rightarrow> (string \<Rightarrow> bool) \<Rightarrow> 's node_env \<Rightarrow> bool" where
  "calm_commands R P env \<longleftrightarrow>
     (\<forall>cmd args. P cmd \<longrightarrow> stays R (ex_CombinedOutput env cmd args) \<and> stays R (ex_Output env cmd args))"

definition calm_resize :: "('s \<Rightarrow> 's \<Rightarrow> bool) \<Rightarrow> 's node_env \<Rightarrow> bool" where
  "calm_resize R env \<longleftrightarrow> (\<forall>d t. stays R (mn_Resize env d t))"

lemma files_stays:
  assumes "calm_files R env"
  shows "stays R (io_ReadDir env d)" "stays R (io_Readlink env p)" "stays R (io_ReadFile env p)" "stays R (io_WriteFile env p ct)"
    "stays R (os_Stat env p)" "stays R (os_Remove env p)" "stays R (os_OpenAndReadDir1 env p)" "stays R (os_MakeDir env p)"
    "stays R (os_MakeFile env p)" "stays R (os_EvalSymlinks env p)" "stays R (os_IsCorruptedDir env p)" "stays R (ux_OpenDirectory env p)"
    "stays R (ux_Open env p)" "stays R (ux_Close env fd)" "stays R (ux_FstatDev env fd)" "stays R (ux_FstatParentDev env fd)"
    "stays R (ux_Ioctl env fd ct)" "stays R (sem_Acquire env)" "stays R (sem_Release env)" "stays R (ne_Wait env k)"
  using assms unfolding calm_files_def by blast+

lemma mounts_stays:
  assumes "calm_mounts R env"
  shows "stays R (mn_Mount env s t f os)" "stays R (mn_Unmount env t)" "stays R (mn_IsLikelyNotMountPoint env t)"
    "stays R (mn_IsMountPoint env t)" "stays R (mn_List env)" "stays R (mn_GetDiskFormat env d)" "stays R (mn_GetDeviceNameFromMount env t)"
    "stays R (mn_CleanupMountPoint env t b)" "stays R (mn_NeedResize env d t)" "stays R (mn_PathIsDevice env p)" "stays R (mn_StatFS env p)"
  using assms unfolding calm_mounts_def by blast+

lemma commands_stays:
  "calm_commands R P env \<Longrightarrow> P cmd \<Longrightarrow> stays R (ex_CombinedOutput env cmd args)"
  "calm_commands R P env \<Longrightarrow> P cmd \<Longrightarrow> stays R (ex_Output env cmd args)"
  "calm_resize R env \<Longrightarrow> stays R (mn_Resize env d t)"
  by (simp_all add: calm_commands_def calm_resize_def)

lemma calm_commands_mono: "calm_commands R P env \<Longrightarrow> (\<And>c. Q c \<Longrightarrow> P c) \<Longrightarrow> calm_commands R Q env"
  by (simp add: calm_commands_def)

text \<open>What the three tools say of a disk without a file system, in the states in which they are asked.\<close>

definition blankDisk :: "'s node_env \<Rightarrow> string \<Rightarrow> 's \<Rightarrow> 's \<Rightarrow> bool" where
  "blankDisk env source s s3 \<longleftrightarrow> (\<exists>s1 s2 e out. run_state (mn_GetDiskFormat env source) s = (Inr [], s1)
     \<and> run_state (detectOrRepairFilesystem env source [''-n'']) s1 = (Inr (False, Some e), s2)
     \<and> Contains (ToLower (emsg e)) ''superblock could not be read or does not describe a valid ext2/ext3/ext4''
     \<and> run_state (ex_CombinedOutput env ''wipefs'' [''--no-act'', ''--output'', ''TYPE'', ''--noheadings'', source]) s2 = (Inr (out, None), s3)
     \<and> TrimSpace out = [])"

context preorder_on_states begin

lemma stays_split:
  "(\<And>e. stays R (f e)) \<Longrightarrow> (\<And>x. stays R (g x)) \<Longrightarrow> stays R (case r of Inl e \<Rightarrow> f e | Inr x \<Rightarrow> g x)"
  "stays R m \<Longrightarrow> (\<And>y. stays R (h y)) \<Longrightarrow> stays R (case opt of None \<Rightarrow> m | Some y \<Rightarrow> h y)"
  "(\<And>a b. stays R (k a b)) \<Longrightarrow> stays R (case pr of (a, b) \<Rightarrow> k a b)"
  "stays R m \<Longrightarrow> (\<And>y ys. stays R (l y ys)) \<Longrightarrow> stays R (case xs of [] \<Rightarrow> m | y # ys \<Rightarrow> l y ys)"
  by (auto split: sum.split option.split prod.split list.split)

lemmas node_rules = stays_return stays_doE stays_bindE stays_tryE stays_deferE stays_if stays_split files_stays mounts_stays commands_stays

lemma stays_linksOf: "calm_files R env \<Longrightarrow> stays R (linksOf env d)"
proof -
  assume "calm_files R env"
  then have "stays R (linkTargets env d ns)" for ns by (induction ns) (auto intro!: node_rules)
  then show ?thesis unfolding linksOf_def by (auto intro!: node_rules \<open>calm_files R env\<close>)
qed

lemma stays_listAzureDiskPath: "calm_files R env \<Longrightarrow> stays R (listAzureDiskPath env)"
  unfolding listAzureDiskPath_def by (auto intro!: node_rules stays_linksOf)

lemma stays_getDiskLinkByDevName: "calm_files R env \<Longrightarrow> stays R (getDiskLinkByDevName env l d)"
proof -
  assume "calm_files R env"
  then have "stays R (linkNamed env l d ns)" for ns by (induction ns) (auto intro!: node_rules)
  then show ?thesis unfolding getDiskLinkByDevName_def by (auto intro!: node_rules \<open>calm_files R env\<close>)
qed

lemma stays_devicePathOf: "calm_files R env \<Longrightarrow> stays R (devicePathOf env d)"
  unfolding devicePathOf_def by (auto intro!: node_rules stays_getDiskLinkByDevName)

lemma stays_scsiProperty: "calm_files R env \<Longrightarrow> stays R (scsiProperty env n p e)"
  unfolding scsiProperty_def by (auto intro!: node_rules)

lemma stays_scanScsi: "calm_files R env \<Longrightarrow> stays R (scanScsi env l ad ns)"
  by (induction ns) (auto intro!: node_rules stays_scsiProperty stays_devicePathOf)

lemma stays_findDiskByLun: "calm_files R env \<Longrightarrow> stays R (findDiskByLun env l)"
proof -
  assume calm: "calm_files R env"
  then have "stays R (firstLink env l ps)" for ps by (induction ps) (auto intro!: node_rules)
  with calm show ?thesis unfolding findDiskByLun_def findDiskByLunWithConstraint_def Let_def
    by (auto intro!: node_rules stays_listAzureDiskPath stays_scanScsi)
qed

lemma stays_pollUntil: "(\<And>k. stays R (ne_Wait env k)) \<Longrightarrow> stays R cond \<Longrightarrow> stays R (pollUntil env n cond)"
  by (induction n) (auto intro!: stays_return stays_doE stays_bindE stays_split)

lemma stays_scsiHostRescan: "calm_files R env \<Longrightarrow> stays R (scsiHostRescan env)"
proof -
  assume calm: "calm_files R env"
  then have "stays R (writeAll env c ps)" for c ps by (induction ps) (auto intro!: node_rules)
  with calm show ?thesis unfolding scsiHostRescan_def by (auto intro!: node_rules)
qed

lemma stays_getDevicePathWithLUN: "calm_files R env \<Longrightarrow> stays R (getDevicePathWithLUN env l)"
  unfolding getDevicePathWithLUN_def lookForDevice_def
  by (auto intro!: node_rules stays_scsiHostRescan stays_pollUntil stays_findDiskByLun)

lemma stays_mountWithMetrics: "calm_mounts R env \<Longrightarrow> stays R (mountWithMetrics env s t f os)"
  unfolding mountWithMetrics_def by (auto intro!: node_rules)

lemma stays_detectOrRepair: "calm_commands R P env \<Longrightarrow> P ''fsck'' \<Longrightarrow> stays R (detectOrRepairFilesystem env s os)"
  unfolding detectOrRepairFilesystem_def by (auto intro!: node_rules)

lemma stays_detectFilesystemExistence:
  "calm_commands R P env \<Longrightarrow> P ''fsck'' \<Longrightarrow> P ''wipefs'' \<Longrightarrow> stays R (detectFilesystemExistence env s)"
  unfolding detectFilesystemExistence_def Let_def by (auto intro!: node_rules stays_detectOrRepair)

lemma stays_repairFilesystem: "calm_commands R P env \<Longrightarrow> P ''fsck'' \<Longrightarrow> stays R (repairFilesystem env s os)"
  unfolding repairFilesystem_def by (auto intro!: node_rules stays_detectOrRepair)

text \<open>The call that breaks \<open>R\<close>: the first one or the rest.\<close>

lemma break_second:
  assumes m: "stays R m" and broken: "\<not> R s (snd (run_state (bindE m f) s))"
  shows "\<exists>x t. run_state m s = (Inr x, t) \<and> R s t \<and> \<not> R t (snd (run_state (f x) t))"
proof -
  obtain r t where run: "run_state m s = (r, t)" by (cases "run_state m s")
  have st: "R s t" using m run unfolding stays_def by (metis snd_conv)
  show ?thesis
  proof (cases r)
    case (Inl e)
    with run st broken show ?thesis by simp
  next
    case (Inr x)
    with run broken have "\<not> R s (snd (run_state (f x) t))" by simp
    with Inr run st show ?thesis using R_trans by blast
  qed
qed

lemma break_try:
  assumes m: "stays R m" and broken: "\<not> R s (snd (run_state (bindE (tryE m) f) s))"
  shows "\<exists>r t. run_state m s = (r, t) \<and> R s t \<and> \<not> R t (snd (run_state (f r) t))"
  using break_second [OF stays_tryE [OF m] broken] by (auto split: prod.splits sum.splits if_splits)

lemma break_case:
  assumes "stays R m" "\<And>e. stays R (g e)"
    and "\<not> R s (snd (run_state (bindE (tryE m) (\<lambda>r. case r of Inl e \<Rightarrow> g e | Inr x \<Rightarrow> h x)) s))"
  shows "\<exists>x t. run_state m s = (Inr x, t) \<and> R s t \<and> \<not> R t (snd (run_state (h x) t))"
proof -
  from break_try [OF assms(1,3)] obtain r t where rt: "run_state m s = (r, t)" "R s t"
    and b: "\<not> R t (snd (run_state (case r of Inl e \<Rightarrow> g e | Inr x \<Rightarrow> h x) t))" by blast
  with assms(2) show ?thesis by (cases r) (auto simp: stays_def)
qed

lemma break_first:
  assumes f: "\<And>x. stays R (f x)" and broken: "\<not> R s (snd (run_state (bindE m f) s))"
  shows "\<not> R s (snd (run_state m s))"
proof
  assume keeps: "R s (snd (run_state m s))"
  obtain r t where run: "run_state m s = (r, t)" by (cases "run_state m s")
  have ft: "R t (snd (run_state (f x) t))" for x using f [of x] by (simp add: stays_def)
  show False using keeps run broken R_trans ft by (cases r) auto
qed

subsection \<open>Formatting\<close>

lemma detectOrRepair_absent:
  "run_state (detectOrRepairFilesystem env d os) t = (Inr (False, err), u) \<Longrightarrow> err \<noteq> None"
  unfolding detectOrRepairFilesystem_def Let_def by (auto split: prod.splits sum.splits option.splits exec_error.splits if_splits)

lemma detectFilesystemExistence_absent:
  assumes "run_state (detectFilesystemExistence env source) s1 = (Inr False, s3)"
    and "run_state (mn_GetDiskFormat env source) s = (Inr [], s1)"
  shows "blankDisk env source s s3"
proof -
  obtain r s2 where d: "run_state (detectOrRepairFilesystem env source [''-n'']) s1 = (r, s2)"
    by (cases "run_state (detectOrRepairFilesystem env source [''-n'']) s1")
  obtain isFS err where r: "r = Inr (isFS, err)"
    using assms(1) d by (cases r) (auto simp: detectFilesystemExistence_def)
  show ?thesis
    using assms d detectOrRepair_absent [of env source "[''-n'']" s1 err s2] unfolding r
    by (auto simp: detectFilesystemExistence_def Let_def blankDisk_def split: if_splits prod.splits sum.splits option.splits)
qed

lemma staysD: "stays R m \<Longrightarrow> R s (snd (run_state m s))"
  by (simp add: stays_def)

lemma stays_formatUnlessPresent:
  "calm_mounts R env \<Longrightarrow> present \<or> readOnly \<Longrightarrow> stays R (formatUnlessPresent env sem readOnly source fstype present)"
  unfolding formatUnlessPresent_def by (auto intro!: stays_bindE stays_tryE stays_split stays_return mounts_stays)

lemma stays_mountFormatted:
  assumes "calm_mounts R env" "calm_commands R (\<lambda>cmd. \<not> HasPrefix cmd ''mkfs.'') env"
  shows "stays R (mountFormatted env readOnly source target fstype options fmt new)"
proof -
  have "stays R (repairFilesystem env source [''-a''])"
    by (rule stays_repairFilesystem [OF assms(2)]) (simp add: HasPrefix_def)
  then show ?thesis unfolding mountFormatted_def
    by (auto intro!: stays_bindE stays_tryE stays_split stays_return stays_if stays_mountWithMetrics assms)
qed

lemma formatIfNeeded_break:
  assumes "calm_mounts R env" "calm_commands R (\<lambda>cmd. \<not> HasPrefix cmd ''mkfs.'') env"
    and format: "run_state (mn_GetDiskFormat env source) s = (Inr [], s1)"
    and broken: "\<not> R s1 (snd (run_state (formatIfNeeded env sem readOnly source fstype) s1))"
  shows "\<not> readOnly \<and> (\<exists>s3. blankDisk env source s s3 \<and> R s1 s3)"
proof -
  have "stays R (detectFilesystemExistence env source)"
    by (rule stays_detectFilesystemExistence [OF assms(2)]) (simp_all add: HasPrefix_def)
  from break_case [OF this stays_return(2) broken [unfolded formatIfNeeded_def]] obtain present s3 where
    d: "run_state (detectFilesystemExistence env source) s1 = (Inr present, s3)" "R s1 s3"
    and b: "\<not> R s3 (snd (run_state (formatUnlessPresent env sem readOnly source fstype present) s3))"
    by blast
  have "\<not> present \<and> \<not> readOnly"
    using b staysD [OF stays_formatUnlessPresent [OF assms(1)]] by blast
  with d detectFilesystemExistence_absent [OF _ format] show ?thesis by auto
qed

lemma formatAndMount_break:
  assumes calm: "calm_mounts R env" "calm_commands R (\<lambda>cmd. \<not> HasPrefix cmd ''mkfs.'') env"
    and broken: "\<not> R s (snd (run_state (formatAndMount env sem source target fstype options) s))"
  shows "''ro'' \<notin> set options \<and> \<not> snd (RemoveOptionIfExists options ''directmount'') \<and> (\<exists>s3. blankDisk env source s s3 \<and> R s s3)"
proof (cases "RemoveOptionIfExists options ''directmount''")
  case (Pair newOptions exists)
  have fresh: "\<not> exists"
    using broken staysD [OF stays_mountWithMetrics [OF calm(1)]] by (auto simp: formatAndMount_def Pair Let_def)
  have "stays R (mn_GetDiskFormat env source)" by (rule mounts_stays [OF calm(1)])
  from break_case [OF this stays_return(2) broken [unfolded formatAndMount_def Pair Let_def prod.case if_not_P [OF fresh]]]
  obtain blkid s1 where f: "run_state (mn_GetDiskFormat env source) s = (Inr blkid, s1)" "R s s1"
    and b: "\<not> R s1 (snd (run_state (bindE (if blkid = [] then formatIfNeeded env sem (''ro'' \<in> set options) source fstype else okE (blkid, False))
      (\<lambda>(fmt, new). mountFormatted env (''ro'' \<in> set options) source target fstype options fmt new)) s1))"
    by blast
  have "\<not> R s1 (snd (run_state (if blkid = [] then formatIfNeeded env sem (''ro'' \<in> set options) source fstype else okE (blkid, False)) s1))"
    by (rule break_first [OF _ b]) (auto intro!: stays_split stays_mountFormatted calm)
  then have blank: "blkid = []" and f2: "\<not> R s1 (snd (run_state (formatIfNeeded env sem (''ro'' \<in> set options) source fstype) s1))"
    by (auto simp: R_refl split: if_splits)
  obtain s3 where "''ro'' \<notin> set options" "blankDisk env source s s3" "R s1 s3"
    using formatIfNeeded_break [OF calm f(1) [unfolded blank] f2] by blast
  with fresh Pair R_trans [OF f(2)] show ?thesis by auto
qed

end

subsection \<open>A node with one data disk\<close>

text \<open>A node whose disk \<open>sdc\<close>, at LUN 3, has an \<open>ext4\<close> file system and 2 GiB.\<close>

definition quietNode :: "'s node_env" where
  "quietNode = \<lparr>
     io_ReadDir = (\<lambda>d. if d = ''/sys/bus/scsi/devices'' then okE [''0:0:0:0'', ''5:0:0:3'']
       else if d = ''/sys/bus/scsi/devices/5:0:0:3/block'' then okE [''sdc'']
       else if d = ''/run/kata-containers/shared/direct-volumes'' then okE [] else failE (errorf ''no such directory'')),
     io_Readlink = (\<lambda>_. failE (errorf ''no such file'')),
     io_ReadFile = (\<lambda>p. if HasSuffix p ''vendor'' then okE ''Msft'' else okE ''Virtual Disk''),
     io_WriteFile = (\<lambda>_ _. okE ()), os_Stat = (\<lambda>_. okE ()), os_Remove = (\<lambda>_. okE ()), os_OpenAndReadDir1 = (\<lambda>_. okE ()),
     os_MakeDir = (\<lambda>_. okE ()), os_MakeFile = (\<lambda>_. okE ()), os_EvalSymlinks = okE, os_IsCorruptedDir = (\<lambda>_. State_Monad.return False),
     os_Cwd = ''/'', ux_OpenDirectory = (\<lambda>_. okE 3), ux_Open = (\<lambda>_. okE 3), ux_Close = (\<lambda>_. State_Monad.return ()),
     ux_FstatDev = (\<lambda>_. okE 1), ux_FstatParentDev = (\<lambda>_. okE 2), ux_Ioctl = (\<lambda>_ _. State_Monad.return None),
     ex_CombinedOutput = (\<lambda>_ _. okE ([], None)),
     ex_Output = (\<lambda>cmd _. okE (if cmd = ''findmnt'' then ''/dev/sdc'' else ''2147483648'', None)),
     sem_Acquire = State_Monad.return (), sem_Release = State_Monad.return (),
     mn_Mount = (\<lambda>_ _ _ _. okE ()), mn_Unmount = (\<lambda>_. okE ()), mn_IsLikelyNotMountPoint = (\<lambda>_. okE (True, None)),
     mn_IsMountPoint = (\<lambda>_. okE False), mn_List = okE [], mn_GetDiskFormat = (\<lambda>_. okE ''ext4''),
     mn_GetDeviceNameFromMount = (\<lambda>_. okE ''/dev/sdc''), mn_CleanupMountPoint = (\<lambda>_ _. okE ()),
     mn_Resize = (\<lambda>_ _. okE ()), mn_NeedResize = (\<lambda>_ _. okE False), mn_PathIsDevice = (\<lambda>_. okE False),
     mn_StatFS = (\<lambda>_. okE [Some 1, Some 2, Some 1, Some 1, Some 2, Some 1]), ne_Wait = (\<lambda>_. State_Monad.return None)\<rparr>"

lemma quietNode_calm:
  assumes "\<And>c. R c c"
  shows "calm_files R quietNode" "calm_mounts R quietNode" "calm_commands R P quietNode" "calm_resize R quietNode"
  using assms by (auto simp: calm_files_def calm_mounts_def calm_commands_def calm_resize_def quietNode_def stays_def)

text \<open>The same node with a new disk; the state says whether it has been formatted.\<close>

definition exampleCommand :: "string \<Rightarrow> (bool, string \<times> exec_error option) io" where
  "exampleCommand cmd =
     (if cmd = ''mkfs.ext4'' then modifyE (\<lambda>_. True) (okE ([], None))
      else if cmd = ''fsck'' then getE (\<lambda>formatted. okE (if formatted then ([], None)
        else (''The superblock could not be read or does not describe a valid ext2/ext3/ext4 filesystem'', Some (ExitError 8))))
      else getE (\<lambda>formatted. okE (if formatted then ''ext4'' else [], None)))"

definition exampleNode :: "bool node_env" where
  "exampleNode = quietNode\<lparr>ex_CombinedOutput := (\<lambda>cmd _. exampleCommand cmd),
     mn_GetDiskFormat := (\<lambda>_. getE (\<lambda>formatted. okE (if formatted then ''ext4'' else [])))\<rparr>"

lemma exampleNode_calm: "calm_mounts (=) exampleNode" "calm_commands (=) (\<lambda>cmd. \<not> HasPrefix cmd ''mkfs.'') exampleNode"
  by (auto simp: calm_mounts_def calm_commands_def exampleNode_def quietNode_def exampleCommand_def stays_def HasPrefix_def)

lemma preorder_eq: "preorder_on_states (=)"
  by unfold_locales simp_all

lemma exampleNode_formats: "run_state (formatAndMount exampleNode False ''/dev/sdc'' ''/mnt'' ''ext4'' []) False = (Inr (), True)"
  by code_simp

text \<open>(C4) A disk is formatted only when it is blank. Let \<open>R\<close> hold between states that differ in anything but what \<open>mkfs\<close> does: it is kept by
  every call of the node but that command. If a run of \<open>formatAndMount\<close> breaks \<open>R\<close>, then \<open>blkid\<close> had found no signature,
  after it \<open>fsck -n\<close> no file system and no valid superblock, and after that \<open>wipefs\<close> no signature of any type, all before the disk was
  changed; and the mount is neither read-only nor a direct one.\<close>

theorem formatAndMount_formats_only_blank:
  assumes "preorder_on_states R" "calm_mounts R env" "calm_commands R (\<lambda>cmd. \<not> HasPrefix cmd ''mkfs.'') env"
    and "\<not> R s (snd (run_state (formatAndMount env formatSem source target fstype options) s))"
  shows "''ro'' \<notin> set options \<and> \<not> snd (RemoveOptionIfExists options ''directmount'') \<and> (\<exists>s3. blankDisk env source s s3 \<and> R s s3)"
  by (rule preorder_on_states.formatAndMount_break [OF assms])

theorem formatAndMount_formats_only_blank_witness: "\<exists>s3. blankDisk exampleNode ''/dev/sdc'' False s3 \<and> \<not> s3"
  using formatAndMount_formats_only_blank [OF preorder_eq exampleNode_calm, of False False "''/dev/sdc''" "''/mnt''" "''ext4''" "[]"]
  by (auto simp: exampleNode_formats)

subsection \<open>The device of a LUN\<close>

text \<open>
  What the kernel says of a device that is the disk of a LUN, stated over the files that are read: an entry
  \<open>host:channel:target:lun\<close> of the SCSI devices has the LUN, its vendor and model files hold those of Azure, and its block directory begins
  with the device, which is none of the disks that Azure uses itself; where no link names such a disk, the host is above 3.
  A path names a device by itself or by a link that ends in its name.
\<close>

definition fileHolds :: "'s node_env \<Rightarrow> string \<Rightarrow> string \<Rightarrow> bool" where
  "fileHolds env p content \<longleftrightarrow> (\<exists>t u raw. run_state (io_ReadFile env p) t = (Inr raw, u) \<and> ToUpper (TrimSpace raw) = content)"

definition dataDisk :: "'s node_env \<Rightarrow> int \<Rightarrow> string list \<Rightarrow> string \<Rightarrow> bool" where
  "dataDisk env lun azureDisks devName \<longleftrightarrow> devName \<notin> set azureDisks
     \<and> (\<exists>name host channel target lunText rest. Split name '':'' = host # channel # target # lunText # rest
       \<and> Atoi lunText = Inr lun \<and> (azureDisks = [] \<longrightarrow> (\<exists>n. Atoi host = Inr n \<and> 3 < n))
       \<and> (\<exists>t u names. run_state (io_ReadDir env ''/sys/bus/scsi/devices'') t = (Inr names, u) \<and> name \<in> set names)
       \<and> fileHolds env (pathJoin2 (pathJoin2 ''/sys/bus/scsi/devices'' name) ''vendor'') ''MSFT''
       \<and> fileHolds env (pathJoin2 (pathJoin2 ''/sys/bus/scsi/devices'' name) ''model'') ''VIRTUAL DISK''
       \<and> (\<exists>t u others. run_state (io_ReadDir env (pathJoin2 (pathJoin2 ''/sys/bus/scsi/devices'' name) ''block'')) t = (Inr (devName # others), u)))"

text \<open>The links that Azure keeps for its own disks do not name the device.\<close>

definition linksAvoid :: "'s node_env \<Rightarrow> string \<Rightarrow> string \<Rightarrow> bool" where
  "linksAvoid env dir devName \<longleftrightarrow> (\<exists>t u r. run_state (io_ReadDir env dir) t = (r, u) \<and> (\<forall>names n. r = Inr names \<and> n \<in> set names \<longrightarrow>
     (\<exists>t u l. run_state (io_Readlink env (pathJoin2 dir n)) t = (l, u) \<and> (\<forall>link. l = Inr link \<longrightarrow> afterSlash link \<noteq> devName))))"

definition unusedByAzure :: "'s node_env \<Rightarrow> string \<Rightarrow> bool" where
  "unusedByAzure env devName \<longleftrightarrow> linksAvoid env ''/dev/disk/azure/'' devName \<and> linksAvoid env ''/dev/disk/azure/scsi0/'' devName"

definition namesDevice :: "'s node_env \<Rightarrow> string \<Rightarrow> string \<Rightarrow> bool" where
  "namesDevice env p devName \<longleftrightarrow>
     p = ''/dev/'' @ devName \<or> (\<exists>t u link. run_state (io_Readlink env p) t = (Inr link, u) \<and> HasSuffix link devName)"

definition lunLink :: "'s node_env \<Rightarrow> int \<Rightarrow> string \<Rightarrow> bool" where
  "lunLink env lun p \<longleftrightarrow> p \<in> {''/dev/disk/azure/scsi1/lun'' @ Itoa lun, ''/dev/disk/azure/data/by-lun/'' @ Itoa lun}
     \<and> (\<exists>t u link. run_state (io_Readlink env p) t = (Inr link, u))"

lemma linkNamed_sound:
  "run_state (linkNamed env l d ns) s = (Inr p, s') \<Longrightarrow> namesDevice env p d \<and> length l \<le> length p"
proof (induction ns arbitrary: s)
  case (Cons n ns)
  then show ?case by (auto simp: namesDevice_def split: prod.splits sum.splits if_splits)
qed simp

lemma getDiskLinkByDevName_sound:
  "run_state (getDiskLinkByDevName env l d) s = (Inr p, s') \<Longrightarrow> namesDevice env p d \<and> length l \<le> length p"
  unfolding getDiskLinkByDevName_def by (auto split: prod.splits sum.splits if_splits dest!: linkNamed_sound)

lemma devicePathOf_sound: "run_state (devicePathOf env d) s = (Inr p, s') \<Longrightarrow> namesDevice env p d \<and> p \<noteq> []"
  unfolding devicePathOf_def
  by (auto split: prod.splits sum.splits if_splits dest!: getDiskLinkByDevName_sound simp: namesDevice_def)

lemma linkTargets_complete:
  "run_state (linkTargets env dir names) s = (Inr targets, s') \<Longrightarrow> n \<in> set names
   \<Longrightarrow> \<exists>t u l. run_state (io_Readlink env (pathJoin2 dir n)) t = (l, u) \<and> (\<forall>link. l = Inr link \<longrightarrow> afterSlash link \<in> set targets)"
proof (induction names arbitrary: s targets)
  case (Cons m names)
  obtain l t where l: "run_state (io_Readlink env (pathJoin2 dir m)) s = (l, t)" by fastforce
  with Cons.prems(1) obtain more where rest: "run_state (linkTargets env dir names) t = (Inr more, s')"
    and targets: "targets = (case l of Inl _ \<Rightarrow> more | Inr link \<Rightarrow> afterSlash link # more)"
    by (cases l) (auto split: prod.splits sum.splits if_splits)
  show ?case
  proof (cases "n = m")
    case True
    with l targets show ?thesis by (intro exI [of _ s] exI [of _ t] exI [of _ l]) (auto split: sum.splits)
  next
    case False
    with Cons.prems(2) Cons.IH [OF rest] targets show ?thesis by (fastforce split: sum.splits)
  qed
qed simp

lemma linksOf_complete:
  assumes "run_state (linksOf env dir) s = (Inr targets, s')" "d \<notin> set targets"
  shows "linksAvoid env dir d"
proof -
  obtain r t where r: "run_state (io_ReadDir env dir) s = (r, t)" by fastforce
  have "\<exists>t u l. run_state (io_Readlink env (pathJoin2 dir n)) t = (l, u) \<and> (\<forall>link. l = Inr link \<longrightarrow> afterSlash link \<noteq> d)"
    if "r = Inr names \<and> n \<in> set names" for names n
  proof -
    have "run_state (linkTargets env dir names) t = (Inr targets, s')" using assms(1) r that by (simp add: linksOf_def)
    from linkTargets_complete [OF this, of n] that assms(2) show ?thesis by blast
  qed
  with r show ?thesis unfolding linksAvoid_def by blast
qed

lemma listAzureDiskPath_complete:
  assumes "run_state (listAzureDiskPath env) s = (Inr disks, s')" "d \<notin> set disks"
  shows "unusedByAzure env d"
proof -
  obtain a b t where a: "run_state (linksOf env ''/dev/disk/azure/'') s = (Inr a, t)"
    and b: "run_state (linksOf env ''/dev/disk/azure/scsi0/'') t = (Inr b, s')" and "disks = a @ b"
    using assms(1) by (auto simp: listAzureDiskPath_def split: prod.splits sum.splits)
  with assms(2) show ?thesis by (simp add: unusedByAzure_def linksOf_complete [OF a] linksOf_complete [OF b])
qed

lemma scsiProperty_holds:
  "run_state (scsiProperty env name f content) s = (Inr True, s') \<Longrightarrow> fileHolds env (pathJoin2 (pathJoin2 ''/sys/bus/scsi/devices'' name) f) content"
  by (auto simp: scsiProperty_def fileHolds_def scsiPath_def split: prod.splits sum.splits if_splits)

lemma scsiMatches_fields:
  assumes "scsiMatches lun disks name"
  obtains host channel target lunText rest where "Split name '':'' = host # channel # target # lunText # rest" "Atoi lunText = Inr lun"
    "disks = [] \<longrightarrow> (\<exists>n. Atoi host = Inr n \<and> 3 < n)"
proof -
  from assms have "4 \<le> length (Split name '':'')" by (simp add: scsiMatches_def Let_def)
  then obtain host channel target lunText rest where "Split name '':'' = host # channel # target # lunText # rest"
    by (auto simp: numeral_eq_Suc Suc_le_length_iff)
  with assms that show ?thesis by (auto simp: scsiMatches_def split: sum.splits)
qed

text \<open>What the scan returns comes from an entry with the LUN and the properties of an Azure disk, whose device is free.\<close>

lemma scanScsi_entry:
  "run_state (scanScsi env lun disks ns) s = (Inr p, s') \<Longrightarrow> p \<noteq> [] \<Longrightarrow> \<exists>n\<in>set ns. scsiMatches lun disks n
   \<and> (\<exists>t u. run_state (scsiProperty env n ''vendor'' ''MSFT'') t = (Inr True, u))
   \<and> (\<exists>t u. run_state (scsiProperty env n ''model'' ''VIRTUAL DISK'') t = (Inr True, u))
   \<and> (\<exists>d. d \<notin> set disks \<and> namesDevice env p d
       \<and> (\<exists>t u others. run_state (io_ReadDir env (pathJoin2 (pathJoin2 scsiPath n) ''block'')) t = (Inr (d # others), u)))"
proof (induction ns arbitrary: s)
  case (Cons n ns)
  obtain v t where v: "run_state (scsiProperty env n ''vendor'' ''MSFT'') s = (v, t)" by fastforce
  obtain m u where m: "run_state (scsiProperty env n ''model'' ''VIRTUAL DISK'') t = (m, u)" by fastforce
  obtain b w where b: "run_state (io_ReadDir env (pathJoin2 (pathJoin2 scsiPath n) ''block'')) u = (b, w)" by fastforce
  show ?case
  proof (cases "scsiMatches lun disks n \<and> v = Inr True \<and> m = Inr True \<and> (\<exists>d others. b = Inr (d # others) \<and> d \<notin> set disks)")
    case True
    then obtain d others where d: "b = Inr (d # others)" "d \<notin> set disks" by blast
    have "run_state (devicePathOf env d) w = (Inr p, s')" using Cons.prems True v m b d by simp
    from devicePathOf_sound [OF this] True v m b d show ?thesis by (intro bexI [of _ n]) auto
  next
    case False
    then have "\<exists>x. run_state (scanScsi env lun disks ns) x = (Inr p, s')"
      using Cons.prems(1) v m b by (auto split: sum.splits if_splits list.splits)
    then show ?thesis using Cons.IH Cons.prems(2) by (meson list.set_intros(2))
  qed
qed simp

lemma findDiskByLunWithConstraint_sound:
  assumes "run_state (findDiskByLunWithConstraint env lun disks) s = (Inr p, s')" "p \<noteq> []"
  shows "\<exists>d. dataDisk env lun disks d \<and> namesDevice env p d"
proof -
  obtain names t where names: "run_state (io_ReadDir env ''/sys/bus/scsi/devices'') s = (Inr names, t)"
    and scan: "run_state (scanScsi env lun disks names) t = (Inr p, s')"
    using assms by (auto simp: findDiskByLunWithConstraint_def scsiPath_def split: prod.splits sum.splits if_splits)
  from scanScsi_entry [OF scan assms(2)] obtain n d t1 u1 t2 u2 t3 u3 others where n: "n \<in> set names" "scsiMatches lun disks n"
    and props: "run_state (scsiProperty env n ''vendor'' ''MSFT'') t1 = (Inr True, u1)"
      "run_state (scsiProperty env n ''model'' ''VIRTUAL DISK'') t2 = (Inr True, u2)"
    and d: "d \<notin> set disks" "namesDevice env p d"
      "run_state (io_ReadDir env (pathJoin2 (pathJoin2 ''/sys/bus/scsi/devices'' n) ''block'')) t3 = (Inr (d # others), u3)"
    by (auto simp: scsiPath_def)
  obtain host channel target lunText rest where "Split n '':'' = host # channel # target # lunText # rest" "Atoi lunText = Inr lun"
    "disks = [] \<longrightarrow> (\<exists>n. Atoi host = Inr n \<and> 3 < n)"
    using n(2) by (rule scsiMatches_fields)
  with n(1) d names scsiProperty_holds [OF props(1)] scsiProperty_holds [OF props(2)] have "dataDisk env lun disks d"
    unfolding dataDisk_def by blast
  with d(2) show ?thesis by blast
qed

lemma firstLink_sound:
  "run_state (firstLink env lun ps) s = (Inr p, s') \<Longrightarrow> p \<in> set ps \<and> (\<exists>t u link. run_state (io_Readlink env p) t = (Inr link, u))"
proof (induction ps arbitrary: s)
  case (Cons q ps)
  then show ?case by (auto split: prod.splits sum.splits if_splits)
qed simp

text \<open>(C20) The device that \<open>findDiskByLun\<close> returns is the disk of the LUN: either a device that the files of the kernel show as
  a data disk of Azure at that LUN, and that no link of Azure's own disks names, or one of the two
  \<open>udev\<close> links of the LUN. It is never the empty path.\<close>

theorem findDiskByLun_sound:
  assumes "run_state (findDiskByLun env lun) s = (Inr p, s')"
  shows "p \<noteq> [] \<and> (lunLink env lun p \<or> (\<exists>disks t d. run_state (listAzureDiskPath env) s = (Inr disks, t)
    \<and> dataDisk env lun disks d \<and> unusedByAzure env d \<and> namesDevice env p d))"
proof -
  obtain disks t where disks: "run_state (listAzureDiskPath env) s = (Inr disks, t)"
    using assms unfolding findDiskByLun_def by (auto split: prod.splits sum.splits)
  obtain r u where scan: "run_state (findDiskByLunWithConstraint env lun disks) t = (r, u)" by fastforce
  show ?thesis
  proof (cases "\<exists>d. r = Inr d \<and> d \<noteq> []")
    case True
    then have "run_state (findDiskByLunWithConstraint env lun disks) t = (Inr p, u)" "p \<noteq> []"
      using assms disks scan by (auto simp: findDiskByLun_def Let_def)
    from findDiskByLunWithConstraint_sound [OF this] obtain d where d: "dataDisk env lun disks d" "namesDevice env p d" by blast
    then have "unusedByAzure env d" using listAzureDiskPath_complete [OF disks] by (simp add: dataDisk_def)
    with d disks \<open>p \<noteq> []\<close> show ?thesis by blast
  next
    case False
    then obtain v where "run_state (firstLink env lun [''/dev/disk/azure/scsi1/lun'' @ Itoa lun, ''/dev/disk/azure/data/by-lun/'' @ Itoa lun]) v = (Inr p, s')"
      using assms disks scan by (auto simp: findDiskByLun_def Let_def split: sum.splits if_splits)
    from firstLink_sound [OF this] show ?thesis by (auto simp: lunLink_def)
  qed
qed

lemma exampleNode_finds: "run_state (findDiskByLun exampleNode 3) False = (Inr ''/dev/sdc'', False)"
  by code_simp

theorem findDiskByLun_sound_witness: "\<exists>d. dataDisk exampleNode 3 [] d \<and> namesDevice exampleNode ''/dev/sdc'' d"
proof -
  have "run_state (listAzureDiskPath exampleNode) False = (Inr [], False)" by code_simp
  with findDiskByLun_sound [OF exampleNode_finds] show ?thesis by (auto simp: lunLink_def)
qed

subsection \<open>The poll\<close>

lemma linkTargets_wait [simp]: "linkTargets (env\<lparr>ne_Wait := w\<rparr>) d ns = linkTargets env d ns"
  by (induction ns) (simp_all cong del: sum.case_cong_weak list.case_cong_weak if_weak_cong)

lemma linkNamed_wait [simp]: "linkNamed (env\<lparr>ne_Wait := w\<rparr>) l d ns = linkNamed env l d ns"
  by (induction ns) (simp_all cong del: sum.case_cong_weak list.case_cong_weak if_weak_cong)

lemma devicePathOf_wait [simp]: "devicePathOf (env\<lparr>ne_Wait := w\<rparr>) d = devicePathOf env d"
  by (simp add: devicePathOf_def getDiskLinkByDevName_def cong del: sum.case_cong_weak)

lemma scanScsi_wait [simp]: "scanScsi (env\<lparr>ne_Wait := w\<rparr>) lun ds ns = scanScsi env lun ds ns"
  by (induction ns) (simp_all add: scsiProperty_def cong del: sum.case_cong_weak list.case_cong_weak if_weak_cong)

lemma firstLink_wait [simp]: "firstLink (env\<lparr>ne_Wait := w\<rparr>) lun ps = firstLink env lun ps"
  by (induction ps) (simp_all cong del: sum.case_cong_weak list.case_cong_weak if_weak_cong)

lemma lookForDevice_wait [simp]: "lookForDevice (env\<lparr>ne_Wait := w\<rparr>) lun = lookForDevice env lun"
  by (simp add: lookForDevice_def findDiskByLun_def listAzureDiskPath_def linksOf_def findDiskByLunWithConstraint_def Let_def
    cong del: sum.case_cong_weak if_weak_cong)

lemma scsiHostRescan_wait [simp]: "scsiHostRescan (env\<lparr>ne_Wait := w\<rparr>) = scsiHostRescan env"
proof -
  have "writeAll (env\<lparr>ne_Wait := w\<rparr>) c ps = writeAll env c ps" for c ps by (induction ps) (simp_all cong del: sum.case_cong_weak)
  then show ?thesis by (simp add: scsiHostRescan_def cong del: sum.case_cong_weak)
qed

lemma lookForDevice_decides: "run_state (lookForDevice env lun) s \<noteq> (Inr None, t)"
  unfolding lookForDevice_def by (auto split: prod.splits sum.splits if_splits dest: findDiskByLun_sound)

lemma state_eqI: "(\<And>s. run_state m s = run_state n s) \<Longrightarrow> m = n"
  by (rule state.expand) (rule ext)

text \<open>The first run of the condition decides.\<close>

lemma pollUntil_decided:
  assumes "\<And>s t. run_state cond s \<noteq> (Inr None, t)"
  shows "pollUntil env (Suc n) cond = bindE cond (\<lambda>r. okE (the r))"
  by (rule state_eqI) (use assms in \<open>auto split: prod.splits sum.splits option.splits\<close>)

text \<open>(C36) \<open>getDevicePathWithLUN\<close> polls every second for two minutes, but it never waits: \<open>findDiskByLun\<close> reports a disk that is not there yet as an
  error, on which the poll ends, so that what it returns does not depend on the clock, nor on the number of runs that
  are allowed, as long as there is one.\<close>

theorem getDevicePathWithLUN_never_waits:
  "getDevicePathWithLUN (env\<lparr>ne_Wait := w\<rparr>) lunStr = getDevicePathWithLUN env lunStr
   \<and> pollUntil env (Suc n) (lookForDevice env lun) = pollUntil env deviceTicks (lookForDevice env lun)"
proof
  have p: "pollUntil e (Suc k) (lookForDevice env lun') = bindE (lookForDevice env lun') (\<lambda>r. okE (the r))" for e k lun'
    by (rule pollUntil_decided) (rule lookForDevice_decides)
  have ticks: "deviceTicks = Suc 119" by (simp add: deviceTicks_def)
  show "getDevicePathWithLUN (env\<lparr>ne_Wait := w\<rparr>) lunStr = getDevicePathWithLUN env lunStr"
    unfolding getDevicePathWithLUN_def ticks by (simp only: lookForDevice_wait scsiHostRescan_wait p)
  show "pollUntil env (Suc n) (lookForDevice env lun) = pollUntil env deviceTicks (lookForDevice env lun)"
    unfolding ticks by (simp only: p)
qed

end
