(* ===== verification/NodeProps.thy ===== *)
theory NodeProps
  imports NodeServer NodeDeviceProps ControllerProps
begin

text \<open>
  Properties of the node service: what its handlers keep of the state, when a file system is resized, what is known of the disk after the
  node has attached or detached it, the codes of failures after that, and that a volume of a Kata guest is left alone.
\<close>

subsection \<open>The contract of the environment\<close>

definition calm_kata :: "('s \<Rightarrow> 's \<Rightarrow> bool) \<Rightarrow> 's kata_env \<Rightarrow> bool" where
  "calm_kata R kata \<longleftrightarrow> (\<forall>p. stays R (kt_VolumeMountInfo kata p)) \<and> (\<forall>p i. stays R (kt_AddMountInfo kata p i))
     \<and> (\<forall>p. stays R (kt_Remove kata p)) \<and> (\<forall>ns n. stays R (kb_PodGet kata ns n)) \<and> (\<forall>c. stays R (kb_RuntimeClassAnnotations kata c))"

definition calm_service :: "('w dst \<Rightarrow> 'w dst \<Rightarrow> bool) \<Rightarrow> 'w node_service \<Rightarrow> bool" where
  "calm_service R svc \<longleftrightarrow> calm_driver R (ns_driver svc) \<and> calm_files R (ns_node svc) \<and> calm_mounts R (ns_node svc)
     \<and> calm_commands R (\<lambda>_. True) (ns_node svc) \<and> calm_resize R (ns_node svc) \<and> calm_kata R (ns_kata svc)
     \<and> (\<forall>q. stays R (wr_Do (ns_wire svc) q)) \<and> (\<forall>v p. stays R (ns_echo svc v p))"

lemma kata_stays:
  assumes "calm_kata R kata"
  shows "stays R (kt_VolumeMountInfo kata p)" "stays R (kt_AddMountInfo kata p i)" "stays R (kt_Remove kata p)"
    "stays R (kb_PodGet kata ns n)" "stays R (kb_RuntimeClassAnnotations kata n)"
  using assms by (simp_all add: calm_kata_def)

lemma service_calm:
  assumes "calm_service R svc"
  shows "calm_driver R (ns_driver svc)" "calm_files R (ns_node svc)" "calm_mounts R (ns_node svc)"
    "calm_commands R (\<lambda>_. True) (ns_node svc)" "calm_resize R (ns_node svc)" "calm_kata R (ns_kata svc)"
    "stays R (wr_Do (ns_wire svc) q)" "stays R (ns_echo svc v p)"
  using assms by (simp_all add: calm_service_def)

context preorder_on_states begin

lemma stays_bool: "stays R m \<Longrightarrow> stays R n \<Longrightarrow> stays R (case b of True \<Rightarrow> m | False \<Rightarrow> n)"
  by (simp split: bool.split)

lemmas split_rules = stays_return stays_doE stays_bindE stays_tryE stays_deferE stays_if stays_split stays_bool

lemma stays_formatAndMount:
  assumes "calm_mounts R env" "calm_commands R (\<lambda>_. True) env" "stays R (sem_Acquire env)" "stays R (sem_Release env)"
  shows "stays R (formatAndMount env sem source target fstype options)"
proof -
  have "stays R (mkfsWithConcurrencyLimit env sem fstype args)" for args
    unfolding mkfsWithConcurrencyLimit_def Let_def by (auto intro!: split_rules commands_stays assms)
  then have "stays R (formatIfNeeded env sem readOnly source fstype)" for readOnly
    unfolding formatIfNeeded_def formatUnlessPresent_def
    by (auto intro!: split_rules mounts_stays assms stays_detectFilesystemExistence [OF assms(2)])
  then show ?thesis unfolding formatAndMount_def mountFormatted_def Let_def
    by (auto intro!: split_rules mounts_stays assms stays_mountWithMetrics stays_repairFilesystem [OF assms(2)])
qed

lemma stays_ensureMountPoint: "calm_files R env \<Longrightarrow> calm_mounts R env \<Longrightarrow> stays R (ensureMountPoint env t)"
  unfolding ensureMountPoint_def by (auto intro!: node_rules)

lemma stays_ensureBlockTargetFile: "calm_files R env \<Longrightarrow> calm_mounts R env \<Longrightarrow> stays R (ensureBlockTargetFile env t)"
  unfolding ensureBlockTargetFile_def by (auto intro!: split_rules files_stays stays_ensureMountPoint)

lemma stays_unmountAndInvalidateDevice:
  assumes "calm_files R env" "calm_mounts R env"
  shows "stays R (unmountAndInvalidateDevice env b p)"
proof -
  have flush: "stays R (flushAndInvalidateBlockDevice env d)" for d
    unfolding flushAndInvalidateBlockDevice_def by (auto intro!: split_rules files_stays assms)
  have "stays R (flushAll env ds)" for ds by (induction ds) (auto intro!: split_rules flush)
  moreover have "stays R (shutdownFilesystem env p)"
    unfolding shutdownFilesystem_def by (auto intro!: split_rules files_stays assms)
  moreover have "stays R (resolveDevice env p)"
    unfolding resolveDevice_def by (auto intro!: split_rules files_stays mounts_stays assms)
  ultimately show ?thesis unfolding unmountAndInvalidateDevice_def Let_def
    by (auto intro!: split_rules files_stays mounts_stays assms)
qed

lemma stays_OptimizeDiskPerformance:
  assumes "calm_files R env" "\<And>v p. stays R (echo v p)"
  shows "stays R (OptimizeDiskPerformance env echo fl skus node device a)"
proof -
  have "stays R (echoEach echo ss)" for ss by (induction ss) (auto intro!: split_rules assms)
  then show ?thesis unfolding OptimizeDiskPerformance_def applyDeviceSettings_def Let_def
    by (auto intro!: split_rules files_stays assms)
qed

lemma stays_sizes:
  assumes "calm_commands R (\<lambda>_. True) env"
  shows "stays R (getBlockSizeBytes env d)" "stays R (getDevicePathWithMountPath env p)" "stays R (validateBlockDeviceSize env d g)"
proof -
  show size: "stays R (getBlockSizeBytes env d)"
    unfolding getBlockSizeBytes_def by (auto intro!: split_rules commands_stays assms)
  show "stays R (getDevicePathWithMountPath env p)"
    unfolding getDevicePathWithMountPath_def by (auto intro!: split_rules commands_stays assms)
  show "stays R (validateBlockDeviceSize env d g)"
    unfolding validateBlockDeviceSize_def by (auto intro!: split_rules size)
qed

lemma stays_rescan:
  assumes "calm_files R env"
  shows "stays R (rescanVolume env d)" "stays R (rescanAllVolumes env)"
proof -
  show one: "stays R (rescanVolume env d)" for d
    unfolding rescanVolume_def by (auto intro!: files_stays assms)
  have "stays R (rescanEach env ds)" for ds by (induction ds) (auto intro!: split_rules one)
  then show "stays R (rescanAllVolumes env)"
    unfolding rescanAllVolumes_def by (auto intro!: split_rules files_stays assms)
qed

lemma stays_IsVolumeMountedByID:
  assumes "\<And>d. stays R (io_ReadDir env d)" "\<And>p. stays R (kt_VolumeMountInfo kata p)"
  shows "stays R (IsVolumeMountedByID env kata v)" "stays R (FindMountInfo env kata v)"
proof -
  have "stays R (findRecord kata v ns)" for ns
    by (induction ns) (auto intro!: split_rules assms)
  then show find: "stays R (FindMountInfo env kata v)"
    unfolding FindMountInfo_def kataFindMountInfo_def by (auto intro!: split_rules assms)
  then show "stays R (IsVolumeMountedByID env kata v)"
    unfolding IsVolumeMountedByID_def by (auto intro!: split_rules)
qed

end

subsection \<open>What the handlers keep\<close>

context driver_preorder begin

lemma stays_incrementAttachSequenceAnnotation:
  assumes "calm_driver R env"
  shows "stays R (incrementAttachSequenceAnnotation env pv)"
proof -
  have once: "stays R (incrementOnce env b pv)" for b pv
    unfolding incrementOnce_def Let_def by (auto intro!: split_rules driver_stays assms)
  have "stays R (retryIncrement env k b pv e)" for k b pv e
    by (induction k arbitrary: b pv e) (auto intro!: split_rules once env_stays calm_env assms)
  then show ?thesis unfolding incrementAttachSequenceAnnotation_def by (auto intro!: split_rules)
qed

lemma stays_makeHTTPRequest: "(\<And>q. stays R (wr_Do wire q)) \<Longrightarrow> stays R (makeHTTPRequest wire m u b h)"
  by (simp add: makeHTTPRequest_def)

lemma stays_getDiskState: "(\<And>q. stays R (wr_Do wire q)) \<Longrightarrow> stays R (getDiskState wire u)"
  unfolding getDiskState_def by (auto intro!: split_rules stays_makeHTTPRequest)

lemma stays_executeQADDiskOperation:
  assumes "calm_driver R env" "\<And>q. stays R (wr_Do wire q)"
  shows "stays R (executeQADDiskOperation env wire req op)"
proof -
  have "stays R (attachOrDetachDiskInternal env wire req op)"
    unfolding attachOrDetachDiskInternal_def by (auto intro!: split_rules stays_makeHTTPRequest driver_stays assms)
  then show ?thesis unfolding executeQADDiskOperation_def
    by (auto intro!: split_rules split: option.split)
qed

lemma stays_qadAttach:
  assumes "calm_service R svc"
  shows "stays R (qadAttach svc nc v pv)" "stays R (qadDetach svc nc v pv)"
proof -
  note c = service_calm [OF assms]
  have "stays R (attachPoll svc v)" "stays R (detachPoll svc v)"
    unfolding attachPoll_def detachPoll_def by (auto intro!: split_rules stays_getDiskState c)
  then have "stays R (pollUntil (ns_node svc) k (attachPoll svc v))" "stays R (pollUntil (ns_node svc) k (detachPoll svc v))" for k
    by (auto intro!: stays_pollUntil files_stays c)
  then show "stays R (qadAttach svc nc v pv)" "stays R (qadDetach svc nc v pv)"
    unfolding qadAttach_def qadDetach_def
    by (auto intro!: split_rules stays_incrementAttachSequenceAnnotation stays_executeQADDiskOperation c)
qed

lemma stays_stageAttach: "calm_service R svc \<Longrightarrow> stays R (stageAttach svc cfg nc v pc)"
  unfolding stageAttach_def Let_def by (auto intro!: split_rules stays_qadAttach stays_getPVFromDiskURI dest: service_calm(1))

lemma stays_stageDevice:
  assumes "calm_service R svc"
  shows "stays R (stageDevice svc cfg nc req b f fl l q)"
proof -
  note c = service_calm [OF assms]
  have "stays R (stageTuning svc cfg nc q vc d)" for vc d
    unfolding stageTuning_def by (auto intro!: split_rules stays_OptimizeDiskPerformance c)
  moreover have "stays R (stageResize svc q vc d t)" for vc d t
    unfolding stageResize_def by (auto intro!: split_rules mounts_stays commands_stays(3) c)
  then have "stays R (stageMount svc nc q req f fl l d)" for d
    unfolding stageMount_def Let_def
    by (auto intro!: split_rules stays_ensureMountPoint stays_formatAndMount files_stays c)
  ultimately show ?thesis unfolding stageDevice_def by (auto intro!: split_rules stays_getDevicePathWithLUN c)
qed

lemma stays_kataReads:
  assumes "calm_service R svc"
  shows "stays R (IsVolumeMountedByID (ns_node svc) (ns_kata svc) v)" "stays R (FindMountInfo (ns_node svc) (ns_kata svc) v)"
    "stays R (stageKata svc nc cap v)"
proof -
  note c = service_calm [OF assms]
  show one: "stays R (IsVolumeMountedByID (ns_node svc) (ns_kata svc) v)" "stays R (FindMountInfo (ns_node svc) (ns_kata svc) v)"
    by (rule stays_IsVolumeMountedByID; rule files_stays kata_stays; rule c)+
  show "stays R (stageKata svc nc cap v)" unfolding stageKata_def by (auto intro!: split_rules one)
qed

lemma stays_NodeStageVolume: "calm_service R svc \<Longrightarrow> stays R (NodeStageVolume svc cfg nc req)"
  unfolding NodeStageVolume_def Let_def
  by (auto intro!: split_rules stays_withVolumeLock stays_kataReads stays_stageAttach stays_stageDevice)

lemma stays_NodeUnstageVolume:
  assumes "calm_service R svc"
  shows "stays R (NodeUnstageVolume svc cfg nc v t)"
proof -
  note c = service_calm [OF assms]
  have "stays R (unstagePV svc cfg v)"
    unfolding unstagePV_def by (auto intro!: split_rules stays_getPVFromDiskURI c)
  then have "stays R (unstageDetach svc cfg nc v)"
    unfolding unstageDetach_def by (auto intro!: split_rules stays_qadAttach assms)
  then show ?thesis unfolding NodeUnstageVolume_def
    by (auto intro!: split_rules stays_withVolumeLock stays_unmountAndInvalidateDevice c)
qed

lemma stays_publishRegular:
  assumes "calm_service R svc"
  shows "stays R (publishRegular svc nc req cap)"
proof -
  note c = service_calm [OF assms]
  have bind: "stays R (bindMount svc b s t)" for b s t
    unfolding bindMount_def by (auto intro!: split_rules mounts_stays c)
  have "stays R (kataIsMountPoint (ns_node svc) p)" for p
    unfolding kataIsMountPoint_def by (auto intro!: split_rules mounts_stays c)
  then have "stays R (kataRestoreStaging svc req cap)"
    unfolding kataRestoreStaging_def by (auto intro!: split_rules mounts_stays files_stays stays_getDevicePathWithLUN c)
  then show ?thesis unfolding publishRegular_def publishBlock_def publishFilesystem_def
    by (auto intro!: split_rules bind stays_getDevicePathWithLUN stays_ensureBlockTargetFile stays_ensureMountPoint c)
qed

lemma stays_publishKata:
  assumes "calm_service R svc"
  shows "stays R (publishKata svc req cap pod)"
proof -
  note c = service_calm [OF assms]
  have "stays R (kataTarget svc g t)" for g t
    unfolding kataTarget_def by (auto intro!: split_rules stays_ensureMountPoint c)
  then show ?thesis unfolding publishKata_def Let_def
    by (auto intro!: split_rules mounts_stays kata_stays stays_getDevicePathWithLUN c)
qed

lemma stays_NodePublishVolume:
  assumes "calm_service R svc"
  shows "stays R (NodePublishVolume svc nc req)"
proof -
  note c = service_calm [OF assms]
  have "stays R (kataIsMountPoint (ns_node svc) p)" for p
    unfolding kataIsMountPoint_def by (auto intro!: split_rules mounts_stays c)
  then have "stays R (kataPublished (ns_node svc) (ns_kata svc) v t)" for v t
    unfolding kataPublished_def by (auto intro!: split_rules stays_kataReads assms)
  moreover have "stays R (kataGetMountPod (ns_kata svc) vc)" for vc
    unfolding kataGetMountPod_def Let_def by (auto intro!: split_rules kata_stays c)
  ultimately have "stays R (publishUnderKata svc nc req cap)" for cap
    unfolding publishUnderKata_def by (auto intro!: split_rules stays_publishKata stays_publishRegular assms)
  then show ?thesis unfolding NodePublishVolume_def
    by (auto intro!: split_rules stays_withVolumeLock stays_publishRegular assms)
qed

lemma stays_NodeUnpublishVolume:
  assumes "calm_service R svc"
  shows "stays R (NodeUnpublishVolume svc nc v t)"
  unfolding NodeUnpublishVolume_def Let_def
  by (auto intro!: split_rules stays_withVolumeLock mounts_stays kata_stays service_calm [OF assms])

lemma stays_NodeExpandVolume:
  assumes "calm_service R svc"
  shows "stays R (NodeExpandVolume svc cfg nc req)"
proof -
  note c = service_calm [OF assms]
  have fs: "stays R (expandFilesystem svc cfg req)"
    unfolding expandFilesystem_def resizeChecked_def verifyResized_def
    by (auto intro!: split_rules stays_sizes stays_rescan commands_stays(3) c)
  have "stays R m \<Longrightarrow> stays R (expandVolume svc cfg req m)" for m
    unfolding expandVolume_def by (auto intro!: split_rules mounts_stays stays_rescan c)
  with fs show ?thesis unfolding NodeExpandVolume_def Let_def
    by (auto intro!: split_rules stays_withVolumeLock stays_kataReads assms)
qed

end

subsection \<open>An example service\<close>

text \<open>
  The node \<open>quietNode\<close>, on which resizing empties the list of disks, so that it shows. The wireserver answers a detach with an empty
  list, any other request with the disk at LUN 3. Guest assignments are those of one volume.
\<close>

definition exampleQADPV :: PersistentVolume where
  "exampleQADPV = examplePV\<lparr>pv_Annotations := [(AttachSequenceAnnotation, ''4''), (BlobURLAnnotation, ''b''),
     (ClaimIdentifierAnnotation, ''c''), (QADCachePolicyAnnotation, ''ReadOnly'')]\<rparr>"

definition exampleWire :: "DataDisk list wire_env" where
  "exampleWire = \<lparr>wr_httpClient = True,
     wr_Do = (\<lambda>q. okE \<lparr>hr_StatusCode = 200, hr_Location = [], hr_Body = Inr (if Contains (wq_Body q) ''Detach'' then ''detached'' else [])\<rparr>),
     wr_UnmarshalStatuses = (\<lambda>b. Inr (if b = [] then [(exampleURI, Some \<lparr>st_Status = AttachmentStatusAttached, st_StatusMessage = [],
       st_LUN = 3, st_Error = None\<rparr>)] else [])),
     wr_UnmarshalError = (\<lambda>_. Inl (errorf ''no JSON''))\<rparr>"

definition exampleKata :: "DataDisk list dst kata_env" where
  "exampleKata = \<lparr>kt_VolumeMountInfo = (\<lambda>_. okE \<lparr>mi_VolumeType = kataDirectVolumeType, mi_Device = ''/dev/sdc'', mi_FsType = ''ext4'',
       mi_Metadata = [(kataVolumeIDKey, exampleURI)], mi_Options = []\<rparr>),
     kt_AddMountInfo = (\<lambda>_ _. okE ()), kt_Remove = (\<lambda>_. okE ()), kb_kubeClient = True,
     kb_PodGet = (\<lambda>_ _. failE (errorf ''no such pod'')), kb_RuntimeClassAnnotations = (\<lambda>_. okE []), kb_NodeAnnotations = (\<lambda>_. okE [])\<rparr>"

definition exampleService :: "DataDisk list node_service" where
  "exampleService = \<lparr>ns_driver = exampleDriver\<lparr>dv_PVList := okE [exampleQADPV]\<rparr>,
     ns_node = quietNode\<lparr>mn_Resize := (\<lambda>_ _. modifyE (\<lambda>c. c\<lparr>cc_world := (cc_world c)\<lparr>dr_world := []\<rparr>\<rparr>) (okE ()))\<rparr>,
     ns_kata = exampleKata, ns_wire = exampleWire, ns_echo = (\<lambda>_ _. okE ()), ns_fl = id, ns_GetZone = okE (''eastus-1'', None),
     ns_InstanceType = None, ns_ComputeMetadata = okE None\<rparr>"

definition exampleNodeConfig :: node_config where
  "exampleNodeConfig = \<lparr>nc_NodeID = ''n1'', nc_enableKataMount = False, nc_isKataNode = False, nc_formatSem = False,
     nc_enableSCSIDeviceDeletion = False, nc_nodeInfo = None, nc_supportZone = True, nc_getNodeInfoFromLabels = False,
     nc_VolumeAttachLimit = -1, nc_ReservedDataDiskSlotNum = 0, nc_getNodeIDFromIMDS = False, nc_useMetadata = False\<rparr>"

definition nodeDrivenConfig :: driver_config where
  "nodeDrivenConfig = exampleDriverConfig\<lparr>cfg_nodeDrivenAttachDetachEnabled := True\<rparr>"

definition exampleCapability :: NodeCapability where
  "exampleCapability = \<lparr>vc_Block = False, vc_Mount = True, vc_AccessMode = Some SINGLE_NODE_WRITER, vc_FsType = ''ext4'', vc_MountFlags = []\<rparr>"

definition exampleStage :: NodeStageRequest where
  "exampleStage = \<lparr>nr_VolumeId = exampleURI, nr_StagingTargetPath = ''/staging'', nr_VolumeCapability = Some exampleCapability,
     nr_VolumeContext = [], nr_PublishContext = []\<rparr>"

definition exampleExpand :: NodeExpandRequest where
  "exampleExpand = \<lparr>ne_VolumeId = exampleURI, ne_VolumePath = ''/target'', ne_RequiredBytes = 2147483648, ne_VolumeCapability = None\<rparr>"

lemma exampleService_sel [simp]:
  "ns_driver exampleService = exampleDriver\<lparr>dv_PVList := okE [exampleQADPV]\<rparr>"
  "ns_node exampleService = quietNode\<lparr>mn_Resize := (\<lambda>_ _. modifyE (\<lambda>c. c\<lparr>cc_world := (cc_world c)\<lparr>dr_world := []\<rparr>\<rparr>) (okE ()))\<rparr>"
  "ns_kata exampleService = exampleKata" "ns_wire exampleService = exampleWire" "ns_echo exampleService = (\<lambda>_ _. okE ())"
  by (simp_all add: exampleService_def)

lemma quietNode_resize:
  assumes "\<And>c. R c c"
  shows "calm_files R (quietNode\<lparr>mn_Resize := f\<rparr>)" "calm_mounts R (quietNode\<lparr>mn_Resize := f\<rparr>)"
    "calm_commands R P (quietNode\<lparr>mn_Resize := f\<rparr>)"
  using quietNode_calm [where R = R, OF assms] by (simp_all add: calm_files_def calm_mounts_def calm_commands_def)

lemma exampleService_calm: "calm_service noLeakDriver exampleService"
proof -
  have refl: "noLeakDriver c c" for c :: "DataDisk list dst" by (rule dnl.R_refl)
  have "calm_driver noLeakDriver (exampleDriver\<lparr>dv_PVList := okE [exampleQADPV]\<rparr>)"
    using exampleDriver_calm(2) by (simp add: calm_driver_def calm_clouds_def dnl.stays_return)
  moreover have "calm_kata noLeakDriver exampleKata"
    by (simp add: calm_kata_def exampleKata_def dnl.stays_return)
  moreover have "calm_resize noLeakDriver (ns_node exampleService)"
    by (simp add: calm_resize_def stays_def noLeakDriver_def noLeak_def)
  ultimately show ?thesis
    using quietNode_resize [where R = noLeakDriver, OF refl]
    by (simp add: calm_service_def exampleWire_def dnl.stays_return)
qed

text \<open>(C10) No path through a handler of the node service, panics included, leaves a volume locked, a node's mutex held or a disk marked,
  provided the calls to the outside leave none.\<close>

theorem node_handlers_leave_nothing_locked:
  assumes "calm_service noLeakDriver svc"
  shows "noLeakDriver c (snd (run_state (NodeStageVolume svc cfg nc stageReq) c))
    \<and> noLeakDriver c (snd (run_state (NodeUnstageVolume svc cfg nc volumeID path) c))
    \<and> noLeakDriver c (snd (run_state (NodePublishVolume svc nc publishReq) c))
    \<and> noLeakDriver c (snd (run_state (NodeUnpublishVolume svc nc volumeID path) c))
    \<and> noLeakDriver c (snd (run_state (NodeExpandVolume svc cfg nc expandReq) c))"
  using dnl.stays_NodeStageVolume [OF assms] dnl.stays_NodeUnstageVolume [OF assms] dnl.stays_NodePublishVolume [OF assms]
    dnl.stays_NodeUnpublishVolume [OF assms] dnl.stays_NodeExpandVolume [OF assms]
  by (simp add: stays_def)

theorem node_handlers_leave_nothing_locked_witness:
  "noLeakDriver (exampleDst []) (snd (run_state (NodeStageVolume exampleService nodeDrivenConfig exampleNodeConfig exampleStage) (exampleDst [])))"
  using node_handlers_leave_nothing_locked [OF exampleService_calm] by blast

subsection \<open>Attaching and detaching by the node\<close>

lemma pollUntil_Inr:
  "run_state (pollUntil env n cond) s = (Inr x, s') \<Longrightarrow> \<exists>t u. run_state cond t = (Inr (Some x), u)"
proof (induction n arbitrary: s)
  case (Suc n)
  then show ?case by (auto split: prod.splits sum.splits option.splits)
qed simp

text \<open>An answer of the wireserver on a volume: to the operation itself, or to a question for its state.\<close>

definition answered :: "'w node_service \<Rightarrow> string \<Rightarrow> PersistentVolume \<Rightarrow> string \<Rightarrow> DiskStatus option result \<Rightarrow> bool" where
  "answered svc volumeID pv operation r \<longleftrightarrow> (\<exists>t u. run_state (getDiskState (ns_wire svc) volumeID) t = (r, u))
     \<or> (\<exists>seq cachePolicy t u. getQADCachePolicy pv = Inr cachePolicy
         \<and> run_state (executeQADDiskOperation (ns_driver svc) (ns_wire svc) (qadRequest volumeID pv seq cachePolicy) operation) t = (r, u))"

definition reportsGone :: "DiskStatus option result \<Rightarrow> bool" where
  "reportsGone r \<longleftrightarrow> (case r of Inl err \<Rightarrow> errorsIs err (Status NotFoundCode) | Inr None \<Rightarrow> True
     | Inr (Some s) \<Rightarrow> st_Status s = AttachmentStatusDetached)"

lemma attachPoll_Some:
  "run_state (attachPoll svc v) t = (Inr (Some lun), u) \<Longrightarrow>
    \<exists>s. answered svc v pv op (Inr (Some s)) \<and> st_Status s = AttachmentStatusAttached \<and> lun = Itoa (st_LUN s)"
  unfolding attachPoll_def answered_def by (auto split: prod.splits sum.splits option.splits if_splits)

lemma detachPoll_Some:
  "run_state (detachPoll svc v) t = (Inr (Some ()), u) \<Longrightarrow> \<exists>r. answered svc v pv op r \<and> reportsGone r"
  unfolding detachPoll_def answered_def reportsGone_def
  by (auto split: prod.splits sum.splits option.splits if_splits) blast+

lemma qadAttach_confirmed:
  assumes "run_state (qadAttach svc nc v pv) c = (Inr lun, c')"
  shows "\<exists>s. answered svc v pv attachOperation (Inr (Some s)) \<and> st_Status s = AttachmentStatusAttached \<and> lun = Itoa (st_LUN s)"
proof -
  obtain cp where cp: "getQADCachePolicy pv = Inr cp" using assms by (auto simp: qadAttach_def split: sum.splits)
  obtain seq t where seq: "run_state (incrementAttachSequenceAnnotation (ns_driver svc) pv) c = (Inr seq, t)"
    using assms cp by (auto simp: qadAttach_def split: prod.splits sum.splits if_splits)
  obtain s u where st: "run_state (executeQADDiskOperation (ns_driver svc) (ns_wire svc) (qadRequest v pv seq cp) attachOperation) t = (Inr (Some s), u)"
    using assms cp seq by (auto simp: qadAttach_def split: prod.splits sum.splits if_splits option.splits)
  have "st_Status s = AttachmentStatusAttached \<and> lun = Itoa (st_LUN s)
      \<or> (\<exists>w w'. run_state (pollUntil (ns_node svc) attachTicks (attachPoll svc v)) w = (Inr lun, w'))"
    using assms cp seq st by (auto simp: qadAttach_def split: prod.splits sum.splits if_splits)
  then show ?thesis
  proof
    assume "st_Status s = AttachmentStatusAttached \<and> lun = Itoa (st_LUN s)"
    with cp st show ?thesis unfolding answered_def by blast
  next
    assume "\<exists>w w'. run_state (pollUntil (ns_node svc) attachTicks (attachPoll svc v)) w = (Inr lun, w')"
    then show ?thesis by (blast dest: pollUntil_Inr attachPoll_Some)
  qed
qed

lemma qadDetach_confirmed:
  assumes "run_state (qadDetach svc nc v pv) c = (Inr (), c')"
  shows "\<exists>r. answered svc v pv detachOperation r \<and> reportsGone r"
proof -
  obtain cp where cp: "getQADCachePolicy pv = Inr cp" using assms by (auto simp: qadDetach_def split: sum.splits)
  obtain seq t where seq: "run_state (incrementAttachSequenceAnnotation (ns_driver svc) pv) c = (Inr seq, t)"
    using assms cp by (auto simp: qadDetach_def split: prod.splits sum.splits if_splits)
  obtain a u where st: "run_state (executeQADDiskOperation (ns_driver svc) (ns_wire svc) (qadRequest v pv seq cp) detachOperation) t = (Inr a, u)"
    using assms cp seq by (auto simp: qadDetach_def split: prod.splits sum.splits if_splits)
  have "reportsGone (Inr a) \<or> (\<exists>w w'. run_state (pollUntil (ns_node svc) detachTicks (detachPoll svc v)) w = (Inr (), w'))"
    using assms cp seq st by (auto simp: qadDetach_def reportsGone_def split: prod.splits sum.splits if_splits option.splits)
  then show ?thesis
  proof
    assume "reportsGone (Inr a)"
    with cp st show ?thesis unfolding answered_def by blast
  next
    assume "\<exists>w w'. run_state (pollUntil (ns_node svc) detachTicks (detachPoll svc v)) w = (Inr (), w')"
    then show ?thesis by (blast dest: pollUntil_Inr detachPoll_Some)
  qed
qed

text \<open>(C5) A disk that the node itself has attached is attached, and one that it has detached itself is gone. The LUN from which \<open>NodeStageVolume\<close> goes on
  after an attach by the node is that of an answer of the wireserver with the status \<open>DISK_STATUS_ATTACHED\<close>. When \<open>NodeUnstageVolume\<close> succeeds while
  node-driven attach and detach is enabled, the persistent volume of the disk has been read, and if it has QAD metadata, the wireserver has answered without
  naming the disk, with the disk as detached, or with an error of the code not-found. Nothing is claimed of the volumes that the controller detaches.\<close>

theorem node_attach_detach_confirmed:
  shows "(run_state (stageAttach svc cfg nc v pc) c = (Inr (lun, True), c') \<longrightarrow>
      (\<exists>pv s. answered svc v pv attachOperation (Inr (Some s)) \<and> st_Status s = AttachmentStatusAttached \<and> lun = Itoa (st_LUN s)))
    \<and> (run_state (NodeUnstageVolume svc cfg nc v path) c = (Inr (), c') \<and> cfg_nodeDrivenAttachDetachEnabled cfg \<longrightarrow>
      (\<exists>pv t u. run_state (getPVFromDiskURI (ns_driver svc) cfg v) t = (Inr pv, u)
        \<and> (hasQADInfo (Some pv) \<longrightarrow> (\<exists>r. answered svc v pv detachOperation r \<and> reportsGone r))))"
  (is "?attach \<and> ?detach")
proof
  show ?attach
  proof
    assume "run_state (stageAttach svc cfg nc v pc) c = (Inr (lun, True), c')"
    then obtain pv w w' where "run_state (qadAttach svc nc v pv) w = (Inr lun, w')"
      by (auto simp: stageAttach_def Let_def split: prod.splits sum.splits if_splits option.splits)
    then show "\<exists>pv s. answered svc v pv attachOperation (Inr (Some s)) \<and> st_Status s = AttachmentStatusAttached \<and> lun = Itoa (st_LUN s)"
      using qadAttach_confirmed by blast
  qed
  show ?detach
  proof
    assume a: "run_state (NodeUnstageVolume svc cfg nc v path) c = (Inr (), c') \<and> cfg_nodeDrivenAttachDetachEnabled cfg"
    then obtain t w where "run_state (unstageDetach svc cfg nc v) t = (Inr (), w)"
      by (auto simp: NodeUnstageVolume_def run_withVolumeLock split: prod.splits sum.splits if_splits)
    then obtain pv u where pv: "run_state (unstagePV svc cfg v) t = (Inr pv, u)"
      and detach: "hasQADInfo pv \<Longrightarrow> \<exists>w. run_state (qadDetach svc nc v (the pv)) u = (Inr (), w)"
      by (auto simp: unstageDetach_def split: prod.splits sum.splits if_splits)
    from pv a obtain p u' where p: "run_state (getPVFromDiskURI (ns_driver svc) cfg v) t = (Inr p, u')" "pv = Some p"
      by (auto simp: unstagePV_def split: prod.splits sum.splits if_splits)
    show "\<exists>pv t u. run_state (getPVFromDiskURI (ns_driver svc) cfg v) t = (Inr pv, u)
        \<and> (hasQADInfo (Some pv) \<longrightarrow> (\<exists>r. answered svc v pv detachOperation r \<and> reportsGone r))"
      using p detach qadDetach_confirmed by (metis option.sel)
  qed
qed

lemma exampleService_attaches:
  "fst (run_state (stageAttach exampleService nodeDrivenConfig exampleNodeConfig exampleURI []) (exampleDst [])) = Inr (''3'', True)"
  by code_simp

lemma exampleService_detaches:
  "fst (run_state (NodeUnstageVolume exampleService nodeDrivenConfig exampleNodeConfig exampleURI ''/staging'') (exampleDst [])) = Inr ()"
  "fst (run_state (getPVFromDiskURI (ns_driver exampleService) nodeDrivenConfig exampleURI) c) = Inr exampleQADPV"
  by code_simp+

theorem node_attach_detach_confirmed_witness:
  "(\<exists>pv s. answered exampleService exampleURI pv attachOperation (Inr (Some s)) \<and> st_Status s = AttachmentStatusAttached \<and> ''3'' = Itoa (st_LUN s))
   \<and> (\<exists>r. answered exampleService exampleURI exampleQADPV detachOperation r \<and> reportsGone r)"
proof
  note att = conjunct1 [OF node_attach_detach_confirmed, rule_format]
  note det = conjunct2 [OF node_attach_detach_confirmed, rule_format]
  obtain c' where "run_state (stageAttach exampleService nodeDrivenConfig exampleNodeConfig exampleURI []) (exampleDst []) = (Inr (''3'', True), c')"
    using exampleService_attaches by (metis prod.collapse)
  then show "\<exists>pv s. answered exampleService exampleURI pv attachOperation (Inr (Some s)) \<and> st_Status s = AttachmentStatusAttached \<and> ''3'' = Itoa (st_LUN s)"
    by (rule att)
  have "cfg_nodeDrivenAttachDetachEnabled nodeDrivenConfig" "hasQADInfo (Some exampleQADPV)" by code_simp+
  then show "\<exists>r. answered exampleService exampleURI exampleQADPV detachOperation r \<and> reportsGone r"
    using det [of exampleService nodeDrivenConfig exampleNodeConfig exampleURI "''/staging''" "exampleDst []"]
      exampleService_detaches by (metis fst_conv prod.collapse sum.inject(2))
qed

subsection \<open>The attach sequence\<close>

lemma currentSequence_range: "currentSequence pv = Inr n \<Longrightarrow> 0 \<le> n \<and> n < 2 ^ 63 - 1"
  by (auto simp: currentSequence_def in_int64_def split: option.splits sum.splits if_splits dest!: Atoi_range)

definition readVolume :: "'w driver_env \<Rightarrow> PersistentVolume \<Rightarrow> bool" where
  "readVolume env pv \<longleftrightarrow> (\<exists>name t u. run_state (dv_PVGet env name) t = (Inr pv, u))"

lemma incrementOnce_Inr:
  "run_state (incrementOnce env again pv) c = (Inr (pv', Inr n), c') \<Longrightarrow>
    \<exists>pv0 t. (if again then readVolume env pv0 else pv0 = pv) \<and> currentSequence pv0 = Inr (n - 1)
      \<and> run_state (dv_PVUpdate env (pv0\<lparr>pv_Annotations := gset AttachSequenceAnnotation (Itoa n) (pv_Annotations pv0)\<rparr>)) t = (Inr (), c')"
  unfolding incrementOnce_def readVolume_def Let_def
  by (cases again) (auto split: prod.splits sum.splits if_splits simp: map_sum_def, blast+)

lemma retryIncrement_Inr:
  "run_state (retryIncrement env k again pv e) c = (Inr (pv', Inr n), c') \<Longrightarrow> (again \<or> pv = pv1) \<Longrightarrow>
    \<exists>pv0 t. (pv0 = pv1 \<or> readVolume env pv0) \<and> currentSequence pv0 = Inr (n - 1)
      \<and> run_state (dv_PVUpdate env (pv0\<lparr>pv_Annotations := gset AttachSequenceAnnotation (Itoa n) (pv_Annotations pv0)\<rparr>)) t = (Inr (), c')"
proof (induction k arbitrary: again pv e c)
  case (Suc k)
  obtain pvx r t where once: "run_state (incrementOnce env again pv) c = (Inr (pvx, r), t)"
    using Suc.prems(1) by (cases "run_state (incrementOnce env again pv) c"; cases "fst (run_state (incrementOnce env again pv) c)") auto
  show ?case
  proof (cases r)
    case (Inr m)
    with once Suc.prems(1) have "run_state (incrementOnce env again pv) c = (Inr (pv', Inr n), c')" by simp
    from incrementOnce_Inr [OF this] Suc.prems(2) show ?thesis by (cases again) auto
  next
    case (Inl err)
    with once Suc.prems(1) obtain u where "run_state (retryIncrement env k True pvx err) u = (Inr (pv', Inr n), c')"
      by (auto split: if_splits prod.splits)
    from Suc.IH [OF this] show ?thesis by simp
  qed
qed simp

text \<open>(C18) The attach sequence of a volume grows by one. When \<open>incrementAttachSequenceAnnotation\<close> returns \<open>n\<close>, it has written \<open>n\<close>, and nothing
  else, to a volume it was given or has read, whose sequence was \<open>n - 1\<close>; and \<open>n\<close> is a positive 64-bit number.\<close>

theorem incrementAttachSequenceAnnotation_increments:
  assumes "run_state (incrementAttachSequenceAnnotation env pv) c = (Inr n, c')"
  shows "0 < n \<and> n < 2 ^ 63 \<and> (\<exists>pv0 t. (pv0 = pv \<or> readVolume env pv0) \<and> currentSequence pv0 = Inr (n - 1)
    \<and> run_state (dv_PVUpdate env (pv0\<lparr>pv_Annotations := gset AttachSequenceAnnotation (Itoa n) (pv_Annotations pv0)\<rparr>)) t = (Inr (), c'))"
proof -
  obtain pv' where run: "run_state (retryIncrement env defaultRetrySteps False pv (errorf [])) c = (Inr (pv', Inr n), c')"
    using assms by (auto simp: incrementAttachSequenceAnnotation_def split: prod.splits sum.splits)
  show ?thesis using retryIncrement_Inr [OF run, of pv] currentSequence_range by fastforce
qed

lemma exampleSequence: "fst (run_state (incrementAttachSequenceAnnotation exampleDriver exampleQADPV) (exampleDst [])) = Inr 5"
  by code_simp

theorem incrementAttachSequenceAnnotation_increments_witness:
  "\<exists>pv0. (pv0 = exampleQADPV \<or> readVolume exampleDriver pv0) \<and> currentSequence pv0 = Inr 4"
proof -
  obtain c' where "run_state (incrementAttachSequenceAnnotation exampleDriver exampleQADPV) (exampleDst []) = (Inr 5, c')"
    using exampleSequence by (metis prod.collapse)
  from incrementAttachSequenceAnnotation_increments [OF this] show ?thesis by auto
qed

subsection \<open>Failures after the attach\<close>

definition validStage :: "NodeStageRequest \<Rightarrow> NodeCapability \<Rightarrow> bool" where
  "validStage req cap \<longleftrightarrow> nr_VolumeId req \<noteq> [] \<and> nr_StagingTargetPath req \<noteq> [] \<and> nr_VolumeCapability req = Some cap
     \<and> checkCapability cap (nr_VolumeContext req) = Inr () \<and> (\<exists>r. resolveFSType cap (nr_VolumeContext req) = Inr r)"

definition retryCode :: "bool \<Rightarrow> goerror \<Rightarrow> bool" where
  "retryCode q e \<longleftrightarrow> ekind e = Panicked \<or> ekind e = Status (if q then Unavailable else Internal)"

lemma stageTuning_code: "run_state (stageTuning svc cfg nc q vc d) c = (Inl e, c') \<Longrightarrow> retryCode q e"
  unfolding stageTuning_def retryCode_def postAttachErrorCode_def by (auto split: prod.splits sum.splits if_splits)

lemma stageResize_code: "run_state (stageResize svc q vc d t) c = (Inl e, c') \<Longrightarrow> retryCode q e"
  unfolding stageResize_def retryCode_def postAttachErrorCode_def by (auto split: prod.splits sum.splits if_splits option.splits)

lemma stageMount_code: "run_state (stageMount svc nc q req f fl l d) c = (Inl e, c') \<Longrightarrow> retryCode q e"
  unfolding stageMount_def Let_def
  by (auto split: prod.splits sum.splits if_splits bool.splits dest: stageResize_code simp: retryCode_def postAttachErrorCode_def)

lemma stageDevice_code: "run_state (stageDevice svc cfg nc req b f fl l q) c = (Inl e, c') \<Longrightarrow> retryCode q e"
  unfolding stageDevice_def
  by (auto split: prod.splits sum.splits if_splits dest: stageTuning_code stageMount_code simp: retryCode_def postAttachErrorCode_def)

text \<open>(C17) When the node has attached the disk itself, every later failure of \<open>NodeStageVolume\<close> has the code \<open>Unavailable\<close>, so that kubelet still calls
  \<open>NodeUnstageVolume\<close> and the disk is detached; when the controller has attached it, the code is \<open>Internal\<close>. A failure is any error
  that is not a panic.\<close>

theorem staging_failure_codes:
  assumes "validStage req cap" "nr_VolumeId req \<notin> locks (dr_volumeLocks (cc_world c))"
    and "run_state (stageKata svc nc cap (nr_VolumeId req)) (withLocks (\<lambda>vl. snd (TryAcquire (nr_VolumeId req) vl)) c) = (Inr False, c1)"
    and "run_state (stageAttach svc cfg nc (nr_VolumeId req) (nr_PublishContext req)) c1 = (Inr (lun, qadAttached), c2)"
    and "run_state (NodeStageVolume svc cfg nc req) c = (Inl e, c')"
  shows "ekind e = Panicked \<or> ekind e = Status (if qadAttached then Unavailable else Internal)"
proof -
  obtain fstype flags where fs: "resolveFSType cap (nr_VolumeContext req) = Inr (fstype, flags)"
    using assms(1) by (auto simp: validStage_def)
  obtain c3 where "run_state (stageDevice svc cfg nc req (vc_Block cap) fstype flags lun qadAttached) c2 = (Inl e, c3)"
    using assms fs by (auto simp: validStage_def NodeStageVolume_def run_withVolumeLock Let_def split: prod.splits)
  from stageDevice_code [OF this] show ?thesis by (simp add: retryCode_def)
qed

text \<open>The example service after an attach by the node, when the device cannot be mounted.\<close>

definition brokenService :: "DataDisk list node_service" where
  "brokenService = exampleService\<lparr>ns_node := quietNode\<lparr>mn_Mount := (\<lambda>_ _ _ _. failE (errorf ''no such device''))\<rparr>\<rparr>"

lemma brokenService_device: "run_state (getDevicePathWithLUN (ns_node brokenService) ''3'') (c :: DataDisk list dst) = (Inr ''/dev/sdc'', c)"
proof -
  have parts: "GetDiskLUN ''3'' = Inr 3" "run_state (scsiHostRescan (ns_node brokenService)) c = (Inr (), c)"
    "run_state (lookForDevice (ns_node brokenService) 3) c = (Inr (Some ''/dev/sdc''), c)"
    by code_simp+
  have ticks: "deviceTicks = Suc 119" by (simp add: deviceTicks_def)
  show ?thesis
    unfolding getDevicePathWithLUN_def ticks pollUntil_decided [OF lookForDevice_decides] by (simp add: parts)
qed

lemma brokenService_runs:
  "run_state (stageKata brokenService exampleNodeConfig exampleCapability exampleURI) c = (Inr False, c)"
  "fst (run_state (stageAttach brokenService nodeDrivenConfig exampleNodeConfig exampleURI []) (withLocks (\<lambda>vl. snd (TryAcquire exampleURI vl)) (exampleDst []))) = Inr (''3'', True)"
  "isl (fst (run_state (stageMount brokenService exampleNodeConfig True exampleStage ''ext4'' [] ''3'' ''/dev/sdc'') c))"
  "exampleURI \<notin> locks (dr_volumeLocks (cc_world (exampleDst [])))"
  by code_simp+

lemma exampleStage_valid: "validStage exampleStage exampleCapability"
proof -
  have "checkCapability exampleCapability [] = Inr ()" "resolveFSType exampleCapability [] = Inr (''ext4'', [])" by code_simp+
  then show ?thesis by (auto simp: validStage_def exampleStage_def exampleURI_def)
qed

theorem staging_failure_codes_witness:
  "\<exists>e c'. run_state (NodeStageVolume brokenService nodeDrivenConfig exampleNodeConfig exampleStage) (exampleDst []) = (Inl e, c') \<and> retryCode True e"
proof -
  have req: "nr_VolumeId exampleStage = exampleURI" "nr_PublishContext exampleStage = []" "nr_VolumeContext exampleStage = []"
    by (simp_all add: exampleStage_def)
  obtain c2 where att: "run_state (stageAttach brokenService nodeDrivenConfig exampleNodeConfig exampleURI [])
      (withLocks (\<lambda>vl. snd (TryAcquire exampleURI vl)) (exampleDst [])) = (Inr (''3'', True), c2)"
    using brokenService_runs(2) by (metis prod.collapse)
  have "run_state (stageTuning brokenService nodeDrivenConfig exampleNodeConfig True [] ''/dev/sdc'') c2 = (Inr (), c2)" by code_simp
  moreover obtain e0 c3 where "run_state (stageMount brokenService exampleNodeConfig True exampleStage ''ext4'' [] ''3'' ''/dev/sdc'') c2 = (Inl e0, c3)"
    using brokenService_runs(3) by (metis isl_def prod.collapse)
  ultimately have "run_state (stageDevice brokenService nodeDrivenConfig exampleNodeConfig exampleStage False ''ext4'' [] ''3'' True) c2 = (Inl e0, c3)"
    by (simp add: stageDevice_def brokenService_device req)
  moreover have "checkCapability exampleCapability [] = Inr ()" "resolveFSType exampleCapability [] = Inr (''ext4'', [])"
    "exampleURI \<noteq> []" "nr_StagingTargetPath exampleStage \<noteq> []" "nr_VolumeCapability exampleStage = Some exampleCapability"
    "\<not> vc_Block exampleCapability" by code_simp+
  ultimately obtain e c' where fails: "run_state (NodeStageVolume brokenService nodeDrivenConfig exampleNodeConfig exampleStage) (exampleDst []) = (Inl e, c')"
    using brokenService_runs(4) by (simp add: NodeStageVolume_def Let_def run_withVolumeLock req brokenService_runs(1) att)
  have "retryCode True e" unfolding retryCode_def
    using staging_failure_codes [OF exampleStage_valid, unfolded req, OF brokenService_runs(4,1) att fails] by simp
  with fails show ?thesis by blast
qed

subsection \<open>Volumes of a guest\<close>

text \<open>(C16) A file-system volume that is assigned to a Kata guest is neither staged nor expanded. On a node that supports Kata, for a volume that is not
  a block volume and on which no other request is working: when the records show an assignment, or cannot be read, \<open>NodeStageVolume\<close> and
  \<open>NodeExpandVolume\<close> do nothing after reading them but release the lock of the volume, so that neither attaches, formats, mounts or resizes anything.
  The first succeeds only for a recorded assignment, the second never. (The other handlers are not part of the claim.)\<close>

theorem kata_volume_untouched:
  assumes "kataSupported nc" "nr_VolumeCapability stageReq = Some cap" "\<not> vc_Block cap"
    and "nr_VolumeId stageReq = v" "ne_VolumeId expandReq = v" "v \<notin> locks (dr_volumeLocks (cc_world c))"
    and "run_state (IsVolumeMountedByID (ns_node svc) (ns_kata svc) v) (withLocks (\<lambda>vl. snd (TryAcquire v vl)) c) = (r, c1)" "r \<noteq> Inr False"
  shows "snd (run_state (NodeStageVolume svc cfg nc stageReq) c) \<in> {c, withLocks (Release v) c1}
    \<and> (fst (run_state (NodeStageVolume svc cfg nc stageReq) c) = Inr () \<longrightarrow> r = Inr True)
    \<and> snd (run_state (NodeExpandVolume svc cfg nc expandReq) c) \<in> {c, withLocks (Release v) c1}
    \<and> fst (run_state (NodeExpandVolume svc cfg nc expandReq) c) \<noteq> Inr n"
proof -
  have "r = Inr True \<or> (\<exists>e. r = Inl e)" using assms(8) by (cases r) auto
  then show ?thesis
    using assms by (auto simp: NodeStageVolume_def NodeExpandVolume_def stageKata_def run_withVolumeLock Let_def split: sum.splits option.splits)
qed

definition kataConfig :: node_config where
  "kataConfig = exampleNodeConfig\<lparr>nc_enableKataMount := True, nc_isKataNode := True\<rparr>"

definition kataService :: "DataDisk list node_service" where
  "kataService = exampleService\<lparr>ns_node := quietNode\<lparr>io_ReadDir := (\<lambda>_. okE [''L3RhcmdldA==''])\<rparr>\<rparr>"

lemma kataService_assigned:
  "run_state (IsVolumeMountedByID (ns_node kataService) (ns_kata kataService) exampleURI) c = (Inr True, c)"
  by code_simp

theorem kata_volume_untouched_witness:
  "fst (run_state (NodeExpandVolume kataService nodeDrivenConfig kataConfig exampleExpand) (exampleDst [])) \<noteq> Inr 2147483648"
proof -
  have "kataSupported kataConfig" "nr_VolumeCapability exampleStage = Some exampleCapability" "\<not> vc_Block exampleCapability"
    "nr_VolumeId exampleStage = exampleURI" "ne_VolumeId exampleExpand = exampleURI"
    "exampleURI \<notin> locks (dr_volumeLocks (cc_world (exampleDst [])))"
    by code_simp+
  from kata_volume_untouched [OF this kataService_assigned] show ?thesis by simp
qed

subsection \<open>Expanding\<close>

text \<open>A size check that a resize comes after: the state in which the file system is resized is the one right after the device was found
  to have at least the requested number of GiB.\<close>

definition grownBefore :: "('w dst \<Rightarrow> 'w dst \<Rightarrow> bool) \<Rightarrow> 'w node_service \<Rightarrow> NodeExpandRequest \<Rightarrow> 'w dst \<Rightarrow> bool" where
  "grownBefore R svc req c \<longleftrightarrow> (\<exists>dev k t u. run_state (getBlockSizeBytes (ns_node svc) dev) t = (Inr k, u)
     \<and> RoundUpGiB (ne_RequiredBytes req) \<le> RoundUpGiB k \<and> R c u
     \<and> \<not> R u (snd (run_state (mn_Resize (ns_node svc) dev (ne_VolumePath req)) u)))"

lemma validateBlockDeviceSize_Inr:
  "run_state (validateBlockDeviceSize env d g) t = (Inr n, u) \<Longrightarrow> run_state (getBlockSizeBytes env d) t = (Inr n, u) \<and> g \<le> RoundUpGiB n"
  unfolding validateBlockDeviceSize_def by (auto split: prod.splits sum.splits if_splits)

lemma expandFilesystem_Inr:
  "run_state (expandFilesystem svc cfg req) c = (Inr n, c') \<Longrightarrow>
    \<exists>dev t u. run_state (getBlockSizeBytes (ns_node svc) dev) t = (Inr n, u) \<and> RoundUpGiB (ne_RequiredBytes req) \<le> RoundUpGiB n"
  unfolding expandFilesystem_def resizeChecked_def verifyResized_def
  by (auto split: prod.splits sum.splits if_splits dest!: validateBlockDeviceSize_Inr)

lemma NodeExpandVolume_Inr:
  assumes "run_state (NodeExpandVolume svc cfg nc req) c = (Inr n, c')" "n \<noteq> 0"
  shows "\<exists>dev t u. run_state (getBlockSizeBytes (ns_node svc) dev) t = (Inr n, u) \<and> RoundUpGiB (ne_RequiredBytes req) \<le> RoundUpGiB n"
proof -
  have "\<exists>m s s'. run_state (expandVolume svc cfg req m) s = (Inr n, s') \<and> (m = expandFilesystem svc cfg req \<or> m = withVolumeLock (ne_VolumeId req) (expandFilesystem svc cfg req))"
    using assms(1) by (auto simp: NodeExpandVolume_def Let_def run_withVolumeLock split: prod.splits sum.splits if_splits bool.splits)
  then obtain s s' where "run_state (expandFilesystem svc cfg req) s = (Inr n, s')"
    using assms(2) by (auto simp: expandVolume_def run_withVolumeLock split: prod.splits sum.splits if_splits)
  then show ?thesis by (rule expandFilesystem_Inr)
qed

text \<open>Relations that do not look at the locks of volumes.\<close>

locale lockless_preorder = preorder_on_states R
  for R :: "'w dst \<Rightarrow> 'w dst \<Rightarrow> bool" +
  assumes R_locks: "R c (withLocks f c)"
begin

lemma resizeChecked_break:
  assumes "calm_commands R (\<lambda>_. True) (ns_node svc)" "R c t"
    and broken: "\<not> R t (snd (run_state (resizeChecked svc req dev (RoundUpGiB (ne_RequiredBytes req))) t))"
  shows "grownBefore R svc req c"
proof -
  note size = stays_sizes(3) [OF assms(1)]
  from break_case [OF size stays_return(2) broken [unfolded resizeChecked_def]] obtain n u where
    u: "run_state (validateBlockDeviceSize (ns_node svc) dev (RoundUpGiB (ne_RequiredBytes req))) t = (Inr n, u)" "R t u"
    and b: "\<not> R u (snd (run_state (bindE (tryE (mn_Resize (ns_node svc) dev (ne_VolumePath req)))
      (verifyResized svc req dev (RoundUpGiB (ne_RequiredBytes req)))) u))"
    by blast
  have "stays R (verifyResized svc req dev (RoundUpGiB (ne_RequiredBytes req)) r)" for r
    unfolding verifyResized_def by (auto intro!: split_rules size)
  from break_first [OF this b] have "\<not> R u (snd (run_state (mn_Resize (ns_node svc) dev (ne_VolumePath req)) u))"
    by (auto split: prod.splits sum.splits if_splits)
  with validateBlockDeviceSize_Inr [OF u(1)] R_trans [OF assms(2) u(2)] show ?thesis
    unfolding grownBefore_def by blast
qed

lemma expandFilesystem_break:
  assumes calm: "calm_files R (ns_node svc)" "calm_commands R (\<lambda>_. True) (ns_node svc)" and "R c s"
    and broken: "\<not> R s (snd (run_state (expandFilesystem svc cfg req) s))"
  shows "grownBefore R svc req c"
proof -
  from break_case [OF stays_sizes(2) [OF calm(2)] stays_return(2) broken [unfolded expandFilesystem_def]] obtain dev t where
    t: "R s t" and b: "\<not> R t (snd (run_state (bindE (if cfg_enableDiskOnlineResize cfg then tryE (rescanVolume (ns_node svc) dev) else okE (Inr ()))
      (\<lambda>_. resizeChecked svc req dev (RoundUpGiB (ne_RequiredBytes req)))) t))"
    by blast
  have "stays R (if cfg_enableDiskOnlineResize cfg then tryE (rescanVolume (ns_node svc) dev) else okE (Inr ()))"
    by (auto intro!: split_rules stays_rescan calm)
  from break_second [OF this b] obtain u where u: "R t u"
    "\<not> R u (snd (run_state (resizeChecked svc req dev (RoundUpGiB (ne_RequiredBytes req))) u))"
    by blast
  show ?thesis by (rule resizeChecked_break [OF calm(2) R_trans [OF R_trans [OF \<open>R c s\<close> t] u(1)] u(2)])
qed

lemma withVolumeLock_break:
  assumes broken: "\<not> R c (snd (run_state (withVolumeLock v m) c))"
  shows "\<exists>s. R c s \<and> \<not> R s (snd (run_state m s))"
proof -
  let ?s = "withLocks (\<lambda>vl. snd (TryAcquire v vl)) c"
  obtain r t where run: "run_state m ?s = (r, t)" by (cases "run_state m ?s")
  have "\<not> R c (withLocks (Release v) t)"
    using broken run by (auto simp: run_withVolumeLock R_refl split: if_splits)
  with R_locks R_trans run have "\<not> R ?s (snd (run_state m ?s))" by (metis snd_conv)
  with R_locks show ?thesis by blast
qed

lemma expandVolume_break:
  assumes "calm_files R (ns_node svc)" "calm_mounts R (ns_node svc)" "R c s"
    and broken: "\<not> R s (snd (run_state (expandVolume svc cfg req m) s))"
  shows "\<exists>t. R c t \<and> \<not> R t (snd (run_state m t))"
proof -
  have "stays R (mn_PathIsDevice (ns_node svc) (ne_VolumePath req))" by (rule mounts_stays) (fact assms(2))
  from break_case [OF this stays_return(2) broken [unfolded expandVolume_def]] obtain b t where t: "R s t"
    and b: "\<not> R t (snd (run_state (if b \<or> (case ne_VolumeCapability req of None \<Rightarrow> False | Some cap \<Rightarrow> vc_Block cap)
      then bindE (if cfg_enableDiskOnlineResize cfg then tryE (rescanAllVolumes (ns_node svc)) else okE (Inr ())) (\<lambda>_. okE 0) else m) t))"
    by blast
  have "stays R (bindE (if cfg_enableDiskOnlineResize cfg then tryE (rescanAllVolumes (ns_node svc)) else okE (Inr ())) (\<lambda>_. okE 0))"
    by (auto intro!: split_rules stays_rescan assms)
  from staysD [OF this] b have "\<not> R t (snd (run_state m t))" by (auto split: if_splits)
  with R_trans [OF \<open>R c s\<close> t] show ?thesis by blast
qed

lemma NodeExpandVolume_break:
  assumes calm: "calm_files R (ns_node svc)" "calm_mounts R (ns_node svc)" "calm_commands R (\<lambda>_. True) (ns_node svc)"
      "calm_kata R (ns_kata svc)"
    and broken: "\<not> R c (snd (run_state (NodeExpandVolume svc cfg nc req) c))"
  shows "grownBefore R svc req c"
proof -
  let ?fs = "expandFilesystem svc cfg req"
  have valid: "ne_VolumeId req \<noteq> []" "ne_VolumePath req \<noteq> []"
    using broken by (auto simp: NodeExpandVolume_def Let_def R_refl split: if_splits)
  have "\<exists>s. R c s \<and> \<not> R s (snd (run_state ?fs s))"
  proof (cases "kataSupported nc")
    case False
    with broken valid have "\<not> R c (snd (run_state (expandVolume svc cfg req (withVolumeLock (ne_VolumeId req) ?fs)) c))"
      by (simp add: NodeExpandVolume_def Let_def)
    from expandVolume_break [OF calm(1,2) R_refl this] withVolumeLock_break R_trans show ?thesis by blast
  next
    case True
    have reads: "stays R (IsVolumeMountedByID (ns_node svc) (ns_kata svc) (ne_VolumeId req))"
      by (rule stays_IsVolumeMountedByID; rule files_stays kata_stays; rule calm)
    from broken valid True withVolumeLock_break obtain s where "R c s" and "\<not> R s (snd (run_state (bindE (tryE
        (IsVolumeMountedByID (ns_node svc) (ns_kata svc) (ne_VolumeId req))) (\<lambda>r. case r of
          Inl err \<Rightarrow> failE (statusf Internal (''could not check Kata assignment for '' @ ne_VolumeId req @ '': '' @ emsg err))
        | Inr True \<Rightarrow> failE (statusf Unimplemented ''volume resize is not supported for Kata mounts'')
        | Inr False \<Rightarrow> expandVolume svc cfg req ?fs)) s))"
      by (fastforce simp: NodeExpandVolume_def Let_def)
    from \<open>R c s\<close> break_case [OF reads stays_return(2) this(2)] obtain b t where t: "R c t"
      and "\<not> R t (snd (run_state (case b of True \<Rightarrow> failE (statusf Unimplemented ''volume resize is not supported for Kata mounts'')
        | False \<Rightarrow> expandVolume svc cfg req ?fs) t))"
      using R_trans by blast
    then have "\<not> R t (snd (run_state (expandVolume svc cfg req ?fs) t))" by (auto simp: R_refl split: bool.splits)
    from expandVolume_break [OF calm(1,2) t this] show ?thesis .
  qed
  then show ?thesis using expandFilesystem_break [OF calm(1,3)] by blast
qed

end

text \<open>The configuration of the driver is one such relation.\<close>

interpretation ncfg: lockless_preorder sameConfig
  by unfold_locales (auto simp: sameConfig_def withLocks_def)

text \<open>(C8) A file system is grown only on a device that has grown. Let \<open>R\<close> be a relation that every call of the node but the resizing of a file
  system keeps and that does not look at volume locks. If \<open>NodeExpandVolume\<close> breaks it, then the file system was resized in a
  state in which the size of its device had just been read and was, in GiB, at least what is requested. And the capacity it returns, unless 0 for a
  block volume, has been read from the device and is, in GiB, at least what is requested.\<close>

theorem NodeExpandVolume_checks_size:
  assumes "lockless_preorder R" "calm_files R (ns_node svc)" "calm_mounts R (ns_node svc)" "calm_commands R (\<lambda>_. True) (ns_node svc)"
    and "calm_kata R (ns_kata svc)"
  shows "(\<not> R c (snd (run_state (NodeExpandVolume svc cfg nc req) c)) \<longrightarrow> grownBefore R svc req c)
    \<and> (fst (run_state (NodeExpandVolume svc cfg nc req) c) = Inr n \<and> n \<noteq> 0 \<longrightarrow>
        (\<exists>dev t u. run_state (getBlockSizeBytes (ns_node svc) dev) t = (Inr n, u) \<and> RoundUpGiB (ne_RequiredBytes req) \<le> RoundUpGiB n))"
  using lockless_preorder.NodeExpandVolume_break [OF assms] NodeExpandVolume_Inr [of svc cfg nc req c n] by (metis prod.collapse)

definition sameDisks :: "DataDisk list dst \<Rightarrow> DataDisk list dst \<Rightarrow> bool" where
  "sameDisks c c' \<longleftrightarrow> dr_world (cc_world c) = dr_world (cc_world c')"

lemma exampleService_sizes:
  "run_state (getBlockSizeBytes (ns_node exampleService) dev) c = (Inr 2147483648, c)"
  "run_state (getDevicePathWithMountPath (ns_node exampleService) p) c = (Inr ''/dev/sdc'', c)"
  "RoundUpGiB 2147483648 = 2"
proof -
  have trim: "TrimSpace ''2147483648'' = ''2147483648''" "TrimSpace ''/dev/sdc'' = ''/dev/sdc''" by code_simp+
  have "ParseInt 64 ''2147483648'' = Inr 2147483648"
    by (simp add: ParseInt_def parseDec_def digitsVal_def digitV_def isDigit_def Let_def)
  with trim show "run_state (getBlockSizeBytes (ns_node exampleService) dev) c = (Inr 2147483648, c)"
    "run_state (getDevicePathWithMountPath (ns_node exampleService) p) c = (Inr ''/dev/sdc'', c)"
    by (simp_all add: getBlockSizeBytes_def getDevicePathWithMountPath_def quietNode_def)
  show "RoundUpGiB 2147483648 = 2" by code_simp
qed

text \<open>A disk, so that the list of disks is not empty before it is resized.\<close>

definition exampleWorld :: "DataDisk list dst" where
  "exampleWorld = exampleDst [\<lparr>dd_Lun = Some 3, dd_Name = None, dd_VhdURI = None, dd_ManagedDiskID = None, dd_ToBeDetached = None\<rparr>]"

lemma exampleService_expands:
  "fst (run_state (NodeExpandVolume exampleService exampleDriverConfig exampleNodeConfig exampleExpand) exampleWorld) = Inr 2147483648"
  "dr_world (cc_world (snd (run_state (NodeExpandVolume exampleService exampleDriverConfig exampleNodeConfig exampleExpand) exampleWorld))) = []"
proof -
  have check: "run_state (validateBlockDeviceSize (ns_node exampleService) dev 2) c = (Inr 2147483648, c)" for dev c
    by (simp add: validateBlockDeviceSize_def exampleService_sizes del: exampleService_sel)
  have rescan: "run_state (rescanVolume (ns_node exampleService) dev) c = (Inr (), c)" for dev c
    by (simp add: rescanVolume_def quietNode_def)
  have device: "run_state (mn_PathIsDevice (ns_node exampleService) p) c = (Inr False, c)" for p c by (simp add: quietNode_def)
  have resize: "run_state (mn_Resize (ns_node exampleService) d p) c = (Inr (), c\<lparr>cc_world := (cc_world c)\<lparr>dr_world := []\<rparr>\<rparr>)" for d p c
    by simp
  have facts: "kataSupported exampleNodeConfig = False" "ne_VolumeId exampleExpand = exampleURI" "ne_VolumePath exampleExpand = ''/target''"
    "ne_VolumeCapability exampleExpand = None" "ne_RequiredBytes exampleExpand = 2147483648" "exampleURI \<noteq> []"
    "exampleURI \<notin> locks (dr_volumeLocks (cc_world exampleWorld))" "cfg_enableDiskOnlineResize exampleDriverConfig"
    by (simp_all add: kataSupported_def exampleNodeConfig_def exampleExpand_def exampleURI_def exampleWorld_def exampleDst_def
        NewVolumeLocks_def exampleDriverConfig_def)
  show "fst (run_state (NodeExpandVolume exampleService exampleDriverConfig exampleNodeConfig exampleExpand) exampleWorld) = Inr 2147483648"
    "dr_world (cc_world (snd (run_state (NodeExpandVolume exampleService exampleDriverConfig exampleNodeConfig exampleExpand) exampleWorld))) = []"
    by (simp_all add: NodeExpandVolume_def expandVolume_def expandFilesystem_def resizeChecked_def verifyResized_def run_withVolumeLock
        facts check rescan device resize exampleService_sizes withLocks_def Let_def del: exampleService_sel)
qed

theorem NodeExpandVolume_checks_size_witness:
  "grownBefore sameDisks exampleService exampleExpand exampleWorld
   \<and> (\<exists>dev t u. run_state (getBlockSizeBytes (ns_node exampleService) dev) t = (Inr 2147483648, u)
     \<and> RoundUpGiB (ne_RequiredBytes exampleExpand) \<le> RoundUpGiB 2147483648)"
proof -
  have same: "sameDisks x x" for x by (simp add: sameDisks_def)
  have lockless: "lockless_preorder sameDisks" by unfold_locales (auto simp: sameDisks_def withLocks_def)
  have kata: "calm_kata sameDisks (ns_kata exampleService)"
    by (simp add: calm_kata_def exampleKata_def stays_def sameDisks_def)
  have node: "calm_files sameDisks (ns_node exampleService)" "calm_mounts sameDisks (ns_node exampleService)"
    "calm_commands sameDisks (\<lambda>_. True) (ns_node exampleService)"
    using quietNode_resize [where R = sameDisks, OF same] by simp_all
  note all = NodeExpandVolume_checks_size [OF lockless node kata]
  have "\<not> sameDisks exampleWorld
      (snd (run_state (NodeExpandVolume exampleService exampleDriverConfig exampleNodeConfig exampleExpand) exampleWorld))"
    by (simp add: sameDisks_def exampleService_expands(2)) (simp add: exampleWorld_def exampleDst_def)
  with all [of exampleWorld exampleDriverConfig exampleNodeConfig exampleExpand 2147483648] exampleService_expands(1)
  show ?thesis by simp
qed

end
