(* ===== verification/VmLimits.thy ===== *)
theory VmLimits
  imports VmSizes NodeProps
begin

text \<open>The number of volumes that a node reports, over the table of VM sizes.\<close>

subsection \<open>The lookup\<close>

text \<open>A size of the table is found in every spelling of its letters, and the limit of any other is 16.\<close>

lemma GetMaxDataDiskCount_entry:
  "(ToUpper t, v) \<in> set maxDataDiskCountMap \<Longrightarrow> GetMaxDataDiskCount maxDataDiskCountMap t = (v, True)"
  by (simp add: GetMaxDataDiskCount_def flip: gget_eq_Some_iff [OF maxDataDiskCountMap_wf])

lemma GetMaxDataDiskCount_bounds:
  "0 \<le> fst (GetMaxDataDiskCount maxDataDiskCountMap t)" "fst (GetMaxDataDiskCount maxDataDiskCountMap t) \<le> 64"
  by (auto simp: GetMaxDataDiskCount_def defaultAzureVolumeLimit_def dest: maxDataDiskCountMap_entry split: option.split)

lemma GetMaxDataDiskCount_decides:
  "if \<exists>v. (ToUpper t, v) \<in> set maxDataDiskCountMap
   then (ToUpper t, fst (GetMaxDataDiskCount maxDataDiskCountMap t)) \<in> set maxDataDiskCountMap
   else fst (GetMaxDataDiskCount maxDataDiskCountMap t) = 16"
proof (cases "\<exists>v. (ToUpper t, v) \<in> set maxDataDiskCountMap")
  case True
  then obtain v where v: "(ToUpper t, v) \<in> set maxDataDiskCountMap" by blast
  then show ?thesis by (auto simp: GetMaxDataDiskCount_entry [OF v])
next
  case False
  then have "gget maxDataDiskCountMap (ToUpper t) = None" by (force simp: gget_eq_None_iff)
  with False show ?thesis by (simp add: GetMaxDataDiskCount_def defaultAzureVolumeLimit_def)
qed

subsection \<open>What the node reports\<close>

lemma int64_small: "- (2 ^ 63) \<le> n \<Longrightarrow> n < 2 ^ 63 \<Longrightarrow> int64 n = n"
  by (simp add: int64_def signed_take_bit_int_eq_self)

text \<open>
  Where the VM size of a node comes from: the answer of the cloud for the node, or the instance-type label of the node, where the labels can
  be read.
\<close>

definition cloudSize :: "'w node_service \<Rightarrow> node_config \<Rightarrow> string \<Rightarrow> bool" where
  "cloudSize svc nc vmSize \<longleftrightarrow>
     (\<exists>instanceType t err u. ns_InstanceType svc = Some instanceType \<and> run_state (instanceType (nc_NodeID nc)) t = (Inr (vmSize, err), u))"

definition labelSize :: "'w node_service \<Rightarrow> node_config \<Rightarrow> string \<Rightarrow> bool" where
  "labelSize svc nc vmSize \<longleftrightarrow> (\<exists>labels t u. run_state (kube_GetNodeLabels (dv_env (ns_driver svc)) (nc_NodeID nc)) t = (Inr labels, u)
     \<and> labels \<noteq> [] \<and> vmSize = gstr labels ''node.kubernetes.io/instance-type'')"

definition labelsUnreadable :: "'w node_service \<Rightarrow> node_config \<Rightarrow> bool" where
  "labelsUnreadable svc nc \<longleftrightarrow> \<not> kube_present (dv_env (ns_driver svc))
     \<or> (\<exists>t u. run_state (kube_GetNodeLabels (dv_env (ns_driver svc)) (nc_NodeID nc)) t = (Inr [], u))
     \<or> (\<exists>t e u. run_state (kube_GetNodeLabels (dv_env (ns_driver svc)) (nc_NodeID nc)) t = (Inl e, u))"

text \<open>The cloud is asked first, unless the node takes its information from the labels; an empty size of the cloud leaves it to the labels.\<close>

definition sizeOfNode :: "'w node_service \<Rightarrow> node_config \<Rightarrow> string \<Rightarrow> bool" where
  "sizeOfNode svc nc vmSize \<longleftrightarrow>
     (if \<not> nc_getNodeInfoFromLabels nc \<and> vmSize \<noteq> [] \<and> cloudSize svc nc vmSize then True
      else (nc_getNodeInfoFromLabels nc \<or> ns_InstanceType svc = None \<or> cloudSize svc nc [])
        \<and> (labelSize svc nc vmSize \<or> vmSize = [] \<and> labelsUnreadable svc nc))"

lemma GetNodeInfoFromLabels_size:
  "run_state (GetNodeInfoFromLabels (dv_env (ns_driver svc)) (nc_NodeID nc)) t = (Inr (domain, vmSize), u) \<Longrightarrow> labelSize svc nc vmSize"
  by (auto simp: GetNodeInfoFromLabels_def labelSize_def InstanceTypeKey_def split: prod.splits sum.splits if_splits)

lemma GetNodeInfoFromLabels_unreadable:
  "run_state (GetNodeInfoFromLabels (dv_env (ns_driver svc)) (nc_NodeID nc)) t = (Inl err, u) \<Longrightarrow> labelsUnreadable svc nc"
  by (auto simp: GetNodeInfoFromLabels_def labelsUnreadable_def split: prod.splits sum.splits if_splits)

lemma nodeZone_size:
  assumes "run_state (if nc_supportZone nc then nodeZone svc nc else okE ([], [])) c = (Inr (zone, labelType), c')" "labelType \<noteq> []"
  shows "labelSize svc nc labelType"
  using assms
  by (auto simp: nodeZone_def Let_def split: if_splits prod.splits sum.splits option.splits dest: GetNodeInfoFromLabels_size)

lemma nodeInstanceType_size:
  assumes "run_state (nodeInstanceType svc nc labelType) c = (Inr vmSize, c')" "labelType \<noteq> [] \<Longrightarrow> labelSize svc nc labelType"
  shows "sizeOfNode svc nc vmSize"
proof -
  define labels where "labels = bindE (tryE (GetNodeInfoFromLabels (dv_env (ns_driver svc)) (nc_NodeID nc)))
      (\<lambda>r. okE (case r of Inl _ \<Rightarrow> [] | Inr (_, instanceType) \<Rightarrow> instanceType))"
  have read: "labelSize svc nc vmSize \<or> vmSize = [] \<and> labelsUnreadable svc nc" if "run_state labels t = (Inr vmSize, u)" for t u
    using that unfolding labels_def
    by (auto split: prod.splits sum.splits if_splits dest: GetNodeInfoFromLabels_size GetNodeInfoFromLabels_unreadable)
  have fallback: "labelSize svc nc vmSize \<or> vmSize = [] \<and> labelsUnreadable svc nc"
    if "run_state (if labelType = [] then labels else okE labelType) t = (Inr vmSize, u)" for t u
    using that read assms(2) by (auto split: if_splits)
  note run = assms(1) [unfolded nodeInstanceType_def Let_def, folded labels_def]
  show ?thesis
  proof (cases "nc_getNodeInfoFromLabels nc")
    case True
    with run fallback [of c c'] show ?thesis by (simp add: sizeOfNode_def)
  next
    case False
    show ?thesis
    proof (cases "ns_InstanceType svc")
      case None
      with False run fallback [of c c'] show ?thesis by (simp add: sizeOfNode_def)
    next
      case (Some instanceType)
      with False run obtain t err u where cloud: "run_state (instanceType (nc_NodeID nc)) c = (Inr (t, err), u)"
        and rest: "run_state (if t \<noteq> [] then okE t else if labelType = [] then labels else okE labelType) u = (Inr vmSize, c')"
        by (auto split: prod.splits sum.splits)
      from Some cloud have "cloudSize svc nc t" by (auto simp: cloudSize_def)
      with False rest fallback [of u c'] show ?thesis by (cases "t = []") (auto simp: sizeOfNode_def)
    qed
  qed
qed

text \<open>(C34) The number of volumes a node reports when no limit is configured: the data disks of its VM size in the table, looked up without regard to
  case, or 16 for an unknown size, less the reserved slots. The VM size is what the cloud answers for the node, or else, or if the node takes its
  information from the labels, its instance-type label; it is unknown only when neither is there. The limit is at most 64, and the number is negative when
  more slots are reserved than the size has.\<close>

theorem NodeGetInfo_volume_limit:
  assumes "tbl_maxDataDiskCountMap (dv_env (ns_driver svc)) = maxDataDiskCountMap" "nc_VolumeAttachLimit nc < 0"
    and "0 \<le> nc_ReservedDataDiskSlotNum nc" "nc_ReservedDataDiskSlotNum nc < 2 ^ 62"
    and "run_state (NodeGetInfo svc cfg nc) c = (Inr (nodeID, n, topology), c')"
  shows "\<exists>vmSize limit. sizeOfNode svc nc vmSize \<and> n = limit - nc_ReservedDataDiskSlotNum nc \<and> 0 \<le> limit \<and> limit \<le> 64
    \<and> (if \<exists>v. (ToUpper vmSize, v) \<in> set maxDataDiskCountMap then (ToUpper vmSize, limit) \<in> set maxDataDiskCountMap else limit = 16)"
proof -
  obtain zone labelType t vmSize t' where z: "run_state (if nc_supportZone nc then nodeZone svc nc else okE ([], [])) c = (Inr (zone, labelType), t)"
    and i: "run_state (nodeInstanceType svc nc labelType) t = (Inr vmSize, t')"
    and n: "n = int64 (fst (GetMaxDataDiskCount maxDataDiskCountMap vmSize) - nc_ReservedDataDiskSlotNum nc)"
    using assms(1,2,5) unfolding NodeGetInfo_def by (auto split: prod.splits sum.splits simp del: run_bindE simp: run_bindE [abs_def])
  have size: "sizeOfNode svc nc vmSize" by (rule nodeInstanceType_size [OF i nodeZone_size [OF z]])
  let ?limit = "fst (GetMaxDataDiskCount maxDataDiskCountMap vmSize)"
  have "n = ?limit - nc_ReservedDataDiskSlotNum nc"
    using n assms(3,4) GetMaxDataDiskCount_bounds [of vmSize] by (simp add: int64_small)
  then show ?thesis using size GetMaxDataDiskCount_bounds GetMaxDataDiskCount_decides by blast
qed

text \<open>A node whose VM has the size the cloud names, and whose labels are not read.\<close>

definition sizedService :: "string \<Rightarrow> DataDisk list node_service" where
  "sizedService vmSize = exampleService\<lparr>ns_driver := exampleDriver\<lparr>dv_env := (dv_env exampleDriver)\<lparr>tbl_maxDataDiskCountMap := maxDataDiskCountMap\<rparr>\<rparr>,
     ns_InstanceType := Some (\<lambda>_. okE (vmSize, None))\<rparr>"

definition sizedConfig :: "int \<Rightarrow> node_config" where
  "sizedConfig reserved = exampleNodeConfig\<lparr>nc_supportZone := False, nc_ReservedDataDiskSlotNum := reserved\<rparr>"

lemma sizedService_reports:
  assumes "vmSize \<noteq> []" "(ToUpper vmSize, v) \<in> set maxDataDiskCountMap" "0 \<le> v" "v \<le> 64" "0 \<le> r" "r \<le> 64"
  shows "run_state (NodeGetInfo (sizedService vmSize) cfg (sizedConfig r)) c = (Inr (''n1'', v - r, [(cfg_topologyKey cfg, [])]), c)"
  using assms GetMaxDataDiskCount_entry [OF assms(2)]
  by (simp add: NodeGetInfo_def nodeInstanceType_def nodeIdentity_def sizedService_def sizedConfig_def exampleNodeConfig_def exampleService_def int64_small Let_def)

lemma table_entries:
  "(ToUpper ''Standard_D2s_v3'', 4) \<in> set maxDataDiskCountMap" "(ToUpper ''ExtraLargeDiskSmall'', 0) \<in> set maxDataDiskCountMap"
proof -
  have "ToUpper ''Standard_D2s_v3'' = ''STANDARD_D2S_V3''" "ToUpper ''ExtraLargeDiskSmall'' = ''EXTRALARGEDISKSMALL''" by code_simp+
  moreover have "(''STANDARD_D2S_V3'', 4) \<in> set vmSizes8" by (simp add: vmSizes8_def)
  moreover have "(''EXTRALARGEDISKSMALL'', 0) \<in> set vmSizes2" by (simp add: vmSizes2_def)
  ultimately show "(ToUpper ''Standard_D2s_v3'', 4) \<in> set maxDataDiskCountMap" "(ToUpper ''ExtraLargeDiskSmall'', 0) \<in> set maxDataDiskCountMap"
    by (simp_all add: maxDataDiskCountMap_def del: set_simps)
qed

theorem NodeGetInfo_volume_limit_witness:
  "\<exists>limit. (2::int) = limit - 2 \<and> 0 \<le> limit \<and> limit \<le> 64"
proof -
  from sizedService_reports [OF _ table_entries(1), of 2 exampleDriverConfig] have r:
    "run_state (NodeGetInfo (sizedService ''Standard_D2s_v3'') exampleDriverConfig (sizedConfig 2)) (exampleDst []) = (Inr (''n1'', 2, [(cfg_topologyKey exampleDriverConfig, [])]), exampleDst [])"
    by simp
  have "nc_VolumeAttachLimit (sizedConfig 2) < 0" "nc_ReservedDataDiskSlotNum (sizedConfig 2) = 2"
    "tbl_maxDataDiskCountMap (dv_env (ns_driver (sizedService ''Standard_D2s_v3''))) = maxDataDiskCountMap"
    by (simp_all add: sizedConfig_def sizedService_def exampleNodeConfig_def)
  with NodeGetInfo_volume_limit [OF this(3,1) _ _ r] show ?thesis by auto
qed

text \<open>
  CSI reads 0 as no limit and forbids negative numbers. A size without data disks is reported without a limit, and with reserved slots as a
  negative number.
\<close>

theorem size_without_disks:
  "run_state (NodeGetInfo (sizedService ''ExtraLargeDiskSmall'') cfg (sizedConfig 0)) c = (Inr (''n1'', 0, [(cfg_topologyKey cfg, [])]), c)"
  "run_state (NodeGetInfo (sizedService ''ExtraLargeDiskSmall'') cfg (sizedConfig 2)) c = (Inr (''n1'', - 2, [(cfg_topologyKey cfg, [])]), c)"
  using sizedService_reports [OF _ table_entries(2), of 0 cfg c] sizedService_reports [OF _ table_entries(2), of 2 cfg c] by simp_all

end
