(* ===== verification/Taints.thy ===== *)
theory Taints
  imports Driver
begin

text \<open>
  The removal of the start-up taint from the node (\<open>azuredisk.go\<close>): it is removed once the driver is registered with an allocatable count. The removal
  is tried with a growing delay and then, if it is never to stop, every few minutes: a loop that may run for ever, where \<open>None\<close> is not returning.

  The node, the \<open>CSINode\<close>, the patch and the sleep are the fields of \<open>taint_env\<close>; a patch is its two operations, the test and the replacement, on the
  taints of the node.
\<close>

record Taint =
  tt_Key :: string
  tt_Value :: string
  tt_Effect :: string

record CSINodeDriver =
  cd_Name :: string
  cd_Allocatable :: "int option option"

record 's taint_env =
  tn_Node :: "string \<Rightarrow> ('s, Taint list) io"
  tn_CSINode :: "string \<Rightarrow> ('s, CSINodeDriver list) io"
  tn_Patch :: "string \<Rightarrow> Taint list \<Rightarrow> Taint list \<Rightarrow> ('s, unit) io"
  tn_Sleep :: "int \<Rightarrow> ('s, unit) state"

subsection \<open>One removal\<close>

fun allocatableLoop :: "string \<Rightarrow> string \<Rightarrow> CSINodeDriver list \<Rightarrow> unit result" where
  "allocatableLoop nodeName driverName [] = Inl (errorf (''isAllocatableSet: driver not found on node '' @ nodeName))"
| "allocatableLoop nodeName driverName (driver # drivers) =
     (if cd_Name driver = driverName then (case cd_Allocatable driver of
          Some (Some _) \<Rightarrow> Inr ()
        | _ \<Rightarrow> Inl (errorf (''isAllocatableSet: allocatable value not set for driver on node '' @ nodeName)))
      else allocatableLoop nodeName driverName drivers)"

definition checkAllocatable :: "'s taint_env \<Rightarrow> string \<Rightarrow> string \<Rightarrow> ('s, unit) io" where
  "checkAllocatable env nodeName driverName = bindE (tryE (tn_CSINode env nodeName)) (\<lambda>r. case r of
     Inl err \<Rightarrow> failE (wrapf (''isAllocatableSet: failed to get CSINode for '' @ nodeName @ '': '' @ emsg err) err)
   | Inr drivers \<Rightarrow> liftE (allocatableLoop nodeName driverName drivers))"

definition taintsToKeep :: "string \<Rightarrow> Taint list \<Rightarrow> Taint list" where
  "taintsToKeep driverName taints = filter (\<lambda>taint. tt_Key taint \<noteq> driverName @ AgentNotReadyNodeTaintKeySuffix) taints"

definition removeNotReadyTaint :: "'s taint_env \<Rightarrow> string \<Rightarrow> string \<Rightarrow> ('s, unit) io" where
  "removeNotReadyTaint env nodeName driverName = bindE (tn_Node env nodeName) (\<lambda>taints.
     bindE (checkAllocatable env nodeName driverName) (\<lambda>_.
       let keep = taintsToKeep driverName taints in
       if length keep = length taints then okE () else tn_Patch env nodeName taints keep))"

subsection \<open>Trying again\<close>

text \<open>Durations are in milliseconds. An error of the condition is logged and counts as not done.\<close>

fun ExponentialBackoff :: "'s taint_env \<Rightarrow> nat \<Rightarrow> int \<Rightarrow> ('s, unit) io \<Rightarrow> ('s, unit) io" where
  "ExponentialBackoff env 0 duration removal = failE (GoErr WaitTimeout ''timed out waiting for the condition'' [])"
| "ExponentialBackoff env (Suc steps) duration removal = bindE (tryE removal) (\<lambda>r. case r of
       Inr _ \<Rightarrow> okE ()
     | Inl _ \<Rightarrow> if steps = 0 then ExponentialBackoff env 0 duration removal
         else doE (tn_Sleep env duration) (\<lambda>_. ExponentialBackoff env steps (2 * duration) removal))"

definition taintRemovalBackoff :: "nat \<times> int" where
  "taintRemovalBackoff = (10, 500)"

partial_function (option) removalLoop :: "'s taint_env \<Rightarrow> ('s, unit) io \<Rightarrow> 's \<Rightarrow> (unit result \<times> 's) option" where
  "removalLoop env removal s = (case run_state (tryE removal) (snd (run_state (tn_Sleep env 300000) s)) of
     (r, s1) \<Rightarrow> (case r of
       Inl err \<Rightarrow> Some (Inl err, s1)
     | Inr done \<Rightarrow> (case done of Inl _ \<Rightarrow> Some (Inr (), s1) | Inr _ \<Rightarrow> removalLoop env removal s1)))"

definition removeTaintInBackground :: "'s taint_env \<Rightarrow> nat \<times> int \<Rightarrow> bool \<Rightarrow> ('s, unit) io \<Rightarrow> 's \<Rightarrow> (unit result \<times> 's) option" where
  "removeTaintInBackground env backoff neverStop removal s =
     (case run_state (tryE (ExponentialBackoff env (fst backoff) (snd backoff) removal)) s of
        (Inl err, s1) \<Rightarrow> Some (Inl err, s1)
      | (Inr backoffErr, s1) \<Rightarrow> if neverStop then removalLoop env removal s1 else Some (Inr (), s1))"

subsection \<open>When a taint is removed\<close>

definition allocatableSet :: "string \<Rightarrow> CSINodeDriver list \<Rightarrow> bool" where
  "allocatableSet driverName drivers \<longleftrightarrow>
     (case find (\<lambda>d. cd_Name d = driverName) drivers of Some d \<Rightarrow> (\<exists>n. cd_Allocatable d = Some (Some n)) | None \<Rightarrow> False)"

lemma allocatableLoop_ok: "allocatableLoop nodeName driverName drivers = Inr () \<longleftrightarrow> allocatableSet driverName drivers"
  by (induction drivers) (auto simp: allocatableSet_def split: option.splits)

lemma length_filter_eq: "length (filter P xs) = length xs \<longleftrightarrow> (\<forall>x\<in>set xs. P x)"
  by (metis filter_True length_filter_less less_irrefl)

text \<open>A success has seen the driver's allocatable count; it writes the taints without those of the driver, over the ones that were read, exactly if there were any.\<close>

lemma removeNotReadyTaint_success:
  assumes "run_state (removeNotReadyTaint env nodeName driverName) s = (Inr x, s')"
  obtains taints drivers s1 s2 where "run_state (tn_Node env nodeName) s = (Inr taints, s1)" "run_state (tn_CSINode env nodeName) s1 = (Inr drivers, s2)"
    "allocatableSet driverName drivers"
    "if \<exists>t\<in>set taints. tt_Key t = driverName @ ''/agent-not-ready''
     then run_state (tn_Patch env nodeName taints (taintsToKeep driverName taints)) s2 = (Inr (), s') else s' = s2"
proof -
  have keep: "length (taintsToKeep driverName taints) = length taints \<longleftrightarrow> \<not> (\<exists>t\<in>set taints. tt_Key t = driverName @ ''/agent-not-ready'')" for taints
    by (simp add: taintsToKeep_def length_filter_eq AgentNotReadyNodeTaintKeySuffix_def del: append_Cons)
  from assms show ?thesis
    by (auto simp: removeNotReadyTaint_def checkAllocatable_def Let_def keep allocatableLoop_ok
        split: prod.splits sum.splits if_splits intro!: that)
qed

subsection \<open>When it stops\<close>

lemma background_returns: "removeTaintInBackground env backoff False removal s \<noteq> None"
  by (simp add: removeTaintInBackground_def split: prod.split sum.split)

lemma removalLoop_ends_by_failure:
  assumes ret: "removalLoop env removal s = Some y"
  shows "\<exists>s1 s2 err. run_state removal s1 = (Inl err, s2)"
proof (rule removalLoop.raw_induct [where P = "\<lambda>env removal s y. \<exists>s1 s2 err. run_state removal s1 = (Inl err, s2)", OF _ ret])
qed (auto split: prod.splits sum.splits if_splits)

text \<open>So a removal that never fails is repeated for ever, and one failure ends the loop that is never to stop.\<close>

lemma background_repeats_success:
  assumes "\<And>s. \<exists>s'. run_state removal s = (Inr (), s')"
  shows "removeTaintInBackground env backoff True removal s = None"
proof -
  have "removalLoop env removal s1 = None" for s1
    using removalLoop_ends_by_failure [of env removal s1] assms by (metis Inl_Inr_False Pair_inject not_Some_eq)
  moreover obtain r s1 where "run_state (tryE (ExponentialBackoff env (fst backoff) (snd backoff) removal)) s = (Inr r, s1)"
    using assms [of s] by (cases "fst backoff") auto
  ultimately show ?thesis by (simp add: removeTaintInBackground_def del: run_tryE)
qed

lemma background_stops_at_failure:
  assumes "run_state (tryE (ExponentialBackoff env (fst backoff) (snd backoff) removal)) s = (Inr r, s1)"
    and "run_state removal (snd (run_state (tn_Sleep env 300000) s1)) = (Inl err, s2)" "ekind err \<noteq> Panicked"
  shows "removeTaintInBackground env backoff True removal s = Some (Inr (), s2)"
  using assms by (simp add: removeTaintInBackground_def removalLoop.simps)

end
