(* ===== verification/PreStop.thy ===== *)
theory PreStop
  imports Taints
begin

text \<open>
  The pre-stop hook of the driver's pod (\<open>prestop.go\<close>): whether the node is being drained, and the wait until none of its volume
  attachments is left.

  The wait has two goroutines: the hook's own, which lists the attachments once, and that of an informer, which lists them, then watches them, and
  runs a handler for every change. What both share is the signal. \<open>hook_step\<close> interleaves them with the cluster; a list may fail, and a
  deletion that the watch has missed is a tombstone, which carries no attachment.
\<close>

subsection \<open>Draining\<close>

definition TaintNodeUnschedulable :: string where
  "TaintNodeUnschedulable = ''node.kubernetes.io/unschedulable''"

definition clusterAutoscalerTaint :: string where
  "clusterAutoscalerTaint = ''ToBeDeletedByClusterAutoscaler''"

definition v1KarpenterTaint :: string where
  "v1KarpenterTaint = ''karpenter.sh/disrupted''"

definition v1beta1KarpenterTaint :: string where
  "v1beta1KarpenterTaint = ''karpenter.sh/disruption''"

definition drainTaints :: "string list" where
  "drainTaints = [TaintNodeUnschedulable, clusterAutoscalerTaint, v1KarpenterTaint, v1beta1KarpenterTaint]"

definition isNodeBeingDrained :: "Taint list \<Rightarrow> bool" where
  "isNodeBeingDrained taints \<longleftrightarrow> list_ex (\<lambda>taint. tt_Key taint \<in> set drainTaints) taints"

definition fetchNode :: "(string \<Rightarrow> ('s, Taint list) io) \<Rightarrow> string \<Rightarrow> ('s, Taint list) io" where
  "fetchNode nodeGet nodeName = bindE (tryE (nodeGet nodeName)) (\<lambda>r. case r of
     Inl err \<Rightarrow> failE (wrapf (''fetchNode: failed to retrieve node information: '' @ emsg err) err) | Inr taints \<Rightarrow> okE taints)"

text \<open>The name of the node is that of the environment; \<open>wait\<close> is \<open>waitForVolumeAttachments\<close>.\<close>

definition PreStop :: "(string \<Rightarrow> ('s, Taint list) io) \<Rightarrow> (string \<Rightarrow> ('s, unit) io) \<Rightarrow> string \<Rightarrow> ('s, unit) io" where
  "PreStop nodeGet wait nodeName =
     (if nodeName = [] then failE (errorf ''PreStop: KUBE_NODE_NAME missing'')
      else bindE (tryE (fetchNode nodeGet nodeName)) (\<lambda>r. case r of
          Inl err \<Rightarrow> if errorsIs err APINotFound then wait nodeName else failE err
        | Inr taints \<Rightarrow> if isNodeBeingDrained taints then wait nodeName else okE ()))"

subsection \<open>The signal\<close>

text \<open>\<open>closeOnce\<close> and its channel: how often it has been closed. The waiter goes on when it is.\<close>

record attachmentDeletionSignal =
  sg_closeOnce :: bool
  sg_closed :: nat

definition markAllDeleted :: "attachmentDeletionSignal \<Rightarrow> attachmentDeletionSignal" where
  "markAllDeleted signal = (if sg_closeOnce signal then signal else \<lparr>sg_closeOnce = True, sg_closed = sg_closed signal + 1\<rparr>)"

text \<open>The attachments are what the list answered.\<close>

definition checkVolumeAttachments :: "string \<Rightarrow> VolumeAttachment list result \<Rightarrow> attachmentDeletionSignal \<Rightarrow> unit result \<times> attachmentDeletionSignal" where
  "checkVolumeAttachments nodeName ans signal = (case ans of
     Inl err \<Rightarrow> (Inl (wrapf (''checkVolumeAttachments: failed to list VolumeAttachments: '' @ emsg err) err), signal)
   | Inr attachments \<Rightarrow> if list_ex (\<lambda>va. va_NodeName va = nodeName) attachments then (Inr (), signal) else (Inr (), markAllDeleted signal))"

text \<open>The handlers of an update and of a deletion do the same; the object of a tombstone is not an attachment, and the nil is dereferenced.\<close>

datatype va_event = Changed VolumeAttachment | Tombstone VolumeAttachment

definition handleEvent :: "string \<Rightarrow> VolumeAttachment list result \<Rightarrow> va_event \<Rightarrow> attachmentDeletionSignal \<Rightarrow> attachmentDeletionSignal result" where
  "handleEvent nodeName ans event signal = (case event of
     Tombstone _ \<Rightarrow> Inl (panicf ''nil pointer dereference'')
   | Changed va \<Rightarrow> if va_NodeName va = nodeName then Inr (snd (checkVolumeAttachments nodeName ans signal)) else Inr signal)"

subsection \<open>The wait\<close>

record hook =
  hk_attachments :: "VolumeAttachment list"
  hk_watching :: bool
  hk_events :: "va_event list"
  hk_checked :: bool
  hk_signal :: attachmentDeletionSignal
  hk_crashed :: bool

definition waiting :: "bool \<Rightarrow> VolumeAttachment list \<Rightarrow> hook" where
  "waiting watching attachments = \<lparr>hk_attachments = attachments, hk_watching = watching, hk_events = [], hk_checked = False,
     hk_signal = \<lparr>sg_closeOnce = False, sg_closed = 0\<rparr>, hk_crashed = False\<rparr>"

definition notify :: "hook \<Rightarrow> va_event \<Rightarrow> hook" where
  "notify s event = (if hk_watching s then s\<lparr>hk_events := hk_events s @ [event]\<rparr> else s)"

text \<open>What a list may answer: the attachments there are, or, in a cluster that may fail, an error.\<close>

definition answers :: "bool \<Rightarrow> hook \<Rightarrow> VolumeAttachment list result \<Rightarrow> bool" where
  "answers fails s ans \<longleftrightarrow> ans = Inr (hk_attachments s) \<or> fails \<and> isl ans"

text \<open>\<open>fails\<close>: lists may fail and the watch may miss a deletion. There is no handler for a new attachment.\<close>

inductive hook_step :: "bool \<Rightarrow> string \<Rightarrow> hook \<Rightarrow> hook \<Rightarrow> bool" for fails nodeName where
  watch: "\<not> hk_watching s \<Longrightarrow> hook_step fails nodeName s (s\<lparr>hk_watching := True\<rparr>)"
| added: "hook_step fails nodeName s (s\<lparr>hk_attachments := va # hk_attachments s\<rparr>)"
| updated: "hk_attachments s = xs @ va # ys \<Longrightarrow> va_NodeName va' = va_NodeName va
    \<Longrightarrow> hook_step fails nodeName s (notify (s\<lparr>hk_attachments := xs @ va' # ys\<rparr>) (Changed va'))"
| deleted: "hk_attachments s = xs @ va # ys \<Longrightarrow> hook_step fails nodeName s (notify (s\<lparr>hk_attachments := xs @ ys\<rparr>) (Changed va))"
| missed: "fails \<Longrightarrow> hk_attachments s = xs @ va # ys \<Longrightarrow> hook_step fails nodeName s (notify (s\<lparr>hk_attachments := xs @ ys\<rparr>) (Tombstone va))"
| check: "\<not> hk_checked s \<Longrightarrow> \<not> hk_crashed s \<Longrightarrow> answers fails s ans
    \<Longrightarrow> hook_step fails nodeName s (s\<lparr>hk_checked := True, hk_signal := snd (checkVolumeAttachments nodeName ans (hk_signal s))\<rparr>)"
| handle: "hk_events s = event # events \<Longrightarrow> \<not> hk_crashed s \<Longrightarrow> answers fails s ans
    \<Longrightarrow> handleEvent nodeName ans event (hk_signal s) = Inr signal
    \<Longrightarrow> hook_step fails nodeName s (s\<lparr>hk_events := events, hk_signal := signal\<rparr>)"
| crash: "hk_events s = event # events \<Longrightarrow> \<not> hk_crashed s \<Longrightarrow> answers fails s ans
    \<Longrightarrow> handleEvent nodeName ans event (hk_signal s) = Inl err
    \<Longrightarrow> hook_step fails nodeName s (s\<lparr>hk_events := events, hk_crashed := True\<rparr>)"

inductive hook_reach :: "bool \<Rightarrow> string \<Rightarrow> bool \<Rightarrow> hook \<Rightarrow> bool" for fails nodeName watching where
  start: "hook_reach fails nodeName watching (waiting watching attachments)"
| step: "hook_reach fails nodeName watching s \<Longrightarrow> hook_step fails nodeName s s' \<Longrightarrow> hook_reach fails nodeName watching s'"

inductive_cases hook_stepE: "hook_step fails nodeName s s'"

definition detached :: "string \<Rightarrow> hook \<Rightarrow> bool" where
  "detached nodeName s \<longleftrightarrow> (\<forall>va\<in>set (hk_attachments s). va_NodeName va \<noteq> nodeName)"

subsection \<open>Closing once\<close>

lemma markAllDeleted_closed [simp]: "sg_closeOnce (markAllDeleted signal)"
  by (simp add: markAllDeleted_def)

lemma checkVolumeAttachments_signal:
  "snd (checkVolumeAttachments nodeName ans signal) = (case ans of
     Inl _ \<Rightarrow> signal | Inr vas \<Rightarrow> if list_ex (\<lambda>va. va_NodeName va = nodeName) vas then signal else markAllDeleted signal)"
  by (simp add: checkVolumeAttachments_def split: sum.split)

lemma handleEvent_signal:
  "handleEvent nodeName ans event signal = Inr signal' \<Longrightarrow> signal' = signal \<or> signal' = snd (checkVolumeAttachments nodeName ans signal)"
  by (auto simp: handleEvent_def split: va_event.splits if_splits)

definition closedOnce :: "attachmentDeletionSignal \<Rightarrow> bool" where
  "closedOnce signal \<longleftrightarrow> sg_closed signal = (if sg_closeOnce signal then 1 else 0)"

lemma closedOnce_check: "closedOnce signal \<Longrightarrow> closedOnce (snd (checkVolumeAttachments nodeName ans signal))"
  by (auto simp: checkVolumeAttachments_signal closedOnce_def markAllDeleted_def split: sum.split)

lemma hook_reach_closedOnce: "hook_reach fails nodeName watching s \<Longrightarrow> closedOnce (hk_signal s)"
proof (induction rule: hook_reach.induct)
  case (step s s')
  from step.hyps(2) show ?case
    by (rule hook_stepE) (use step.IH in \<open>auto simp: notify_def closedOnce_check dest!: handleEvent_signal\<close>)
qed (simp add: waiting_def closedOnce_def)

subsection \<open>No wake-up is lost when the informer watches first\<close>

text \<open>Once the hook has checked, an unsignalled state without attachments has an event of the node ahead of it.\<close>

definition pendingWakeup :: "string \<Rightarrow> hook \<Rightarrow> bool" where
  "pendingWakeup nodeName s \<longleftrightarrow> hk_watching s \<and> \<not> hk_crashed s \<and> (\<forall>e\<in>set (hk_events s). \<exists>va. e = Changed va)
     \<and> (hk_checked s \<and> detached nodeName s \<and> \<not> sg_closeOnce (hk_signal s)
        \<longrightarrow> (\<exists>va. Changed va \<in> set (hk_events s) \<and> va_NodeName va = nodeName))"

lemma check_detached: "detached nodeName s \<Longrightarrow> sg_closeOnce (snd (checkVolumeAttachments nodeName (Inr (hk_attachments s)) signal))"
  by (auto simp: checkVolumeAttachments_signal detached_def list_ex_iff)

lemma check_closeOnce: "sg_closeOnce signal \<Longrightarrow> sg_closeOnce (snd (checkVolumeAttachments nodeName ans signal))"
  by (auto simp: checkVolumeAttachments_signal split: sum.split)

lemma pendingWakeup_step:
  assumes "hook_step False nodeName s s'" "pendingWakeup nodeName s"
  shows "pendingWakeup nodeName s'"
  using assms(1)
proof cases
  case watch
  with assms(2) show ?thesis by (simp add: pendingWakeup_def)
next
  case (added va)
  with assms(2) show ?thesis by (auto simp: pendingWakeup_def detached_def)
next
  case (updated xs va ys va')
  with assms(2) show ?thesis by (auto simp: pendingWakeup_def detached_def notify_def)
next
  case (deleted xs va ys)
  with assms(2) show ?thesis by (auto simp: pendingWakeup_def detached_def notify_def)
next
  case (check ans)
  with assms(2) show ?thesis
    using check_detached [of nodeName s "hk_signal s"] by (auto simp: pendingWakeup_def detached_def answers_def)
next
  case (handle event events ans signal)
  have l: "ans = Inr (hk_attachments s)" using handle by (simp add: answers_def)
  have "sg_closeOnce signal" if "event = Changed va" "va_NodeName va = nodeName" "detached nodeName s" for va
    using that handle(5) check_detached [of nodeName s "hk_signal s"] by (auto simp: handleEvent_def l)
  moreover have "sg_closeOnce (hk_signal s) \<Longrightarrow> sg_closeOnce signal"
    using handleEvent_signal [OF handle(5)] check_closeOnce by metis
  ultimately show ?thesis using assms(2) handle by (auto simp: pendingWakeup_def detached_def)
next
  case (crash event events ans err)
  with assms(2) show ?thesis by (auto simp: pendingWakeup_def handleEvent_def split: if_splits)
qed simp

lemma pendingWakeup_reach: "hook_reach False nodeName True s \<Longrightarrow> pendingWakeup nodeName s"
  by (induction rule: hook_reach.induct) (simp add: waiting_def pendingWakeup_def, blast intro: pendingWakeup_step)

text \<open>(C14) The wait of the pre-stop hook, over every interleaving of its own check, the informer's handlers and the changes of the cluster: the channel
  of the signal is closed at most once, even when lists fail and deletions are missed; and if the informer watches before the hook checks and nothing
  fails, then whenever the check and all handlers have run and no attachment of the node is left, the waiter has been woken.\<close>
theorem hook_signal:
  shows "hook_reach fails nodeName watching s \<Longrightarrow> sg_closed (hk_signal s) \<le> 1
    \<and> (\<not> fails \<and> watching \<and> hk_checked s \<and> hk_events s = [] \<and> detached nodeName s \<longrightarrow> sg_closed (hk_signal s) = 1)"
  using hook_reach_closedOnce [of fails nodeName watching s] pendingWakeup_reach [of nodeName s]
  by (auto simp: closedOnce_def pendingWakeup_def)

lemma hook_drained:
  "\<exists>s. hook_reach False ''n'' True s \<and> hk_checked s \<and> hk_events s = [] \<and> detached ''n'' s"
proof -
  define va where "va = \<lparr>va_Name = ''va'', va_Attacher = ''disk.csi.azure.com'', va_NodeName = ''n'', va_PersistentVolumeName = Some ''pv'',
    va_InlineCSI = None, va_Attached = True, va_AttachmentMetadata = []\<rparr>"
  let ?s0 = "waiting True [va]"
  let ?s1 = "?s0\<lparr>hk_checked := True, hk_signal := snd (checkVolumeAttachments ''n'' (Inr [va]) (hk_signal ?s0))\<rparr>"
  let ?s2 = "notify (?s1\<lparr>hk_attachments := []\<rparr>) (Changed va)"
  let ?s3 = "?s2\<lparr>hk_events := [], hk_signal := snd (checkVolumeAttachments ''n'' (Inr []) (hk_signal ?s2))\<rparr>"
  have "hook_step False ''n'' ?s0 ?s1" by (rule hook_step.check) (simp_all add: waiting_def answers_def)
  moreover have "hook_step False ''n'' ?s1 ?s2"
    using hook_step.deleted [of ?s1 "[]" va "[]" False "''n''"] by (simp add: waiting_def)
  moreover have "hook_step False ''n'' ?s2 ?s3"
    by (rule hook_step.handle [where event = "Changed va" and events = "[]" and ans = "Inr []"])
       (simp_all add: waiting_def answers_def notify_def handleEvent_def va_def)
  ultimately have "hook_reach False ''n'' True ?s3" by (blast intro: hook_reach.intros)
  then show ?thesis by (rule exI [of _ ?s3, OF conjI]) (simp add: waiting_def notify_def detached_def)
qed

theorem hook_signal_witness:
  "\<exists>s. hook_reach False ''n'' True s \<and> hk_checked s \<and> detached ''n'' s \<and> sg_closed (hk_signal s) = 1"
  using hook_drained hook_signal [of False "''n''" True] by blast

subsection \<open>A wake-up is lost when the last attachment goes between the check and the informer's list\<close>

definition stuck :: "string \<Rightarrow> hook \<Rightarrow> bool" where
  "stuck nodeName s \<longleftrightarrow> hk_watching s \<and> hk_checked s \<and> detached nodeName s \<and> sg_closed (hk_signal s) = 0
     \<and> (\<forall>e\<in>set (hk_events s). \<exists>va. e = Changed va \<and> va_NodeName va \<noteq> nodeName)"

text \<open>Only a new attachment of the node can end it: what happens to the attachments of other nodes leaves the waiter asleep.\<close>

lemma stuck_step:
  assumes "hook_step False nodeName s s'" "stuck nodeName s" "detached nodeName s'"
  shows "stuck nodeName s'"
  using assms(1)
proof cases
  case (handle event events ans signal)
  then have "signal = hk_signal s" using assms(2) by (auto simp: stuck_def handleEvent_def)
  with handle assms(2,3) show ?thesis by (auto simp: stuck_def)
next
  case (crash event events ans err)
  then show ?thesis using assms(2) by (auto simp: stuck_def handleEvent_def)
qed (use assms(2,3) in \<open>auto simp: stuck_def notify_def detached_def\<close>)

lemma lost_wakeup:
  fixes va :: VolumeAttachment
  assumes "va_NodeName va = nodeName"
  shows "\<exists>s. hook_reach False nodeName False s \<and> stuck nodeName s"
proof -
  let ?s0 = "waiting False [va]"
  let ?s1 = "?s0\<lparr>hk_checked := True, hk_signal := snd (checkVolumeAttachments nodeName (Inr [va]) (hk_signal ?s0))\<rparr>"
  let ?s2 = "notify (?s1\<lparr>hk_attachments := []\<rparr>) (Changed va)"
  let ?s3 = "?s2\<lparr>hk_watching := True\<rparr>"
  have "hook_step False nodeName ?s0 ?s1" by (rule hook_step.check) (simp_all add: waiting_def answers_def)
  moreover have "hook_step False nodeName ?s1 ?s2"
    using hook_step.deleted [of ?s1 "[]" va "[]" False nodeName] by (simp add: waiting_def)
  moreover have "hook_step False nodeName ?s2 ?s3" by (rule hook_step.watch) (simp add: waiting_def notify_def)
  ultimately have "hook_reach False nodeName False ?s3" by (blast intro: hook_reach.intros)
  moreover have "stuck nodeName ?s3"
    using assms by (simp add: waiting_def notify_def stuck_def detached_def checkVolumeAttachments_signal)
  ultimately show ?thesis by blast
qed

end
