(* ===== verification/SnapshotProps.thy ===== *)
theory SnapshotProps
  imports ControllerProps
begin

text \<open>
  What \<open>CreateSnapshot\<close> asks Azure for. The handler may request two snapshots: one of the source volume in the region of the
  cluster, and, for a snapshot in another region, a copy that is started from the first one when that is ready.
\<close>

subsection \<open>The parameters\<close>





subsection \<open>Well-formed requests\<close>







subsection \<open>No other request is made\<close>

text \<open>The same environment, but Azure may do anything with a request that does not satisfy \<open>ok\<close>.\<close>

definition otherwise :: "(Snapshot \<Rightarrow> bool) \<Rightarrow> (nat \<Rightarrow> string \<Rightarrow> string \<Rightarrow> Snapshot \<Rightarrow> ('w dst, unit) io) \<Rightarrow> 'w driver_env \<Rightarrow> 'w driver_env" where
  "otherwise ok other env = env\<lparr>dv_SnapshotCreateOrUpdate :=
     (\<lambda>k g n sn. if ok sn then dv_SnapshotCreateOrUpdate env k g n sn else other k g n sn)\<rparr>"


lemma otherwise_reads [simp]:
  "getSnapshotByID (otherwise ok other env) sub g n v = getSnapshotByID env sub g n v"
  "getSnapshotCompletionPercent (otherwise ok other env) sub g n = getSnapshotCompletionPercent env sub g n"
  "dv_NewUUID (otherwise ok other env) = dv_NewUUID env"
  "dv_GetSnapshotClientForSub (otherwise ok other env) = dv_GetSnapshotClientForSub env"
  "dv_SnapshotDelete (otherwise ok other env) = dv_SnapshotDelete env" "dv_env (otherwise ok other env) = dv_env env"
  "dv_SnapshotTick (otherwise ok other env) = dv_SnapshotTick env"
  "dv_GetCloudProviderFromClient (otherwise ok other env) = dv_GetCloudProviderFromClient env"
  by (simp_all add: otherwise_def getSnapshotByID_def getSnapshotCompletionPercent_def
      cong del: sum.case_cong_weak prod.case_cong_weak if_weak_cong)

lemma otherwise_waits [simp]: "waitIfAsked (otherwise ok other env) cfg sub g n = waitIfAsked env cfg sub g n"
proof -
  have "snapshotWaitLoop (otherwise ok other env) k sub g n = snapshotWaitLoop env k sub g n" for k
    by (induction k) (simp_all cong del: sum.case_cong_weak prod.case_cong_weak if_weak_cong)
  then show ?thesis by (simp add: waitIfAsked_def waitForSnapshotReady_def cong del: sum.case_cong_weak prod.case_cong_weak if_weak_cong)
qed

lemma otherwise_params [simp]: "snapshotParams (otherwise ok other env) ps q = snapshotParams env ps q"
proof (induction ps arbitrary: q)
  case (Cons p ps)
  obtain k v where "p = (k, v)" by fastforce
  moreover have "snapshotParam (otherwise ok other env) k v q = snapshotParam env k v q"
    unfolding snapshotParam_def otherwise_reads ..
  moreover have "snapshotParams (otherwise ok other env) ps = snapshotParams env ps" by (rule ext) (rule Cons.IH)
  ultimately show ?case by simp
qed simp





end
