(* ===== verification/Spec2Isabelle.thy ===== *)
theory Spec2Isabelle
  imports ProvisioningProps TimedCache MigrationProps OptimizationProps VmLimits PreStop SnapshotProps
begin

text \<open>
  A verification development for the Azure Disk CSI driver (\<^verbatim>\<open>kubernetes-sigs/azuredisk-csi-driver\<close>).

  \<^bold>\<open>The program.\<close> The driver provisions Azure managed disks for Kubernetes. Its controller service answers the CSI calls
  \<open>CreateVolume\<close>, \<open>DeleteVolume\<close>, \<open>ControllerPublishVolume\<close>, \<open>ControllerUnpublishVolume\<close>, \<open>ControllerExpandVolume\<close>,
  \<open>ControllerModifyVolume\<close>, \<open>ListVolumes\<close> and the snapshot calls (\<^verbatim>\<open>pkg/azuredisk/controllerserver.go\<close>). It parses the parameters
  of a storage class (\<^verbatim>\<open>pkg/azureutils\<close>), and works through a managed disk controller
  (\<^verbatim>\<open>azure_managedDiskController.go\<close>, \<^verbatim>\<open>azure_controller_common.go\<close>) that creates, deletes, resizes and modifies disks and batches
  the attach and detach requests of each node under one mutex. The node service (\<^verbatim>\<open>nodeserver.go\<close>, \<^verbatim>\<open>azure_common_linux.go\<close>) finds the device of a LUN, or
  attaches the disk itself through the wireserver, formats, mounts, tunes and grows it, and hands it to Kata guests. A monitor follows the migration of a
  disk to another SKU (\<^verbatim>\<open>migration_monitor.go\<close>).

  \<^bold>\<open>Theories\<close>, in the order of their imports.
  \<^item> \<open>Prelude\<close>: Go's integers with their wrap-around, errors and panics as values, maps in iteration order, fallible stateful
    calls (\<open>io\<close>), and what a call keeps of the state (\<open>stays\<close>, \<open>valid\<close>, the locale \<open>preorder_on_states\<close>).
  \<^item> \<open>GoStrings\<close>: the functions of \<open>strings\<close>, \<open>strconv\<close>, \<open>path/filepath\<close> and \<open>regexp\<close> that the driver uses.
  \<^item> \<open>Consts\<close> (\<^verbatim>\<open>pkg/azureconstants\<close>), \<open>Util\<close> (\<^verbatim>\<open>pkg/util\<close>: sizes, tags, LUN difference, \<open>VolumeLocks\<close> with the locale
    \<open>try_lock\<close>), \<open>ArmCompute\<close> (Azure's data, resource identifiers).
  \<^item> \<open>DiskUtils\<close> and \<open>DiskParams\<close> (\<^verbatim>\<open>azure_disk_utils.go\<close>: names, zones, capabilities, normalization, throttling, \<open>ParseDiskParameters\<close>,
    device settings), \<open>Snapshots\<close> (\<^verbatim>\<open>azure_snapshot_utils.go\<close>).
  \<^item> \<open>TimedCache\<close>: the vendored cache, and the throttling flags of \<^verbatim>\<open>azuredisk.go\<close> (locale \<open>expiring_set\<close>).
  \<^item> \<open>DiskQueue\<close>: \<open>lockMap\<close>, the state of \<open>controllerCommon\<close>, the attach and detach queues (locale \<open>batch_queue\<close>, the step relation
    \<open>q_step\<close> over all interleavings of enqueuing and taking batches, and its reachable states).
  \<^item> \<open>DiskLuns\<close>: the lookup and the allocation of LUNs. \<open>AttachDetach\<close>: \<open>AttachDisk\<close>, \<open>DetachDisk\<close>, \<open>UpdateVM\<close> with their waits,
    verification and fallbacks. \<open>AttachDetachProps\<close>: their properties (locale \<open>controller_preorder\<close>, postconditions \<open>post\<close>).
  \<^item> \<open>ManagedDisk\<close>: \<open>CreateManagedDisk\<close>, \<open>DeleteManagedDisk\<close>, \<open>ResizeDisk\<close>, \<open>ModifyDisk\<close>. \<open>ListVolumes\<close>: the three levels of
    \<open>ListVolumes\<close> and the specification they refine.
  \<^item> \<open>Driver\<close>: the driver's state and helpers, \<open>GetSourceDiskSize\<close>, persistent-volume lookup, \<^verbatim>\<open>csi-common/driver.go\<close>. \<open>NodeDriven\<close>: claims and
    annotations of node-driven disks. \<open>CreateVolume\<close>, \<open>ControllerServer\<close>, \<open>SnapshotServer\<close>: the handlers.
  \<^item> \<open>DriverLocks\<close>: the locale \<open>driver_preorder\<close>, which carries a preorder through every handler, with its two interpretations.
    \<open>ControllerProps\<close>, \<open>ProvisioningProps\<close>, \<open>SnapshotProps\<close>: the properties of the handlers.
  \<^item> \<open>Migration\<close> (\<^verbatim>\<open>migration_monitor.go\<close>): timeouts, tasks, what a goroutine does each time it is scheduled (\<open>wake\<close>), \<open>Stop\<close>, recovery, and the
    step relation \<open>mig_step\<close> of all their interleavings. \<open>MigrationProps\<close>: its invariant, and that monitoring ends.
  \<^item> \<open>NodeDevices\<close> (\<^verbatim>\<open>azure_common_linux.go\<close>): devices, \<open>fsck\<close>, \<open>wipefs\<close>, \<open>mkfs\<close>, mounts, sizes, unmounting. \<open>NodeDeviceProps\<close>: what is formatted, and which
    device is found. \<open>Kata\<close> (\<^verbatim>\<open>kata.go\<close>): assignments to guests. \<open>Optimization\<close> (\<^verbatim>\<open>pkg/optimization\<close>): the SKU table and the queue settings, with
    \<open>OptimizationProps\<close>. \<open>NodeQAD\<close>: attach and detach by the node. \<open>NodeServer\<close>: the handlers of the node service. \<open>NodeProps\<close>: their properties (locale
    \<open>lockless_preorder\<close>: a relation that every call but one kind keeps, so that breaking it shows that this call was made).
  \<^item> \<open>VmSizes\<close> (\<^verbatim>\<open>azure_dd_max_disk_count.go\<close>) and \<open>VmSkus\<close> (\<open>NodeInfoMap\<close>): the two tables of VM sizes, entry by entry. The definitions that look a size up take
    the table as an argument; \<open>VmLimits\<close> and \<open>OptimizationProps\<close> state their properties for these tables.
  \<^item> \<open>Taints\<close> (\<^verbatim>\<open>azuredisk.go\<close>): the removal of the start-up taint, with its loop that may not end. \<open>PreStop\<close> (\<^verbatim>\<open>hooks/prestop.go\<close>): the pre-stop
    hook, with the step relation \<open>hook_step\<close> of its check, the informer's handlers and the cluster.

  \<^bold>\<open>Correspondence.\<close> A Go struct is a record with the fields the code uses, an enumeration a datatype or its string, a pointer an option,
  an error \<open>Inl\<close> of a \<open>goerror\<close>, a nil dereference or an index out of range an \<open>Inl\<close> of kind \<open>Panicked\<close>, which keeps unwinding through
  \<open>tryE\<close> and still runs deferred calls. A handler is a function from its environment, the configuration and the request to an \<open>io\<close>, composed
  of the stages the code has. Azure, Kubernetes, HTTP, JSON decoding, clocks, UUIDs and the other goroutines are the fields of the records
  \<open>env\<close>, \<open>disk_api\<close>, \<open>driver_env\<close>, \<open>mig_env\<close>, \<open>node_env\<close>, \<open>kata_env\<close> and \<open>wire_env\<close>: arbitrary transformers of the whole state. What a theorem relies on of them is a named hypothesis:
  \<open>truthful\<close> (the data disks that are read are those of the VM), \<open>calm\<close>, \<open>calm_driver\<close> and \<open>calm_service\<close> (they keep a preorder), \<open>sane\<close> and
  \<open>steady\<close> (the clock of the monitor is in range and not changed by reads), each with a
  witness on a concrete cloud or node.

  \<^bold>\<open>What is shown.\<close> Attach and detach end with the disk on the LUN that is returned, or gone; the same for publish and unpublish on top of
  them. LUNs are allocated soundly and completely. No entry of a queue is lost or taken twice. No handler leaves a lock, a mutex or a mark
  behind, panics included. A volume that is created has the size, the context and the claim it should; disks and snapshots that are requested are
  well formed; a disk is deleted only after a read that showed it free, and no other snapshot is requested than one of the volume or a copy of that one; a dangling disk is not taken from a node that still uses it. Listings
  refine their specification and pagination is complete where it is. A disk is formatted only when three tools have found it blank, a file system is grown
  only on a device that has grown, a disk that the node attaches or detaches is confirmed by the wireserver, a volume of a Kata guest is not staged or expanded. The monitor has
  one goroutine for each task, and monitoring ends. The pre-stop hook is woken when the node has no attachment left, provided its informer watches in time. Parsing, names, zones and tags have their functional properties and round
  trips. Where the code does something else than it means to, a theorem states what it does.

  \<^bold>\<open>Bounds and fuel.\<close> \<open>ExponentialBackoffWithContext\<close> has the steps of its backoff (7), as in the code; the wait for the detach queue has its 16
  rounds; \<open>GetSourceDiskSize\<close> recurses on the depth that is left; \<open>RetryOnConflict\<close> has 5 steps; the wait for a snapshot has the 120 ticks of
  five seconds that fit in ten minutes, after which it times out; the polling of an asynchronous operation ends with the context of the
  request, after \<open>dv_pollTicks\<close> ticks, a parameter. The wait for a device has the 120 seconds of the code (\<open>deviceTicks\<close>), those for the wireserver the 60
  and 30 intervals that fit in 15 seconds (\<open>attachTicks\<close>, \<open>detachTicks\<close>). The first attempts to remove the taint are the 10 steps of their
  backoff, the loop after them is \<open>partial_function (option)\<close>. A monitored task is scheduled step by step, without fuel. None of them is cut short
  by the model.

  \<^bold>\<open>Simplifications.\<close> Tracing, metrics and log lines are left out, except where evaluating a log line can panic. Printing of whole requests and maps in error
  messages is cut. A read that succeeds yields an object, never nil. Strings are bytes and case folding is that of ASCII.
  Jitter is not modelled: sleeps are the base duration. Where the code reads the clock twice in a row (\<open>newTask\<close>, \<open>extendPolling\<close>) the model reads it once.
  That \<open>GetElementsInArray1NotInArray2\<close> sorts the slices of its caller is not modelled, since no caller looks at them again. Taking a lock with the work
  under it is one step of a queue, and a list of the pre-stop hook with the mark after it is one step. A \<open>float64\<close> is a rational with the rounding \<open>fl\<close> as a parameter, an infinity or NaN. The operating system
  of a node is Linux.

  \<^bold>\<open>Not modelled.\<close> The variants of the node for Windows and darwin, and \<open>NodeGetCapabilities\<close>, which returns a constant. The start of the monitor within
  \<open>CreateVolume\<close> is a call of the environment there. Set-up of the servers,
  flags, tracing, metrics, Windows host calls and test fakes are left out: they are I/O or glue.
\<close>

end
